(* ===== verification/Prelude.thy ===== *)
theory Prelude
  imports Main "HOL-Library.State_Monad" "HOL-Library.Sublist"
begin

text \<open>
  What every other theory shares: Go's error values and how \<^verbatim>\<open>errors.Is\<close> searches
  them, the string functions of Go's standard library that the agent calls (strings are byte
  lists, as in Go), the calls on external collaborators as state-monad actions that leave a
  ghost trace, and a small weakest-precondition calculus for those actions.
\<close>

section \<open>Rule collections\<close>

named_theorems wp_simps "equations that evaluate wp on the monad's own constructors"
named_theorems wp_intro "introduction rules for wp on calls of external collaborators"
named_theorems io_intro "syntax-directed rules for relations between the states before and after"
named_theorems go_str "equations that evaluate the string functions"

section \<open>Error values\<close>

text \<open>
  The sentinels are the package-level error variables the code compares against
  (\<^verbatim>\<open>ErrInvalidActionPayload\<close> and \<^verbatim>\<open>ErrMTLSCertNotFound\<close> of internal/actions, and the
  ones of Go's standard library).  An error made by \<^verbatim>\<open>fmt.Errorf\<close> keeps the pieces of
  its format: literal text, a \<^verbatim>\<open>%q\<close> or \<^verbatim>\<open>%d\<close> argument, an error shown by \<^verbatim>\<open>%v\<close>
  (text only) and an error wrapped by \<^verbatim>\<open>%w\<close> (reachable by \<^verbatim>\<open>errors.Is\<close>).
  \<open>AgentcoreErr\<close> is the \<^verbatim>\<open>*agentcore.Error\<close> of the bus library, of which the
  code reads the \<^verbatim>\<open>Code\<close>.
\<close>

datatype sentinel =
    ErrInvalidActionPayload
  | ErrMTLSCertNotFound
  | ContextCanceled
  | ContextDeadlineExceeded
  | OsErrNotExist
  | OsErrExist
  | OsErrProcessDone
  | FlagErrHelp

datatype go_error =
    ErrorsNew string
  | Sentinel sentinel
  | AgentcoreErr string
  | Errorf "fmt_piece list"
  | Joined "go_error list"
and fmt_piece =
    Txt string
  | Quoted string
  | Decimal int
  | Shown go_error
  | Wrapped go_error

text \<open>\<^verbatim>\<open>errors.Is\<close>: a depth-first search through what an error wraps.\<close>

fun errors_is :: "go_error \<Rightarrow> sentinel \<Rightarrow> bool" and piece_is :: "fmt_piece \<Rightarrow> sentinel \<Rightarrow> bool" where
  "errors_is (ErrorsNew _) t = False"
| "errors_is (Sentinel x) t = (x = t)"
| "errors_is (AgentcoreErr _) t = False"
| "errors_is (Errorf ps) t = list_ex (\<lambda>p. piece_is p t) ps"
| "errors_is (Joined es) t = list_ex (\<lambda>e. errors_is e t) es"
| "piece_is (Wrapped e) t = errors_is e t"
| "piece_is (Txt _) t = False"
| "piece_is (Quoted _) t = False"
| "piece_is (Decimal _) t = False"
| "piece_is (Shown _) t = False"

text \<open>
  \<^verbatim>\<open>errors.As\<close> at the type \<^verbatim>\<open>*agentcore.Error\<close>: the code of the first such error
  met in the same depth-first order, if there is one.
\<close>

fun first_some :: "('a \<Rightarrow> 'b option) \<Rightarrow> 'a list \<Rightarrow> 'b option" where
  "first_some f [] = None"
| "first_some f (x # xs) = (case f x of Some y \<Rightarrow> Some y | None \<Rightarrow> first_some f xs)"

lemma first_some_cong [fundef_cong]:
  "xs = ys \<Longrightarrow> (\<And>x. x \<in> set ys \<Longrightarrow> f x = g x) \<Longrightarrow> first_some f xs = first_some g ys"
  by (induction ys arbitrary: xs) (auto split: option.splits)

fun errors_as_agentcore :: "go_error \<Rightarrow> string option" and piece_as :: "fmt_piece \<Rightarrow> string option" where
  "errors_as_agentcore (ErrorsNew _) = None"
| "errors_as_agentcore (Sentinel _) = None"
| "errors_as_agentcore (AgentcoreErr c) = Some c"
| "errors_as_agentcore (Errorf ps) = first_some piece_as ps"
| "errors_as_agentcore (Joined es) = first_some errors_as_agentcore es"
| "piece_as (Wrapped e) = errors_as_agentcore e"
| "piece_as (Txt _) = None"
| "piece_as (Quoted _) = None"
| "piece_as (Decimal _) = None"
| "piece_as (Shown _) = None"

text \<open>
  \<^verbatim>\<open>errors.Join\<close> drops nil arguments and is nil when all of them are.
\<close>

fun present :: "'a option list \<Rightarrow> 'a list" where
  "present [] = []"
| "present (None # xs) = present xs"
| "present (Some x # xs) = x # present xs"

lemma set_present [simp]: "x \<in> set (present xs) \<longleftrightarrow> Some x \<in> set xs"
  by (induction xs rule: present.induct) auto

lemma present_Nil_iff: "present xs = [] \<longleftrightarrow> (\<forall>x\<in>set xs. x = None)"
  by (induction xs rule: present.induct) auto

definition errors_join :: "go_error option list \<Rightarrow> go_error option" where
  "errors_join es = (case present es of [] \<Rightarrow> None | xs \<Rightarrow> Some (Joined xs))"

lemma errors_join_Cons [simp]: "errors_join (Some e # es) = Some (Joined (e # present es))"
  by (simp add: errors_join_def)

lemma errors_join_None_Cons [simp]: "errors_join (None # es) = errors_join es"
  by (simp add: errors_join_def)

lemma errors_join_snd_Some [simp]: "errors_join [x, Some e] = Some (Joined (present [x, Some e]))"
  by (cases x) simp_all

lemma errors_join_None_iff: "errors_join es = None \<longleftrightarrow> (\<forall>e\<in>set es. e = None)"
  by (simp add: errors_join_def present_Nil_iff [symmetric] split: list.split)

lemma errors_join_None_None [simp]: "errors_join [None, None] = None"
  by (simp add: errors_join_None_iff)

lemma errors_is_join_iff:
  "errors_join es = Some e \<Longrightarrow> errors_is e t \<longleftrightarrow> (\<exists>x. Some x \<in> set es \<and> errors_is x t)"
proof -
  assume "errors_join es = Some e"
  then have "e = Joined (present es)"
    by (auto simp: errors_join_def split: list.splits)
  then show ?thesis by (simp add: list_ex_iff Bex_def)
qed

text \<open>\<^verbatim>\<open>fmt.Errorf("text: %w", err)\<close>, the commonest form.\<close>

definition wrap :: "string \<Rightarrow> go_error \<Rightarrow> go_error" where
  "wrap text e = Errorf [Txt text, Wrapped e]"

lemma errors_is_wrap [simp]: "errors_is (wrap text e) t = errors_is e t"
  by (simp add: wrap_def)

lemma errors_as_wrap [simp]: "errors_as_agentcore (wrap text e) = errors_as_agentcore e"
  by (simp add: wrap_def split: option.split)

section \<open>Strings\<close>

text \<open>
  The byte encodings (UTF-8) of the runes for which \<^verbatim>\<open>unicode.IsSpace\<close> holds: tab, line
  feed, vertical tab, form feed, carriage return and space; U+0085, U+00A0; U+1680, U+2000 to
  U+200A, U+2028, U+2029, U+202F, U+205F, U+3000.
\<close>

definition space_runes :: "string list" where
  "space_runes =
     [[CHR 0x09], [CHR 0x0A], [CHR 0x0B], [CHR 0x0C], [CHR 0x0D], [CHR 0x20],
      [CHR 0xC2, CHR 0x85], [CHR 0xC2, CHR 0xA0], [CHR 0xE1, CHR 0x9A, CHR 0x80],
      [CHR 0xE2, CHR 0x80, CHR 0x80], [CHR 0xE2, CHR 0x80, CHR 0x81], [CHR 0xE2, CHR 0x80, CHR 0x82],
      [CHR 0xE2, CHR 0x80, CHR 0x83], [CHR 0xE2, CHR 0x80, CHR 0x84], [CHR 0xE2, CHR 0x80, CHR 0x85],
      [CHR 0xE2, CHR 0x80, CHR 0x86], [CHR 0xE2, CHR 0x80, CHR 0x87], [CHR 0xE2, CHR 0x80, CHR 0x88],
      [CHR 0xE2, CHR 0x80, CHR 0x89], [CHR 0xE2, CHR 0x80, CHR 0x8A], [CHR 0xE2, CHR 0x80, CHR 0xA8],
      [CHR 0xE2, CHR 0x80, CHR 0xA9], [CHR 0xE2, CHR 0x80, CHR 0xAF], [CHR 0xE2, CHR 0x81, CHR 0x9F],
      [CHR 0xE3, CHR 0x80, CHR 0x80]]"

fun drop_prefix :: "string \<Rightarrow> string \<Rightarrow> string option" where
  "drop_prefix [] s = Some s"
| "drop_prefix (p # ps) [] = None"
| "drop_prefix (p # ps) (c # s) = (if p = c then drop_prefix ps s else None)"

lemma drop_prefix_Some: "drop_prefix p s = Some r \<longleftrightarrow> s = p @ r"
  by (induction p s rule: drop_prefix.induct) auto

lemma drop_prefix_None: "drop_prefix p s = None \<longleftrightarrow> \<not> prefix p s"
  by (induction p s rule: drop_prefix.induct) auto

definition drop_rune :: "string list \<Rightarrow> string \<Rightarrow> string option" where
  "drop_rune encs s = first_some (\<lambda>p. drop_prefix p s) encs"

lemma first_some_Some: "first_some f xs = Some y \<Longrightarrow> \<exists>x\<in>set xs. f x = Some y"
  by (induction xs) (auto split: option.splits)

lemma first_some_None: "first_some f xs = None \<longleftrightarrow> (\<forall>x\<in>set xs. f x = None)"
  by (induction xs) (auto split: option.splits)

lemma drop_rune_SomeD: "drop_rune encs s = Some r \<Longrightarrow> \<exists>p\<in>set encs. s = p @ r"
  unfolding drop_rune_def by (drule first_some_Some) (auto simp: drop_prefix_Some)

lemma drop_rune_None: "drop_rune encs s = None \<longleftrightarrow> (\<forall>p\<in>set encs. \<not> prefix p s)"
  by (simp add: drop_rune_def first_some_None drop_prefix_None)

text \<open>Strips runes from the left while it can; the fuel is the length of the string.\<close>

fun trim_fuel :: "nat \<Rightarrow> string list \<Rightarrow> string \<Rightarrow> string" where
  "trim_fuel 0 encs s = s"
| "trim_fuel (Suc n) encs s =
     (case drop_rune encs s of None \<Rightarrow> s | Some r \<Rightarrow> trim_fuel n encs r)"

definition trim_left :: "string \<Rightarrow> string" where
  "trim_left s = trim_fuel (length s) space_runes s"

definition trim_right :: "string \<Rightarrow> string" where
  "trim_right s = rev (trim_fuel (length s) (map rev space_runes) (rev s))"

text \<open>\<^verbatim>\<open>strings.TrimSpace\<close>\<close>

definition trim_space :: "string \<Rightarrow> string" where
  "trim_space s = trim_right (trim_left s)"

text \<open>\<open>blank s\<close> is the test \<^verbatim>\<open>strings.TrimSpace(s) == ""\<close>.\<close>

abbreviation blank :: "string \<Rightarrow> bool" where
  "blank s \<equiv> trim_space s = []"

lemma trim_fuel_enough:
  "\<forall>p\<in>set encs. p \<noteq> [] \<Longrightarrow> length s \<le> n \<Longrightarrow> drop_rune encs (trim_fuel n encs s) = None"
proof (induction n arbitrary: s)
  case 0
  then show ?case by (auto simp: drop_rune_None)
next
  case (Suc n)
  show ?case
  proof (cases "drop_rune encs s")
    case (Some r)
    then obtain p where "p \<in> set encs" "s = p @ r" by (blast dest: drop_rune_SomeD)
    with Suc.prems have "length r \<le> n" by (cases p) auto
    with Suc.IH Suc.prems(1) Some show ?thesis by simp
  qed simp
qed

lemma trim_fuel_suffix: "\<exists>l. s = l @ trim_fuel n encs s"
proof (induction n arbitrary: s)
  case (Suc n)
  show ?case
  proof (cases "drop_rune encs s")
    case (Some r)
    then obtain p where "s = p @ r" by (blast dest: drop_rune_SomeD)
    moreover obtain l where "r = l @ trim_fuel n encs r" using Suc.IH by blast
    ultimately show ?thesis using Some by (metis append.assoc option.simps(5) trim_fuel.simps(2))
  qed simp
qed simp

lemma trim_fuel_idle: "drop_rune encs s = None \<Longrightarrow> trim_fuel n encs s = s"
  by (cases n) simp_all

lemma space_runes_nonempty: "\<forall>p\<in>set space_runes. p \<noteq> []"
  by (simp add: space_runes_def)

lemma rev_space_runes_nonempty: "\<forall>p\<in>set (map rev space_runes). p \<noteq> []"
  by (simp add: space_runes_def)

lemma trim_left_no_space: "drop_rune space_runes (trim_left s) = None"
  unfolding trim_left_def by (rule trim_fuel_enough [OF space_runes_nonempty]) simp

lemma trim_right_no_space: "drop_rune (map rev space_runes) (rev (trim_right s)) = None"
  unfolding trim_right_def rev_rev_ident
  by (rule trim_fuel_enough [OF rev_space_runes_nonempty]) simp

lemma trim_right_prefix: "prefix (trim_right s) s"
proof -
  obtain l where "rev s = l @ trim_fuel (length s) (map rev space_runes) (rev s)"
    using trim_fuel_suffix by blast
  then have "s = trim_right s @ rev l"
    unfolding trim_right_def by (metis rev_append rev_rev_ident)
  then show ?thesis by (metis prefixI)
qed

lemma trim_space_no_leading: "drop_rune space_runes (trim_space s) = None"
proof -
  have "prefix (trim_space s) (trim_left s)"
    unfolding trim_space_def by (rule trim_right_prefix)
  with trim_left_no_space [of s] show ?thesis
    by (auto simp: drop_rune_None dest: prefix_order.trans)
qed

lemma trim_space_idem [simp]: "trim_space (trim_space s) = trim_space s"
proof -
  have "trim_left (trim_space s) = trim_space s"
    unfolding trim_left_def by (rule trim_fuel_idle) (rule trim_space_no_leading)
  moreover have "trim_right (trim_right t) = trim_right t" for t
    using trim_right_no_space [of t]
    by (simp add: trim_right_def [of "trim_right t"] trim_fuel_idle)
  ultimately show ?thesis by (simp add: trim_space_def)
qed

lemma trim_space_Nil [simp]: "trim_space [] = []"
  by (simp add: trim_space_def trim_left_def trim_right_def)

text \<open>
  The bytes between \<^verbatim>\<open>A\<close>-\<^verbatim>\<open>Z\<close> to lower case.  \<^verbatim>\<open>strings.ToLower\<close> and
  \<^verbatim>\<open>strings.EqualFold\<close> also fold runes beyond ASCII; the code compares their results only
  with the words up, wan, down and lan, and no rune beyond ASCII folds to one of their letters.
\<close>

definition ascii_lower :: "char \<Rightarrow> char" where
  "ascii_lower c = (if 65 \<le> (of_char c :: nat) \<and> (of_char c :: nat) \<le> 90 then char_of (of_char c + 32 :: nat) else c)"

definition to_lower :: "string \<Rightarrow> string" where
  "to_lower s = map ascii_lower s"

definition equal_fold :: "string \<Rightarrow> string \<Rightarrow> bool" where
  "equal_fold s t = (to_lower s = to_lower t)"

text \<open>\<^verbatim>\<open>strings.Contains\<close> and \<^verbatim>\<open>strings.ContainsAny\<close> (of an ASCII character set)\<close>

definition contains :: "string \<Rightarrow> string \<Rightarrow> bool" where
  "contains s sub = list_ex (\<lambda>t. drop_prefix sub t \<noteq> None) (suffixes s)"

lemma contains_iff: "contains s sub \<longleftrightarrow> sublist sub s"
  by (auto simp: contains_def list_ex_iff drop_prefix_None sublist_altdef' in_set_suffixes)

definition contains_any :: "string \<Rightarrow> string \<Rightarrow> bool" where
  "contains_any s cs = list_ex (\<lambda>c. c \<in> set cs) s"

text \<open>\<^verbatim>\<open>strings.IndexFunc(s, unicode.IsSpace) >= 0\<close>: some rune of the string is a space.\<close>

definition has_space :: "string \<Rightarrow> bool" where
  "has_space s = list_ex (\<lambda>t. drop_rune space_runes t \<noteq> None) (suffixes s)"

lemma has_space_iff: "has_space s \<longleftrightarrow> (\<exists>p\<in>set space_runes. sublist p s)"
  unfolding has_space_def list_ex_iff drop_rune_None sublist_altdef' Bex_def in_set_suffixes by blast

text \<open>\<^verbatim>\<open>strconv.Itoa\<close>\<close>

fun digits :: "nat \<Rightarrow> string" where
  "digits n = (if n < 10 then [char_of (48 + n :: nat)] else digits (n div 10) @ [char_of (48 + n mod 10 :: nat)])"

declare digits.simps [simp del]

definition itoa :: "int \<Rightarrow> string" where
  "itoa i = (if i < 0 then CHR ''-'' # digits (nat (- i)) else digits (nat i))"

definition is_digit :: "char \<Rightarrow> bool" where
  "is_digit c = (48 \<le> (of_char c :: nat) \<and> (of_char c :: nat) \<le> 57)"

lemma digits_are_digits: "c \<in> set (digits n) \<Longrightarrow> is_digit c"
proof (induction n rule: digits.induct)
  case (1 n)
  then show ?case
    by (subst (asm) (2) digits.simps) (auto simp: is_digit_def of_char_of split: if_splits)
qed

lemma digits_nonempty [simp]: "digits n \<noteq> []"
  by (subst digits.simps) simp

text \<open>Go's integer division truncates towards zero.\<close>

definition quot :: "int \<Rightarrow> int \<Rightarrow> int" where
  "quot a b = sgn a * sgn b * (\<bar>a\<bar> div \<bar>b\<bar>)"

text \<open>\<^verbatim>\<open>Duration.Milliseconds()\<close> of a duration in nanoseconds\<close>

definition milliseconds :: "int \<Rightarrow> int" where
  "milliseconds d = quot d 1000000"

section \<open>Calls on collaborators\<close>

text \<open>
  The code's collaborators (the bus client, the state store, the renderer, the operating
  system) are Go interfaces.  A method is a function of the world \<^typ>\<open>'w\<close> it acts on, which
  it returns changed with its results.  A \<^verbatim>\<open>context.Context\<close> is nil or something whose
  \<^verbatim>\<open>Err()\<close> can be asked in the current world.

  \<open>tw\<close> adds two ghost fields to the world: the calls made so far with their outcomes, and the
  log entries.  The code never reads them; they are what the theorems are about.
\<close>

type_synonym 'w ctx = "('w \<Rightarrow> go_error option) option"

abbreviation nil_ctx :: "'w ctx" where
  "nil_ctx \<equiv> None"

type_synonym gtime = int

datatype log_value =
    LStr string
  | LNum int
  | LBool bool
  | LErr "go_error option"
  | LStrs "string list"

datatype log_level = LevelDebug | LevelInfo | LevelWarn | LevelError

record log_entry =
  le_level :: log_level
  le_msg :: string
  le_kv :: "(string \<times> log_value) list"

record ('w, 'e) tw =
  world :: 'w
  trace :: "'e list"
  logs :: "log_entry list"

definition call :: "('w \<Rightarrow> 'r \<times> 'w) \<Rightarrow> ('r \<Rightarrow> 'e) \<Rightarrow> (('w, 'e) tw, 'r) state" where
  "call f ev = State (\<lambda>s. case f (world s) of (r, w') \<Rightarrow>
     (r, s\<lparr>world := w', trace := trace s @ [ev r]\<rparr>))"

definition mark :: "'e \<Rightarrow> (('w, 'e) tw, unit) state" where
  "mark ev = State (\<lambda>s. ((), s\<lparr>trace := trace s @ [ev]\<rparr>))"

text \<open>A call that leaves no event: reading the clock, asking a context for its error.\<close>

definition quiet :: "('w \<Rightarrow> 'r \<times> 'w) \<Rightarrow> (('w, 'e) tw, 'r) state" where
  "quiet f = State (\<lambda>s. case f (world s) of (r, w') \<Rightarrow> (r, s\<lparr>world := w'\<rparr>))"

text \<open>
  The agent's logger: nil (no logger) or a sink.  \<^verbatim>\<open>logInfo\<close> and its siblings return at
  once when the logger is nil.
\<close>

type_synonym 'w logger = "(log_entry \<Rightarrow> 'w \<Rightarrow> 'w) option"

definition emit_log :: "'w logger \<Rightarrow> log_level \<Rightarrow> string \<Rightarrow> (string \<times> log_value) list
    \<Rightarrow> (('w, 'e) tw, unit) state" where
  "emit_log lg lvl msg kv =
     (case lg of
        None \<Rightarrow> State_Monad.return ()
      | Some sink \<Rightarrow>
          (let en = \<lparr>le_level = lvl, le_msg = msg, le_kv = kv\<rparr>
           in State (\<lambda>s. ((), s\<lparr>world := sink en (world s), logs := logs s @ [en]\<rparr>))))"

text \<open>What a computation returns, the state it ends in and the events it adds.\<close>

definition outcome :: "('s, 'r) state \<Rightarrow> 's \<Rightarrow> 'r" where
  "outcome m s = fst (run_state m s)"

definition final :: "('s, 'r) state \<Rightarrow> 's \<Rightarrow> 's" where
  "final m s = snd (run_state m s)"

definition events :: "(('w, 'e) tw, 'r) state \<Rightarrow> ('w, 'e) tw \<Rightarrow> 'e list" where
  "events m s = drop (length (trace s)) (trace (final m s))"

section \<open>Weakest preconditions\<close>

definition wp :: "('s, 'a) state \<Rightarrow> ('a \<Rightarrow> 's \<Rightarrow> bool) \<Rightarrow> 's \<Rightarrow> bool" where
  "wp m Q s = (case run_state m s of (a, s') \<Rightarrow> Q a s')"

lemma wp_return [wp_simps]: "wp (State_Monad.return a) Q s = Q a s"
  by (simp add: wp_def)

lemma wp_get: "wp State_Monad.get Q s = Q s s"
  by (simp add: wp_def)

declare wp_get [wp_simps]

lemma wp_bind [wp_simps]: "wp (State_Monad.bind m f) Q s = wp m (\<lambda>a. wp (f a) Q) s"
  by (simp add: wp_def split: prod.split)

lemma wp_if [wp_simps]: "wp (if b then m else n) Q s = (if b then wp m Q s else wp n Q s)"
  by simp

lemma wp_Let [wp_simps]: "wp (Let v m) Q s = wp (m v) Q s"
  by (simp add: Let_def)

lemma wp_case_option [wp_simps]:
  "wp (case x of None \<Rightarrow> m | Some a \<Rightarrow> f a) Q s = (case x of None \<Rightarrow> wp m Q s | Some a \<Rightarrow> wp (f a) Q s)"
  by (simp split: option.split)

lemma wp_case_sum [wp_simps]:
  "wp (case x of Inl e \<Rightarrow> f e | Inr a \<Rightarrow> g a) Q s = (case x of Inl e \<Rightarrow> wp (f e) Q s | Inr a \<Rightarrow> wp (g a) Q s)"
  by (simp split: sum.split)

lemma wp_mono: "wp m Q s \<Longrightarrow> (\<And>a s'. Q a s' \<Longrightarrow> R a s') \<Longrightarrow> wp m R s"
  by (simp add: wp_def split: prod.splits)

lemma wp_conj: "wp m (\<lambda>a s'. Q a s' \<and> R a s') s = (wp m Q s \<and> wp m R s)"
  by (simp add: wp_def split: prod.splits)

lemma wp_run: "wp m Q s \<Longrightarrow> run_state m s = (a, s') \<Longrightarrow> Q a s'"
  by (simp add: wp_def)

lemma wpI: "(\<And>a s'. run_state m s = (a, s') \<Longrightarrow> Q a s') \<Longrightarrow> wp m Q s"
  by (simp add: wp_def split: prod.splits)

text \<open>
  A call may do anything to the world and return anything, so a property that holds whatever
  it does holds of the call.
\<close>

lemma wp_call [wp_intro]:
  "(\<And>r w'. f (world s) = (r, w') \<Longrightarrow> Q r (s\<lparr>world := w', trace := trace s @ [ev r]\<rparr>)) \<Longrightarrow> wp (call f ev) Q s"
  by (simp add: wp_def call_def split: prod.splits)

lemma wp_quiet [wp_intro]:
  "(\<And>r w'. f (world s) = (r, w') \<Longrightarrow> Q r (s\<lparr>world := w'\<rparr>)) \<Longrightarrow> wp (quiet f) Q s"
  by (simp add: wp_def quiet_def split: prod.splits)

lemma wp_mark [wp_intro]: "Q () (s\<lparr>trace := trace s @ [ev]\<rparr>) \<Longrightarrow> wp (mark ev) Q s"
  by (simp add: wp_def mark_def)

lemma wp_emit_log [wp_intro]:
  assumes "\<And>w' ls. Q () (s\<lparr>world := w', logs := ls\<rparr>)"
  shows "wp (emit_log lg lvl msg kv) Q s"
proof (cases lg)
  case None
  have "s\<lparr>world := world s, logs := logs s\<rparr> = s" by simp
  with assms [where w' = "world s" and ls = "logs s"] None show ?thesis
    by (simp add: emit_log_def wp_return)
next
  case (Some sink)
  with assms show ?thesis by (simp add: emit_log_def wp_def Let_def)
qed

lemma wp_outcome: "wp m Q s \<longleftrightarrow> Q (outcome m s) (final m s)"
  by (simp add: wp_def outcome_def final_def split: prod.split)

text \<open>
  \<open>follows m P\<close>: from any state, \<open>m\<close> appends to the trace a list that \<open>P\<close> allows for its result.
\<close>

definition follows :: "(('w, 'e) tw, 'r) state \<Rightarrow> ('e list \<Rightarrow> 'r \<Rightarrow> bool) \<Rightarrow> bool" where
  "follows m P \<longleftrightarrow> (\<forall>s. wp m (\<lambda>r s'. \<exists>t. trace s' = trace s @ t \<and> P t r) s)"

lemma wp_follows:
  assumes "follows m P"
    and "\<And>t r w' ls. P t r \<Longrightarrow> Q r \<lparr>world = w', trace = trace s @ t, logs = ls\<rparr>"
  shows "wp m Q s"
proof -
  have "wp m (\<lambda>r s'. \<exists>t. trace s' = trace s @ t \<and> P t r) s"
    using assms(1) by (simp add: follows_def)
  then show ?thesis
    by (rule wp_mono) (metis assms(2) old.unit.exhaust tw.surjective)
qed

lemma follows_events: "follows m P \<Longrightarrow> P (events m s) (outcome m s)"
  by (auto simp: follows_def wp_outcome events_def dest: spec [of _ s])

lemma follows_trace: "follows m P \<Longrightarrow> trace (final m s) = trace s @ events m s"
  by (auto simp: follows_def wp_outcome events_def dest: spec [of _ s])

section \<open>Relations that every step keeps\<close>

text \<open>
  A preorder between states holds across a computation when it holds across its calls: the rules
  follow the syntax.
\<close>

lemma io_return [io_intro]: "reflp R \<Longrightarrow> state_io_rel R (State_Monad.return x)"
  by (simp add: state_io_rel_def reflpD)

lemma io_bind [io_intro]:
  assumes "transp R" "state_io_rel R m" "\<And>a. state_io_rel R (f a)"
  shows "state_io_rel R (State_Monad.bind m f)"
  unfolding state_io_rel_def
proof
  fix s
  obtain a s' where m: "run_state m s = (a, s')" by (cases "run_state m s")
  have "R s s'" using assms(2) m by (auto simp: state_io_rel_def dest: spec [of _ s])
  moreover have "R s' (snd (run_state (f a) s'))" using assms(3) by (simp add: state_io_rel_def)
  ultimately show "R s (snd (run_state (State_Monad.bind m f) s))"
    using transpD [OF assms(1)] m by simp
qed

lemma io_if [io_intro]:
  "(b \<Longrightarrow> state_io_rel R m) \<Longrightarrow> (\<not> b \<Longrightarrow> state_io_rel R n) \<Longrightarrow> state_io_rel R (if b then m else n)"
  by simp

lemma io_Let [io_intro]: "state_io_rel R (f v) \<Longrightarrow> state_io_rel R (Let v f)"
  by simp

lemma io_case_option [io_intro]:
  "(x = None \<Longrightarrow> state_io_rel R m) \<Longrightarrow> (\<And>a. x = Some a \<Longrightarrow> state_io_rel R (f a)) \<Longrightarrow>
   state_io_rel R (case x of None \<Rightarrow> m | Some a \<Rightarrow> f a)"
  by (cases x) simp_all

lemma io_case_sum [io_intro]:
  "(\<And>a. x = Inl a \<Longrightarrow> state_io_rel R (f a)) \<Longrightarrow> (\<And>a. x = Inr a \<Longrightarrow> state_io_rel R (g a)) \<Longrightarrow>
   state_io_rel R (case x of Inl a \<Rightarrow> f a | Inr a \<Rightarrow> g a)"
  by (cases x) simp_all

text \<open>\<open>logs_grow P\<close>: log entries are only added, and all of those satisfy \<open>P\<close>.\<close>

definition logs_grow :: "(log_entry \<Rightarrow> bool) \<Rightarrow> ('w, 'e) tw \<Rightarrow> ('w, 'e) tw \<Rightarrow> bool" where
  "logs_grow P s s' \<longleftrightarrow> (\<exists>ls. logs s' = logs s @ ls \<and> (\<forall>en\<in>set ls. P en))"

lemma logs_grow_preorder [io_intro]: "reflp (logs_grow P)" "transp (logs_grow P)"
  by (auto simp: logs_grow_def reflp_def transp_def)

lemma logs_grow_calls [io_intro]:
  "state_io_rel (logs_grow P) (call f ev)"
  "state_io_rel (logs_grow P) (quiet f)"
  "state_io_rel (logs_grow P) (mark e)"
  by (auto simp: state_io_rel_def logs_grow_def call_def quiet_def mark_def split: prod.split)

lemma logs_grow_emit [io_intro]:
  "P \<lparr>le_level = lvl, le_msg = msg, le_kv = kv\<rparr> \<Longrightarrow> state_io_rel (logs_grow P) (emit_log lg lvl msg kv)"
  by (auto simp: state_io_rel_def logs_grow_def emit_log_def Let_def split: option.split)

definition new_logs :: "(('w, 'e) tw, 'r) state \<Rightarrow> ('w, 'e) tw \<Rightarrow> log_entry list" where
  "new_logs m s = drop (length (logs s)) (logs (final m s))"

lemma logs_grow_new: "state_io_rel (logs_grow P) m \<Longrightarrow> en \<in> set (new_logs m s) \<Longrightarrow> P en"
  by (auto simp: state_io_rel_def logs_grow_def new_logs_def final_def dest!: spec [of _ s])

text \<open>\<open>events_keep P\<close>: every event added satisfies \<open>P\<close>.\<close>

definition events_keep :: "('e \<Rightarrow> bool) \<Rightarrow> ('w, 'e) tw \<Rightarrow> ('w, 'e) tw \<Rightarrow> bool" where
  "events_keep P s s' \<longleftrightarrow> (\<exists>t. trace s' = trace s @ t \<and> (\<forall>ev\<in>set t. P ev))"

lemma events_keep_preorder [io_intro]: "reflp (events_keep P)" "transp (events_keep P)"
  by (auto simp: events_keep_def reflp_def transp_def)

lemma events_keep_call:
  "(\<And>w r w'. f w = (r, w') \<Longrightarrow> P (ev r)) \<Longrightarrow> state_io_rel (events_keep P) (call f ev)"
  by (fastforce simp: state_io_rel_def events_keep_def call_def split: prod.split)

lemma events_keep_mark: "P ev \<Longrightarrow> state_io_rel (events_keep P) (mark ev)"
  by (simp add: state_io_rel_def events_keep_def mark_def)

lemma events_keep_silent [io_intro]:
  "state_io_rel (events_keep P) (quiet f)"
  "state_io_rel (events_keep P) (emit_log lg lvl msg kv)"
  by (auto simp: state_io_rel_def events_keep_def quiet_def emit_log_def Let_def split: prod.split option.split)

lemma events_keep_events: "state_io_rel (events_keep P) m \<Longrightarrow> ev \<in> set (events m s) \<Longrightarrow> P ev"
  by (auto simp: state_io_rel_def events_keep_def events_def final_def dest!: spec [of _ s])

end
