(* ===== verification/Wire.thy ===== *)
theory Wire
  imports Prelude
begin

text \<open>
  The messages that travel over the bus.  Their types belong to the bus library
  (olg-nats-agent-core, not in the repository); the records here have the fields the agent reads
  or writes.  \<open>BuildStatus\<close> and \<open>BuildResult\<close> are internal/wire/wire.go.
  A \<^verbatim>\<open>json.RawMessage\<close> is a byte string; the nil message is the empty one, which is what
  \<^verbatim>\<open>len\<close>, \<^verbatim>\<open>json.Valid\<close> and \<^verbatim>\<open>json.Unmarshal\<close> see of it.
  A \<^verbatim>\<open>time.Time\<close> is its instant in nanoseconds since 1970, so \<^verbatim>\<open>UTC()\<close> is the identity.
\<close>

section \<open>Messages of the bus library\<close>

record configure_notification =
  cn_Version :: string
  cn_RPCID :: string
  cn_Target :: string
  cn_CommandType :: string
  cn_UUID :: string
  cn_KVBucket :: string
  cn_KVKey :: string
  cn_Timestamp :: gtime

record action_command =
  ac_Version :: string
  ac_RPCID :: string
  ac_Target :: string
  ac_Action :: string
  ac_Payload :: string

record desired_config_record =
  dr_RPCID :: string
  dr_Target :: string
  dr_UUID :: string
  dr_Payload :: string
  dr_Timestamp :: gtime

record stored_desired_config =
  sd_Record :: desired_config_record
  sd_Bucket :: string
  sd_Key :: string

record status_envelope =
  se_Version :: string
  se_RPCID :: string
  se_Target :: string
  se_UUID :: string
  se_Status :: string
  se_Stage :: string
  se_Message :: string
  se_Timestamp :: gtime

record result_envelope =
  re_Version :: string
  re_RPCID :: string
  re_Target :: string
  re_CommandType :: string
  re_UUID :: string
  re_Action :: string
  re_Result :: string
  re_ErrorCode :: string
  re_Message :: string
  re_Payload :: string
  re_Timestamp :: gtime

section \<open>internal/wire\<close>

definition wire_Version :: string where
  "wire_Version = ''1.0''"

definition BuildStatus ::
  "string \<Rightarrow> string \<Rightarrow> string \<Rightarrow> string \<Rightarrow> string \<Rightarrow> string \<Rightarrow> gtime \<Rightarrow> status_envelope" where
  "BuildStatus rpcID target uuid status stage message timestamp =
     \<lparr>se_Version = wire_Version, se_RPCID = rpcID, se_Target = target, se_UUID = uuid,
      se_Status = status, se_Stage = stage, se_Message = message, se_Timestamp = timestamp\<rparr>"

definition BuildResult ::
  "string \<Rightarrow> string \<Rightarrow> string \<Rightarrow> string \<Rightarrow> string \<Rightarrow> string \<Rightarrow> string \<Rightarrow> string \<Rightarrow> string \<Rightarrow> gtime
   \<Rightarrow> result_envelope" where
  "BuildResult rpcID target cmdType uuid action result errCode message payload timestamp =
     \<lparr>re_Version = wire_Version, re_RPCID = rpcID, re_Target = target, re_CommandType = cmdType,
      re_UUID = uuid, re_Action = action, re_Result = result, re_ErrorCode = errCode,
      re_Message = message, re_Payload = payload, re_Timestamp = timestamp\<rparr>"

lemma BuildStatus_simps [simp]:
  "se_RPCID (BuildStatus r t u st sg m ts) = r"
  "se_Target (BuildStatus r t u st sg m ts) = t"
  "se_UUID (BuildStatus r t u st sg m ts) = u"
  "se_Status (BuildStatus r t u st sg m ts) = st"
  "se_Stage (BuildStatus r t u st sg m ts) = sg"
  "se_Message (BuildStatus r t u st sg m ts) = m"
  "se_Version (BuildStatus r t u st sg m ts) = wire_Version"
  by (simp_all add: BuildStatus_def)

lemma BuildResult_simps [simp]:
  "re_RPCID (BuildResult r t c u a res ec m p ts) = r"
  "re_Target (BuildResult r t c u a res ec m p ts) = t"
  "re_CommandType (BuildResult r t c u a res ec m p ts) = c"
  "re_UUID (BuildResult r t c u a res ec m p ts) = u"
  "re_Action (BuildResult r t c u a res ec m p ts) = a"
  "re_Result (BuildResult r t c u a res ec m p ts) = res"
  "re_ErrorCode (BuildResult r t c u a res ec m p ts) = ec"
  "re_Message (BuildResult r t c u a res ec m p ts) = m"
  "re_Payload (BuildResult r t c u a res ec m p ts) = p"
  "re_Version (BuildResult r t c u a res ec m p ts) = wire_Version"
  by (simp_all add: BuildResult_def)

end
