(* ===== verification/FileStore.thy ===== *)
theory FileStore
  imports Wire
begin

text \<open>
  The local checkpoint (internal/state): the state that is stored, the store's interface and its
  contract as a locale, and the JSON-file store with its atomic save, on a file system whose
  every call may fail.
\<close>

section \<open>The checkpoint and its interface (store.go)\<close>

record agent_state =
  as_Target :: string
  as_AppliedUUID :: string
  as_AppliedAt :: gtime

text \<open>The zero \<^verbatim>\<open>time.Time\<close> is the first instant of year 1.\<close>

definition zero_time :: gtime where
  "zero_time = - 62135596800000000000"

definition empty_state :: agent_state where
  "empty_state = \<lparr>as_Target = [], as_AppliedUUID = [], as_AppliedAt = zero_time\<rparr>"

record 'w state_store =
  Load :: "'w ctx \<Rightarrow> 'w \<Rightarrow> (go_error + agent_state) \<times> 'w"
  Save :: "'w ctx \<Rightarrow> agent_state \<Rightarrow> 'w \<Rightarrow> go_error option \<times> 'w"

text \<open>
  What a client relies on: \<open>ckpt\<close> is the checkpoint a world holds.  Loading never changes it, and
  answers with it when it answers; a save of a \<open>storable\<close> state that succeeds sets it, a save that
  fails keeps it.
\<close>

locale checkpoint_store =
  fixes store :: "'w state_store"
    and ckpt :: "'w \<Rightarrow> agent_state"
    and storable :: "agent_state \<Rightarrow> bool"
  assumes load_ok: "Load store c w = (Inr st, w') \<Longrightarrow> st = ckpt w"
    and load_keeps: "Load store c w = (r, w') \<Longrightarrow> ckpt w' = ckpt w"
    and save_sets: "storable st \<Longrightarrow> Save store c st w = (None, w') \<Longrightarrow> ckpt w' = st"
    and save_fails: "Save store c st w = (Some e, w') \<Longrightarrow> ckpt w' = ckpt w"
begin

lemma save_cases:
  "storable st \<Longrightarrow> Save store c st w = (r, w') \<Longrightarrow> ckpt w' = (if r = None then st else ckpt w)"
  by (cases r) (auto dest: save_sets save_fails)

lemma load_after_save:
  "storable st \<Longrightarrow> Save store c st w = (None, w1) \<Longrightarrow> Load store c' w1 = (Inr st', w2) \<Longrightarrow> st' = st"
  by (auto dest: save_sets load_ok)

end

section \<open>Paths (path/filepath)\<close>

abbreviation slash :: char where
  "slash \<equiv> CHR ''/''"

fun split_slash :: "string \<Rightarrow> string list" where
  "split_slash [] = [[]]"
| "split_slash (c # s) =
     (if c = slash then [] # split_slash s
      else (case split_slash s of [] \<Rightarrow> [[c]] | p # ps \<Rightarrow> (c # p) # ps))"

fun join_slash :: "string list \<Rightarrow> string" where
  "join_slash [] = []"
| "join_slash [p] = p"
| "join_slash (p # ps) = p @ slash # join_slash ps"

text \<open>One path element onto the reversed stack of the elements kept so far.\<close>

definition clean_push :: "bool \<Rightarrow> string list \<Rightarrow> string \<Rightarrow> string list" where
  "clean_push rooted st p =
     (if p = [] \<or> p = ''.'' then st
      else if p = ''..'' then
        (case st of
           [] \<Rightarrow> (if rooted then [] else [''..''])
         | q # st' \<Rightarrow> (if q = ''..'' then ''..'' # st else st'))
      else p # st)"

definition filepath_Clean :: "string \<Rightarrow> string" where
  "filepath_Clean p =
     (let rooted = (p \<noteq> [] \<and> hd p = slash);
          kept = join_slash (rev (foldl (clean_push rooted) [] (split_slash p)))
      in if rooted then slash # kept else if kept = [] then ''.'' else kept)"

definition after_last_slash :: "string \<Rightarrow> string" where
  "after_last_slash p = rev (takeWhile (\<lambda>c. c \<noteq> slash) (rev p))"

definition upto_last_slash :: "string \<Rightarrow> string" where
  "upto_last_slash p = rev (dropWhile (\<lambda>c. c \<noteq> slash) (rev p))"

definition filepath_Dir :: "string \<Rightarrow> string" where
  "filepath_Dir p = filepath_Clean (upto_last_slash p)"

text \<open>\<^verbatim>\<open>os.CreateTemp\<close> puts the name behind the directory and one separator.\<close>

definition temp_name :: "string \<Rightarrow> nat \<Rightarrow> string" where
  "temp_name dir r =
     (if dir \<noteq> [] \<and> last dir = slash then dir else dir @ [slash]) @ ''.state-'' @ digits r @ ''.tmp''"

definition temp_like :: "string \<Rightarrow> bool" where
  "temp_like p = (drop_prefix ''.state-'' (after_last_slash p) \<noteq> None)"

lemma takeWhile_upto: "x \<notin> set xs \<Longrightarrow> takeWhile (\<lambda>c. c \<noteq> x) (xs @ x # ys) = xs"
  by (induction xs) auto

lemma after_last_slash_append:
  "slash \<notin> set b \<Longrightarrow> after_last_slash (d @ slash # b) = b"
  using takeWhile_upto [of slash "rev b" "rev d"] by (simp add: after_last_slash_def)

lemma slash_not_in_digits: "slash \<notin> set (digits n)"
  using digits_are_digits [of slash n] by (auto simp: is_digit_def)

lemma temp_like_temp_name: "temp_like (temp_name dir r)"
proof -
  let ?b = "''.state-'' @ digits r @ ''.tmp''"
  have "slash \<notin> set ?b" using slash_not_in_digits [of r] by simp
  moreover have "\<exists>d. temp_name dir r = d @ slash # ?b"
  proof (cases "dir \<noteq> [] \<and> last dir = slash")
    case True
    then have "dir = butlast dir @ [slash]" by (metis append_butlast_last_id)
    then have "temp_name dir r = butlast dir @ slash # ?b"
      using True by (simp add: temp_name_def)
    then show ?thesis by blast
  next
    case False
    then show ?thesis by (auto simp: temp_name_def)
  qed
  ultimately have "after_last_slash (temp_name dir r) = ?b"
    using after_last_slash_append by metis
  then show ?thesis by (simp add: temp_like_def)
qed

section \<open>The file system\<close>

text \<open>
  The part of the operating system the store uses: the regular files by path, the number of
  system calls made so far, what the environment decides for each of them (\<open>fs_fault\<close>: the call
  fails with this message; \<open>fs_short\<close>: how many bytes a failing write has written;
  \<open>fs_rand\<close>: the random part of the temporary name), and, as a ghost field, the files after
  every call made so far.  The record is extensible: a bigger world contains it.
\<close>

record fsys =
  fs_files :: "string \<rightharpoonup> string"
  fs_tick :: nat
  fs_fault :: "nat \<Rightarrow> string option"
  fs_short :: "nat \<Rightarrow> nat"
  fs_rand :: "nat \<Rightarrow> nat"
  fs_hist :: "(string \<rightharpoonup> string) list"

type_synonym ('x, 'r) fs_op = "('x fsys_scheme, 'r) state"

text \<open>
  A system call: it fails as the environment says, with the files as \<open>bad\<close> leaves them, or does
  what \<open>good\<close> says.
\<close>

definition syscall :: "((string \<rightharpoonup> string) \<Rightarrow> (string \<rightharpoonup> string)) \<Rightarrow>
    ((string \<rightharpoonup> string) \<Rightarrow> (go_error + 'r) \<times> (string \<rightharpoonup> string)) \<Rightarrow> ('x, go_error + 'r) fs_op" where
  "syscall bad good = State (\<lambda>s.
     let (r, fs) = (case fs_fault s (fs_tick s) of
                      Some m \<Rightarrow> (Inl (ErrorsNew m), bad (fs_files s))
                    | None \<Rightarrow> good (fs_files s))
     in (r, s\<lparr>fs_files := fs, fs_tick := Suc (fs_tick s), fs_hist := fs_hist s @ [fs]\<rparr>))"

definition err_of :: "go_error + 'r \<Rightarrow> go_error option" where
  "err_of r = (case r of Inl e \<Rightarrow> Some e | Inr _ \<Rightarrow> None)"

lemma err_of_simps [simp]: "err_of (Inl e) = Some e" "err_of (Inr x) = None"
  by (simp_all add: err_of_def)

text \<open>Calls of which only the outcome matters: \<^verbatim>\<open>MkdirAll\<close>, \<^verbatim>\<open>Sync\<close>, \<^verbatim>\<open>Chmod\<close>, \<^verbatim>\<open>Close\<close>, \<^verbatim>\<open>Open\<close>.\<close>

definition os_touch :: "('x, go_error option) fs_op" where
  "os_touch = do { r \<leftarrow> syscall id (\<lambda>fs. (Inr (), fs)); State_Monad.return (err_of r) }"

definition os_ReadFile :: "string \<Rightarrow> ('x, go_error + string) fs_op" where
  "os_ReadFile p = syscall id (\<lambda>fs.
     (case fs p of None \<Rightarrow> Inl (Sentinel OsErrNotExist) | Some c \<Rightarrow> Inr c, fs))"

text \<open>
  \<^verbatim>\<open>os.CreateTemp\<close> opens with \<^verbatim>\<open>O_EXCL\<close> and draws another random part while the name is
  taken; \<open>fs_rand\<close> is the part it ends with, and a name still taken then is its error.
\<close>

definition os_CreateTemp :: "string \<Rightarrow> ('x, go_error + string) fs_op" where
  "os_CreateTemp dir = do {
     s \<leftarrow> State_Monad.get;
     let name = temp_name dir (fs_rand s (fs_tick s));
     syscall id (\<lambda>fs. if fs name = None then (Inr name, fs(name \<mapsto> [])) else (Inl (Sentinel OsErrExist), fs))
   }"

definition file_Write :: "string \<Rightarrow> string \<Rightarrow> ('x, go_error option) fs_op" where
  "file_Write name bytes = do {
     s \<leftarrow> State_Monad.get;
     let k = fs_short s (fs_tick s);
     r \<leftarrow> syscall (\<lambda>fs. fs(name \<mapsto> take k bytes)) (\<lambda>fs. (Inr (), fs(name \<mapsto> bytes)));
     State_Monad.return (err_of r)
   }"

definition os_Rename :: "string \<Rightarrow> string \<Rightarrow> ('x, go_error option) fs_op" where
  "os_Rename old new = do {
     r \<leftarrow> syscall id (\<lambda>fs. case fs old of
            None \<Rightarrow> (Inl (Sentinel OsErrNotExist), fs)
          | Some c \<Rightarrow> (Inr (), (fs(old := None))(new \<mapsto> c)));
     State_Monad.return (err_of r)
   }"

definition os_Remove :: "string \<Rightarrow> ('x, go_error option) fs_op" where
  "os_Remove p = do {
     r \<leftarrow> syscall id (\<lambda>fs. case fs p of
            None \<Rightarrow> (Inl (Sentinel OsErrNotExist), fs)
          | Some _ \<Rightarrow> (Inr (), fs(p := None)));
     State_Monad.return (err_of r)
   }"

text \<open>\<^verbatim>\<open>ctx.Err()\<close> of a context that is not nil\<close>

definition ctx_Err :: "('w \<Rightarrow> go_error option) \<Rightarrow> ('w, go_error option) state" where
  "ctx_Err f = State (\<lambda>w. (f w, w))"

section \<open>FileStore (file_store.go)\<close>

text \<open>
  \<open>json.Marshal\<close> and \<open>json.Unmarshal\<close> at the type \<^typ>\<open>agent_state\<close> are arguments of the two
  operations; what is asked of them, where something is, is that decoding inverts encoding.
\<close>

record state_codec =
  Marshal :: "agent_state \<Rightarrow> go_error + string"
  Unmarshal :: "string \<Rightarrow> go_error + agent_state"

definition FileStore_Load ::
  "state_codec \<Rightarrow> string \<Rightarrow> 'x fsys_scheme ctx \<Rightarrow> ('x, go_error + agent_state) fs_op" where
  "FileStore_Load json path c =
     (case c of
        None \<Rightarrow> State_Monad.return (Inl (ErrorsNew ''load state: context is nil''))
      | Some cx \<Rightarrow> do {
          e \<leftarrow> ctx_Err cx;
          case e of Some e \<Rightarrow> State_Monad.return (Inl (wrap ''load state: '' e)) | None \<Rightarrow>
          if blank path then State_Monad.return (Inl (ErrorsNew ''load state: file path is empty''))
          else do {
            r \<leftarrow> os_ReadFile path;
            case r of
              Inl e \<Rightarrow>
                if errors_is e OsErrNotExist then State_Monad.return (Inr empty_state)
                else State_Monad.return
                  (Inl (Errorf [Txt ''load state file '', Quoted path, Txt '': '', Wrapped e]))
            | Inr data \<Rightarrow> do {
                e \<leftarrow> ctx_Err cx;
                case e of Some e \<Rightarrow> State_Monad.return (Inl (wrap ''load state: '' e)) | None \<Rightarrow>
                State_Monad.return
                  (case Unmarshal json data of Inl _ \<Rightarrow> Inr empty_state | Inr st \<Rightarrow> Inr st)
              }
          }
        })"

text \<open>A failing step of \<^verbatim>\<open>Save\<close> after the temporary file exists: close it if it is open, remove it, report.\<close>

definition save_abort :: "bool \<Rightarrow> string \<Rightarrow> go_error \<Rightarrow> ('x, go_error option) fs_op" where
  "save_abort is_open tmp e = do {
     _ \<leftarrow> (if is_open then os_touch else State_Monad.return None);
     _ \<leftarrow> os_Remove tmp;
     State_Monad.return (Some e)
   }"

definition FileStore_Save ::
  "state_codec \<Rightarrow> string \<Rightarrow> 'x fsys_scheme ctx \<Rightarrow> agent_state \<Rightarrow> ('x, go_error option) fs_op" where
  "FileStore_Save json path c st =
     (case c of
        None \<Rightarrow> State_Monad.return (Some (ErrorsNew ''save state: context is nil''))
      | Some cx \<Rightarrow> do {
          e \<leftarrow> ctx_Err cx;
          case e of Some e \<Rightarrow> State_Monad.return (Some (wrap ''save state: '' e)) | None \<Rightarrow>
          if blank path then State_Monad.return (Some (ErrorsNew ''save state: file path is empty''))
          else do {
            let dir = filepath_Dir path;
            e \<leftarrow> os_touch; \<comment> \<open>os.MkdirAll\<close>
            case e of Some e \<Rightarrow> State_Monad.return
              (Some (Errorf [Txt ''create state directory '', Quoted dir, Txt '': '', Wrapped e])) | None \<Rightarrow>
            (case Marshal json st of
              Inl e \<Rightarrow> State_Monad.return (Some (wrap ''marshal state: '' e))
            | Inr payload \<Rightarrow> do {
              e \<leftarrow> ctx_Err cx;
              case e of Some e \<Rightarrow> State_Monad.return (Some (wrap ''save state: '' e)) | None \<Rightarrow> do {
              r \<leftarrow> os_CreateTemp dir;
              case r of Inl e \<Rightarrow> State_Monad.return
                (Some (Errorf [Txt ''create temp state file in '', Quoted dir, Txt '': '', Wrapped e]))
              | Inr tmpName \<Rightarrow> do {
              e \<leftarrow> file_Write tmpName payload;
              case e of Some e \<Rightarrow> save_abort True tmpName
                (Errorf [Txt ''write temp state file '', Quoted tmpName, Txt '': '', Wrapped e]) | None \<Rightarrow> do {
              e \<leftarrow> os_touch; \<comment> \<open>tmpFile.Sync\<close>
              case e of Some e \<Rightarrow> save_abort True tmpName
                (Errorf [Txt ''sync temp state file '', Quoted tmpName, Txt '': '', Wrapped e]) | None \<Rightarrow> do {
              e \<leftarrow> os_touch; \<comment> \<open>tmpFile.Chmod\<close>
              case e of Some e \<Rightarrow> save_abort True tmpName
                (Errorf [Txt ''chmod temp state file '', Quoted tmpName, Txt '': '', Wrapped e]) | None \<Rightarrow> do {
              e \<leftarrow> os_touch; \<comment> \<open>tmpFile.Close\<close>
              case e of Some e \<Rightarrow> save_abort False tmpName
                (Errorf [Txt ''close temp state file '', Quoted tmpName, Txt '': '', Wrapped e]) | None \<Rightarrow> do {
              e \<leftarrow> ctx_Err cx;
              case e of Some e \<Rightarrow> save_abort False tmpName (wrap ''save state: '' e) | None \<Rightarrow> do {
              e \<leftarrow> os_Rename tmpName path;
              case e of Some e \<Rightarrow> save_abort False tmpName
                (Errorf [Txt ''rename temp state file '', Quoted tmpName, Txt '' to '', Quoted path,
                         Txt '': '', Wrapped e]) | None \<Rightarrow> do {
              e \<leftarrow> os_touch; \<comment> \<open>os.Open of the directory\<close>
              _ \<leftarrow> (case e of
                    None \<Rightarrow> do { _ \<leftarrow> os_touch; _ \<leftarrow> os_touch; State_Monad.return () }
                  | Some _ \<Rightarrow> State_Monad.return ());
              State_Monad.return None
            }}}}}}}}})
          }
        })"

text \<open>\<^verbatim>\<open>NewFileStore\<close>: the store of a path, as the interface its clients see.\<close>

definition NewFileStore :: "state_codec \<Rightarrow> string \<Rightarrow> 'x fsys_scheme state_store" where
  "NewFileStore json path =
     \<lparr>Load = (\<lambda>c. run_state (FileStore_Load json path c)),
      Save = (\<lambda>c st. run_state (FileStore_Save json path c st))\<rparr>"

section \<open>How the calls change the files\<close>

text \<open>\<open>after_call s fs\<close>: one more call was made and the files are now \<open>fs\<close>.\<close>

definition after_call :: "'x fsys_scheme \<Rightarrow> (string \<rightharpoonup> string) \<Rightarrow> 'x fsys_scheme" where
  "after_call s fs = s\<lparr>fs_files := fs, fs_tick := Suc (fs_tick s), fs_hist := fs_hist s @ [fs]\<rparr>"

lemma after_call_simps [simp]:
  "fs_files (after_call s fs) = fs"
  "fs_hist (after_call s fs) = fs_hist s @ [fs]"
  "fsys.more (after_call s fs) = fsys.more s"
  by (simp_all add: after_call_def)

lemma wp_ctx_Err [wp_intro]: "(\<And>e. Q e s) \<Longrightarrow> wp (ctx_Err f) Q s"
  by (simp add: wp_def ctx_Err_def)

lemma wp_syscall:
  "(\<And>e. Q (Inl (ErrorsNew e)) (after_call s (bad (fs_files s)))) \<Longrightarrow>
   (\<And>r fs. good (fs_files s) = (r, fs) \<Longrightarrow> Q r (after_call s fs)) \<Longrightarrow> wp (syscall bad good) Q s"
  by (auto simp: wp_def syscall_def after_call_def Let_def split: option.split prod.splits)

lemma wp_os_touch [wp_intro]: "(\<And>e. Q e (after_call s (fs_files s))) \<Longrightarrow> wp os_touch Q s"
  by (auto simp: os_touch_def wp_simps intro!: wp_syscall)

lemma wp_os_ReadFile [wp_intro]:
  "(\<And>e. Q (Inl (ErrorsNew e)) (after_call s (fs_files s))) \<Longrightarrow>
   (fs_files s p = None \<Longrightarrow> Q (Inl (Sentinel OsErrNotExist)) (after_call s (fs_files s))) \<Longrightarrow>
   (\<And>c. fs_files s p = Some c \<Longrightarrow> Q (Inr c) (after_call s (fs_files s))) \<Longrightarrow> wp (os_ReadFile p) Q s"
  by (auto simp: os_ReadFile_def intro!: wp_syscall split: option.splits)

lemma wp_os_CreateTemp [wp_intro]:
  "(\<And>e. Q (Inl e) (after_call s (fs_files s))) \<Longrightarrow>
   (\<And>r. fs_files s (temp_name dir r) = None \<Longrightarrow>
      Q (Inr (temp_name dir r)) (after_call s ((fs_files s)(temp_name dir r \<mapsto> [])))) \<Longrightarrow>
   wp (os_CreateTemp dir) Q s"
  by (auto simp: os_CreateTemp_def wp_simps Let_def intro!: wp_syscall split: if_splits)

lemma wp_file_Write [wp_intro]:
  "(\<And>e k. Q (Some e) (after_call s ((fs_files s)(p \<mapsto> take k b)))) \<Longrightarrow>
   Q None (after_call s ((fs_files s)(p \<mapsto> b))) \<Longrightarrow> wp (file_Write p b) Q s"
  by (auto simp: file_Write_def wp_simps Let_def intro!: wp_syscall)

lemma wp_os_Rename [wp_intro]:
  "(\<And>e. Q (Some e) (after_call s (fs_files s))) \<Longrightarrow>
   (\<And>c. fs_files s a = Some c \<Longrightarrow> Q None (after_call s ((fs_files s)(a := None, b \<mapsto> c)))) \<Longrightarrow>
   wp (os_Rename a b) Q s"
  by (auto simp: os_Rename_def wp_simps intro!: wp_syscall split: option.splits)

lemma wp_os_Remove [wp_intro]:
  "(\<And>e. Q (Some e) (after_call s (fs_files s))) \<Longrightarrow>
   Q None (after_call s ((fs_files s)(p := None))) \<Longrightarrow> wp (os_Remove p) Q s"
  by (auto simp: os_Remove_def wp_simps intro!: wp_syscall split: option.splits)

text \<open>
  Aborting touches nothing but the temporary file, at any time.
\<close>

lemma wp_save_abort [wp_intro]:
  "(\<And>s'. (\<And>p. p \<noteq> tmp \<Longrightarrow> fs_files s' p = fs_files s p) \<Longrightarrow>
      (\<exists>hs. fs_hist s' = fs_hist s @ hs \<and> (\<forall>f\<in>set hs. \<forall>p. p \<noteq> tmp \<longrightarrow> f p = fs_files s p)) \<Longrightarrow>
      fsys.more s' = fsys.more s \<Longrightarrow> Q (Some e) s') \<Longrightarrow> wp (save_abort is_open tmp e) Q s"
  by (auto simp: save_abort_def wp_simps intro!: wp_intro)

section \<open>The store keeps its promises\<close>

text \<open>
  What every run of \<^verbatim>\<open>Save\<close> does to the file at its own path, to the history of that file and
  to the world around the file system.
\<close>

definition save_post ::
  "state_codec \<Rightarrow> string \<Rightarrow> agent_state \<Rightarrow> 'x fsys_scheme \<Rightarrow> go_error option \<Rightarrow> 'x fsys_scheme \<Rightarrow> bool" where
  "save_post json path st s r s' \<longleftrightarrow>
     fsys.more s' = fsys.more s \<and>
     (case r of
        Some _ \<Rightarrow> fs_files s' path = fs_files s path \<and>
          (\<forall>p c. fs_files s p = Some c \<longrightarrow> fs_files s' p = Some c)
      | None \<Rightarrow> \<not> blank path \<and>
          (\<exists>b. Marshal json st = Inr b \<and> fs_files s' = (fs_files s)(path \<mapsto> b))) \<and>
     (\<exists>hs. fs_hist s' = fs_hist s @ hs \<and>
       (\<forall>f\<in>set hs. f path = fs_files s path \<or> (\<exists>b. Marshal json st = Inr b \<and> f path = Some b)))"

lemma save_post_wp:
  assumes "\<not> temp_like path"
  shows "wp (FileStore_Save json path c st) (save_post json path st s) s"
proof -
  have ne [simp]: "temp_name d r \<noteq> path" "path \<noteq> temp_name d r" for d r
    using assms temp_like_temp_name by auto
  show ?thesis
    unfolding FileStore_Save_def save_post_def
    by (auto simp: wp_simps Let_def fun_upd_idem intro!: wp_intro split: option.split sum.split)
      (metis option.distinct(1))+
qed

text \<open>
  The checkpoint a file system holds for a path: what decoding the file gives, and the empty state
  where there is no file or one that does not decode.
\<close>

definition fs_ckpt :: "state_codec \<Rightarrow> string \<Rightarrow> 'x fsys_scheme \<Rightarrow> agent_state" where
  "fs_ckpt json path s =
     (case fs_files s path of
        None \<Rightarrow> empty_state
      | Some b \<Rightarrow> (case Unmarshal json b of Inl _ \<Rightarrow> empty_state | Inr st \<Rightarrow> st))"

text \<open>What every run of \<^verbatim>\<open>Load\<close> does: no file changes, and an answer is the checkpoint.\<close>

definition load_post ::
  "state_codec \<Rightarrow> string \<Rightarrow> 'x fsys_scheme \<Rightarrow> (go_error + agent_state) \<Rightarrow> 'x fsys_scheme \<Rightarrow> bool" where
  "load_post json path s r s' \<longleftrightarrow>
     fs_files s' = fs_files s \<and> fsys.more s' = fsys.more s \<and>
     (\<forall>st. r = Inr st \<longrightarrow> st = fs_ckpt json path s)"

lemma load_post_wp: "wp (FileStore_Load json path c) (load_post json path s) s"
  unfolding FileStore_Load_def load_post_def
  by (auto simp: wp_simps fs_ckpt_def intro!: wp_intro split: option.split sum.split)

lemma load_post_run:
  "run_state (FileStore_Load json path c) s = (r, s') \<Longrightarrow> load_post json path s r s'"
  by (rule wp_run [OF load_post_wp])

lemma load_post_ckpt:
  "load_post json path s r s' \<Longrightarrow>
     fs_ckpt json path s' = fs_ckpt json path s \<and> (\<forall>st. r = Inr st \<longrightarrow> st = fs_ckpt json path s)"
  by (simp add: load_post_def fs_ckpt_def)

lemma save_post_run:
  "\<not> temp_like path \<Longrightarrow> run_state (FileStore_Save json path c st) s = (r, s') \<Longrightarrow> save_post json path st s r s'"
  by (rule wp_run [OF save_post_wp])

text \<open>
  A file store whose path is not itself the name of one of its temporary files, with a codec that
  decodes what it has encoded, is a checkpoint store.
\<close>

locale file_store =
  fixes json :: state_codec
    and path :: string
    and storable :: "agent_state \<Rightarrow> bool"
  assumes not_temp: "\<not> temp_like path"
    and decodes: "storable st \<Longrightarrow> Marshal json st = Inr b \<Longrightarrow> Unmarshal json b = Inr st"
begin

lemma ckpt_after_save:
  "run_state (FileStore_Save json path c st) s = (r, s') \<Longrightarrow> storable st \<Longrightarrow>
   fs_ckpt json path s' = (if r = None then st else fs_ckpt json path s)"
  using save_post_run [OF not_temp, of json c st s r s']
  by (auto simp: save_post_def fs_ckpt_def dest: decodes split: option.splits)

lemma ckpt_after_failed_save:
  "run_state (FileStore_Save json path c st) s = (Some e, s') \<Longrightarrow> fs_ckpt json path s' = fs_ckpt json path s"
  using save_post_run [OF not_temp, of json c st s "Some e" s']
  by (auto simp: save_post_def fs_ckpt_def)

end

sublocale file_store \<subseteq> checkpoint_store "NewFileStore json path" "fs_ckpt json path" storable
  by unfold_locales
    (auto simp: NewFileStore_def ckpt_after_save ckpt_after_failed_save
      dest!: load_post_run load_post_ckpt)

end
