(* ===== verification/Pipeline.thy ===== *)
theory Pipeline
  imports FileStore
begin

text \<open>
  The two halves of a configure run as interfaces (internal/configure/types.go), the value that
  passes between them (internal/renderer/renderer.go), their placeholder implementations, and the
  count of non-empty lines that three packages log.
\<close>

section \<open>Interfaces\<close>

record rendered_output =
  out_Target :: string
  out_UUID :: string
  out_Text :: string

definition empty_output :: rendered_output where
  "empty_output = \<lparr>out_Target = [], out_UUID = [], out_Text = []\<rparr>"

type_synonym 'w renderer =
  "'w ctx \<Rightarrow> stored_desired_config \<Rightarrow> 'w \<Rightarrow> (go_error + rendered_output) \<times> 'w"

type_synonym 'w apply_engine =
  "'w ctx \<Rightarrow> rendered_output \<Rightarrow> 'w \<Rightarrow> go_error option \<times> 'w"

text \<open>
  What the configure service relies on: rendering and applying do not touch the checkpoint.  A
  renderer that knows what it renders for also names it in its output.
\<close>

locale configure_backend =
  fixes render :: "'w renderer"
    and apply_rendered :: "'w apply_engine"
    and ckpt :: "'w \<Rightarrow> agent_state"
  assumes render_keeps: "render c d w = (r, w') \<Longrightarrow> ckpt w' = ckpt w"
    and apply_keeps: "apply_rendered c out w = (e, w') \<Longrightarrow> ckpt w' = ckpt w"

definition output_for :: "stored_desired_config \<Rightarrow> rendered_output \<Rightarrow> bool" where
  "output_for d out \<longleftrightarrow> out_Target out = dr_Target (sd_Record d) \<and> out_UUID out = dr_UUID (sd_Record d)"

locale naming_renderer =
  fixes render :: "'w renderer"
  assumes render_names: "render c d w = (Inr out, w') \<Longrightarrow> output_for d out"

section \<open>Placeholder renderer and apply engine\<close>

abbreviation newline :: char where
  "newline \<equiv> CHR 0x0A"

definition Placeholder_Render :: "'w renderer" where
  "Placeholder_Render c desired w =
     (case c of
        None \<Rightarrow> (Inl (ErrorsNew ''render: context is nil''), w)
      | Some cx \<Rightarrow>
          (case cx w of
             Some e \<Rightarrow> (Inl (wrap ''render: '' e), w)
           | None \<Rightarrow>
               if dr_Target (sd_Record desired) = [] then
                 (Inl (ErrorsNew ''render: desired target is empty''), w)
               else if dr_UUID (sd_Record desired) = [] then
                 (Inl (ErrorsNew ''render: desired uuid is empty''), w)
               else
                 (Inr \<lparr>out_Target = dr_Target (sd_Record desired), out_UUID = dr_UUID (sd_Record desired),
                       out_Text = ''# placeholder vyos config'' @ [newline] @
                                  ''# target: '' @ dr_Target (sd_Record desired) @ [newline] @
                                  ''# uuid: '' @ dr_UUID (sd_Record desired) @ [newline]\<rparr>, w)))"

definition Placeholder_Apply :: "'w apply_engine" where
  "Placeholder_Apply c rendered w =
     (case c of
        None \<Rightarrow> (Some (ErrorsNew ''apply: context is nil''), w)
      | Some cx \<Rightarrow>
          (case cx w of
             Some e \<Rightarrow> (Some (wrap ''apply: '' e), w)
           | None \<Rightarrow>
               if out_UUID rendered = [] then (Some (ErrorsNew ''apply: rendered uuid is empty''), w)
               else if out_Text rendered = [] then (Some (ErrorsNew ''apply: rendered text is empty''), w)
               else (None, w)))"

interpretation placeholder: configure_backend Placeholder_Render Placeholder_Apply
  "fs_ckpt json path :: 'x fsys_scheme \<Rightarrow> agent_state" for json path
  by unfold_locales
    (auto simp: Placeholder_Render_def Placeholder_Apply_def split: option.splits if_splits)

interpretation placeholder_names: naming_renderer Placeholder_Render
  by unfold_locales (auto simp: Placeholder_Render_def output_for_def split: option.splits if_splits)

lemma Placeholder_Render_pure: "snd (Placeholder_Render c d w) = w"
  by (auto simp: Placeholder_Render_def split: option.splits)

lemma Placeholder_Apply_pure: "snd (Placeholder_Apply c r w) = w"
  by (auto simp: Placeholder_Apply_def split: option.splits)

text \<open>What the placeholder renders, the placeholder applies, while the context lives.\<close>

lemma placeholder_applies_rendered:
  "Placeholder_Render c d w = (Inr out, w1) \<Longrightarrow> c = Some cx \<Longrightarrow> cx w2 = None \<Longrightarrow>
   Placeholder_Apply c out w2 = (None, w2)"
  by (auto simp: Placeholder_Render_def Placeholder_Apply_def split: option.splits if_splits)

section \<open>Counting non-empty lines\<close>

fun count_lines :: "string \<Rightarrow> bool \<Rightarrow> int \<Rightarrow> int" where
  "count_lines [] inLine n = (if inLine then n + 1 else n)"
| "count_lines (c # cs) inLine n =
     (if c = newline \<or> c = CHR 0x0D then
        (if inLine then count_lines cs False (n + 1) else count_lines cs inLine n)
      else if c = CHR '' '' \<or> c = CHR 0x09 then count_lines cs inLine n
      else count_lines cs True n)"

definition countNonEmptyLines :: "string \<Rightarrow> int" where
  "countNonEmptyLines text = count_lines text False 0"

text \<open>The reference: split at every line feed and carriage return, keep the lines with some ink.\<close>

fun split_lines :: "string \<Rightarrow> string list" where
  "split_lines [] = [[]]"
| "split_lines (c # cs) =
     (if c = newline \<or> c = CHR 0x0D then [] # split_lines cs
      else (case split_lines cs of [] \<Rightarrow> [[c]] | l # ls \<Rightarrow> (c # l) # ls))"

definition has_ink :: "string \<Rightarrow> bool" where
  "has_ink l = list_ex (\<lambda>c. c \<noteq> CHR '' '' \<and> c \<noteq> CHR 0x09) l"

lemma split_lines_nonempty [simp]: "split_lines s \<noteq> []"
  by (induction s) (auto split: list.splits)

lemma count_lines_correct:
  "count_lines s inLine n =
     n + int (length (filter has_ink (tl (split_lines s)))) +
     (if inLine \<or> has_ink (hd (split_lines s)) then 1 else 0)"
proof (induction s arbitrary: inLine n)
  case Nil
  then show ?case by (simp add: has_ink_def)
next
  case (Cons c cs)
  show ?case
    by (cases "split_lines cs") (auto simp: Cons.IH has_ink_def)
qed

lemma countNonEmptyLines_filter:
  "countNonEmptyLines text = int (length (filter has_ink (split_lines text)))"
  by (cases "split_lines text") (auto simp: countNonEmptyLines_def count_lines_correct)

end
