(* ===== verification/ConfigureService.thy ===== *)
theory ConfigureService
  imports Pipeline
begin

text \<open>
  The configure workflow (internal/configure): the service and its dependencies, \<open>Handle\<close> for a
  configure notification, \<open>Reconcile\<close> at startup and after a reconnect, and the
  render-apply-checkpoint-report sequence they share.  Every call the service makes on its
  collaborators, and taking and releasing its mutex, is an event of the trace.
\<close>

section \<open>Types (types.go and service.go)\<close>

record 'w configure_client =
  LoadDesiredConfig ::
    "'w ctx \<Rightarrow> string \<Rightarrow> 'w \<Rightarrow> (go_error + stored_desired_config option) \<times> 'w"
  PublishStatus :: "'w ctx \<Rightarrow> status_envelope \<Rightarrow> 'w \<Rightarrow> go_error option \<times> 'w"
  PublishResult :: "'w ctx \<Rightarrow> result_envelope \<Rightarrow> 'w \<Rightarrow> go_error option \<times> 'w"

record debug_logging =
  LogPayloads :: bool
  LogRendered :: bool
  LogApplyPlan :: bool

type_synonym 'w clock = "'w \<Rightarrow> gtime \<times> 'w"

record 'w configure_service =
  cs_client :: "'w configure_client"
  cs_stateStore :: "'w state_store"
  cs_renderer :: "'w renderer"
  cs_applyEngine :: "'w apply_engine"
  cs_logger :: "'w logger"
  cs_now :: "'w clock"
  cs_debug :: debug_logging

text \<open>The interface values of \<^verbatim>\<open>Dependencies\<close> may be nil.\<close>

record 'w configure_dependencies =
  dep_Client :: "'w configure_client option"
  dep_StateStore :: "'w state_store option"
  dep_Renderer :: "'w renderer option"
  dep_ApplyEngine :: "'w apply_engine option"
  dep_Logger :: "'w logger"
  dep_Debug :: debug_logging
  dep_Now :: "'w clock option"

text \<open>\<open>time_Now\<close> is \<^verbatim>\<open>time.Now\<close>, the clock used where none is given.\<close>

definition NewConfigureService ::
  "'w clock \<Rightarrow> 'w configure_dependencies \<Rightarrow> go_error + 'w configure_service" where
  "NewConfigureService time_Now deps =
     (case dep_Client deps of
        None \<Rightarrow> Inl (ErrorsNew ''configure service: client is required'')
      | Some client \<Rightarrow>
     (case dep_StateStore deps of
        None \<Rightarrow> Inl (ErrorsNew ''configure service: state store is required'')
      | Some stateStore \<Rightarrow>
     (case dep_Renderer deps of
        None \<Rightarrow> Inl (ErrorsNew ''configure service: renderer is required'')
      | Some rend \<Rightarrow>
     (case dep_ApplyEngine deps of
        None \<Rightarrow> Inl (ErrorsNew ''configure service: apply engine is required'')
      | Some applyEngine \<Rightarrow>
          Inr \<lparr>cs_client = client, cs_stateStore = stateStore, cs_renderer = rend,
               cs_applyEngine = applyEngine, cs_logger = dep_Logger deps,
               cs_now = (case dep_Now deps of None \<Rightarrow> time_Now | Some now \<Rightarrow> now),
               cs_debug = dep_Debug deps\<rparr>))))"

datatype cfg_event =
    EvLock
  | EvUnlock
  | EvStatus status_envelope "go_error option"
  | EvResult result_envelope "go_error option"
  | EvLoadDesired string "go_error + stored_desired_config option"
  | EvLoadState "go_error + agent_state"
  | EvSaveState agent_state "go_error option"
  | EvRender stored_desired_config "go_error + rendered_output"
  | EvApply rendered_output "go_error option"

type_synonym ('w, 'r) cfg = "(('w, cfg_event) tw, 'r) state"

section \<open>Calls on the collaborators\<close>

definition cfg_now :: "'w configure_service \<Rightarrow> ('w, gtime) cfg" where
  "cfg_now s = quiet (cs_now s)"

definition load_desired :: "'w configure_service \<Rightarrow> 'w ctx \<Rightarrow> string
    \<Rightarrow> ('w, go_error + stored_desired_config option) cfg" where
  "load_desired s c target = call (LoadDesiredConfig (cs_client s) c target) (EvLoadDesired target)"

definition load_state :: "'w configure_service \<Rightarrow> 'w ctx \<Rightarrow> ('w, go_error + agent_state) cfg" where
  "load_state s c = call (Load (cs_stateStore s) c) EvLoadState"

definition save_state :: "'w configure_service \<Rightarrow> 'w ctx \<Rightarrow> agent_state \<Rightarrow> ('w, go_error option) cfg" where
  "save_state s c st = call (Save (cs_stateStore s) c st) (EvSaveState st)"

definition render :: "'w configure_service \<Rightarrow> 'w ctx \<Rightarrow> stored_desired_config
    \<Rightarrow> ('w, go_error + rendered_output) cfg" where
  "render s c d = call (cs_renderer s c d) (EvRender d)"

definition apply_rendered :: "'w configure_service \<Rightarrow> 'w ctx \<Rightarrow> rendered_output
    \<Rightarrow> ('w, go_error option) cfg" where
  "apply_rendered s c out = call (cs_applyEngine s c out) (EvApply out)"

definition publishStatus :: "'w configure_service \<Rightarrow> 'w ctx \<Rightarrow> configure_notification
    \<Rightarrow> string \<Rightarrow> string \<Rightarrow> string \<Rightarrow> ('w, go_error option) cfg" where
  "publishStatus s c msg status stage message = do {
     now \<leftarrow> cfg_now s;
     let m = BuildStatus (cn_RPCID msg) (cn_Target msg) (cn_UUID msg) status stage message now;
     call (PublishStatus (cs_client s) c m) (EvStatus m)
   }"

definition publishSuccessResult :: "'w configure_service \<Rightarrow> 'w ctx \<Rightarrow> configure_notification
    \<Rightarrow> string \<Rightarrow> ('w, go_error option) cfg" where
  "publishSuccessResult s c msg message = do {
     now \<leftarrow> cfg_now s;
     let m = BuildResult (cn_RPCID msg) (cn_Target msg) ''configure'' (cn_UUID msg) [] ''success'' [] message [] now;
     call (PublishResult (cs_client s) c m) (EvResult m)
   }"

definition publishFailureResult :: "'w configure_service \<Rightarrow> 'w ctx \<Rightarrow> configure_notification
    \<Rightarrow> string \<Rightarrow> string \<Rightarrow> ('w, go_error option) cfg" where
  "publishFailureResult s c msg code message = do {
     now \<leftarrow> cfg_now s;
     let m = BuildResult (cn_RPCID msg) (cn_Target msg) ''configure'' (cn_UUID msg) [] ''failure'' code message [] now;
     call (PublishResult (cs_client s) c m) (EvResult m)
   }"

section \<open>Logging\<close>

definition logInfo :: "'w configure_service \<Rightarrow> string \<Rightarrow> (string \<times> log_value) list \<Rightarrow> ('w, unit) cfg" where
  "logInfo s msg kv = emit_log (cs_logger s) LevelInfo msg kv"

definition logDebug :: "'w configure_service \<Rightarrow> string \<Rightarrow> (string \<times> log_value) list \<Rightarrow> ('w, unit) cfg" where
  "logDebug s msg kv = emit_log (cs_logger s) LevelDebug msg kv"

definition logError :: "'w configure_service \<Rightarrow> string \<Rightarrow> (string \<times> log_value) list \<Rightarrow> ('w, unit) cfg" where
  "logError s msg kv = emit_log (cs_logger s) LevelError msg kv"

definition logWarn :: "'w configure_service \<Rightarrow> string \<Rightarrow> (string \<times> log_value) list \<Rightarrow> ('w, unit) cfg" where
  "logWarn s msg kv = emit_log (cs_logger s) LevelWarn msg kv"

text \<open>The three keys nearly every entry starts with\<close>

definition ids :: "configure_notification \<Rightarrow> (string \<times> log_value) list" where
  "ids msg = [(''target'', LStr (cn_Target msg)), (''rpc_id'', LStr (cn_RPCID msg)), (''uuid'', LStr (cn_UUID msg))]"

text \<open>
  The progress reports between the steps: publish a running status, and only warn when that fails.
\<close>

definition progress :: "'w configure_service \<Rightarrow> 'w ctx \<Rightarrow> configure_notification
    \<Rightarrow> string \<Rightarrow> string \<Rightarrow> ('w, unit) cfg" where
  "progress s c msg stage message = do {
     err \<leftarrow> publishStatus s c msg ''running'' stage message;
     case err of
       Some e \<Rightarrow> logWarn s ''failed to publish configure status''
                   [(''stage'', LStr stage), (''error'', LErr (Some e))]
     | None \<Rightarrow> State_Monad.return ()
   }"

section \<open>Failure reporting\<close>

definition fail :: "'w configure_service \<Rightarrow> 'w ctx \<Rightarrow> configure_notification \<Rightarrow> string \<Rightarrow> string
    \<Rightarrow> go_error \<Rightarrow> ('w, go_error option) cfg" where
  "fail s c msg code safeMessage originalErr = do {
     _ \<leftarrow> logError s ''configure failed'' (ids msg @
            [(''stage'', LStr ''failed''), (''status'', LStr ''failure''),
             (''error_code'', LStr code), (''message'', LStr safeMessage)]);
     serr \<leftarrow> publishStatus s c msg ''failure'' ''failed'' ''configure processing failed'';
     let statusErr = map_option (wrap ''publish configure failure status: '') serr;
     rerr \<leftarrow> publishFailureResult s c msg code safeMessage;
     let resultErr = map_option (wrap ''publish configure failure result: '') rerr;
     State_Monad.return (errors_join [Some originalErr, statusErr, resultErr])
   }"

definition reportingFailure :: "'w configure_service \<Rightarrow> configure_notification \<Rightarrow> go_error option
    \<Rightarrow> ('w, go_error option) cfg" where
  "reportingFailure s msg originalErr = do {
     _ \<leftarrow> logWarn s ''configure reporting failed after successful apply'' (ids msg @
            [(''stage'', LStr ''reporting_failed''), (''status'', LStr ''warning''), (''error'', LErr originalErr)]);
     State_Monad.return (Some (case originalErr of
         Some e \<Rightarrow> wrap ''configure apply succeeded but reporting failed: '' e
       | None \<Rightarrow> ErrorsNew ''configure apply succeeded but reporting failed: %!w(<nil>)''))
   }"

definition publishSuccessStatusErr :: "go_error option \<Rightarrow> go_error option" where
  "publishSuccessStatusErr err = map_option (wrap ''publish configure status applied: '') err"

definition publishSuccessResultErr :: "go_error option \<Rightarrow> go_error option" where
  "publishSuccessResultErr err = map_option (wrap ''publish configure success result: '') err"

section \<open>Render, apply, checkpoint, report\<close>

definition processDesiredConfigLocked :: "'w configure_service \<Rightarrow> 'w ctx \<Rightarrow> configure_notification
    \<Rightarrow> stored_desired_config \<Rightarrow> ('w, go_error option) cfg" where
  "processDesiredConfigLocked s c msg desired = do {
     _ \<leftarrow> logInfo s ''configure rendering'' (ids msg @ [(''stage'', LStr ''rendering'')]);
     _ \<leftarrow> progress s c msg ''rendering'' ''rendering desired config'';
     r \<leftarrow> render s c desired;
     case r of
       Inl err \<Rightarrow> fail s c msg ''render_failed'' ''failed to render desired config''
                    (wrap ''render desired config: '' err)
     | Inr rendered \<Rightarrow> do {
     _ \<leftarrow> logInfo s ''configure rendered'' (ids msg @
            [(''stage'', LStr ''rendered''),
             (''rendered_size_bytes'', LNum (int (length (out_Text rendered)))),
             (''rendered_command_count'', LNum (countNonEmptyLines (out_Text rendered)))]);
     _ \<leftarrow> (if LogRendered (cs_debug s)
           then logDebug s ''configure rendered commands'' (ids msg @
                  [(''rendered_commands'', LStr (out_Text rendered))])
           else State_Monad.return ());
     _ \<leftarrow> progress s c msg ''rendered'' ''desired config rendered'';
     _ \<leftarrow> logInfo s ''configure applying'' (ids msg @ [(''stage'', LStr ''applying'')]);
     _ \<leftarrow> progress s c msg ''applying'' ''applying rendered config'';
     aerr \<leftarrow> apply_rendered s c rendered;
     case aerr of
       Some err \<Rightarrow> fail s c msg ''apply_failed'' ''failed to apply rendered config''
                     (wrap ''apply rendered config: '' err)
     | None \<Rightarrow> do {
     _ \<leftarrow> logInfo s ''configure applied'' (ids msg @ [(''stage'', LStr ''applied'')]);
     now \<leftarrow> cfg_now s;
     let nextState = \<lparr>as_Target = cn_Target msg, as_AppliedUUID = dr_UUID (sd_Record desired), as_AppliedAt = now\<rparr>;
     serr \<leftarrow> save_state s c nextState;
     case serr of
       Some err \<Rightarrow> reportingFailure s msg (Some (wrap ''save local state: '' err))
     | None \<Rightarrow> do {
     _ \<leftarrow> logInfo s ''configure state saved'' (ids msg);
     _ \<leftarrow> logInfo s ''configure result publishing'' (ids msg @ [(''status'', LStr ''success'')]);
     e1 \<leftarrow> publishStatus s c msg ''success'' ''applied'' ''configure apply completed'';
     let statusErr = publishSuccessStatusErr e1;
     e2 \<leftarrow> publishSuccessResult s c msg ''configure apply completed'';
     let resultErr = publishSuccessResultErr e2;
     _ \<leftarrow> (if resultErr = None
           then logInfo s ''configure result published'' (ids msg @ [(''status'', LStr ''success'')])
           else State_Monad.return ());
     if statusErr \<noteq> None \<or> resultErr \<noteq> None
     then reportingFailure s msg (errors_join [statusErr, resultErr])
     else State_Monad.return None
     }}}
   }"

section \<open>Handle\<close>

text \<open>The body of \<^verbatim>\<open>Handle\<close> between taking and releasing the mutex\<close>

definition handle_locked :: "'w configure_service \<Rightarrow> 'w ctx \<Rightarrow> configure_notification
    \<Rightarrow> ('w, go_error option) cfg" where
  "handle_locked s c msg =
     (if blank (cn_Target msg) then
        fail s c msg ''notification_target_invalid'' ''configure notification target invalid''
          (ErrorsNew ''configure notification target is empty'')
      else if blank (cn_UUID msg) then
        fail s c msg ''notification_uuid_invalid'' ''configure notification uuid invalid''
          (ErrorsNew ''configure notification uuid is empty'')
      else do {
        _ \<leftarrow> progress s c msg ''received'' ''configure notification received'';
        _ \<leftarrow> logInfo s ''configure desired loading'' (ids msg @ [(''stage'', LStr ''loading_desired'')]);
        _ \<leftarrow> progress s c msg ''loading_desired'' ''loading desired config'';
        r \<leftarrow> load_desired s c (cn_Target msg);
        case r of
          Inl err \<Rightarrow> fail s c msg ''load_desired_failed'' ''failed to load desired config''
                       (wrap ''load desired config: '' err)
        | Inr None \<Rightarrow> fail s c msg ''desired_config_missing'' ''desired config missing''
                        (ErrorsNew ''desired config is nil'')
        | Inr (Some desired) \<Rightarrow>
        if blank (dr_Target (sd_Record desired)) then
          fail s c msg ''desired_target_invalid'' ''desired target invalid''
            (ErrorsNew ''desired target is empty'')
        else if blank (dr_UUID (sd_Record desired)) then
          fail s c msg ''desired_uuid_invalid'' ''desired uuid invalid''
            (ErrorsNew ''desired uuid is empty'')
        else if dr_Target (sd_Record desired) \<noteq> cn_Target msg then
          fail s c msg ''desired_target_mismatch'' ''desired target mismatch''
            (Errorf [Txt ''desired target '', Quoted (dr_Target (sd_Record desired)),
                     Txt '' does not match notification target '', Quoted (cn_Target msg)])
        else if dr_UUID (sd_Record desired) \<noteq> cn_UUID msg then
          fail s c msg ''desired_uuid_mismatch'' ''desired uuid mismatch''
            (Errorf [Txt ''desired uuid '', Quoted (dr_UUID (sd_Record desired)),
                     Txt '' does not match notification uuid '', Quoted (cn_UUID msg)])
        else do {
          _ \<leftarrow> logInfo s ''configure desired loaded'' (ids msg @
                 [(''payload_size_bytes'', LNum (int (length (dr_Payload (sd_Record desired)))))]);
          _ \<leftarrow> (if LogPayloads (cs_debug s)
                then logDebug s ''configure desired payload summary'' (ids msg @
                       [(''payload_size_bytes'', LNum (int (length (dr_Payload (sd_Record desired))))),
                        (''payload_body_omitted'', LBool True)])
                else State_Monad.return ());
          lr \<leftarrow> load_state s c;
          case lr of
            Inl err \<Rightarrow> fail s c msg ''state_load_failed'' ''failed to load local state''
                         (wrap ''load local state: '' err)
          | Inr localState \<Rightarrow> do {
            _ \<leftarrow> logInfo s ''configure state loaded'' (ids msg);
            if as_Target localState = cn_Target msg \<and> as_AppliedUUID localState = dr_UUID (sd_Record desired)
            then do {
              _ \<leftarrow> logInfo s ''configure already in sync'' (ids msg @
                     [(''stage'', LStr ''already_in_sync''), (''status'', LStr ''success'')]);
              statusErr \<leftarrow> publishStatus s c msg ''success'' ''already_in_sync'' ''desired config already applied'';
              resultErr \<leftarrow> publishSuccessResult s c msg ''desired config already applied'';
              if statusErr \<noteq> None \<or> resultErr \<noteq> None
              then reportingFailure s msg (errors_join [statusErr, resultErr])
              else State_Monad.return None
            }
            else processDesiredConfigLocked s c msg desired
          }
        }
      })"

text \<open>
  The deferred calls run in reverse order: the mutex is released, then the completion is logged.
\<close>

definition Handle :: "'w configure_service \<Rightarrow> 'w ctx \<Rightarrow> configure_notification
    \<Rightarrow> ('w, go_error option) cfg" where
  "Handle s c msg =
     (case c of
        None \<Rightarrow> State_Monad.return (Some (ErrorsNew ''configure handle: context is nil''))
      | Some _ \<Rightarrow> do {
          started \<leftarrow> cfg_now s;
          _ \<leftarrow> mark EvLock;
          err \<leftarrow> handle_locked s c msg;
          _ \<leftarrow> mark EvUnlock;
          ended \<leftarrow> cfg_now s;
          _ \<leftarrow> logInfo s ''configure processing completed'' (ids msg @
                 [(''duration_ms'', LNum (milliseconds (ended - started)))]);
          State_Monad.return err
        })"

section \<open>Reconcile\<close>

text \<open>
  The code of the error that says there is no desired config is a constant of the bus library
  (\<^verbatim>\<open>agentcore.CodeConfigNotFound\<close>): the argument \<open>not_found\<close>.
\<close>

text \<open>\<^verbatim>\<open>agentcore.ConfigureNotification{Target: target}\<close>, the other fields zero\<close>

definition target_only :: "string \<Rightarrow> configure_notification" where
  "target_only target =
     \<lparr>cn_Version = [], cn_RPCID = [], cn_Target = target, cn_CommandType = [], cn_UUID = [],
      cn_KVBucket = [], cn_KVKey = [], cn_Timestamp = zero_time\<rparr>"

text \<open>The notification \<^verbatim>\<open>Reconcile\<close> makes up from the stored record\<close>

definition reconcile_msg :: "stored_desired_config \<Rightarrow> configure_notification" where
  "reconcile_msg desired =
     \<lparr>cn_Version = wire_Version, cn_RPCID = dr_RPCID (sd_Record desired),
      cn_Target = dr_Target (sd_Record desired), cn_CommandType = ''configure'',
      cn_UUID = dr_UUID (sd_Record desired), cn_KVBucket = sd_Bucket desired,
      cn_KVKey = sd_Key desired, cn_Timestamp = dr_Timestamp (sd_Record desired)\<rparr>"

text \<open>Reports that the reconcile could not read something, and returns why.\<close>

definition reconcile_degraded :: "'w configure_service \<Rightarrow> 'w ctx \<Rightarrow> string \<Rightarrow> string \<Rightarrow> string
    \<Rightarrow> go_error \<Rightarrow> go_error \<Rightarrow> ('w, go_error option) cfg" where
  "reconcile_degraded s c target logmsg statusmsg err ret = do {
     _ \<leftarrow> logError s logmsg [(''target'', LStr target), (''error'', LErr (Some err))];
     pubErr \<leftarrow> publishStatus s c (target_only target) ''failure'' ''failed'' statusmsg;
     _ \<leftarrow> (case pubErr of
             Some e \<Rightarrow> logError s ''reconcile: failed to publish degraded status'' [(''error'', LErr (Some e))]
           | None \<Rightarrow> State_Monad.return ());
     State_Monad.return (Some ret)
   }"

definition reconcile_locked :: "string \<Rightarrow> 'w configure_service \<Rightarrow> 'w ctx \<Rightarrow> string
    \<Rightarrow> ('w, go_error option) cfg" where
  "reconcile_locked not_found s c target = do {
     lr \<leftarrow> load_state s c;
     case lr of
       Inl err \<Rightarrow> reconcile_degraded s c target ''reconcile: failed to load local state''
                    ''startup reconcile failed to load local state'' err (wrap ''load local state: '' err)
     | Inr localState \<Rightarrow> do {
       r \<leftarrow> load_desired s c target;
       case r of
         Inl err \<Rightarrow>
           if errors_as_agentcore err = Some not_found then do {
             _ \<leftarrow> logInfo s ''reconcile: no desired config exists, continuing normally''
                    [(''target'', LStr target)];
             State_Monad.return None
           }
           else reconcile_degraded s c target ''reconcile: failed to load desired config''
                  ''startup reconcile failed to load desired config'' err (wrap ''load desired config: '' err)
       | Inr None \<Rightarrow> do {
           _ \<leftarrow> logInfo s ''reconcile: desired config is nil, continuing normally'' [(''target'', LStr target)];
           State_Monad.return None
         }
       | Inr (Some desired) \<Rightarrow>
         if as_Target localState = target \<and> as_AppliedUUID localState = dr_UUID (sd_Record desired) then do {
           _ \<leftarrow> logInfo s ''reconcile: already in sync''
                  [(''target'', LStr target), (''uuid'', LStr (dr_UUID (sd_Record desired)))];
           State_Monad.return None
         }
         else do {
           _ \<leftarrow> logInfo s ''reconcile: configuration drift detected, applying config''
                  [(''target'', LStr target), (''current_uuid'', LStr (as_AppliedUUID localState)),
                   (''desired_uuid'', LStr (dr_UUID (sd_Record desired)))];
           let msg = reconcile_msg desired;
           started \<leftarrow> cfg_now s;
           err \<leftarrow> processDesiredConfigLocked s c msg desired;
           ended \<leftarrow> cfg_now s;
           _ \<leftarrow> logInfo s ''reconcile processing completed'' (ids msg @
                  [(''duration_ms'', LNum (milliseconds (ended - started)))]);
           State_Monad.return err
         }
     }
   }"

definition Reconcile :: "string \<Rightarrow> 'w configure_service \<Rightarrow> 'w ctx \<Rightarrow> string
    \<Rightarrow> ('w, go_error option) cfg" where
  "Reconcile not_found s c target =
     (case c of
        None \<Rightarrow> State_Monad.return (Some (ErrorsNew ''reconcile: context is nil''))
      | Some _ \<Rightarrow> do {
          _ \<leftarrow> mark EvLock;
          err \<leftarrow> reconcile_locked not_found s c target;
          _ \<leftarrow> mark EvUnlock;
          State_Monad.return err
        })"

end
