(* ===== verification/ConfigurePaths.thy ===== *)
theory ConfigurePaths
  imports ConfigureService
begin

text \<open>
  The runs of the configure workflow as an inductive relation over traces: which sequences of
  calls, with which outcomes, end in which error.  The service is proved to follow it; the
  properties of the workflow are read off it.
\<close>

section \<open>Shapes of events\<close>

definition status_ev :: "configure_notification \<Rightarrow> string \<Rightarrow> string \<Rightarrow> go_error option \<Rightarrow> cfg_event \<Rightarrow> bool" where
  "status_ev msg status stage r ev \<longleftrightarrow>
     (\<exists>message now. ev = EvStatus (BuildStatus (cn_RPCID msg) (cn_Target msg) (cn_UUID msg) status stage message now) r)"

definition result_ev :: "configure_notification \<Rightarrow> string \<Rightarrow> string \<Rightarrow> go_error option \<Rightarrow> cfg_event \<Rightarrow> bool" where
  "result_ev msg result code r ev \<longleftrightarrow>
     (\<exists>message now. ev = EvResult (BuildResult (cn_RPCID msg) (cn_Target msg) ''configure'' (cn_UUID msg) []
        result code message [] now) r)"

text \<open>A running status of a stage; nothing depends on whether it got out.\<close>

definition running_ev :: "configure_notification \<Rightarrow> string \<Rightarrow> cfg_event \<Rightarrow> bool" where
  "running_ev msg stage ev \<longleftrightarrow> (\<exists>r. status_ev msg ''running'' stage r ev)"

text \<open>A failure: one failure status, one failure result with the code, the causes joined.\<close>

inductive fail_path :: "configure_notification \<Rightarrow> string \<Rightarrow> go_error \<Rightarrow> cfg_event list \<Rightarrow> go_error option \<Rightarrow> bool"
  for msg code orig where
  "status_ev msg ''failure'' ''failed'' e1 s1 \<Longrightarrow> result_ev msg ''failure'' code e2 r1 \<Longrightarrow>
   fail_path msg code orig [s1, r1]
     (Some (Joined (orig # present
        [map_option (wrap ''publish configure failure status: '') e1,
         map_option (wrap ''publish configure failure result: '') e2])))"

text \<open>A success report: one success status, one success result, nil exactly when both got out.\<close>

inductive report_path :: "configure_notification \<Rightarrow> string \<Rightarrow> cfg_event list \<Rightarrow> go_error option \<Rightarrow> bool"
  for msg stage where
  reported: "status_ev msg ''success'' stage None s1 \<Longrightarrow> result_ev msg ''success'' [] None r1 \<Longrightarrow>
   report_path msg stage [s1, r1] None"
| unreported: "status_ev msg ''success'' stage e1 s1 \<Longrightarrow> result_ev msg ''success'' [] e2 r1 \<Longrightarrow>
   e1 \<noteq> None \<or> e2 \<noteq> None \<Longrightarrow>
   report_path msg stage [s1, r1] (Some (wrap ''configure apply succeeded but reporting failed: '' e))"

section \<open>Paths\<close>

inductive process_path ::
  "configure_notification \<Rightarrow> stored_desired_config \<Rightarrow> cfg_event list \<Rightarrow> go_error option \<Rightarrow> bool"
  for msg d where
  render_fails:
  "running_ev msg ''rendering'' p1 \<Longrightarrow> fail_path msg ''render_failed'' (wrap ''render desired config: '' e) f r \<Longrightarrow>
   process_path msg d (p1 # EvRender d (Inl e) # f) r"
| apply_fails:
  "running_ev msg ''rendering'' p1 \<Longrightarrow> running_ev msg ''rendered'' p2 \<Longrightarrow> running_ev msg ''applying'' p3 \<Longrightarrow>
   fail_path msg ''apply_failed'' (wrap ''apply rendered config: '' e) f r \<Longrightarrow>
   process_path msg d (p1 # EvRender d (Inr out) # p2 # p3 # EvApply out (Some e) # f) r"
| save_fails:
  "running_ev msg ''rendering'' p1 \<Longrightarrow> running_ev msg ''rendered'' p2 \<Longrightarrow> running_ev msg ''applying'' p3 \<Longrightarrow>
   as_Target st = cn_Target msg \<Longrightarrow> as_AppliedUUID st = dr_UUID (sd_Record d) \<Longrightarrow>
   process_path msg d [p1, EvRender d (Inr out), p2, p3, EvApply out None, EvSaveState st (Some e)]
     (Some (wrap ''configure apply succeeded but reporting failed: '' (wrap ''save local state: '' e)))"
| applied:
  "running_ev msg ''rendering'' p1 \<Longrightarrow> running_ev msg ''rendered'' p2 \<Longrightarrow> running_ev msg ''applying'' p3 \<Longrightarrow>
   as_Target st = cn_Target msg \<Longrightarrow> as_AppliedUUID st = dr_UUID (sd_Record d) \<Longrightarrow>
   report_path msg ''applied'' f r \<Longrightarrow>
   process_path msg d (p1 # EvRender d (Inr out) # p2 # p3 # EvApply out None # EvSaveState st None # f) r"

text \<open>The reason a loaded record does not fit a notification, as an error code.\<close>

definition mismatch_code :: "configure_notification \<Rightarrow> stored_desired_config \<Rightarrow> string option" where
  "mismatch_code msg d =
     (if blank (dr_Target (sd_Record d)) then Some ''desired_target_invalid''
      else if blank (dr_UUID (sd_Record d)) then Some ''desired_uuid_invalid''
      else if dr_Target (sd_Record d) \<noteq> cn_Target msg then Some ''desired_target_mismatch''
      else if dr_UUID (sd_Record d) \<noteq> cn_UUID msg then Some ''desired_uuid_mismatch''
      else None)"

definition notification_code :: "configure_notification \<Rightarrow> string option" where
  "notification_code msg =
     (if blank (cn_Target msg) then Some ''notification_target_invalid''
      else if blank (cn_UUID msg) then Some ''notification_uuid_invalid'' else None)"

definition in_sync :: "string \<Rightarrow> stored_desired_config \<Rightarrow> agent_state \<Rightarrow> bool" where
  "in_sync target d st \<longleftrightarrow> as_Target st = target \<and> as_AppliedUUID st = dr_UUID (sd_Record d)"

inductive handle_path :: "configure_notification \<Rightarrow> cfg_event list \<Rightarrow> go_error option \<Rightarrow> bool"
  for msg where
  bad_notification:
  "notification_code msg = Some code \<Longrightarrow> fail_path msg code orig f r \<Longrightarrow> handle_path msg f r"
| load_fails:
  "notification_code msg = None \<Longrightarrow> running_ev msg ''received'' p1 \<Longrightarrow> running_ev msg ''loading_desired'' p2 \<Longrightarrow>
   fail_path msg ''load_desired_failed'' (wrap ''load desired config: '' e) f r \<Longrightarrow>
   handle_path msg (p1 # p2 # EvLoadDesired (cn_Target msg) (Inl e) # f) r"
| missing:
  "notification_code msg = None \<Longrightarrow> running_ev msg ''received'' p1 \<Longrightarrow> running_ev msg ''loading_desired'' p2 \<Longrightarrow>
   fail_path msg ''desired_config_missing'' orig f r \<Longrightarrow>
   handle_path msg (p1 # p2 # EvLoadDesired (cn_Target msg) (Inr None) # f) r"
| mismatch:
  "notification_code msg = None \<Longrightarrow> running_ev msg ''received'' p1 \<Longrightarrow> running_ev msg ''loading_desired'' p2 \<Longrightarrow>
   mismatch_code msg d = Some code \<Longrightarrow> fail_path msg code orig f r \<Longrightarrow>
   handle_path msg (p1 # p2 # EvLoadDesired (cn_Target msg) (Inr (Some d)) # f) r"
| state_load_fails:
  "notification_code msg = None \<Longrightarrow> running_ev msg ''received'' p1 \<Longrightarrow> running_ev msg ''loading_desired'' p2 \<Longrightarrow>
   mismatch_code msg d = None \<Longrightarrow> fail_path msg ''state_load_failed'' (wrap ''load local state: '' e) f r \<Longrightarrow>
   handle_path msg (p1 # p2 # EvLoadDesired (cn_Target msg) (Inr (Some d)) # EvLoadState (Inl e) # f) r"
| already_in_sync:
  "notification_code msg = None \<Longrightarrow> running_ev msg ''received'' p1 \<Longrightarrow> running_ev msg ''loading_desired'' p2 \<Longrightarrow>
   mismatch_code msg d = None \<Longrightarrow> in_sync (cn_Target msg) d st \<Longrightarrow> report_path msg ''already_in_sync'' f r \<Longrightarrow>
   handle_path msg (p1 # p2 # EvLoadDesired (cn_Target msg) (Inr (Some d)) # EvLoadState (Inr st) # f) r"
| process:
  "notification_code msg = None \<Longrightarrow> running_ev msg ''received'' p1 \<Longrightarrow> running_ev msg ''loading_desired'' p2 \<Longrightarrow>
   mismatch_code msg d = None \<Longrightarrow> \<not> in_sync (cn_Target msg) d st \<Longrightarrow> process_path msg d f r \<Longrightarrow>
   handle_path msg (p1 # p2 # EvLoadDesired (cn_Target msg) (Inr (Some d)) # EvLoadState (Inr st) # f) r"

inductive reconcile_path :: "string \<Rightarrow> string \<Rightarrow> cfg_event list \<Rightarrow> go_error option \<Rightarrow> bool"
  for not_found target where
  state_unreadable:
  "status_ev (target_only target) ''failure'' ''failed'' e1 p1 \<Longrightarrow>
   reconcile_path not_found target [EvLoadState (Inl e), p1] (Some (wrap ''load local state: '' e))"
| nothing_desired:
  "errors_as_agentcore e = Some not_found \<Longrightarrow>
   reconcile_path not_found target [EvLoadState (Inr st), EvLoadDesired target (Inl e)] None"
| desired_unreadable:
  "errors_as_agentcore e \<noteq> Some not_found \<Longrightarrow> status_ev (target_only target) ''failure'' ''failed'' e1 p1 \<Longrightarrow>
   reconcile_path not_found target [EvLoadState (Inr st), EvLoadDesired target (Inl e), p1]
     (Some (wrap ''load desired config: '' e))"
| desired_nil:
  "reconcile_path not_found target [EvLoadState (Inr st), EvLoadDesired target (Inr None)] None"
| nothing_to_do:
  "in_sync target d st \<Longrightarrow>
   reconcile_path not_found target [EvLoadState (Inr st), EvLoadDesired target (Inr (Some d))] None"
| drift:
  "\<not> in_sync target d st \<Longrightarrow> process_path (reconcile_msg d) d f r \<Longrightarrow>
   reconcile_path not_found target (EvLoadState (Inr st) # EvLoadDesired target (Inr (Some d)) # f) r"

section \<open>The service follows the paths\<close>

lemma wp_cfg_now [wp_intro]: "(\<And>now w'. Q now (s\<lparr>world := w'\<rparr>)) \<Longrightarrow> wp (cfg_now c) Q s"
  by (auto simp: cfg_now_def intro: wp_intro)

lemma wp_logs [wp_intro]:
  assumes "\<And>w' ls. Q () (s\<lparr>world := w', logs := ls\<rparr>)"
  shows "wp (logInfo c m kv) Q s" "wp (logDebug c m kv) Q s" "wp (logWarn c m kv) Q s" "wp (logError c m kv) Q s"
  using assms by (simp_all add: logInfo_def logDebug_def logWarn_def logError_def wp_emit_log)

lemma status_evI:
  "status_ev msg status stage r
     (EvStatus (BuildStatus (cn_RPCID msg) (cn_Target msg) (cn_UUID msg) status stage message now) r)"
  by (auto simp: status_ev_def)

lemma result_evI:
  "result_ev msg result code r
     (EvResult (BuildResult (cn_RPCID msg) (cn_Target msg) ''configure'' (cn_UUID msg) []
        result code message [] now) r)"
  by (auto simp: result_ev_def)

lemma wp_publishStatus [wp_intro]:
  assumes "\<And>ev r w'. status_ev msg status stage r ev \<Longrightarrow> Q r (s\<lparr>world := w', trace := trace s @ [ev]\<rparr>)"
  shows "wp (publishStatus sv c msg status stage message) Q s"
  by (auto simp: publishStatus_def wp_simps intro!: wp_intro assms status_evI)

lemma wp_publishSuccessResult [wp_intro]:
  assumes "\<And>ev r w'. result_ev msg ''success'' [] r ev \<Longrightarrow> Q r (s\<lparr>world := w', trace := trace s @ [ev]\<rparr>)"
  shows "wp (publishSuccessResult sv c msg message) Q s"
  by (auto simp: publishSuccessResult_def wp_simps intro!: wp_intro assms result_evI)

lemma wp_publishFailureResult [wp_intro]:
  assumes "\<And>ev r w'. result_ev msg ''failure'' code r ev \<Longrightarrow> Q r (s\<lparr>world := w', trace := trace s @ [ev]\<rparr>)"
  shows "wp (publishFailureResult sv c msg code message) Q s"
  by (auto simp: publishFailureResult_def wp_simps intro!: wp_intro assms result_evI)

lemma running_evI: "status_ev msg ''running'' stage r ev \<Longrightarrow> running_ev msg stage ev"
  by (auto simp: running_ev_def)

lemma wp_progress [wp_intro]:
  assumes "\<And>ev w' ls. running_ev msg stage ev \<Longrightarrow>
    Q () (s\<lparr>world := w', trace := trace s @ [ev], logs := ls\<rparr>)"
  shows "wp (progress sv c msg stage message) Q s"
proof -
  have q: "Q () (s\<lparr>world := w', trace := trace s @ [ev]\<rparr>)" if "running_ev msg stage ev" for ev w'
    using assms [OF that, where w' = w' and ls = "logs s"] by simp
  have q': "Q () (s\<lparr>trace := trace s @ [ev], world := w', logs := ls\<rparr>)" if "running_ev msg stage ev" for ev w' ls
    using assms [OF that, where w' = w' and ls = ls] by (cases s) simp
  show ?thesis
    unfolding progress_def
    by (auto simp: wp_simps intro!: wp_intro q q' running_evI split: option.split)
qed

lemma wp_load_desired [wp_intro]:
  "(\<And>r w'. Q r (s\<lparr>world := w', trace := trace s @ [EvLoadDesired target r]\<rparr>)) \<Longrightarrow>
   wp (load_desired sv c target) Q s"
  by (auto simp: load_desired_def intro!: wp_intro)

lemma wp_load_state [wp_intro]:
  "(\<And>r w'. Q r (s\<lparr>world := w', trace := trace s @ [EvLoadState r]\<rparr>)) \<Longrightarrow> wp (load_state sv c) Q s"
  by (auto simp: load_state_def intro!: wp_intro)

lemma wp_save_state [wp_intro]:
  "(\<And>r w'. Q r (s\<lparr>world := w', trace := trace s @ [EvSaveState st r]\<rparr>)) \<Longrightarrow> wp (save_state sv c st) Q s"
  by (auto simp: save_state_def intro!: wp_intro)

lemma wp_render [wp_intro]:
  "(\<And>r w'. Q r (s\<lparr>world := w', trace := trace s @ [EvRender d r]\<rparr>)) \<Longrightarrow> wp (render sv c d) Q s"
  by (auto simp: render_def intro!: wp_intro)

lemma wp_apply_rendered [wp_intro]:
  "(\<And>r w'. Q r (s\<lparr>world := w', trace := trace s @ [EvApply out r]\<rparr>)) \<Longrightarrow> wp (apply_rendered sv c out) Q s"
  by (auto simp: apply_rendered_def intro!: wp_intro)

lemma wp_reportingFailure [wp_intro]:
  assumes "\<And>w' ls e'. Q (Some (wrap ''configure apply succeeded but reporting failed: '' e)) (s\<lparr>world := w', logs := ls\<rparr>)"
  shows "wp (reportingFailure sv msg (Some e)) Q s"
  by (auto simp: reportingFailure_def wp_simps intro!: wp_intro assms)

lemma publishSuccess_Errs [simp]:
  "publishSuccessStatusErr e = map_option (wrap ''publish configure status applied: '') e"
  "publishSuccessResultErr e = map_option (wrap ''publish configure success result: '') e"
  by (simp_all add: publishSuccessStatusErr_def publishSuccessResultErr_def)

lemma fail_follows: "follows (fail sv c msg code safe orig) (fail_path msg code orig)"
  unfolding fail_def follows_def
  by (auto simp: wp_simps intro!: wp_intro) (rule fail_path.intros; assumption)

lemma process_follows: "follows (processDesiredConfigLocked sv c msg d) (process_path msg d)"
  unfolding processDesiredConfigLocked_def follows_def
  by (auto simp: wp_simps intro!: wp_intro wp_follows [OF fail_follows] split: option.split sum.split)
    (fastforce intro: process_path.intros report_path.intros)+


lemma handle_locked_follows: "follows (handle_locked sv c msg) (handle_path msg)"
  unfolding handle_locked_def follows_def
  by (auto simp: wp_simps intro!: wp_intro wp_follows [OF fail_follows] wp_follows [OF process_follows]
      split: option.split sum.split)
    (fastforce simp: notification_code_def mismatch_code_def in_sync_def intro: handle_path.intros report_path.intros)+

lemma reconcile_locked_follows: "follows (reconcile_locked nf sv c target) (reconcile_path nf target)"
  unfolding reconcile_locked_def reconcile_degraded_def follows_def
  by (auto simp: wp_simps intro!: wp_intro wp_follows [OF process_follows]
      split: option.split sum.split)
    (fastforce simp: in_sync_def intro: reconcile_path.intros)+


text \<open>What a call of \<^verbatim>\<open>Handle\<close> or \<^verbatim>\<open>Reconcile\<close> adds, mutex included; nothing on a nil context.\<close>

inductive locked_path ::
  "'w ctx \<Rightarrow> (cfg_event list \<Rightarrow> go_error option \<Rightarrow> bool) \<Rightarrow> cfg_event list \<Rightarrow> go_error option \<Rightarrow> bool"
  for c P where
  locked: "c \<noteq> nil_ctx \<Longrightarrow> P t r \<Longrightarrow> locked_path c P (EvLock # t @ [EvUnlock]) r"
| rejected: "c = nil_ctx \<Longrightarrow> locked_path c P [] (Some e)"

lemma Handle_follows: "follows (Handle sv c msg) (locked_path c (handle_path msg))"
  unfolding Handle_def follows_def
  by (auto simp: wp_simps intro!: wp_intro wp_follows [OF handle_locked_follows] locked_path.intros split: option.split)

lemma Reconcile_follows: "follows (Reconcile nf sv c target) (locked_path c (reconcile_path nf target))"
  unfolding Reconcile_def follows_def
  by (auto simp: wp_simps intro!: wp_intro wp_follows [OF reconcile_locked_follows] locked_path.intros split: option.split)

end
