(* ===== verification/ConfigureProps.thy ===== *)
theory ConfigureProps
  imports ConfigurePaths
begin

text \<open>
  What the configure workflow guarantees whatever its collaborators do, read off its paths.
\<close>

named_theorems ev_simps "how the projections of a trace treat one event"

section \<open>Projections of a trace\<close>

text \<open>
  \<open>core\<close> is what the service did with the desired config, the checkpoint, the renderer and the
  apply engine; \<open>results\<close> are the results it published.
\<close>

definition core :: "cfg_event list \<Rightarrow> cfg_event list" where
  "core t = filter (\<lambda>ev. case ev of EvStatus _ _ \<Rightarrow> False | EvResult _ _ \<Rightarrow> False | EvLock \<Rightarrow> False
                        | EvUnlock \<Rightarrow> False | _ \<Rightarrow> True) t"

definition results :: "cfg_event list \<Rightarrow> (result_envelope \<times> go_error option) list" where
  "results t = List.map_filter (\<lambda>ev. case ev of EvResult m e \<Rightarrow> Some (m, e) | _ \<Rightarrow> None) t"

definition statuses :: "cfg_event list \<Rightarrow> (status_envelope \<times> go_error option) list" where
  "statuses t = List.map_filter (\<lambda>ev. case ev of EvStatus m e \<Rightarrow> Some (m, e) | _ \<Rightarrow> None) t"

lemma core_simps [ev_simps]:
  "core [] = []" "core (t @ u) = core t @ core u"
  "core (EvLock # t) = core t" "core (EvUnlock # t) = core t"
  "core (EvStatus a b # t) = core t" "core (EvResult c b # t) = core t"
  "core (EvLoadDesired tg ld # t) = EvLoadDesired tg ld # core t"
  "core (EvLoadState ls # t) = EvLoadState ls # core t"
  "core (EvSaveState st b # t) = EvSaveState st b # core t"
  "core (EvRender d ro # t) = EvRender d ro # core t"
  "core (EvApply out b # t) = EvApply out b # core t"
  by (simp_all add: core_def)

lemma results_simps [ev_simps]:
  "results [] = []" "results (t @ u) = results t @ results u"
  "results (EvLock # t) = results t" "results (EvUnlock # t) = results t"
  "results (EvStatus a b # t) = results t" "results (EvResult c b # t) = (c, b) # results t"
  "results (EvLoadDesired tg ld # t) = results t" "results (EvLoadState ls # t) = results t"
  "results (EvSaveState st b # t) = results t" "results (EvRender d ro # t) = results t"
  "results (EvApply out b # t) = results t"
  by (simp_all add: results_def List.map_filter_def)

lemma statuses_simps [ev_simps]:
  "statuses [] = []" "statuses (t @ u) = statuses t @ statuses u"
  "statuses (EvLock # t) = statuses t" "statuses (EvUnlock # t) = statuses t"
  "statuses (EvStatus a b # t) = (a, b) # statuses t" "statuses (EvResult c b # t) = statuses t"
  "statuses (EvLoadDesired tg ld # t) = statuses t" "statuses (EvLoadState ls # t) = statuses t"
  "statuses (EvSaveState st b # t) = statuses t" "statuses (EvRender d ro # t) = statuses t"
  "statuses (EvApply out b # t) = statuses t"
  by (simp_all add: statuses_def List.map_filter_def)

lemma core_reports [ev_simps]:
  "status_ev msg st sg e ev \<Longrightarrow> core (ev # t) = core t"
  "running_ev msg sg ev \<Longrightarrow> core (ev # t) = core t"
  "result_ev msg res code e ev \<Longrightarrow> core (ev # t) = core t"
  by (auto simp: status_ev_def running_ev_def result_ev_def core_simps)

lemma results_statuses [ev_simps]:
  "status_ev msg st sg e ev \<Longrightarrow> results (ev # t) = results t"
  "running_ev msg sg ev \<Longrightarrow> results (ev # t) = results t"
  by (auto simp: status_ev_def running_ev_def results_simps)

lemma in_core:
  "EvSaveState st e \<in> set t \<longleftrightarrow> EvSaveState st e \<in> set (core t)"
  "EvApply out e \<in> set t \<longleftrightarrow> EvApply out e \<in> set (core t)"
  "EvRender d ro \<in> set t \<longleftrightarrow> EvRender d ro \<in> set (core t)"
  "EvLoadDesired tg ld \<in> set t \<longleftrightarrow> EvLoadDesired tg ld \<in> set (core t)"
  "EvLoadState ls \<in> set t \<longleftrightarrow> EvLoadState ls \<in> set (core t)"
  by (simp_all add: core_def)

lemma in_results: "EvResult m e \<in> set t \<longleftrightarrow> (m, e) \<in> set (results t)"
  by (induction t) (auto simp: results_def List.map_filter_def split: cfg_event.splits option.splits)

lemma in_statuses: "EvStatus m e \<in> set t \<longleftrightarrow> (m, e) \<in> set (statuses t)"
  by (induction t) (auto simp: statuses_def List.map_filter_def split: cfg_event.splits option.splits)

lemma subseq_core: "subseq xs (core t) \<Longrightarrow> subseq xs t"
  unfolding core_def by (rule subseq_order.trans [OF _ subseq_filter_left])

text \<open>A result with the notification's identity.\<close>

definition result_for :: "configure_notification \<Rightarrow> string \<Rightarrow> string \<Rightarrow> result_envelope \<Rightarrow> bool" where
  "result_for msg res code m \<longleftrightarrow>
     re_RPCID m = cn_RPCID msg \<and> re_Target m = cn_Target msg \<and> re_UUID m = cn_UUID msg \<and>
     re_CommandType m = ''configure'' \<and> re_Result m = res \<and> re_ErrorCode m = code"

definition status_for :: "configure_notification \<Rightarrow> string \<Rightarrow> string \<Rightarrow> status_envelope \<Rightarrow> bool" where
  "status_for msg st sg m \<longleftrightarrow>
     se_RPCID m = cn_RPCID msg \<and> se_Target m = cn_Target msg \<and> se_UUID m = cn_UUID msg \<and>
     se_Status m = st \<and> se_Stage m = sg"

lemma results_result:
  "result_ev msg res code e ev \<Longrightarrow> \<exists>m. result_for msg res code m \<and>
     (\<forall>t. results (ev # t) = (m, e) # results t) \<and> (\<forall>t. statuses (ev # t) = statuses t)"
  by (auto simp: result_ev_def results_simps statuses_simps result_for_def)

section \<open>What each path amounts to\<close>

text \<open>One failure result with the code was published, and an error is returned.\<close>

definition failed :: "configure_notification \<Rightarrow> string \<Rightarrow> cfg_event list \<Rightarrow> go_error option \<Rightarrow> bool" where
  "failed msg code t r \<longleftrightarrow>
     (\<exists>m e. results t = [(m, e)] \<and> result_for msg ''failure'' code m) \<and> r \<noteq> None"

text \<open>One success result was published; nil is returned exactly when it and the success status got out.\<close>

definition reported :: "configure_notification \<Rightarrow> cfg_event list \<Rightarrow> go_error option \<Rightarrow> bool" where
  "reported msg t r \<longleftrightarrow>
     (\<exists>m e. results t = [(m, e)] \<and> result_for msg ''success'' [] m \<and> (r = None \<longrightarrow> e = None)) \<and>
     (r = None \<longleftrightarrow> (\<forall>(m, e)\<in>set (results t). e = None) \<and>
                   (\<forall>(m, e)\<in>set (statuses t). se_Status m = ''success'' \<longrightarrow> e = None))"

lemma fail_summary:
  "fail_path msg code orig t r \<Longrightarrow> core t = [] \<and> failed msg code t r"
  by (induction rule: fail_path.induct)
    (auto simp: ev_simps failed_def dest!: results_result)

lemma statuses_reports:
  "status_ev msg st sg e ev \<Longrightarrow> \<exists>m. status_for msg st sg m \<and> (\<forall>t. statuses (ev # t) = (m, e) # statuses t)"
  "running_ev msg sg ev \<Longrightarrow> \<exists>m e. status_for msg ''running'' sg m \<and> (\<forall>t. statuses (ev # t) = (m, e) # statuses t)"
  by (auto simp: status_ev_def running_ev_def statuses_simps status_for_def)

lemma report_summary:
  "report_path msg stage t r \<Longrightarrow> core t = [] \<and> reported msg t r"
  by (induction rule: report_path.induct)
    (auto simp: ev_simps reported_def status_for_def
      dest!: results_result statuses_reports(1))

lemma reported_Cons_running [simp]:
  "running_ev msg sg ev \<Longrightarrow> reported msg (ev # t) r = reported msg t r"
  "running_ev msg sg ev \<Longrightarrow> failed msg code (ev # t) r = failed msg code t r"
  by (auto simp: reported_def failed_def ev_simps status_for_def dest!: statuses_reports(2))

lemma reported_Cons_core [simp]:
  "reported msg (EvRender d ro # t) r = reported msg t r"
  "reported msg (EvApply out b # t) r = reported msg t r"
  "reported msg (EvSaveState st b # t) r = reported msg t r"
  "reported msg (EvLoadState ls # t) r = reported msg t r"
  "reported msg (EvLoadDesired tg ld # t) r = reported msg t r"
  "failed msg code (EvRender d ro # t) r = failed msg code t r"
  "failed msg code (EvApply out b # t) r = failed msg code t r"
  "failed msg code (EvSaveState st b # t) r = failed msg code t r"
  "failed msg code (EvLoadState ls # t) r = failed msg code t r"
  "failed msg code (EvLoadDesired tg ld # t) r = failed msg code t r"
  by (simp_all add: reported_def failed_def ev_simps)

text \<open>The four ways through the shared part, as their calls and their report\<close>

definition checkpoint_of :: "configure_notification \<Rightarrow> stored_desired_config \<Rightarrow> agent_state \<Rightarrow> bool" where
  "checkpoint_of msg d st \<longleftrightarrow> as_Target st = cn_Target msg \<and> as_AppliedUUID st = dr_UUID (sd_Record d)"

inductive process_core ::
  "configure_notification \<Rightarrow> stored_desired_config \<Rightarrow> cfg_event list \<Rightarrow> cfg_event list \<Rightarrow> go_error option \<Rightarrow> bool"
  for msg d t where
  "failed msg ''render_failed'' t r \<Longrightarrow> process_core msg d t [EvRender d (Inl e)] r"
| "failed msg ''apply_failed'' t r \<Longrightarrow> process_core msg d t [EvRender d (Inr out), EvApply out (Some e)] r"
| "checkpoint_of msg d st \<Longrightarrow> results t = [] \<Longrightarrow>
   process_core msg d t [EvRender d (Inr out), EvApply out None, EvSaveState st (Some e)] (Some e')"
| "checkpoint_of msg d st \<Longrightarrow> reported msg t r \<Longrightarrow>
   process_core msg d t [EvRender d (Inr out), EvApply out None, EvSaveState st None] r"

lemma process_summary: "process_path msg d t r \<Longrightarrow> process_core msg d t (core t) r"
  by (induction rule: process_path.induct)
    (auto simp: ev_simps checkpoint_of_def intro!: process_core.intros dest!: fail_summary report_summary)

text \<open>And the ways through \<^verbatim>\<open>Handle\<close>\<close>

inductive handle_core ::
  "configure_notification \<Rightarrow> cfg_event list \<Rightarrow> cfg_event list \<Rightarrow> go_error option \<Rightarrow> bool"
  for msg t where
  "notification_code msg = Some code \<Longrightarrow> failed msg code t r \<Longrightarrow> handle_core msg t [] r"
| "notification_code msg = None \<Longrightarrow> failed msg ''load_desired_failed'' t r \<Longrightarrow>
   handle_core msg t [EvLoadDesired (cn_Target msg) (Inl e)] r"
| "notification_code msg = None \<Longrightarrow> failed msg ''desired_config_missing'' t r \<Longrightarrow>
   handle_core msg t [EvLoadDesired (cn_Target msg) (Inr None)] r"
| "notification_code msg = None \<Longrightarrow> mismatch_code msg d = Some code \<Longrightarrow> failed msg code t r \<Longrightarrow>
   handle_core msg t [EvLoadDesired (cn_Target msg) (Inr (Some d))] r"
| "notification_code msg = None \<Longrightarrow> mismatch_code msg d = None \<Longrightarrow> failed msg ''state_load_failed'' t r \<Longrightarrow>
   handle_core msg t [EvLoadDesired (cn_Target msg) (Inr (Some d)), EvLoadState (Inl e)] r"
| "notification_code msg = None \<Longrightarrow> mismatch_code msg d = None \<Longrightarrow> in_sync (cn_Target msg) d st \<Longrightarrow>
   reported msg t r \<Longrightarrow>
   handle_core msg t [EvLoadDesired (cn_Target msg) (Inr (Some d)), EvLoadState (Inr st)] r"
| "notification_code msg = None \<Longrightarrow> mismatch_code msg d = None \<Longrightarrow> \<not> in_sync (cn_Target msg) d st \<Longrightarrow>
   process_core msg d t k r \<Longrightarrow>
   handle_core msg t (EvLoadDesired (cn_Target msg) (Inr (Some d)) # EvLoadState (Inr st) # k) r"

lemma process_core_Cons [simp]:
  "running_ev msg sg ev \<Longrightarrow> process_core msg d (ev # t) k r = process_core msg d t k r"
  "process_core msg d (EvLoadState ls # t) k r = process_core msg d t k r"
  "process_core msg d (EvLoadDesired tg ld # t) k r = process_core msg d t k r"
  by (simp_all add: process_core.simps ev_simps)

lemma handle_summary: "handle_path msg t r \<Longrightarrow> handle_core msg t (core t) r"
  by (induction rule: handle_path.induct)
    (auto simp: ev_simps dest!: fail_summary report_summary process_summary
      intro!: handle_core.intros(1-6) intro: handle_core.intros(7))

lemma summary_locks [simp]:
  "failed msg code (EvLock # t @ [EvUnlock]) = failed msg code t"
  "reported msg (EvLock # t @ [EvUnlock]) = reported msg t"
  by (simp_all add: fun_eq_iff failed_def reported_def ev_simps)

lemma process_core_locks [simp]:
  "process_core msg d (EvLock # t @ [EvUnlock]) k r = process_core msg d t k r"
  by (simp add: process_core.simps ev_simps)

lemma handle_core_locks [simp]:
  "handle_core msg (EvLock # t @ [EvUnlock]) k r = handle_core msg t k r"
  by (simp add: handle_core.simps)

section \<open>Runs of the two entry points\<close>

abbreviation handle_events where
  "handle_events sv c msg s \<equiv> events (Handle sv c msg) s"

abbreviation handle_outcome where
  "handle_outcome sv c msg s \<equiv> outcome (Handle sv c msg) s"

abbreviation reconcile_events where
  "reconcile_events nf sv c target s \<equiv> events (Reconcile nf sv c target) s"

abbreviation reconcile_outcome where
  "reconcile_outcome nf sv c target s \<equiv> outcome (Reconcile nf sv c target) s"

lemma Handle_nil_ctx [simp]:
  "handle_events sv nil_ctx msg s = []" "\<exists>e. handle_outcome sv nil_ctx msg s = Some e"
  using follows_events [OF Handle_follows, of nil_ctx msg sv s] by (auto elim: locked_path.cases)

lemma Reconcile_nil_ctx [simp]:
  "reconcile_events nf sv nil_ctx target s = []" "\<exists>e. reconcile_outcome nf sv nil_ctx target s = Some e"
  using follows_events [OF Reconcile_follows, of nil_ctx nf target sv s] by (auto elim: locked_path.cases)

lemma Handle_path:
  assumes "c \<noteq> nil_ctx"
  obtains t where "handle_events sv c msg s = EvLock # t @ [EvUnlock]" "handle_path msg t (handle_outcome sv c msg s)"
  using follows_events [OF Handle_follows, of c msg sv s] assms by (auto elim: locked_path.cases)

lemma Reconcile_path:
  assumes "c \<noteq> nil_ctx"
  obtains t where "reconcile_events nf sv c target s = EvLock # t @ [EvUnlock]"
    "reconcile_path nf target t (reconcile_outcome nf sv c target s)"
  using follows_events [OF Reconcile_follows, of c nf target sv s] assms by (auto elim: locked_path.cases)

lemma Handle_core:
  "c \<noteq> nil_ctx \<Longrightarrow>
   handle_core msg (handle_events sv c msg s) (core (handle_events sv c msg s)) (handle_outcome sv c msg s)"
  by (rule Handle_path [of c sv msg s]) (auto simp: ev_simps dest: handle_summary)

lemma Handle_core_Some:
  "handle_core msg (handle_events sv (Some cx) msg s) (core (handle_events sv (Some cx) msg s))
     (handle_outcome sv (Some cx) msg s)"
  by (rule Handle_core) simp

lemma Handle_core_ev:
  "ev \<in> set (handle_events sv c msg s) \<Longrightarrow>
   handle_core msg (handle_events sv c msg s) (core (handle_events sv c msg s)) (handle_outcome sv c msg s)"
  by (rule Handle_core) (cases c; simp)

section \<open>Properties of Handle\<close>

lemma mismatch_code_None:
  "mismatch_code msg d = None \<Longrightarrow> dr_Target (sd_Record d) = cn_Target msg \<and> dr_UUID (sd_Record d) = cn_UUID msg"
  by (auto simp: mismatch_code_def split: if_splits)

lemma handle_core_save:
  "handle_core msg t k r \<Longrightarrow> EvSaveState st e \<in> set k \<Longrightarrow>
   \<exists>d out ls. k = [EvLoadDesired (cn_Target msg) (Inr (Some d)), EvLoadState ls,
      EvRender d (Inr out), EvApply out None, EvSaveState st e] \<and>
     mismatch_code msg d = None \<and> checkpoint_of msg d st"
  by (auto elim!: handle_core.cases process_core.cases)

lemma handle_core_success:
  "handle_core msg t k r \<Longrightarrow> (m, e) \<in> set (results t) \<Longrightarrow> re_Result m = ''success'' \<Longrightarrow>
   \<exists>d st. mismatch_code msg d = None \<and>
     ((\<exists>ls out. k = [EvLoadDesired (cn_Target msg) (Inr (Some d)), EvLoadState ls,
          EvRender d (Inr out), EvApply out None, EvSaveState st None] \<and> checkpoint_of msg d st) \<or>
      (k = [EvLoadDesired (cn_Target msg) (Inr (Some d)), EvLoadState (Inr st)] \<and> in_sync (cn_Target msg) d st))"
  by (auto elim!: handle_core.cases process_core.cases simp: failed_def reported_def result_for_def)

lemma handle_core_results:
  "handle_core msg t k r \<Longrightarrow>
   length (results t) = (if \<exists>st e. EvSaveState st (Some e) \<in> set k then 0 else 1)"
  by (auto elim!: handle_core.cases process_core.cases simp: failed_def reported_def)

lemma handle_core_no_failure:
  "handle_core msg t k r \<Longrightarrow> EvApply out None \<in> set k \<Longrightarrow> (m, e) \<in> set (results t) \<Longrightarrow> re_Result m = ''success''"
  by (auto elim!: handle_core.cases process_core.cases simp: failed_def reported_def result_for_def)

lemma handle_core_nil:
  "handle_core msg t k r \<Longrightarrow>
   r = None \<longleftrightarrow> (\<exists>m. (m, None) \<in> set (results t) \<and> re_Result m = ''success'') \<and>
       (\<forall>(m, e)\<in>set (statuses t). se_Status m = ''success'' \<longrightarrow> e = None)"
  by (auto elim!: handle_core.cases process_core.cases simp: failed_def reported_def result_for_def)

text \<open>The failure a run met, as the code its result must carry, computed from the calls alone.\<close>

fun core_failure :: "cfg_event list \<Rightarrow> string option" where
  "core_failure [] = None"
| "core_failure (EvLoadState (Inl e) # k) = Some ''state_load_failed''"
| "core_failure (EvRender d (Inl e) # k) = Some ''render_failed''"
| "core_failure (EvApply out (Some e) # k) = Some ''apply_failed''"
| "core_failure (_ # k) = core_failure k"

definition failure_code :: "configure_notification \<Rightarrow> cfg_event list \<Rightarrow> string option" where
  "failure_code msg k =
     (case notification_code msg of
        Some code \<Rightarrow> Some code
      | None \<Rightarrow>
          (case k of
             EvLoadDesired tg (Inl e) # _ \<Rightarrow> Some ''load_desired_failed''
           | EvLoadDesired tg (Inr None) # _ \<Rightarrow> Some ''desired_config_missing''
           | EvLoadDesired tg (Inr (Some d)) # k' \<Rightarrow>
               (case mismatch_code msg d of Some code \<Rightarrow> Some code | None \<Rightarrow> core_failure k')
           | _ \<Rightarrow> None))"

lemma handle_core_code:
  "handle_core msg t k r \<Longrightarrow>
   failure_code msg k = Some code \<longleftrightarrow>
     (\<exists>m e. (m, e) \<in> set (results t) \<and> re_Result m = ''failure'' \<and> re_ErrorCode m = code)"
  by (auto elim!: handle_core.cases process_core.cases
      simp: failure_code_def failed_def reported_def result_for_def)

section \<open>Whose messages they are\<close>

text \<open>A status or a result that names the notification's RPC, target and UUID\<close>

definition carries :: "configure_notification \<Rightarrow> cfg_event \<Rightarrow> bool" where
  "carries msg ev \<longleftrightarrow>
     (case ev of
        EvStatus m _ \<Rightarrow> se_Version m = wire_Version \<and>
          se_RPCID m = cn_RPCID msg \<and> se_Target m = cn_Target msg \<and> se_UUID m = cn_UUID msg
      | EvResult m _ \<Rightarrow> re_Version m = wire_Version \<and> re_CommandType m = ''configure'' \<and> re_Payload m = [] \<and>
          re_RPCID m = cn_RPCID msg \<and> re_Target m = cn_Target msg \<and> re_UUID m = cn_UUID msg
      | _ \<Rightarrow> True)"

lemma carries_simps [simp]:
  "status_ev msg st sg e ev \<Longrightarrow> carries msg ev"
  "running_ev msg sg ev \<Longrightarrow> carries msg ev"
  "result_ev msg res code e ev \<Longrightarrow> carries msg ev"
  "carries msg EvLock" "carries msg EvUnlock" "carries msg (EvLoadState ls)" "carries msg (EvSaveState ast b)"
  "carries msg (EvRender d ro)" "carries msg (EvApply out b)" "carries msg (EvLoadDesired tg ld)"
  by (auto simp: carries_def status_ev_def running_ev_def result_ev_def)

lemma fail_carries: "fail_path msg code orig t r \<Longrightarrow> ev \<in> set t \<Longrightarrow> carries msg ev"
  by (auto elim!: fail_path.cases)

lemma report_carries: "report_path msg stage t r \<Longrightarrow> ev \<in> set t \<Longrightarrow> carries msg ev"
  by (auto elim!: report_path.cases)

lemma process_carries: "process_path msg d t r \<Longrightarrow> ev \<in> set t \<Longrightarrow> carries msg ev"
  by (auto elim!: process_path.cases dest: fail_carries report_carries)

lemma handle_carries: "handle_path msg t r \<Longrightarrow> ev \<in> set t \<Longrightarrow> carries msg ev"
  by (auto elim!: handle_path.cases dest: fail_carries report_carries process_carries)

section \<open>Reconcile\<close>

inductive reconcile_core ::
  "string \<Rightarrow> string \<Rightarrow> cfg_event list \<Rightarrow> cfg_event list \<Rightarrow> go_error option \<Rightarrow> bool"
  for nf target t where
  "results t = [] \<Longrightarrow> reconcile_core nf target t [EvLoadState (Inl e)] (Some e')"
| "errors_as_agentcore e = Some nf \<Longrightarrow> results t = [] \<Longrightarrow> statuses t = [] \<Longrightarrow>
   reconcile_core nf target t [EvLoadState (Inr st), EvLoadDesired target (Inl e)] None"
| "errors_as_agentcore e \<noteq> Some nf \<Longrightarrow> results t = [] \<Longrightarrow>
   reconcile_core nf target t [EvLoadState (Inr st), EvLoadDesired target (Inl e)] (Some e')"
| "results t = [] \<Longrightarrow> statuses t = [] \<Longrightarrow>
   reconcile_core nf target t [EvLoadState (Inr st), EvLoadDesired target (Inr None)] None"
| "in_sync target d st \<Longrightarrow> results t = [] \<Longrightarrow> statuses t = [] \<Longrightarrow>
   reconcile_core nf target t [EvLoadState (Inr st), EvLoadDesired target (Inr (Some d))] None"
| "\<not> in_sync target d st \<Longrightarrow> process_core (reconcile_msg d) d t k r \<Longrightarrow>
   reconcile_core nf target t (EvLoadState (Inr st) # EvLoadDesired target (Inr (Some d)) # k) r"

lemma reconcile_summary: "reconcile_path nf target t r \<Longrightarrow> reconcile_core nf target t (core t) r"
  by (induction rule: reconcile_path.induct)
    (auto simp: ev_simps dest!: process_summary intro!: reconcile_core.intros(1-5) intro: reconcile_core.intros(6))

lemma reconcile_core_locks [simp]:
  "reconcile_core nf target (EvLock # t @ [EvUnlock]) k r = reconcile_core nf target t k r"
  by (simp add: reconcile_core.simps ev_simps)

lemma Reconcile_core_Some:
  "reconcile_core nf target (reconcile_events nf sv (Some cx) target s)
     (core (reconcile_events nf sv (Some cx) target s)) (reconcile_outcome nf sv (Some cx) target s)"
  by (rule Reconcile_path [of "Some cx" nf sv target s]) (auto simp: ev_simps dest: reconcile_summary)

text \<open>The four ways to nil\<close>

lemma process_path_nil:
  assumes "process_path msg d t None"
  shows "\<exists>out st sm rm. subseq [EvRender d (Inr out), EvApply out None, EvSaveState st None, EvStatus sm None, EvResult rm None] t \<and>
    checkpoint_of msg d st \<and> status_for msg ''success'' ''applied'' sm \<and> result_for msg ''success'' [] rm"
  using assms
proof cases
  case (applied p1 p2 p3 st f out)
  from \<open>report_path msg ''applied'' f None\<close> obtain s1 r1 where f: "f = [s1, r1]"
    "status_ev msg ''success'' ''applied'' None s1" "result_ev msg ''success'' [] None r1"
    by cases auto
  then obtain sm rm where "s1 = EvStatus sm None" "status_for msg ''success'' ''applied'' sm"
    "r1 = EvResult rm None" "result_for msg ''success'' [] rm"
    by (auto simp: status_ev_def result_ev_def status_for_def result_for_def)
  with applied f show ?thesis
    by (intro exI [of _ out] exI [of _ st] exI [of _ sm] exI [of _ rm]) (auto simp: checkpoint_of_def)
qed (erule fail_path.cases, simp)+

lemma reconcile_path_nil:
  assumes "reconcile_path nf target t None"
  shows "(\<exists>e. EvLoadDesired target (Inl e) \<in> set t \<and> errors_as_agentcore e = Some nf) \<or>
     EvLoadDesired target (Inr None) \<in> set t \<or>
     (\<exists>d st. subseq [EvLoadState (Inr st), EvLoadDesired target (Inr (Some d))] t \<and> in_sync target d st) \<or>
     (\<exists>d out st sm rm. subseq [EvLoadDesired target (Inr (Some d)), EvRender d (Inr out), EvApply out None,
         EvSaveState st None, EvStatus sm None, EvResult rm None] t \<and>
       checkpoint_of (reconcile_msg d) d st \<and> status_for (reconcile_msg d) ''success'' ''applied'' sm \<and>
       result_for (reconcile_msg d) ''success'' [] rm)"
  using assms
proof cases
  case (nothing_to_do d st)
  then have "subseq [EvLoadState (Inr st), EvLoadDesired target (Inr (Some d))] t" by simp
  with nothing_to_do show ?thesis by blast
next
  case (drift d st f)
  from process_path_nil [OF drift(3)] obtain out st' sm rm where
    f: "subseq [EvRender d (Inr out), EvApply out None, EvSaveState st' None, EvStatus sm None, EvResult rm None] f"
    "checkpoint_of (reconcile_msg d) d st'" "status_for (reconcile_msg d) ''success'' ''applied'' sm"
    "result_for (reconcile_msg d) ''success'' [] rm" by blast
  with drift(1) have "subseq [EvLoadDesired target (Inr (Some d)), EvRender d (Inr out), EvApply out None,
      EvSaveState st' None, EvStatus sm None, EvResult rm None] t" by simp
  with f show ?thesis by blast
qed auto

end
