(* ===== verification/ConfigureWorld.thy ===== *)
theory ConfigureWorld
  imports ConfigureProps
begin

text \<open>
  The configure workflow over collaborators that keep their promises: a checkpoint store, a
  renderer and an apply engine that do not touch the checkpoint, and a bus client, a clock and a
  logger that do not either.  What a run does to the checkpoint is then a function of its events,
  and what it loads is the checkpoint there was.
\<close>

section \<open>The checkpoint along a trace\<close>

definition ckpt_step :: "agent_state \<Rightarrow> cfg_event \<Rightarrow> agent_state" where
  "ckpt_step k ev = (case ev of EvSaveState st None \<Rightarrow> st | _ \<Rightarrow> k)"

definition ckpt_after :: "agent_state \<Rightarrow> cfg_event list \<Rightarrow> agent_state" where
  "ckpt_after k t = foldl ckpt_step k t"

text \<open>Every successful load answers with the checkpoint at that point.\<close>

fun coherent :: "agent_state \<Rightarrow> cfg_event list \<Rightarrow> bool" where
  "coherent k [] = True"
| "coherent k (ev # t) =
     ((case ev of EvLoadState (Inr st) \<Rightarrow> st = k | _ \<Rightarrow> True) \<and> coherent (ckpt_step k ev) t)"

lemma ckpt_after_simps [simp]:
  "ckpt_after k [] = k"
  "ckpt_after k (ev # t) = ckpt_after (ckpt_step k ev) t"
  "ckpt_after k (t @ u) = ckpt_after (ckpt_after k t) u"
  by (simp_all add: ckpt_after_def)

lemma coherent_append [simp]: "coherent k (t @ u) \<longleftrightarrow> coherent k t \<and> coherent (ckpt_after k t) u"
  by (induction t arbitrary: k) auto

lemma ckpt_step_simps [simp]:
  "ckpt_step k EvLock = k" "ckpt_step k EvUnlock = k" "ckpt_step k (EvStatus m e) = k"
  "ckpt_step k (EvResult m' e) = k" "ckpt_step k (EvLoadDesired tg ld) = k" "ckpt_step k (EvLoadState ls) = k"
  "ckpt_step k (EvRender d ro) = k" "ckpt_step k (EvApply out e) = k"
  "ckpt_step k (EvSaveState st (Some e')) = k" "ckpt_step k (EvSaveState st None) = st"
  by (simp_all add: ckpt_step_def)

lemma core_Cons:
  "core (ev # t) = (case ev of EvStatus _ _ \<Rightarrow> core t | EvResult _ _ \<Rightarrow> core t | EvLock \<Rightarrow> core t
                      | EvUnlock \<Rightarrow> core t | _ \<Rightarrow> ev # core t)"
  by (simp add: core_def split: cfg_event.split)

lemma ckpt_after_core: "ckpt_after k (core t) = ckpt_after k t"
  by (induction t arbitrary: k) (simp_all add: core_Cons ev_simps split: cfg_event.split)

lemma coherent_core: "coherent k (core t) = coherent k t"
  by (induction t arbitrary: k) (simp_all add: core_Cons ev_simps split: cfg_event.split)

text \<open>
  The relation between the states before and after: as long as what was saved can be stored, loads
  were coherent and the checkpoint is the last one saved.
\<close>

definition all_storable :: "(agent_state \<Rightarrow> bool) \<Rightarrow> cfg_event list \<Rightarrow> bool" where
  "all_storable storable t \<longleftrightarrow> (\<forall>st. EvSaveState st None \<in> set t \<longrightarrow> storable st)"

definition tracks ::
  "('w \<Rightarrow> agent_state) \<Rightarrow> (agent_state \<Rightarrow> bool) \<Rightarrow> ('w, cfg_event) tw \<Rightarrow> ('w, cfg_event) tw \<Rightarrow> bool" where
  "tracks ckpt storable s s' \<longleftrightarrow>
     (\<exists>t. trace s' = trace s @ t \<and>
        (all_storable storable t \<longrightarrow>
           coherent (ckpt (world s)) t \<and> ckpt (world s') = ckpt_after (ckpt (world s)) t))"

lemma all_storable_append [simp]:
  "all_storable storable (t @ u) \<longleftrightarrow> all_storable storable t \<and> all_storable storable u"
  by (auto simp: all_storable_def)

lemma tracks_refl: "reflp (tracks ckpt storable)"
  by (auto simp: reflp_def tracks_def all_storable_def)

lemma tracks_trans: "transp (tracks ckpt storable)"
proof (rule transpI)
  fix a b c
  assume "tracks ckpt storable a b" "tracks ckpt storable b c"
  then obtain t u where
    "trace b = trace a @ t" "all_storable storable t \<longrightarrow>
       coherent (ckpt (world a)) t \<and> ckpt (world b) = ckpt_after (ckpt (world a)) t"
    "trace c = trace b @ u" "all_storable storable u \<longrightarrow>
       coherent (ckpt (world b)) u \<and> ckpt (world c) = ckpt_after (ckpt (world b)) u"
    unfolding tracks_def by blast
  then show "tracks ckpt storable a c"
    unfolding tracks_def by (intro exI [of _ "t @ u"]) auto
qed

lemmas tracks_preorder [io_intro] = tracks_refl tracks_trans

lemma tracks_call:
  assumes "\<And>w r w'. f w = (r, w') \<Longrightarrow> storable_event r \<Longrightarrow> coherent (ckpt w) [ev r] \<and> ckpt w' = ckpt_after (ckpt w) [ev r]"
    and "\<And>r. all_storable storable [ev r] \<Longrightarrow> storable_event r"
  shows "state_io_rel (tracks ckpt storable) (call f ev)"
proof -
  have "tracks ckpt storable s (s\<lparr>world := w', trace := trace s @ [ev r]\<rparr>)" if "f (world s) = (r, w')" for s r w'
    using assms(1) [OF that] assms(2) [of r] unfolding tracks_def
    by (intro exI [of _ "[ev r]"]) auto
  then show ?thesis
    unfolding state_io_rel_def call_def by (simp split: prod.split)
qed

lemma tracks_quiet:
  assumes "\<And>w r w'. f w = (r, w') \<Longrightarrow> ckpt w' = ckpt w"
  shows "state_io_rel (tracks ckpt storable) (quiet f)"
  using assms by (auto simp: state_io_rel_def quiet_def tracks_def all_storable_def split: prod.split)

lemma tracks_locks [io_intro]:
  "state_io_rel (tracks ckpt storable) (mark EvLock)"
  "state_io_rel (tracks ckpt storable) (mark EvUnlock)"
  by (auto simp: state_io_rel_def mark_def tracks_def)

lemma tracks_emit:
  assumes "\<And>sink en w. lg = Some sink \<Longrightarrow> ckpt (sink en w) = ckpt w"
  shows "state_io_rel (tracks ckpt storable) (emit_log lg lvl msg kv)"
  using assms
  by (cases lg) (auto simp: state_io_rel_def emit_log_def tracks_def all_storable_def Let_def)

section \<open>Which checkpoint a run leaves\<close>

text \<open>A state with these names; the time is immaterial.\<close>

definition named_state :: "string \<Rightarrow> string \<Rightarrow> agent_state" where
  "named_state target uuid = \<lparr>as_Target = target, as_AppliedUUID = uuid, as_AppliedAt = 0\<rparr>"

lemma named_state_simps [simp]:
  "as_Target (named_state target uuid) = target" "as_AppliedUUID (named_state target uuid) = uuid"
  by (simp_all add: named_state_def)

definition checkpointed :: "string \<Rightarrow> string \<Rightarrow> agent_state \<Rightarrow> bool" where
  "checkpointed target uuid st \<longleftrightarrow> as_Target st = target \<and> as_AppliedUUID st = uuid"

lemma handle_core_save_names:
  "handle_core msg t k r \<Longrightarrow> EvSaveState st e \<in> set k \<Longrightarrow> checkpointed (cn_Target msg) (cn_UUID msg) st"
  by (auto simp: checkpointed_def checkpoint_of_def dest!: handle_core_save mismatch_code_None)

lemma handle_save_names:
  assumes "EvSaveState st e \<in> set (handle_events sv c msg s)"
  shows "as_Target st = cn_Target msg" "as_AppliedUUID st = cn_UUID msg"
  using handle_core_save_names [OF Handle_core_ev [OF assms] in_core(1) [THEN iffD1, OF assms]]
  by (simp_all add: checkpointed_def)

lemma handle_core_nil_ckpt:
  "handle_core msg t k None \<Longrightarrow> coherent k0 k \<Longrightarrow> k1 = ckpt_after k0 k \<Longrightarrow>
   checkpointed (cn_Target msg) (cn_UUID msg) k1"
  by (auto elim!: handle_core.cases process_core.cases
      simp: failed_def checkpointed_def checkpoint_of_def in_sync_def dest: mismatch_code_None)

lemma handle_core_changes_ckpt:
  "handle_core msg t k r \<Longrightarrow> ckpt_after k0 k \<noteq> k0 \<Longrightarrow>
   checkpointed (cn_Target msg) (cn_UUID msg) (ckpt_after k0 k) \<and>
   (\<exists>d out. subseq [EvRender d (Inr out), EvApply out None] k \<and> dr_UUID (sd_Record d) = cn_UUID msg)"
  by (auto elim!: handle_core.cases process_core.cases
      simp: checkpointed_def checkpoint_of_def dest!: mismatch_code_None)

lemma handle_core_idle:
  "handle_core msg t k r \<Longrightarrow> checkpointed (cn_Target msg) (cn_UUID msg) k0 \<Longrightarrow> coherent k0 k \<Longrightarrow>
   ev \<in> set k \<Longrightarrow> (\<exists>r. ev = EvLoadDesired (cn_Target msg) r) \<or> (\<exists>r. ev = EvLoadState r)"
  by (auto elim!: handle_core.cases process_core.cases
      simp: checkpointed_def in_sync_def dest!: mismatch_code_None)

lemma reconcile_core_save:
  "reconcile_core nf target t k r \<Longrightarrow> EvSaveState st e \<in> set k \<Longrightarrow>
   \<exists>d. EvLoadDesired target (Inr (Some d)) \<in> set k \<and>
     checkpointed (dr_Target (sd_Record d)) (dr_UUID (sd_Record d)) st"
  by (auto elim!: reconcile_core.cases process_core.cases
      simp: checkpointed_def checkpoint_of_def reconcile_msg_def)

lemma reconcile_core_unique:
  "reconcile_core nf target t k r \<Longrightarrow> EvLoadDesired target (Inr (Some d)) \<in> set k \<Longrightarrow>
   EvLoadDesired target (Inr (Some d')) \<in> set k \<Longrightarrow> d' = d"
  by (auto elim!: reconcile_core.cases process_core.cases)

lemma reconcile_core_idle:
  "reconcile_core nf target t k r \<Longrightarrow> coherent k0 k \<Longrightarrow> EvLoadDesired target (Inr (Some d)) \<in> set k \<Longrightarrow>
   checkpointed target (dr_UUID (sd_Record d)) k0 \<Longrightarrow>
   r = None \<and> k = [EvLoadState (Inr k0), EvLoadDesired target (Inr (Some d))] \<and> results t = [] \<and> statuses t = []"
  by (auto elim!: reconcile_core.cases process_core.cases simp: checkpointed_def in_sync_def)

lemma reconcile_core_drift:
  "reconcile_core nf target t k r \<Longrightarrow> coherent k0 k \<Longrightarrow> EvLoadDesired target (Inr (Some d)) \<in> set k \<Longrightarrow>
   \<not> checkpointed target (dr_UUID (sd_Record d)) k0 \<Longrightarrow> \<exists>ro. EvRender d ro \<in> set k"
  by (auto elim!: reconcile_core.cases process_core.cases simp: checkpointed_def in_sync_def)

lemma reconcile_core_applied:
  "reconcile_core nf target t k None \<Longrightarrow> EvRender d ro \<in> set k \<Longrightarrow>
   checkpointed (dr_Target (sd_Record d)) (dr_UUID (sd_Record d)) (ckpt_after k0 k)"
  by (auto elim!: reconcile_core.cases process_core.cases
      simp: failed_def checkpointed_def checkpoint_of_def reconcile_msg_def)

lemma reconcile_core_render_loaded:
  "reconcile_core nf target t k r \<Longrightarrow> EvRender d ro \<in> set k \<Longrightarrow> EvLoadDesired target (Inr (Some d)) \<in> set k"
  by (auto elim!: reconcile_core.cases process_core.cases)

lemma Reconcile_core_ev:
  assumes "ev \<in> set (reconcile_events nf sv c target s)"
  shows "reconcile_core nf target (reconcile_events nf sv c target s) (core (reconcile_events nf sv c target s))
     (reconcile_outcome nf sv c target s)"
proof -
  obtain cx where "c = Some cx" using assms by (cases c) auto
  with Reconcile_core_Some [where nf = nf and target = target and sv = sv and cx = cx and s = s]
  show ?thesis by simp
qed

lemma reconcile_save_names:
  assumes "EvSaveState st e \<in> set (reconcile_events nf sv c target s)"
  shows "\<exists>d. EvLoadDesired target (Inr (Some d)) \<in> set (reconcile_events nf sv c target s) \<and>
     checkpointed (dr_Target (sd_Record d)) (dr_UUID (sd_Record d)) st"
proof -
  let ?t = "reconcile_events nf sv c target s"
  from reconcile_core_save [OF Reconcile_core_ev [OF assms] in_core(1) [THEN iffD1, OF assms]]
  show ?thesis unfolding in_core(4) [of _ _ ?t, symmetric] .
qed

section \<open>The contract\<close>

text \<open>
  Whether a state can be stored depends on its names alone: the store refuses times it cannot
  represent.
\<close>

locale configure_world =
  checkpoint_store "cs_stateStore sv" ckpt storable +
  configure_backend "cs_renderer sv" "cs_applyEngine sv" ckpt
  for sv :: "'w configure_service"
    and ckpt :: "'w \<Rightarrow> agent_state"
    and storable :: "agent_state \<Rightarrow> bool" +
  assumes desired_keeps: "LoadDesiredConfig (cs_client sv) c target w = (ld, w') \<Longrightarrow> ckpt w' = ckpt w"
    and status_keeps: "PublishStatus (cs_client sv) c sm w = (pe, w') \<Longrightarrow> ckpt w' = ckpt w"
    and result_keeps: "PublishResult (cs_client sv) c rm w = (pe, w') \<Longrightarrow> ckpt w' = ckpt w"
    and clock_keeps: "cs_now sv w = (now, w') \<Longrightarrow> ckpt w' = ckpt w"
    and logger_keeps: "cs_logger sv = Some sink \<Longrightarrow> ckpt (sink en w) = ckpt w"
    and storable_names: "storable st \<Longrightarrow> as_Target st' = as_Target st \<Longrightarrow>
      as_AppliedUUID st' = as_AppliedUUID st \<Longrightarrow> storable st'"
begin

lemma tracks_calls [io_intro]:
  "state_io_rel (tracks ckpt storable) (cfg_now sv)"
  "state_io_rel (tracks ckpt storable) (load_desired sv c target)"
  "state_io_rel (tracks ckpt storable) (load_state sv c)"
  "state_io_rel (tracks ckpt storable) (save_state sv c st)"
  "state_io_rel (tracks ckpt storable) (render sv c d)"
  "state_io_rel (tracks ckpt storable) (apply_rendered sv c out)"
proof -
  show "state_io_rel (tracks ckpt storable) (cfg_now sv)"
    unfolding cfg_now_def by (rule tracks_quiet) (rule clock_keeps)
  show "state_io_rel (tracks ckpt storable) (load_desired sv c target)"
    unfolding load_desired_def by (rule tracks_call [where storable_event = "\<lambda>_. True"]) (simp_all add: desired_keeps)
  show "state_io_rel (tracks ckpt storable) (load_state sv c)"
    unfolding load_state_def
    by (rule tracks_call [where storable_event = "\<lambda>_. True"])
      (auto dest: load_ok load_keeps split: sum.split)
  show "state_io_rel (tracks ckpt storable) (save_state sv c st)"
    unfolding save_state_def
  proof (rule tracks_call [where storable_event = "\<lambda>r. r = None \<longrightarrow> storable st"])
    show "coherent (ckpt w) [EvSaveState st r] \<and> ckpt w' = ckpt_after (ckpt w) [EvSaveState st r]"
      if "Save (cs_stateStore sv) c st w = (r, w')" "r = None \<longrightarrow> storable st" for w r w'
      using that by (cases r) (auto dest: save_fails save_sets)
  qed (simp add: all_storable_def)
  show "state_io_rel (tracks ckpt storable) (render sv c d)"
    unfolding render_def by (rule tracks_call [where storable_event = "\<lambda>_. True"]) (simp_all add: render_keeps)
  show "state_io_rel (tracks ckpt storable) (apply_rendered sv c out)"
    unfolding apply_rendered_def by (rule tracks_call [where storable_event = "\<lambda>_. True"]) (simp_all add: apply_keeps)
qed

lemma tracks_logs [io_intro]:
  "state_io_rel (tracks ckpt storable) (logInfo sv msg kv)"
  "state_io_rel (tracks ckpt storable) (logDebug sv msg kv)"
  "state_io_rel (tracks ckpt storable) (logWarn sv msg kv)"
  "state_io_rel (tracks ckpt storable) (logError sv msg kv)"
  unfolding logInfo_def logDebug_def logWarn_def logError_def
  by (rule tracks_emit, erule logger_keeps)+

lemma tracks_publish [io_intro]:
  "state_io_rel (tracks ckpt storable) (call (PublishStatus (cs_client sv) c sm) (EvStatus sm))"
  "state_io_rel (tracks ckpt storable) (call (PublishResult (cs_client sv) c rm) (EvResult rm))"
  by (rule tracks_call [where storable_event = "\<lambda>_. True"], simp_all add: status_keeps result_keeps)+

lemma tracks_reports [io_intro]:
  "state_io_rel (tracks ckpt storable) (publishStatus sv c msg status stage message)"
  "state_io_rel (tracks ckpt storable) (publishSuccessResult sv c msg message)"
  "state_io_rel (tracks ckpt storable) (publishFailureResult sv c msg code message)"
  unfolding publishStatus_def publishSuccessResult_def publishFailureResult_def
  by (intro io_intro)+

lemma tracks_helpers [io_intro]:
  "state_io_rel (tracks ckpt storable) (progress sv c msg stage message)"
  "state_io_rel (tracks ckpt storable) (fail sv c msg code message err)"
  "state_io_rel (tracks ckpt storable) (reportingFailure sv msg e)"
  "state_io_rel (tracks ckpt storable) (reconcile_degraded sv c target lm sm err ret)"
  unfolding progress_def fail_def reportingFailure_def reconcile_degraded_def
  by (intro io_intro)+

lemma tracks_process [io_intro]:
  "state_io_rel (tracks ckpt storable) (processDesiredConfigLocked sv c msg d)"
  unfolding processDesiredConfigLocked_def by (intro io_intro)

lemma tracks_Handle: "state_io_rel (tracks ckpt storable) (Handle sv c msg)"
  unfolding Handle_def handle_locked_def by (intro io_intro)

lemma tracks_Reconcile: "state_io_rel (tracks ckpt storable) (Reconcile nf sv c target)"
  unfolding Reconcile_def reconcile_locked_def by (intro io_intro)

lemma run_tracks:
  assumes "state_io_rel (tracks ckpt storable) m" "all_storable storable (events m s)"
  shows "coherent (ckpt (world s)) (core (events m s))"
    and "ckpt (world (final m s)) = ckpt_after (ckpt (world s)) (core (events m s))"
proof -
  from assms(1) have "tracks ckpt storable s (final m s)"
    by (simp add: state_io_rel_def final_def)
  then obtain t where "trace (final m s) = trace s @ t"
    "all_storable storable t \<longrightarrow>
       coherent (ckpt (world s)) t \<and> ckpt (world (final m s)) = ckpt_after (ckpt (world s)) t"
    unfolding tracks_def by blast
  moreover from this(1) have "events m s = t" by (simp add: events_def)
  ultimately show "coherent (ckpt (world s)) (core (events m s))"
    "ckpt (world (final m s)) = ckpt_after (ckpt (world s)) (core (events m s))"
    using assms(2) by (simp_all add: coherent_core ckpt_after_core)
qed

lemma handle_storable:
  assumes "storable (named_state (cn_Target msg) (cn_UUID msg))"
  shows "all_storable storable (handle_events sv c msg s)"
  using storable_names [OF assms] handle_save_names unfolding all_storable_def by fastforce

lemmas handle_tracks = run_tracks [OF tracks_Handle handle_storable]

lemma handle_nil_checkpoint:
  assumes "storable (named_state (cn_Target msg) (cn_UUID msg))"
    and "handle_outcome sv (Some cx) msg s = None"
  shows "checkpointed (cn_Target msg) (cn_UUID msg) (ckpt (world (final (Handle sv (Some cx) msg) s)))"
proof -
  let ?m = "Handle sv (Some cx) msg"
  from handle_tracks [OF assms(1)]
  have "coherent (ckpt (world s)) (core (events ?m s))"
    "ckpt (world (final ?m s)) = ckpt_after (ckpt (world s)) (core (events ?m s))" .
  with Handle_core_Some [of msg sv cx s, unfolded assms(2)] show ?thesis
    by (rule handle_core_nil_ckpt)
qed

lemma handle_checkpoint_frame:
  assumes "storable (named_state (cn_Target msg) (cn_UUID msg))"
    and "ckpt (world (final (Handle sv c msg) s)) \<noteq> ckpt (world s)"
  shows "checkpointed (cn_Target msg) (cn_UUID msg) (ckpt (world (final (Handle sv c msg) s))) \<and>
    (\<exists>d out. subseq [EvRender d (Inr out), EvApply out None] (handle_events sv c msg s) \<and>
       dr_UUID (sd_Record d) = cn_UUID msg)"
proof (cases c)
  case None
  then have "core (handle_events sv c msg s) = []" by (simp add: ev_simps)
  with handle_tracks(2) [OF assms(1), of c s] assms(2) show ?thesis by simp
next
  case (Some cx)
  have "ckpt_after (ckpt (world s)) (core (handle_events sv c msg s)) \<noteq> ckpt (world s)"
    using handle_tracks(2) [OF assms(1), of c s] assms(2) by simp
  with Handle_core_Some [of msg sv cx s] Some
  have *: "checkpointed (cn_Target msg) (cn_UUID msg) (ckpt_after (ckpt (world s)) (core (handle_events sv c msg s))) \<and>
    (\<exists>d out. subseq [EvRender d (Inr out), EvApply out None] (core (handle_events sv c msg s)) \<and>
       dr_UUID (sd_Record d) = cn_UUID msg)"
    by (blast dest: handle_core_changes_ckpt)
  with handle_tracks(2) [OF assms(1), of c s] show ?thesis
    by (auto dest: subseq_core)
qed

lemma handle_in_sync_idle:
  assumes "storable (named_state (cn_Target msg) (cn_UUID msg))"
    and "checkpointed (cn_Target msg) (cn_UUID msg) (ckpt (world s))"
  shows "EvRender d ro \<notin> set (handle_events sv c msg s)" "EvApply out e \<notin> set (handle_events sv c msg s)"
    "EvSaveState st e' \<notin> set (handle_events sv c msg s)"
proof -
  let ?t = "handle_events sv c msg s"
  have idle: "(\<exists>r. ev = EvLoadDesired (cn_Target msg) r) \<or> (\<exists>r. ev = EvLoadState r)" if "ev \<in> set (core ?t)" for ev
  proof -
    from that have "?t \<noteq> []" by (auto simp: core_def)
    then obtain ev' where "ev' \<in> set ?t" using list.set_sel(1) by blast
    from handle_core_idle [OF Handle_core_ev [OF this] assms(2) handle_tracks(1) [OF assms(1)] that] show ?thesis .
  qed
  show "EvRender d ro \<notin> set ?t" "EvApply out e \<notin> set ?t" "EvSaveState st e' \<notin> set ?t"
    unfolding in_core(1,2,3) [of _ _ ?t] using idle by blast+
qed

lemma reconcile_storable:
  assumes "\<And>d. EvLoadDesired target (Inr (Some d)) \<in> set (reconcile_events nf sv c target s) \<Longrightarrow>
     storable (named_state (dr_Target (sd_Record d)) (dr_UUID (sd_Record d)))"
  shows "all_storable storable (reconcile_events nf sv c target s)"
  unfolding all_storable_def
proof (intro allI impI)
  fix st
  assume "EvSaveState st None \<in> set (reconcile_events nf sv c target s)"
  from reconcile_save_names [OF this] obtain d where
    "EvLoadDesired target (Inr (Some d)) \<in> set (reconcile_events nf sv c target s)"
    "checkpointed (dr_Target (sd_Record d)) (dr_UUID (sd_Record d)) st" by blast
  with storable_names [OF assms, of d st] show "storable st"
    by (simp add: checkpointed_def)
qed

lemma reconcile_tracks:
  assumes "EvLoadDesired target (Inr (Some d)) \<in> set (reconcile_events nf sv c target s)"
    and "storable (named_state (dr_Target (sd_Record d)) (dr_UUID (sd_Record d)))"
  shows "coherent (ckpt (world s)) (core (reconcile_events nf sv c target s))"
    and "ckpt (world (final (Reconcile nf sv c target) s)) =
           ckpt_after (ckpt (world s)) (core (reconcile_events nf sv c target s))"
proof -
  let ?t = "reconcile_events nf sv c target s"
  have "d' = d" if "EvLoadDesired target (Inr (Some d')) \<in> set ?t" for d'
    using reconcile_core_unique [OF Reconcile_core_ev [OF assms(1)]] assms(1) that
    by (simp add: in_core(4) [of _ _ ?t])
  with assms(2) have "all_storable storable ?t" by (intro reconcile_storable) auto
  from run_tracks [OF tracks_Reconcile this]
  show "coherent (ckpt (world s)) (core ?t)"
    "ckpt (world (final (Reconcile nf sv c target) s)) = ckpt_after (ckpt (world s)) (core ?t)" .
qed

lemma reconcile_in_sync_idle:
  assumes "EvLoadDesired target (Inr (Some d)) \<in> set (reconcile_events nf sv c target s)"
    and "storable (named_state (dr_Target (sd_Record d)) (dr_UUID (sd_Record d)))"
    and "checkpointed target (dr_UUID (sd_Record d)) (ckpt (world s))"
  shows "reconcile_outcome nf sv c target s = None"
    and "core (reconcile_events nf sv c target s) =
      [EvLoadState (Inr (ckpt (world s))), EvLoadDesired target (Inr (Some d))]"
    and "results (reconcile_events nf sv c target s) = []"
    and "statuses (reconcile_events nf sv c target s) = []"
  using reconcile_core_idle [OF Reconcile_core_ev [OF assms(1)] reconcile_tracks(1) [OF assms(1,2)]] assms
  by (simp_all add: in_core(4) [of _ _ "reconcile_events nf sv c target s"])

lemma reconcile_drift_renders:
  assumes "EvLoadDesired target (Inr (Some d)) \<in> set (reconcile_events nf sv c target s)"
    and "storable (named_state (dr_Target (sd_Record d)) (dr_UUID (sd_Record d)))"
    and "\<not> checkpointed target (dr_UUID (sd_Record d)) (ckpt (world s))"
  shows "\<exists>ro. EvRender d ro \<in> set (reconcile_events nf sv c target s)"
  using reconcile_core_drift [OF Reconcile_core_ev [OF assms(1)] reconcile_tracks(1) [OF assms(1,2)]] assms
  by (simp add: in_core(3,4) [of _ _ "reconcile_events nf sv c target s"])

lemma reconcile_applied_checkpoint:
  assumes "EvRender d ro \<in> set (reconcile_events nf sv c target s)"
    and "storable (named_state (dr_Target (sd_Record d)) (dr_UUID (sd_Record d)))"
    and "reconcile_outcome nf sv c target s = None"
  shows "checkpointed (dr_Target (sd_Record d)) (dr_UUID (sd_Record d))
    (ckpt (world (final (Reconcile nf sv c target) s)))"
proof -
  let ?t = "reconcile_events nf sv c target s"
  note core = Reconcile_core_ev [OF assms(1)]
  have r: "EvRender d ro \<in> set (core ?t)" using assms(1) by (simp add: in_core(3) [of _ _ ?t])
  from reconcile_core_render_loaded [OF core r]
  have "EvLoadDesired target (Inr (Some d)) \<in> set ?t" by (simp add: in_core(4) [of _ _ ?t])
  from reconcile_tracks(2) [OF this assms(2)] reconcile_core_applied [OF core [unfolded assms(3)] r]
  show ?thesis by simp
qed

end

section \<open>What is applied is what the notification asked for\<close>

definition names_output :: "cfg_event \<Rightarrow> bool" where
  "names_output ev \<longleftrightarrow> (case ev of EvRender d (Inr out) \<Rightarrow> output_for d out | _ \<Rightarrow> True)"

lemma names_output_simps [simp]:
  "names_output EvLock" "names_output EvUnlock" "names_output (EvStatus a b)" "names_output (EvResult c b)"
  "names_output (EvLoadDesired tg ld)" "names_output (EvLoadState ls)" "names_output (EvSaveState st b)"
  "names_output (EvApply out b)" "names_output (EvRender d (Inl e))"
  "names_output (EvRender d (Inr out)) = output_for d out"
  by (simp_all add: names_output_def)

lemma handle_core_applied_output:
  "handle_core msg t k r \<Longrightarrow> \<forall>ev\<in>set k. names_output ev \<Longrightarrow> EvApply out e \<in> set k \<Longrightarrow>
   out_Target out = cn_Target msg \<and> out_UUID out = cn_UUID msg"
  by (auto elim!: handle_core.cases process_core.cases simp: output_for_def dest!: mismatch_code_None)

locale naming_service = naming_renderer "cs_renderer sv" for sv :: "'w configure_service"
begin

lemma names_calls [io_intro]:
  "state_io_rel (events_keep names_output) (cfg_now sv)"
  "state_io_rel (events_keep names_output) (load_desired sv c target)"
  "state_io_rel (events_keep names_output) (load_state sv c)"
  "state_io_rel (events_keep names_output) (save_state sv c st)"
  "state_io_rel (events_keep names_output) (render sv c d)"
  "state_io_rel (events_keep names_output) (apply_rendered sv c out)"
  "state_io_rel (events_keep names_output) (mark EvLock)"
  "state_io_rel (events_keep names_output) (mark EvUnlock)"
  "state_io_rel (events_keep names_output) (call (PublishStatus (cs_client sv) c sm) (EvStatus sm))"
  "state_io_rel (events_keep names_output) (call (PublishResult (cs_client sv) c rm) (EvResult rm))"
  "state_io_rel (events_keep names_output) (logInfo sv m kv)"
  "state_io_rel (events_keep names_output) (logDebug sv m kv)"
  "state_io_rel (events_keep names_output) (logWarn sv m kv)"
  "state_io_rel (events_keep names_output) (logError sv m kv)"
  unfolding cfg_now_def load_desired_def load_state_def save_state_def render_def apply_rendered_def
    logInfo_def logDebug_def logWarn_def logError_def
  by (auto intro!: io_intro events_keep_call events_keep_mark split: sum.split dest: render_names)
    (simp add: names_output_def split: sum.split, blast intro: render_names)?

lemma names_reports [io_intro]:
  "state_io_rel (events_keep names_output) (publishStatus sv c msg status stage message)"
  "state_io_rel (events_keep names_output) (publishSuccessResult sv c msg message)"
  "state_io_rel (events_keep names_output) (publishFailureResult sv c msg code message)"
  unfolding publishStatus_def publishSuccessResult_def publishFailureResult_def
  by (intro io_intro)+

lemma names_helpers [io_intro]:
  "state_io_rel (events_keep names_output) (progress sv c msg stage message)"
  "state_io_rel (events_keep names_output) (fail sv c msg code message err)"
  "state_io_rel (events_keep names_output) (reportingFailure sv msg e)"
  unfolding progress_def fail_def reportingFailure_def by (intro io_intro)+

lemma names_Handle: "state_io_rel (events_keep names_output) (Handle sv c msg)"
  unfolding Handle_def handle_locked_def processDesiredConfigLocked_def by (intro io_intro)

lemma applied_output_names:
  assumes "EvApply out e \<in> set (handle_events sv c msg s)"
  shows "out_Target out = cn_Target msg \<and> out_UUID out = cn_UUID msg"
proof -
  let ?t = "handle_events sv c msg s"
  have "\<forall>ev\<in>set (core ?t). names_output ev"
    using events_keep_events [OF names_Handle] by (auto simp: core_def)
  from handle_core_applied_output [OF Handle_core_ev [OF assms] this in_core(2) [THEN iffD1, OF assms]]
  show ?thesis .
qed

end

end
