(* ===== verification/Utf8.thy ===== *)
theory Utf8
  imports Prelude
begin

text \<open>
  UTF-8 as Go's \<^verbatim>\<open>utf8.DecodeRune\<close> and \<^verbatim>\<open>utf8.AppendRune\<close> have it, and the string literals
  of \<^verbatim>\<open>encoding/json\<close>: the escaping of \<^verbatim>\<open>json.Marshal\<close> and the decoding of the scanner and
  \<^verbatim>\<open>unquote\<close>, with the theorem that decoding inverts encoding on well-formed UTF-8.
\<close>

section \<open>Bytes\<close>

abbreviation byte :: "char \<Rightarrow> nat" where
  "byte c \<equiv> of_char c"

abbreviation chr :: "nat \<Rightarrow> char" where
  "chr n \<equiv> char_of n"

lemma byte_less [simp]: "byte c < 256"
  using of_char_mod_256 [where 'a = nat, of c] by (metis mod_less_divisor zero_less_numeral)

lemma byte_chr: "n < 256 \<Longrightarrow> byte (chr n) = n"
  by (simp add: of_char_of)

lemma char_eq_byte: "c = d \<longleftrightarrow> byte c = byte d"
  by (metis char_of_char)

section \<open>Runes\<close>

definition within :: "nat \<Rightarrow> nat \<Rightarrow> char \<Rightarrow> bool" where
  "within lo hi c \<longleftrightarrow> lo \<le> byte c \<and> byte c \<le> hi"

abbreviation continuation :: "char \<Rightarrow> bool" where
  "continuation \<equiv> within 128 191"

text \<open>The range of the second byte of a rune of three bytes, and of one of four\<close>

definition second3 :: "char \<Rightarrow> char \<Rightarrow> bool" where
  "second3 a b \<longleftrightarrow>
     within (if byte a = 224 then 160 else 128) (if byte a = 237 then 159 else 191) b"

definition second4 :: "char \<Rightarrow> char \<Rightarrow> bool" where
  "second4 a b \<longleftrightarrow>
     within (if byte a = 240 then 144 else 128) (if byte a = 244 then 143 else 191) b"

text \<open>The first rune, if the string starts with a well-formed one, and the rest\<close>

fun utf8_take :: "string \<Rightarrow> (string \<times> string) option" where
  "utf8_take [] = None"
| "utf8_take (a # s) =
     (if byte a < 128 then Some ([a], s)
      else if within 194 223 a then
        (case s of
           b # s1 \<Rightarrow> if continuation b then Some ([a, b], s1) else None
         | _ \<Rightarrow> None)
      else if within 224 239 a then
        (case s of
           b # c # s2 \<Rightarrow> if second3 a b \<and> continuation c then Some ([a, b, c], s2) else None
         | _ \<Rightarrow> None)
      else if within 240 244 a then
        (case s of
           b # c # d # s3 \<Rightarrow>
             if second4 a b \<and> continuation c \<and> continuation d then Some ([a, b, c, d], s3) else None
         | _ \<Rightarrow> None)
      else None)"

lemma utf8_take_append: "utf8_take s = Some (r, rest) \<Longrightarrow> s = r @ rest"
  by (cases s) (auto split: if_splits list.splits)

lemma utf8_take_nonempty: "utf8_take s = Some (r, rest) \<Longrightarrow> r \<noteq> []"
  by (cases s) (auto split: if_splits list.splits)

lemma utf8_take_length: "utf8_take s = Some (r, rest) \<Longrightarrow> length rest < length s"
  by (cases s) (auto split: if_splits list.splits)

lemma utf8_take_local: "utf8_take s = Some (r, rest) \<Longrightarrow> utf8_take (r @ u) = Some (r, u)"
  by (cases s) (auto split: if_splits list.splits)

lemma utf8_take_head:
  "utf8_take s = Some (r, rest) \<Longrightarrow> \<exists>a r'. r = a # r' \<and> (byte a < 128 \<longrightarrow> r' = []) \<and> (\<exists>s'. s = a # s')"
  by (cases s) (auto split: if_splits list.splits)

declare utf8_take.simps(2) [simp del]

text \<open>\<^verbatim>\<open>utf8.AppendRune\<close> of a code point that is no surrogate\<close>

definition utf8_enc :: "nat \<Rightarrow> string" where
  "utf8_enc cp =
     (if cp < 128 then [chr cp]
      else if cp < 2048 then [chr (192 + cp div 64), chr (128 + cp mod 64)]
      else if cp < 65536 then
        [chr (224 + cp div 4096), chr (128 + cp div 64 mod 64), chr (128 + cp mod 64)]
      else [chr (240 + cp div 262144), chr (128 + cp div 4096 mod 64),
            chr (128 + cp div 64 mod 64), chr (128 + cp mod 64)])"

text \<open>U+FFFD, which stands for what is not well-formed\<close>

definition replacement :: string where
  "replacement = [CHR 0xEF, CHR 0xBF, CHR 0xBD]"

function utf8_valid :: "string \<Rightarrow> bool" where
  "utf8_valid s =
     (s = [] \<or> (case utf8_take s of None \<Rightarrow> False | Some (r, rest) \<Rightarrow> utf8_valid rest))"
  by auto
termination by (relation "measure length") (auto dest: utf8_take_length)

declare utf8_valid.simps [simp del]

lemma utf8_valid_Nil [simp]: "utf8_valid []"
  by (subst utf8_valid.simps) simp

lemma utf8_valid_take: "utf8_take s = Some (r, rest) \<Longrightarrow> utf8_valid s = utf8_valid rest"
  by (subst utf8_valid.simps) auto

lemma utf8_valid_ascii: "\<forall>c\<in>set s. byte c < 128 \<Longrightarrow> utf8_valid s"
proof (induction s)
  case (Cons a s)
  then show ?case using utf8_valid_take [of "a # s" "[a]" s] by (simp add: utf8_take.simps)
qed simp

section \<open>Hexadecimal\<close>

definition hexd :: "nat \<Rightarrow> char" where
  "hexd n = (if n < 10 then chr (48 + n) else chr (87 + n))"

definition hexval :: "char \<Rightarrow> nat option" where
  "hexval c =
     (let b = byte c in
      if 48 \<le> b \<and> b \<le> 57 then Some (b - 48)
      else if 97 \<le> b \<and> b \<le> 102 then Some (b - 87)
      else if 65 \<le> b \<and> b \<le> 70 then Some (b - 55) else None)"

lemma hexval_hexd [simp]: "n < 16 \<Longrightarrow> hexval (hexd n) = Some n"
  by (auto simp: hexval_def hexd_def Let_def byte_chr)

text \<open>Four hexadecimal digits\<close>

fun hex4 :: "string \<Rightarrow> (nat \<times> string) option" where
  "hex4 (a # b # c # d # s) =
     (case (hexval a, hexval b, hexval c, hexval d) of
        (Some w, Some x, Some y, Some z) \<Rightarrow> Some (4096 * w + 256 * x + 16 * y + z, s)
      | _ \<Rightarrow> None)"
| "hex4 _ = None"

lemma hex4_length: "hex4 s = Some (n, r) \<Longrightarrow> length r < length s"
  by (induction s rule: hex4.induct) (auto split: option.splits)

section \<open>String literals of JSON\<close>

definition quote :: char where "quote = CHR 0x22"
definition backslash :: char where "backslash = CHR 0x5C"

text \<open>What follows the backslash, for the escapes of one letter\<close>

definition short_escape :: "char \<Rightarrow> char option" where
  "short_escape b =
     (if b = CHR 0x22 \<or> b = CHR 0x5C then Some b
      else if b = CHR 0x08 then Some CHR ''b'' else if b = CHR 0x0C then Some CHR ''f''
      else if b = CHR 0x0A then Some CHR ''n'' else if b = CHR 0x0D then Some CHR ''r''
      else if b = CHR 0x09 then Some CHR ''t'' else None)"

definition short_unescape :: "char \<Rightarrow> char option" where
  "short_unescape e =
     (if e = CHR 0x22 \<or> e = CHR 0x5C \<or> e = CHR ''/'' then Some e
      else if e = CHR ''b'' then Some CHR 0x08 else if e = CHR ''f'' then Some CHR 0x0C
      else if e = CHR ''n'' then Some CHR 0x0A else if e = CHR ''r'' then Some CHR 0x0D
      else if e = CHR ''t'' then Some CHR 0x09 else None)"

definition html_escaped :: "char \<Rightarrow> bool" where
  "html_escaped b \<longleftrightarrow> b = CHR ''<'' \<or> b = CHR ''>'' \<or> b = CHR ''&''"

text \<open>\<^verbatim>\<open>appendString\<close> of one well-formed rune, with HTML escaping as \<^verbatim>\<open>json.Marshal\<close> has it on\<close>

definition esc_rune :: "string \<Rightarrow> string" where
  "esc_rune r =
     (case r of
        [b] \<Rightarrow>
          (case short_escape b of
             Some e \<Rightarrow> [backslash, e]
           | None \<Rightarrow>
               if byte b < 32 \<or> html_escaped b
               then [backslash, CHR ''u'', CHR ''0'', CHR ''0'', hexd (byte b div 16), hexd (byte b mod 16)]
               else [b])
      | _ \<Rightarrow>
          if r = [CHR 0xE2, CHR 0x80, CHR 0xA8] then backslash # ''u2028''
          else if r = [CHR 0xE2, CHR 0x80, CHR 0xA9] then backslash # ''u2029''
          else r)"

function enc_string :: "string \<Rightarrow> string" where
  "enc_string s =
     (if s = [] then []
      else (case utf8_take s of
              None \<Rightarrow> (backslash # ''ufffd'') @ enc_string (tl s)
            | Some (r, rest) \<Rightarrow> esc_rune r @ enc_string rest))"
  by auto
termination by (relation "measure length") (auto dest: utf8_take_length)

declare enc_string.simps [simp del]

definition is_surrogate :: "nat \<Rightarrow> bool" where
  "is_surrogate h \<longleftrightarrow> 55296 \<le> h \<and> h < 57344"

text \<open>\<^verbatim>\<open>utf16.DecodeRune\<close>\<close>

definition surrogate_pair :: "nat \<Rightarrow> nat \<Rightarrow> nat option" where
  "surrogate_pair h l =
     (if 55296 \<le> h \<and> h < 56320 \<and> 56320 \<le> l \<and> l < 57344
      then Some ((h - 55296) * 1024 + (l - 56320) + 65536) else None)"

text \<open>What is after a \<^verbatim>\<open>u\<close> escape: the bytes it stands for, and the rest\<close>

definition dec_u :: "string \<Rightarrow> (string \<times> string) option" where
  "dec_u s =
     (case hex4 s of
        None \<Rightarrow> None
      | Some (h, s1) \<Rightarrow>
          if \<not> is_surrogate h then Some (utf8_enc h, s1)
          else (case s1 of
                  a # u # s2 \<Rightarrow>
                    if a = backslash \<and> u = CHR ''u'' then
                      (case hex4 s2 of
                         None \<Rightarrow> Some (replacement, s1)
                       | Some (l, s3) \<Rightarrow>
                           (case surrogate_pair h l of
                              Some cp \<Rightarrow> Some (utf8_enc cp, s3)
                            | None \<Rightarrow> Some (replacement, s1)))
                    else Some (replacement, s1)
                | _ \<Rightarrow> Some (replacement, s1)))"

lemma dec_u_length: "dec_u s = Some (b, r) \<Longrightarrow> length r < length s"
  by (auto simp: dec_u_def dest!: hex4_length split: option.splits if_splits list.splits)

definition prepend :: "string \<Rightarrow> (string \<times> string) option \<Rightarrow> (string \<times> string) option" where
  "prepend p r = map_option (\<lambda>(x, rest). (p @ x, rest)) r"

text \<open>From behind the opening quote: the decoded string and what is behind the closing quote\<close>

function dec_string :: "string \<Rightarrow> (string \<times> string) option" where
  "dec_string s =
     (case s of
        [] \<Rightarrow> None
      | c # s1 \<Rightarrow>
          if c = quote then Some ([], s1)
          else if c = backslash then
            (case s1 of
               [] \<Rightarrow> None
             | e # s2 \<Rightarrow>
                 if e = CHR ''u'' then
                   (case dec_u s2 of None \<Rightarrow> None | Some (b, s3) \<Rightarrow> prepend b (dec_string s3))
                 else (case short_unescape e of
                         None \<Rightarrow> None
                       | Some b \<Rightarrow> prepend [b] (dec_string s2)))
          else if byte c < 32 then None
          else (case utf8_take s of
                  None \<Rightarrow> prepend replacement (dec_string s1)
                | Some (r, rest) \<Rightarrow> prepend r (dec_string rest)))"
  by auto
termination by (relation "measure length") (auto dest: utf8_take_length dec_u_length)

declare dec_string.simps [simp del]

lemma prepend_Some [simp]: "prepend p (Some (x, rest)) = Some (p @ x, rest)"
  by (simp add: prepend_def)

lemma prepend_None [simp]: "prepend p None = None"
  by (simp add: prepend_def)

lemma prepend_eq_Some: "prepend p x = Some (y, r) \<longleftrightarrow> (\<exists>z. x = Some (z, r) \<and> y = p @ z)"
  by (cases x) auto

lemma dec_string_quote [simp]: "dec_string (quote # s) = Some ([], s)"
  by (subst dec_string.simps) simp

lemma dec_string_Nil [simp]: "dec_string [] = None"
  by (subst dec_string.simps) simp

definition plain :: "char \<Rightarrow> bool" where
  "plain c \<longleftrightarrow> c \<noteq> quote \<and> c \<noteq> backslash \<and> 32 \<le> byte c"

lemma backslash_quote [simp]: "backslash \<noteq> quote" "quote \<noteq> backslash"
  by (simp_all add: backslash_def quote_def)

lemma dec_string_u:
  "dec_string (backslash # CHR ''u'' # s) =
     (case dec_u s of None \<Rightarrow> None | Some (b, s3) \<Rightarrow> prepend b (dec_string s3))"
  by (subst dec_string.simps) simp

lemma dec_string_short:
  "e \<noteq> CHR ''u'' \<Longrightarrow> dec_string (backslash # e # s) =
     (case short_unescape e of None \<Rightarrow> None | Some b \<Rightarrow> prepend [b] (dec_string s))"
  by (subst dec_string.simps) simp

lemma dec_string_backslash [simp]: "dec_string [backslash] = None"
  by (subst dec_string.simps) simp

lemma dec_string_plain:
  "plain c \<Longrightarrow> dec_string (c # s) =
     (case utf8_take (c # s) of None \<Rightarrow> prepend replacement (dec_string s)
      | Some (r, rest) \<Rightarrow> prepend r (dec_string rest))"
  by (subst dec_string.simps) (simp add: plain_def)

lemma dec_string_control:
  "c \<noteq> quote \<Longrightarrow> c \<noteq> backslash \<Longrightarrow> \<not> plain c \<Longrightarrow> dec_string (c # s) = None"
  by (subst dec_string.simps) (simp add: plain_def)

lemma dec_string_step:
  assumes "dec_string s = Some (x, r)"
  shows "s = quote # r \<or> (\<exists>s' y. length s' < length s \<and> dec_string s' = Some (y, r))"
proof (cases s)
  case (Cons c s1)
  consider "c = quote" | "c = backslash" | "plain c" | "c \<noteq> quote" "c \<noteq> backslash" "\<not> plain c" by blast
  then show ?thesis
  proof cases
    case 2
    show ?thesis
    proof (cases s1)
      case (Cons e s2)
      with \<open>s = c # s1\<close> 2 assms show ?thesis
        by (cases "e = CHR ''u''")
          (auto simp: dec_string_u dec_string_short prepend_eq_Some dest!: dec_u_length split: option.splits,
            auto intro: less_SucI)
    qed (use assms Cons 2 in simp)
  next
    case 3
    with assms Cons show ?thesis
      by (cases "utf8_take (c # s1)")
        (auto simp: dec_string_plain prepend_eq_Some dest!: utf8_take_length intro: exI [of _ s1])
  qed (use assms Cons in \<open>auto simp: dec_string_control\<close>)
qed (use assms in simp)

lemma dec_string_length: "dec_string s = Some (x, r) \<Longrightarrow> length r < length s"
proof (induction s arbitrary: x rule: measure_induct_rule [of length])
  case (less s)
  from dec_string_step [OF less.prems] show ?case
    using less.IH by (auto intro: less_trans)
qed

section \<open>Decoding inverts encoding\<close>

lemma enc_string_Nil [simp]: "enc_string [] = []"
  by (subst enc_string.simps) simp

lemma enc_string_take: "utf8_take s = Some (r, rest) \<Longrightarrow> enc_string s = esc_rune r @ enc_string rest"
  by (subst enc_string.simps) auto

lemma hex4_esc: "n < 256 \<Longrightarrow> hex4 (CHR ''0'' # CHR ''0'' # hexd (n div 16) # hexd (n mod 16) # s) = Some (n, s)"
  by (simp add: hexval_def [of "CHR ''0''"])

lemma short_escape_unescape:
  "short_escape b = Some e \<Longrightarrow> short_unescape e = Some b \<and> e \<noteq> CHR ''u''"
  by (auto simp: short_escape_def short_unescape_def split: if_splits)

lemma dec_u_esc: "n < 128 \<Longrightarrow>
   dec_u (CHR ''0'' # CHR ''0'' # hexd (n div 16) # hexd (n mod 16) # s) = Some ([chr n], s)"
  by (simp add: dec_u_def hex4_esc is_surrogate_def utf8_enc_def del: hex4.simps)

lemma dec_u_separators:
  "dec_u (''2028'' @ s) = Some ([CHR 0xE2, CHR 0x80, CHR 0xA8], s)"
  "dec_u (''2029'' @ s) = Some ([CHR 0xE2, CHR 0x80, CHR 0xA9], s)"
  "dec_u (''fffd'' @ s) = Some (replacement, s)"
  by (simp_all add: dec_u_def hexval_def is_surrogate_def utf8_enc_def char_eq_byte byte_chr replacement_def)

lemma dec_string_take:
  "utf8_take (c # s) = Some (r, rest) \<Longrightarrow> plain c \<Longrightarrow> dec_string (c # s) = prepend r (dec_string rest)"
  by (simp add: dec_string_plain)

lemma dec_esc_rune:
  assumes "utf8_take (r @ s) = Some (r, s)"
  shows "dec_string (esc_rune r @ t) = prepend r (dec_string t)"
proof -
  from utf8_take_head [OF assms] obtain a r' where r: "r = a # r'" "byte a < 128 \<longrightarrow> r' = []" by auto
  have take: "utf8_take (a # r' @ t) = Some (r, t)" using utf8_take_local [OF assms, of t] r by simp
  consider (ascii) "r' = []" "byte a < 128" | (sep) "r = [CHR 0xE2, CHR 0x80, CHR 0xA8] \<or> r = [CHR 0xE2, CHR 0x80, CHR 0xA9]"
    | (high) "\<not> byte a < 128" "esc_rune r = r"
    using take r by (fastforce simp: esc_rune_def utf8_take.simps split: list.splits if_splits)
  then show ?thesis
  proof cases
    case ascii
    show ?thesis
    proof (cases "short_escape a")
      case None
      have "plain a" if "\<not> byte a < 32"
        using None that by (simp add: plain_def short_escape_def quote_def backslash_def split: if_splits)
      then show ?thesis
        using r ascii None take
        by (simp add: esc_rune_def dec_string_u dec_u_esc dec_string_take)
    next
      case (Some e)
      with r ascii short_escape_unescape [OF Some] show ?thesis
        by (simp add: esc_rune_def dec_string_short)
    qed
  next
    case sep
    then show ?thesis
      using dec_u_separators(1,2) [of t] by (auto simp: esc_rune_def dec_string_u short_escape_def)
  next
    case high
    then have "plain a" by (auto simp: plain_def quote_def backslash_def)
    with high r take show ?thesis by (simp add: dec_string_take)
  qed
qed

text \<open>What decoding gives back: every byte that is not part of a well-formed rune becomes U+FFFD.\<close>

function to_valid :: "string \<Rightarrow> string" where
  "to_valid s =
     (if s = [] then []
      else (case utf8_take s of
              None \<Rightarrow> replacement @ to_valid (tl s)
            | Some (r, rest) \<Rightarrow> r @ to_valid rest))"
  by auto
termination by (relation "measure length") (auto dest: utf8_take_length)

declare to_valid.simps [simp del]

lemma to_valid_Nil [simp]: "to_valid [] = []"
  by (subst to_valid.simps) simp

lemma to_valid_take: "utf8_take s = Some (r, rest) \<Longrightarrow> to_valid s = r @ to_valid rest"
  by (subst to_valid.simps) auto

lemma to_valid_valid [simp]: "utf8_valid s \<Longrightarrow> to_valid s = s"
proof (induction s rule: to_valid.induct)
  case (1 s)
  show ?case
  proof (cases "s = []")
    case False
    with "1.prems" obtain r rest where take: "utf8_take s = Some (r, rest)" "utf8_valid rest"
      by (subst (asm) utf8_valid.simps) (auto split: option.splits)
    from "1.IH"(2) [OF False take(1) refl take(2)] utf8_take_append [OF take(1)] show ?thesis
      unfolding to_valid_take [OF take(1)] by simp
  qed simp
qed

theorem dec_enc_string: "dec_string (enc_string s @ quote # t) = Some (to_valid s, t)"
proof (induction s rule: enc_string.induct)
  case (1 s)
  consider "s = []" | (bad) "s \<noteq> []" "utf8_take s = None"
    | (rune) r rest where "s \<noteq> []" "utf8_take s = Some (r, rest)"
    by (cases "utf8_take s") auto
  then show ?case
  proof cases
    case bad
    have "enc_string s = backslash # CHR ''u'' # ''fffd'' @ enc_string (tl s)"
      using bad by (subst enc_string.simps) simp
    moreover have "to_valid s = replacement @ to_valid (tl s)"
      using bad by (subst to_valid.simps) simp
    ultimately show ?thesis
      using "1.IH"(1) [OF bad] dec_u_separators(3) [of "enc_string (tl s) @ quote # t"]
      by (simp add: dec_string_u)
  next
    case rune
    then have "utf8_take (r @ rest) = Some (r, rest)"
      using utf8_take_append [OF rune(2)] by simp
    with "1.IH"(2) [OF rune refl] show ?thesis
      unfolding enc_string_take [OF rune(2)] to_valid_take [OF rune(2)] by (simp add: dec_esc_rune)
  qed simp
qed

end
