(* ===== verification/Json.thy ===== *)
theory Json
  imports Utf8 "HOL-Library.List_Lexorder" "HOL-Library.Char_ord"
begin

text \<open>
  What the agent uses of \<^verbatim>\<open>encoding/json\<close>: the grammar that \<^verbatim>\<open>json.Valid\<close> checks and
  \<^verbatim>\<open>json.Unmarshal\<close> reads, \<^verbatim>\<open>json.Marshal\<close> of maps and structs of strings, integers and
  booleans, and the rules by which object members are decoded into fields.
\<close>

section \<open>Values\<close>

text \<open>A number is its literal.  A member of an object keeps its raw text, for \<^verbatim>\<open>json.RawMessage\<close>.\<close>

datatype json =
    JNull
  | JBool bool
  | JNum string
  | JStr string
  | JArr "json list"
  | JObj "(string \<times> string \<times> json) list"

section \<open>The grammar\<close>

definition json_space :: "char \<Rightarrow> bool" where
  "json_space c \<longleftrightarrow> c = CHR '' '' \<or> c = CHR 0x09 \<or> c = CHR 0x0A \<or> c = CHR 0x0D"

definition skip_ws :: "string \<Rightarrow> string" where
  "skip_ws s = dropWhile json_space s"

definition expect :: "char \<Rightarrow> string \<Rightarrow> string option" where
  "expect c s = (case skip_ws s of x # t \<Rightarrow> if x = c then Some t else None | [] \<Rightarrow> None)"

definition digit_span :: "string \<Rightarrow> (string \<times> string) option" where
  "digit_span s = (case takeWhile is_digit s of [] \<Rightarrow> None | ds \<Rightarrow> Some (ds, dropWhile is_digit s))"

definition lex_int :: "string \<Rightarrow> (string \<times> string) option" where
  "lex_int s =
     (case s of
        c # t \<Rightarrow> if c = CHR ''0'' then Some (''0'', t) else digit_span s
      | [] \<Rightarrow> None)"

definition lex_frac :: "string \<Rightarrow> (string \<times> string) option" where
  "lex_frac s =
     (case s of
        c # t \<Rightarrow> if c = CHR ''.'' then map_option (\<lambda>(ds, r). (c # ds, r)) (digit_span t) else Some ([], s)
      | [] \<Rightarrow> Some ([], s))"

definition lex_exp :: "string \<Rightarrow> (string \<times> string) option" where
  "lex_exp s =
     (case s of
        c # t \<Rightarrow>
          if c = CHR ''e'' \<or> c = CHR ''E'' then
            (case t of
               g # t' \<Rightarrow> if g = CHR ''+'' \<or> g = CHR ''-''
                        then map_option (\<lambda>(ds, r). (c # g # ds, r)) (digit_span t')
                        else map_option (\<lambda>(ds, r). (c # ds, r)) (digit_span t)
             | [] \<Rightarrow> None)
          else Some ([], s)
      | [] \<Rightarrow> Some ([], s))"

definition lex_number :: "string \<Rightarrow> (string \<times> string) option" where
  "lex_number s = do {
     let (sg, s1) = (case s of c # t \<Rightarrow> if c = CHR ''-'' then ([c], t) else ([], s) | [] \<Rightarrow> ([], s));
     (i, s2) \<leftarrow> lex_int s1;
     (f, s3) \<leftarrow> lex_frac s2;
     (e, s4) \<leftarrow> lex_exp s3;
     Some (sg @ i @ f @ e, s4)
   }"

text \<open>
  Values, members and elements; \<open>n\<close> is the fuel and \<open>d\<close> how many more objects and arrays may be
  open (\<^verbatim>\<open>maxNestingDepth\<close>).
\<close>

fun p_value :: "nat \<Rightarrow> nat \<Rightarrow> string \<Rightarrow> (json \<times> string) option"
  and p_members :: "nat \<Rightarrow> nat \<Rightarrow> string \<Rightarrow> ((string \<times> string \<times> json) list \<times> string) option"
  and p_elems :: "nat \<Rightarrow> nat \<Rightarrow> string \<Rightarrow> (json list \<times> string) option" where
  "p_value 0 d s = None"
| "p_value (Suc n) d s =
     (case s of
        [] \<Rightarrow> None
      | c # t \<Rightarrow>
          if c = quote then map_option (\<lambda>(x, r). (JStr x, r)) (dec_string t)
          else if c = CHR ''{'' then
            (if d = 0 then None
             else case expect (CHR ''}'') t of
                    Some r \<Rightarrow> Some (JObj [], r)
                  | None \<Rightarrow> map_option (\<lambda>(ms, r). (JObj ms, r)) (p_members n (d - 1) (skip_ws t)))
          else if c = CHR ''['' then
            (if d = 0 then None
             else case expect (CHR '']'') t of
                    Some r \<Rightarrow> Some (JArr [], r)
                  | None \<Rightarrow> map_option (\<lambda>(vs, r). (JArr vs, r)) (p_elems n (d - 1) (skip_ws t)))
          else if c = CHR ''t'' then map_option (\<lambda>r. (JBool True, r)) (drop_prefix ''true'' s)
          else if c = CHR ''f'' then map_option (\<lambda>r. (JBool False, r)) (drop_prefix ''false'' s)
          else if c = CHR ''n'' then map_option (\<lambda>r. (JNull, r)) (drop_prefix ''null'' s)
          else map_option (\<lambda>(l, r). (JNum l, r)) (lex_number s))"
| "p_members 0 d s = None"
| "p_members (Suc n) d s = do {
     s0 \<leftarrow> drop_prefix [quote] s;
     (k, s1) \<leftarrow> dec_string s0;
     s2 \<leftarrow> expect (CHR '':'') s1;
     let s3 = skip_ws s2;
     (v, s4) \<leftarrow> p_value n d s3;
     let m = (k, take (length s3 - length s4) s3, v);
     (case expect (CHR ''}'') s4 of
        Some r \<Rightarrow> Some ([m], r)
      | None \<Rightarrow> do {
          s5 \<leftarrow> expect (CHR '','') s4;
          (ms, r) \<leftarrow> p_members n d (skip_ws s5);
          Some (m # ms, r)
        })
   }"
| "p_elems 0 d s = None"
| "p_elems (Suc n) d s = do {
     (v, s1) \<leftarrow> p_value n d s;
     (case expect (CHR '']'') s1 of
        Some r \<Rightarrow> Some ([v], r)
      | None \<Rightarrow> do {
          s2 \<leftarrow> expect (CHR '','') s1;
          (vs, r) \<leftarrow> p_elems n d (skip_ws s2);
          Some (v # vs, r)
        })
   }"

definition json_depth :: nat where
  "json_depth = 10000"

definition json_parse :: "string \<Rightarrow> json option" where
  "json_parse s =
     (case p_value (Suc (2 * length s)) json_depth (skip_ws s) of
        Some (v, r) \<Rightarrow> if skip_ws r = [] then Some v else None
      | None \<Rightarrow> None)"

text \<open>\<^verbatim>\<open>json.Valid\<close>\<close>

definition json_valid :: "string \<Rightarrow> bool" where
  "json_valid s = (json_parse s \<noteq> None)"

section \<open>The fuel is enough\<close>

lemma skip_ws_suffix: "length (skip_ws s) \<le> length s"
  by (simp add: skip_ws_def length_dropWhile_le)

lemma expect_length: "expect c s = Some t \<Longrightarrow> length t < length s"
  using skip_ws_suffix [of s] by (auto simp: expect_def split: list.splits if_splits)

lemma digit_span_length: "digit_span s = Some (ds, r) \<Longrightarrow> length r < length s"
  by (cases s) (auto simp: digit_span_def length_dropWhile_le less_Suc_eq_le split: list.splits if_splits)

lemma lex_lengths:
  "lex_int s = Some (x, r) \<Longrightarrow> length r < length s"
  "lex_frac s = Some (x, r) \<Longrightarrow> length r \<le> length s"
  "lex_exp s = Some (x, r) \<Longrightarrow> length r \<le> length s"
  by (auto simp: lex_int_def lex_frac_def lex_exp_def split: list.splits if_splits dest!: digit_span_length)

lemma lex_number_length: "lex_number s = Some (x, r) \<Longrightarrow> length r < length s"
  by (cases s) (auto simp: lex_number_def Option.bind_eq_Some_conv split: if_splits dest!: lex_lengths)

lemma drop_prefix_length: "drop_prefix p s = Some r \<Longrightarrow> p \<noteq> [] \<Longrightarrow> length r < length s"
  by (cases p) (auto simp: drop_prefix_Some)

lemma skip_ws_less: "n < length (skip_ws s) \<Longrightarrow> n < length s"
  using skip_ws_suffix [of s] by simp

lemmas lengths = dec_string_length drop_prefix_length lex_number_length expect_length skip_ws_less

lemma p_membersE:
  assumes "p_members (Suc n) d s = Some (ms, r)"
  obtains s0 k s1 s2 v s4 where "drop_prefix [quote] s = Some s0" "dec_string s0 = Some (k, s1)"
    "expect (CHR '':'') s1 = Some s2" "p_value n d (skip_ws s2) = Some (v, s4)"
    "expect (CHR ''}'') s4 = Some r \<or>
     (\<exists>s5 ms'. expect (CHR '','') s4 = Some s5 \<and> p_members n d (skip_ws s5) = Some (ms', r))"
  using assms by (auto simp: Option.bind_eq_Some_conv Let_def split: option.splits)

lemma p_elemsE:
  assumes "p_elems (Suc n) d s = Some (vs, r)"
  obtains v s1 where "p_value n d s = Some (v, s1)"
    "expect (CHR '']'') s1 = Some r \<or>
     (\<exists>s2 vs'. expect (CHR '','') s1 = Some s2 \<and> p_elems n d (skip_ws s2) = Some (vs', r))"
  using assms by (auto simp: Option.bind_eq_Some_conv split: option.splits)

lemma p_length:
  "p_value n d s = Some (v, r) \<Longrightarrow> length r < length s"
  "p_members n d s = Some (ms, r) \<Longrightarrow> length r < length s"
  "p_elems n d s = Some (vs, r) \<Longrightarrow> length r < length s"
proof (induction n arbitrary: d s v ms vs r)
  case (Suc n)
  {
    case 1
    then show ?case
      by (auto split: list.splits if_splits option.splits dest!: Suc.IH lengths)
  next
    case 2
    then show ?case
      by (elim p_membersE disjE exE conjE) (drule lengths Suc.IH | simp)+
  next
    case 3
    then show ?case
      by (elim p_elemsE disjE exE conjE) (drule lengths Suc.IH | simp)+
  }
qed simp_all

text \<open>
  With more than two units of fuel for every byte the amount of fuel does not matter: a level of
  nesting takes two, and at least one byte.
\<close>

lemma p_fuel:
  "2 * length s < n \<Longrightarrow> 2 * length s < m \<Longrightarrow> p_value n d s = p_value m d s"
  "2 * length s < n \<Longrightarrow> 2 * length s < m \<Longrightarrow> p_members n d s = p_members m d s"
  "2 * length s + 1 < n \<Longrightarrow> 2 * length s + 1 < m \<Longrightarrow> p_elems n d s = p_elems m d s"
proof (induction n arbitrary: m d s)
  case (Suc n)
  {
    case 1
    then obtain m' where m: "m = Suc m'" by (cases m) auto
    have "p_members n e (skip_ws t) = p_members m' e (skip_ws t)"
      "p_elems n e (skip_ws t) = p_elems m' e (skip_ws t)" if "s = c # t" for c t e
      using 1 m that skip_ws_suffix [of t] by (auto intro!: Suc.IH)
    with m show ?case by (auto split: list.split option.split)
  next
    case 2
    then obtain m' where m: "m = Suc m'" by (cases m) auto
    have v: "p_value n d (skip_ws t) = p_value m' d (skip_ws t)" if "length t < length s" for t
      using 2 m that skip_ws_suffix [of t] by (auto intro!: Suc.IH(1))
    have p: "p_members n d (skip_ws t) = p_members m' d (skip_ws t)" if "length t < length s" for t
      using 2 m that skip_ws_suffix [of t] by (auto intro!: Suc.IH(2))
    show ?case
      unfolding m p_members.simps Let_def
      by (intro Option.bind_cong refl; clarify; intro Option.bind_cong refl)
        (auto simp: v p dest!: lengths p_length(1) split: option.split intro!: Option.bind_cong)
  next
    case 3
    then obtain m' where m: "m = Suc m'" by (cases m) auto
    have v: "p_value n d s = p_value m' d s"
      using 3 m by (auto intro!: Suc.IH(1))
    have p: "p_elems n d (skip_ws t) = p_elems m' d (skip_ws t)" if "length t < length s" for t
      using 3 m that skip_ws_suffix [of t] by (auto intro!: Suc.IH(3))
    show ?case
      unfolding m p_elems.simps v
      by (intro Option.bind_cong refl) (auto simp: p dest!: p_length(1) lengths split: option.split
          intro!: Option.bind_cong)
  }
qed simp_all

declare p_value.simps [simp del] p_members.simps [simp del] p_elems.simps [simp del]

section \<open>json.Marshal\<close>

text \<open>Maps from strings to strings, integers and booleans, and structs of such fields\<close>

datatype jout =
    OStr string
  | ONum int
  | OBool bool

fun marshal_value :: "jout \<Rightarrow> string" where
  "marshal_value (OStr x) = quote # enc_string x @ [quote]"
| "marshal_value (ONum i) = itoa i"
| "marshal_value (OBool b) = (if b then ''true'' else ''false'')"

definition marshal_member :: "string \<times> jout \<Rightarrow> string" where
  "marshal_member m = quote # enc_string (fst m) @ [quote, CHR '':''] @ marshal_value (snd m)"

fun join_comma :: "string list \<Rightarrow> string" where
  "join_comma [] = []"
| "join_comma [x] = x"
| "join_comma (x # xs) = x @ CHR '','' # join_comma xs"

definition marshal_obj :: "(string \<times> jout) list \<Rightarrow> string" where
  "marshal_obj kvs = CHR ''{'' # join_comma (map marshal_member kvs) @ ''}''"

text \<open>The keys of a map are sorted.\<close>

definition marshal_map :: "(string \<times> jout) list \<Rightarrow> string" where
  "marshal_map kvs = marshal_obj (sort_key fst kvs)"

fun json_of :: "jout \<Rightarrow> json" where
  "json_of (OStr x) = JStr (to_valid x)"
| "json_of (ONum i) = JNum (itoa i)"
| "json_of (OBool b) = JBool b"

definition member_ok :: "string \<times> jout \<Rightarrow> bool" where
  "member_ok m \<longleftrightarrow> utf8_valid (fst m)"

definition json_member :: "string \<times> jout \<Rightarrow> string \<times> string \<times> json" where
  "json_member m = (fst m, marshal_value (snd m), json_of (snd m))"

section \<open>What is marshalled can be read back\<close>

lemma digits_head: "0 < n \<Longrightarrow> \<exists>c t. digits n = c # t \<and> c \<noteq> CHR ''0''"
proof (induction n rule: digits.induct)
  case (1 n)
  show ?case
  proof (cases "n < 10")
    case True
    with 1 have "digits n = [chr (48 + n)]" "chr (48 + n) \<noteq> CHR ''0''"
      by (simp_all add: digits.simps [of n] char_eq_byte byte_chr)
    then show ?thesis by blast
  next
    case False
    then have "0 < n div 10" by (simp add: div_greater_zero_iff)
    with 1 False obtain c t where "digits (n div 10) = c # t" "c \<noteq> CHR ''0''" by auto
    with False show ?thesis by (subst digits.simps) simp
  qed
qed

lemma digits_zero: "digits 0 = ''0''"
  by (subst digits.simps) (simp add: char_eq_byte byte_chr)

lemma is_digit_less: "is_digit c \<Longrightarrow> c \<noteq> quote \<and> c \<noteq> CHR ''{'' \<and> c \<noteq> CHR ''['' \<and> c \<noteq> CHR ''t'' \<and>
    c \<noteq> CHR ''f'' \<and> c \<noteq> CHR ''n'' \<and> c \<noteq> CHR ''-'' \<and> \<not> json_space c"
  by (auto simp: is_digit_def quote_def json_space_def)

definition ends_value :: "string \<Rightarrow> bool" where
  "ends_value s \<longleftrightarrow> (\<exists>c t. s = c # t \<and> (c = CHR '','' \<or> c = CHR ''}''))"

lemma digit_span_digits:
  assumes "\<And>c t. s = c # t \<Longrightarrow> \<not> is_digit c"
  shows "digit_span (digits n @ s) = Some (digits n, s)"
proof -
  have "takeWhile is_digit (digits n @ s) = digits n" "dropWhile is_digit (digits n @ s) = s"
    using digits_are_digits assms by (cases s; auto simp: takeWhile_append dropWhile_append)+
  then show ?thesis
    unfolding digit_span_def using digits_nonempty [of n] by (simp only: split: list.split) auto
qed

lemma lex_int_digits:
  assumes "ends_value s"
  shows "lex_int (digits n @ s) = Some (digits n, s)"
proof (cases "n = 0")
  case True
  then show ?thesis by (simp add: digits_zero lex_int_def)
next
  case False
  then obtain c t where "digits n = c # t" "c \<noteq> CHR ''0''" using digits_head by blast
  with assms digit_span_digits [of s n] show ?thesis
    by (force simp: lex_int_def ends_value_def is_digit_def)
qed

lemma lex_number_itoa:
  assumes "ends_value s"
  shows "lex_number (itoa i @ s) = Some (itoa i, s)"
proof -
  have tail: "lex_frac s = Some ([], s)" "lex_exp s = Some ([], s)"
    using assms by (auto simp: ends_value_def lex_frac_def lex_exp_def)
  obtain c t where c: "digits (nat i) = c # t" "is_digit c"
    using digits_are_digits [of _ "nat i"] by (cases "digits (nat i)") auto
  show ?thesis
    using lex_int_digits [OF assms, of "nat (- i)"] lex_int_digits [OF assms, of "nat i"] tail c
      is_digit_less [OF c(2)]
    by (simp add: lex_number_def itoa_def)
qed

lemma itoa_head: "\<exists>c t. itoa i = c # t \<and> (c = CHR ''-'' \<or> is_digit c)"
proof (cases "i < 0")
  case False
  then show ?thesis using digits_are_digits [of _ "nat i"] by (cases "digits (nat i)") (auto simp: itoa_def)
qed (simp add: itoa_def)

definition starts_number :: "char \<Rightarrow> bool" where
  "starts_number c \<longleftrightarrow> c \<noteq> quote \<and> c \<noteq> CHR ''{'' \<and> c \<noteq> CHR ''['' \<and> c \<noteq> CHR ''t'' \<and> c \<noteq> CHR ''f'' \<and> c \<noteq> CHR ''n''"

lemma p_value_number:
  "starts_number c \<Longrightarrow> p_value (Suc n) d (c # t) = map_option (\<lambda>(l, r). (JNum l, r)) (lex_number (c # t))"
  by (simp add: p_value.simps starts_number_def)

lemma p_value_marshal:
  assumes "ends_value s"
  shows "p_value (Suc n) d (marshal_value v @ s) = Some (json_of v, s)"
proof (cases v)
  case (OStr x)
  with assms dec_enc_string [of x s] show ?thesis by (simp add: p_value.simps)
next
  case (ONum i)
  obtain c t where c: "itoa i = c # t" "c = CHR ''-'' \<or> is_digit c" using itoa_head by blast
  have "lex_number (itoa i @ s) = Some (itoa i, s)" using lex_number_itoa assms by blast
  moreover have "starts_number c" using c(2) is_digit_less [of c] by (auto simp: starts_number_def quote_def)
  ultimately show ?thesis using ONum c(1) by (simp add: p_value_number)
next
  case (OBool b)
  then show ?thesis by (simp add: p_value.simps quote_def)
qed

lemma skip_ws_marshal: "skip_ws (marshal_value v @ s) = marshal_value v @ s"
proof (cases v)
  case (ONum i)
  with itoa_head [of i] show ?thesis by (auto simp: skip_ws_def dest: is_digit_less) (simp add: json_space_def)
qed (simp_all add: skip_ws_def json_space_def quote_def)

lemma expect_here [simp]:
  "\<not> json_space c \<Longrightarrow> expect c (c # s) = Some s"
  "\<not> json_space c' \<Longrightarrow> c' \<noteq> c \<Longrightarrow> expect c (c' # s) = None"
  by (simp_all add: expect_def skip_ws_def)

lemma json_space_simps [simp]:
  "\<not> json_space (CHR '':'')" "\<not> json_space (CHR '','')" "\<not> json_space (CHR ''}'')" "\<not> json_space quote"
  "\<not> json_space (CHR ''{'')"
  by (simp_all add: json_space_def quote_def)

lemma p_members_member:
  assumes "dec_string s0 = Some (k, CHR '':'' # s2)" "skip_ws s2 = s2" "p_value n d s2 = Some (v, s4)"
  shows "p_members (Suc n) d (quote # s0) =
    (case expect (CHR ''}'') s4 of
       Some r \<Rightarrow> Some ([(k, take (length s2 - length s4) s2, v)], r)
     | None \<Rightarrow> do {
         s5 \<leftarrow> expect (CHR '','') s4;
         (ms, r) \<leftarrow> p_members n d (skip_ws s5);
         Some ((k, take (length s2 - length s4) s2, v) # ms, r)
       })"
  by (simp add: p_members.simps assms Let_def split: option.split)

lemma p_members_marshal:
  "kvs \<noteq> [] \<Longrightarrow> \<forall>m\<in>set kvs. member_ok m \<Longrightarrow> length kvs \<le> n \<Longrightarrow>
   p_members (Suc n) d (join_comma (map marshal_member kvs) @ CHR ''}'' # rest) = Some (map json_member kvs, rest)"
proof (induction kvs arbitrary: n)
  case (Cons m kvs)
  let ?tail = "case kvs of [] \<Rightarrow> CHR ''}'' # rest
    | _ \<Rightarrow> CHR '','' # join_comma (map marshal_member kvs) @ CHR ''}'' # rest"
  have split: "join_comma (map marshal_member (m # kvs)) @ CHR ''}'' # rest =
      quote # enc_string (fst m) @ quote # CHR '':'' # marshal_value (snd m) @ ?tail"
    by (cases kvs) (simp_all add: marshal_member_def)
  have ev: "ends_value ?tail" by (simp add: ends_value_def split: list.split)
  obtain n' where n: "n = Suc n'" using Cons.prems by (cases n) auto
  have ok: "to_valid (fst m) = fst m" using Cons.prems by (simp add: member_ok_def)
  note member = p_members_member [OF dec_enc_string [of "fst m", unfolded ok] skip_ws_marshal p_value_marshal [OF ev], of n' d]
  show ?case
  proof (cases kvs)
    case Nil
    then show ?thesis unfolding split n member [simplified] by (simp add: json_member_def)
  next
    case (Cons m2 kvs2)
    have "skip_ws (join_comma (map marshal_member kvs) @ CHR ''}'' # rest) =
        join_comma (map marshal_member kvs) @ CHR ''}'' # rest"
      using Cons by (cases kvs2) (simp_all add: skip_ws_def marshal_member_def)
    moreover have "p_members n (d) (join_comma (map marshal_member kvs) @ CHR ''}'' # rest) =
        Some (map json_member kvs, rest)"
      unfolding n using Cons.prems Cons.IH [of n'] Cons \<open>n = Suc n'\<close> by simp
    ultimately show ?thesis unfolding split n using member Cons n
      by (simp add: json_member_def)
  qed
qed simp

lemma join_comma_head: "kvs \<noteq> [] \<Longrightarrow> \<exists>t. join_comma (map marshal_member kvs) @ s = quote # t"
  by (cases kvs rule: remdups_adj.cases) (simp_all add: marshal_member_def)

lemma length_join_comma: "length kvs \<le> length (join_comma (map marshal_member kvs))"
proof (induction kvs)
  case (Cons m kvs)
  then show ?case by (cases kvs) (simp_all add: marshal_member_def)
qed simp

lemma json_depth_eq: "json_depth = Suc 9999"
  by (simp add: json_depth_def)

lemma p_value_object:
  "expect (CHR ''}'') t = None \<Longrightarrow>
   p_value (Suc n) (Suc d) (CHR ''{'' # t) = map_option (\<lambda>(ms, r). (JObj ms, r)) (p_members n d (skip_ws t))"
  by (simp add: p_value.simps quote_def)

lemma expect_quote [simp]: "expect (CHR ''}'') (quote # t) = None"
  by (simp add: expect_def skip_ws_def quote_def json_space_def)

theorem json_parse_marshal:
  assumes "\<forall>m\<in>set kvs. member_ok m"
  shows "json_parse (marshal_obj kvs) = Some (JObj (map json_member kvs))"
proof -
  let ?body = "join_comma (map marshal_member kvs) @ ''}''"
  have ws: "skip_ws (CHR ''{'' # s) = CHR ''{'' # s" for s by (simp add: skip_ws_def)
  obtain n where n: "2 * length (CHR ''{'' # ?body) = Suc (Suc n)" "length kvs \<le> n"
    using length_join_comma [of kvs] by auto
  have "p_value (Suc (Suc (Suc n))) json_depth (CHR ''{'' # ?body) = Some (JObj (map json_member kvs), [])"
  proof (cases "kvs = []")
    case True
    then show ?thesis by (simp add: p_value.simps json_depth_def quote_def)
  next
    case False
    then obtain t where t: "?body = quote # t" using join_comma_head by blast
    have "p_members (Suc (Suc n)) d ?body = Some (map json_member kvs, [])" for d
      using p_members_marshal [OF False assms, of "Suc n"] n by simp
    with t show ?thesis
      unfolding json_depth_eq by (subst p_value_object) (simp_all add: skip_ws_def)
  qed
  then show ?thesis
    using n by (simp add: json_parse_def marshal_obj_def ws) (simp add: skip_ws_def)
qed

lemma marshal_map_valid: "\<forall>m\<in>set kvs. member_ok m \<Longrightarrow> json_valid (marshal_map kvs)"
  by (simp add: json_valid_def marshal_map_def json_parse_marshal)

section \<open>Fields\<close>

text \<open>
  The decoder looks a key up among the field names, first as it is and then folded: ASCII letters
  without case, and the two other runes that fold to ASCII letters (U+017F to S, U+212A to K).
\<close>

fun fold_name :: "string \<Rightarrow> string" where
  "fold_name [] = []"
| "fold_name (a # s) =
     (case s of
        b # s1 \<Rightarrow>
          if a = CHR 0xC5 \<and> b = CHR 0xBF then CHR ''s'' # fold_name s1
          else (case s1 of
                  c # s2 \<Rightarrow>
                    if a = CHR 0xE2 \<and> b = CHR 0x84 \<and> c = CHR 0xAA then CHR ''k'' # fold_name s2
                    else ascii_lower a # fold_name s
                | [] \<Rightarrow> ascii_lower a # fold_name s)
      | [] \<Rightarrow> [ascii_lower a])"

definition field_for :: "string list \<Rightarrow> string \<Rightarrow> string option" where
  "field_for names key =
     (if key \<in> set names then Some key else List.find (\<lambda>n. fold_name n = fold_name key) names)"

text \<open>\<^verbatim>\<open>strconv.ParseInt(lit, 10, 64)\<close>, which the decoder applies to a number for an int field\<close>

definition digit_value :: "char \<Rightarrow> int" where
  "digit_value c = int (byte c) - 48"

definition digits_value :: "string \<Rightarrow> int" where
  "digits_value ds = foldl (\<lambda>n c. 10 * n + digit_value c) 0 ds"

definition in_int64 :: "int \<Rightarrow> bool" where
  "in_int64 i \<longleftrightarrow> - (2 ^ 63) \<le> i \<and> i < 2 ^ 63"

definition json_int :: "string \<Rightarrow> int option" where
  "json_int lit =
     (let (neg, ds) = (case lit of c # t \<Rightarrow> if c = CHR ''-'' then (True, t) else (False, lit) | [] \<Rightarrow> (False, []));
          i = (if neg then - digits_value ds else digits_value ds)
      in if ds \<noteq> [] \<and> list_all is_digit ds \<and> in_int64 i then Some i else None)"

text \<open>The field after a member with this value; None where the decoder reports a type error.\<close>

definition set_string :: "json \<Rightarrow> string \<Rightarrow> string option" where
  "set_string v old = (case v of JStr x \<Rightarrow> Some x | JNull \<Rightarrow> Some old | _ \<Rightarrow> None)"

definition set_int :: "json \<Rightarrow> int \<Rightarrow> int option" where
  "set_int v old = (case v of JNum lit \<Rightarrow> json_int lit | JNull \<Rightarrow> Some old | _ \<Rightarrow> None)"

text \<open>
  A struct from an object: the members in order, each into its field; null leaves the struct alone
  and everything else is a type error.
\<close>

definition decode_struct ::
  "string list \<Rightarrow> (string \<Rightarrow> string \<Rightarrow> json \<Rightarrow> 'r \<Rightarrow> 'r option) \<Rightarrow> 'r \<Rightarrow> json \<Rightarrow> 'r option" where
  "decode_struct names put zero v =
     (case v of
        JObj ms \<Rightarrow>
          fold (\<lambda>(k, raw, x) acc. case acc of
                  None \<Rightarrow> None
                | Some r \<Rightarrow> (case field_for names k of None \<Rightarrow> Some r | Some f \<Rightarrow> put f raw x r))
            ms (Some zero)
      | JNull \<Rightarrow> Some zero
      | _ \<Rightarrow> None)"

text \<open>\<^verbatim>\<open>json.Unmarshal\<close> into a \<^verbatim>\<open>map[string]json.RawMessage\<close>: the raw text of the last member of a key\<close>

definition unmarshal_raw_map :: "string \<Rightarrow> (string \<rightharpoonup> string) option" where
  "unmarshal_raw_map raw =
     (case json_parse raw of
        Some (JObj ms) \<Rightarrow> Some (fold (\<lambda>(k, r, _) m. m(k \<mapsto> r)) ms Map.empty)
      | Some JNull \<Rightarrow> Some Map.empty
      | _ \<Rightarrow> None)"

lemma digits_value_append: "digits_value (ds @ [c]) = 10 * digits_value ds + digit_value c"
  by (simp add: digits_value_def)

lemma digits_value_digits: "digits_value (digits n) = int n"
proof (induction n rule: digits.induct)
  case (1 n)
  show ?case
  proof (cases "n < 10")
    case True
    then show ?thesis
      by (simp add: digits.simps [of n] digits_value_def digit_value_def byte_chr)
  next
    case False
    moreover have "n mod 10 < 10" by simp
    moreover have "int n = 10 * int (n div 10) + int (n mod 10)" by presburger
    ultimately show ?thesis
      using 1 by (simp add: digits.simps [of n] digits_value_append digit_value_def byte_chr)
  qed
qed

lemma json_int_itoa: "in_int64 i \<Longrightarrow> json_int (itoa i) = Some i"
proof -
  assume i: "in_int64 i"
  have d: "list_all is_digit (digits n)" for n
    using digits_are_digits by (auto simp: list_all_iff)
  obtain c t where c: "digits (nat i) = c # t" "is_digit c"
    using digits_are_digits [of _ "nat i"] by (cases "digits (nat i)") auto
  with i d [of "nat i"] d [of "nat (- i)"] digits_value_digits [of "nat i"] digits_value_digits [of "nat (- i)"]
  show ?thesis
    by (auto simp: json_int_def itoa_def dest: is_digit_less)
qed

end
