(* ===== verification/Rfc3339.thy ===== *)
theory Rfc3339
  imports Json
begin

text \<open>
  Times as \<^verbatim>\<open>time.Time\<close> writes and reads them in JSON: RFC 3339 with nanoseconds in UTC, from
  year 0 to year 9999.  An instant is an \<^typ>\<open>int\<close>, nanoseconds since 1970.  Reading inverts writing.
\<close>

section \<open>The calendar\<close>

definition leap :: "nat \<Rightarrow> bool" where
  "leap y \<longleftrightarrow> y mod 4 = 0 \<and> (y mod 100 \<noteq> 0 \<or> y mod 400 = 0)"

definition year_len :: "nat \<Rightarrow> nat" where
  "year_len y = (if leap y then 366 else 365)"

text \<open>Days from the first of January of year 0\<close>

definition year_start :: "nat \<Rightarrow> nat" where
  "year_start y = 365 * y + (y + 3) div 4 + (y + 399) div 400 - (y + 99) div 100"

definition month_lens :: "nat \<Rightarrow> nat list" where
  "month_lens y = [31, if leap y then 29 else 28, 31, 30, 31, 30, 31, 31, 30, 31, 30, 31]"

lemma ceil_div: "0 < k \<Longrightarrow> (y + (k - 1)) div k = y div k + (if y mod k = 0 then 0 else 1)" for y k :: nat
proof -
  assume k: "0 < k"
  have "y + (k - 1) = (y mod k + (k - 1)) + k * (y div k)" by simp
  then have "(y + (k - 1)) div k = (y mod k + (k - 1)) div k + y div k"
    using k by (metis div_mult_self2 less_not_refl add.commute)
  moreover have "(y mod k + (k - 1)) div k = (if y mod k = 0 then 0 else 1)"
    using k mod_less_divisor [OF k, of y] by (auto intro!: div_nat_eqI)
  ultimately show ?thesis by simp
qed

lemma ceil_div_Suc: "0 < k \<Longrightarrow> (Suc y + (k - 1)) div k = (y + (k - 1)) div k + (if y mod k = 0 then 1 else 0)"
  for y k :: nat
proof -
  assume k: "0 < k"
  then have eq: "Suc y + (k - 1) = y + k" by simp
  show ?thesis unfolding eq ceil_div [OF k] using div_add_self2 [of k y] k by simp
qed

lemma leap_steps: "y mod 400 = 0 \<Longrightarrow> y mod 100 = 0" "y mod 100 = 0 \<Longrightarrow> y mod 4 = 0" for y :: nat
  using mod_mod_cancel [of 100 400 y] mod_mod_cancel [of 4 100 y] by simp_all

lemma year_arith:
  "b \<le> 365 * y \<Longrightarrow> (q \<Longrightarrow> p) \<Longrightarrow> (r \<Longrightarrow> q) \<Longrightarrow>
   365 * Suc y + (a + (if p then 1 else 0)) + (c + (if r then 1 else 0)) - (b + (if q then 1 else 0)) =
   365 * y + a + c - b + (if p \<and> (\<not> q \<or> r) then 366 else 365)" for a b c y :: nat
  by (cases p; cases q; cases r) simp_all

lemma year_start_Suc: "year_start (Suc y) = year_start y + year_len y"
proof -
  have le: "(y + 99) div 100 \<le> 365 * y"
  proof (cases "y = 0")
    case False
    then have "(y + 99) div 100 \<le> (100 * y) div 100" by (intro div_le_mono) simp
    then show ?thesis by simp
  qed simp
  have a4: "(Suc y + 3) div 4 = (y + 3) div 4 + (if y mod 4 = 0 then 1 else 0)"
    using ceil_div_Suc [of 4 y] by simp
  have a100: "(Suc y + 99) div 100 = (y + 99) div 100 + (if y mod 100 = 0 then 1 else 0)"
    using ceil_div_Suc [of 100 y] by simp
  have a400: "(Suc y + 399) div 400 = (y + 399) div 400 + (if y mod 400 = 0 then 1 else 0)"
    using ceil_div_Suc [of 400 y] by simp
  show ?thesis
    unfolding year_start_def year_len_def leap_def a4 a100 a400
    by (rule year_arith) (use le leap_steps in auto)
qed

lemma year_start_mono: "y \<le> z \<Longrightarrow> year_start y \<le> year_start z"
  by (induction z) (auto simp: le_Suc_eq year_start_Suc)

lemma year_start_bounds: "365 * y \<le> year_start y" "year_start y \<le> 366 * y"
  by (induction y) (simp_all add: year_start_Suc year_len_def year_start_def [of 0])

text \<open>The year of a day: up from an estimate that is not beyond it.\<close>

function year_up :: "nat \<Rightarrow> nat \<Rightarrow> nat" where
  "year_up n y = (if year_start (Suc y) \<le> n then year_up n (Suc y) else y)"
  by auto
termination
proof (relation "measure (\<lambda>(n, y). n - y)")
  fix n y
  assume "year_start (Suc y) \<le> n"
  with year_start_bounds(1) [of "Suc y"] show "((n, Suc y), n, y) \<in> measure (\<lambda>(n, y). n - y)" by simp
qed simp

declare year_up.simps [simp del]

lemma year_up_correct:
  "year_start y \<le> n \<Longrightarrow> year_start (year_up n y) \<le> n \<and> n < year_start (Suc (year_up n y))"
  by (induction n y rule: year_up.induct) (subst (1 2) year_up.simps, auto)

definition year_of :: "nat \<Rightarrow> nat" where
  "year_of n = year_up n (n div 366)"

lemma year_of: "year_start (year_of n) \<le> n" "n < year_start (Suc (year_of n))"
  using year_up_correct [of "n div 366" n] year_start_bounds(2) [of "n div 366"]
  unfolding year_of_def by (auto intro: order_trans)

text \<open>The month of a day of the year, and the day of the month\<close>

fun split_month :: "nat list \<Rightarrow> nat \<Rightarrow> nat \<times> nat" where
  "split_month [] d = (0, d)"
| "split_month (l # ls) d = (if d < l then (0, d) else (case split_month ls (d - l) of (m, e) \<Rightarrow> (Suc m, e)))"

lemma split_month:
  "d < sum_list ls \<Longrightarrow> split_month ls d = (m, e) \<Longrightarrow>
   m < length ls \<and> e < ls ! m \<and> sum_list (take m ls) + e = d"
proof (induction ls arbitrary: d m)
  case (Cons l ls)
  show ?case
  proof (cases "d < l")
    case False
    obtain m' e' where s: "split_month ls (d - l) = (m', e')" by fastforce
    with Cons.prems False have "m = Suc m'" "e = e'" by auto
    with Cons.IH [of "d - l" m'] Cons.prems False s show ?thesis by simp linarith
  qed (use Cons.prems in auto)
qed simp

lemma sum_month_lens: "sum_list (month_lens y) = year_len y"
  by (simp add: month_lens_def year_len_def)

definition days_of :: "nat \<Rightarrow> nat \<Rightarrow> nat \<Rightarrow> nat" where
  "days_of y m d = year_start y + sum_list (take (m - 1) (month_lens y)) + (d - 1)"

definition date_of :: "nat \<Rightarrow> nat \<times> nat \<times> nat" where
  "date_of n =
     (let y = year_of n; (m, d) = split_month (month_lens y) (n - year_start y) in (y, Suc m, Suc d))"

lemma date_of:
  assumes "date_of n = (y, m, d)"
  shows "1 \<le> m" "m \<le> 12" "1 \<le> d" "d \<le> month_lens y ! (m - 1)" "days_of y m d = n" "y = year_of n"
proof -
  obtain m' d' where s: "split_month (month_lens (year_of n)) (n - year_start (year_of n)) = (m', d')"
    by fastforce
  with assms have e: "y = year_of n" "m = Suc m'" "d = Suc d'" by (auto simp: date_of_def Let_def)
  have "n - year_start y < sum_list (month_lens y)"
    using year_of [of n] e by (simp add: sum_month_lens year_start_Suc)
  from split_month [OF this] s e
  have "m' < length (month_lens y)" "d' < month_lens y ! m'"
    "sum_list (take m' (month_lens y)) + d' = n - year_start y" by auto
  with e year_of(1) [of n] show "1 \<le> m" "m \<le> 12" "1 \<le> d" "d \<le> month_lens y ! (m - 1)"
    "days_of y m d = n" "y = year_of n"
    by (simp_all add: days_of_def month_lens_def)
qed

lemma year_of_less: "n < year_start 10000 \<Longrightarrow> year_of n < 10000"
  using year_of(1) [of n] year_start_mono [of 10000 "year_of n"] by (rule_tac ccontr) simp

section \<open>Fixed-width numbers\<close>

fun pad :: "nat \<Rightarrow> nat \<Rightarrow> string" where
  "pad 0 n = []"
| "pad (Suc k) n = pad k (n div 10) @ [chr (48 + n mod 10)]"

lemma pad_length [simp]: "length (pad k n) = k"
  by (induction k arbitrary: n) auto

lemma pad_digits [simp]: "list_all is_digit (pad k n)"
  by (induction k arbitrary: n) (auto simp: is_digit_def byte_chr)

lemma pad_value: "n < 10 ^ k \<Longrightarrow> digits_value (pad k n) = int n"
proof (induction k arbitrary: n)
  case (Suc k)
  have "n div 10 < 10 ^ k" using Suc.prems by (simp add: less_mult_imp_div_less)
  moreover have "n mod 10 < 10" "int n = 10 * int (n div 10) + int (n mod 10)" by presburger+
  ultimately show ?case
    using Suc.IH by (simp add: digits_value_append digit_value_def byte_chr)
qed (simp add: digits_value_def)

text \<open>\<^verbatim>\<open>parseUint(s[:k], lo, hi)\<close>, and the rest of the string\<close>

definition parse_uint :: "nat \<Rightarrow> nat \<Rightarrow> nat \<Rightarrow> string \<Rightarrow> (nat \<times> string) option" where
  "parse_uint k lo hi s =
     (let ds = take k s; v = nat (digits_value ds) in
      if length ds = k \<and> list_all is_digit ds \<and> lo \<le> v \<and> v \<le> hi then Some (v, drop k s) else None)"

lemma parse_uint_pad:
  "n < 10 ^ k \<Longrightarrow> lo \<le> n \<Longrightarrow> n \<le> hi \<Longrightarrow> parse_uint k lo hi (pad k n @ s) = Some (n, s)"
  by (simp add: parse_uint_def pad_value)

section \<open>Writing and reading\<close>

definition epoch_day :: nat where
  "epoch_day = 719528"

definition frac_text :: "nat \<Rightarrow> string" where
  "frac_text ns =
     (if ns = 0 then [] else CHR ''.'' # rev (dropWhile (\<lambda>c. c = CHR ''0'') (rev (pad 9 ns))))"

definition time_day :: "gtime \<Rightarrow> int" where
  "time_day t = t div (86400 * 1000000000) + int epoch_day"

definition time_ok :: "gtime \<Rightarrow> bool" where
  "time_ok t \<longleftrightarrow> 0 \<le> time_day t \<and> time_day t < int (year_start 10000)"

text \<open>\<^verbatim>\<open>appendStrictRFC3339\<close> of a time in UTC, None when the year is outside 0 to 9999\<close>

definition time_text :: "gtime \<Rightarrow> string option" where
  "time_text t =
     (if time_ok t then
        (let (y, m, d) = date_of (nat (time_day t));
             sod = nat (t div 1000000000 mod 86400);
             ns = nat (t mod 1000000000)
         in Some (pad 4 y @ CHR ''-'' # pad 2 m @ CHR ''-'' # pad 2 d @ CHR ''T'' #
              pad 2 (sod div 3600) @ CHR '':'' # pad 2 (sod div 60 mod 60) @ CHR '':'' # pad 2 (sod mod 60) @
              frac_text ns @ ''Z''))
      else None)"

definition parse_frac :: "string \<Rightarrow> nat \<times> string" where
  "parse_frac s =
     (case s of
        c # t \<Rightarrow>
          (let ds = takeWhile is_digit t in
           if c = CHR ''.'' \<and> ds \<noteq> []
           then (nat (digits_value (take 9 (ds @ replicate 9 (CHR ''0'')))), dropWhile is_digit t)
           else (0, s))
      | [] \<Rightarrow> (0, s))"

definition parse_zone :: "string \<Rightarrow> int option" where
  "parse_zone s =
     (if s = ''Z'' then Some 0
      else (case s of
              [] \<Rightarrow> None
            | sg # t \<Rightarrow> do {
                (h, s1) \<leftarrow> parse_uint 2 0 23 t;
                s2 \<leftarrow> drop_prefix '':'' s1;
                (m, s3) \<leftarrow> parse_uint 2 0 59 s2;
                let off = int ((h * 60 + m) * 60);
                if s3 \<noteq> [] then None
                else if sg = CHR ''+'' then Some off else if sg = CHR ''-'' then Some (- off) else None
              }))"

definition parse_time :: "string \<Rightarrow> gtime option" where
  "parse_time s = do {
     (y, s) \<leftarrow> parse_uint 4 0 9999 s;
     s \<leftarrow> drop_prefix ''-'' s;
     (m, s) \<leftarrow> parse_uint 2 1 12 s;
     s \<leftarrow> drop_prefix ''-'' s;
     (d, s) \<leftarrow> parse_uint 2 1 (month_lens y ! (m - 1)) s;
     s \<leftarrow> drop_prefix ''T'' s;
     (hh, s) \<leftarrow> parse_uint 2 0 23 s;
     s \<leftarrow> drop_prefix '':'' s;
     (mi, s) \<leftarrow> parse_uint 2 0 59 s;
     s \<leftarrow> drop_prefix '':'' s;
     (ss, s) \<leftarrow> parse_uint 2 0 59 s;
     let (ns, s) = parse_frac s;
     off \<leftarrow> parse_zone s;
     Some (((int (days_of y m d) - int epoch_day) * 86400 + int (hh * 3600 + mi * 60 + ss) - off) * 1000000000
           + int ns)
   }"

section \<open>Reading inverts writing\<close>

lemma dropWhile_rev_append: "\<exists>k. xs = rev (dropWhile (\<lambda>c. c = a) (rev xs)) @ replicate k a"
proof -
  have "rev xs = takeWhile (\<lambda>c. c = a) (rev xs) @ dropWhile (\<lambda>c. c = a) (rev xs)" by simp
  moreover have "takeWhile (\<lambda>c. c = a) (rev xs) = replicate (length (takeWhile (\<lambda>c. c = a) (rev xs))) a"
    by (intro replicate_eqI) (auto dest: set_takeWhileD)
  ultimately show ?thesis by (metis rev_append rev_replicate rev_rev_ident)
qed

lemma digits_value_zeros: "digits_value (replicate k (CHR ''0'')) = 0"
  by (induction k) (simp_all add: digits_value_def digit_value_def)

lemma month_lens_le: "i < 12 \<Longrightarrow> month_lens y ! i \<le> 31"
proof -
  assume "i < 12"
  then have "month_lens y ! i \<in> set (month_lens y)" by (intro nth_mem) (simp add: month_lens_def)
  moreover have "\<forall>l\<in>set (month_lens y). l \<le> 31" by (simp add: month_lens_def)
  ultimately show ?thesis by blast
qed

lemma sod_split: "sod div 3600 * 3600 + sod div 60 mod 60 * 60 + sod mod 60 = (sod :: nat)"
proof -
  have q: "sod div 3600 = sod div 60 div 60" by (simp add: div_mult2_eq [symmetric])
  have *: "h * 3600 + m * 60 + s = t" if "q * 60 + s = t" "h * 60 + m = q" for h m s q t :: nat
    using that by simp
  show ?thesis unfolding q by (rule * [OF div_mult_mod_eq div_mult_mod_eq])
qed

lemma instant_split:
  "((t div (86400 * 1000000000)) * 86400 + t div 1000000000 mod 86400) * 1000000000 + t mod 1000000000 = (t :: int)"
proof -
  have "t div (86400 * 1000000000) = t div 1000000000 div 86400"
    using zdiv_zmult2_eq [of 86400 t 1000000000] by (simp add: mult.commute)
  then show ?thesis by simp
qed

lemma parse_frac_text:
  assumes "ns < 1000000000"
  shows "parse_frac (frac_text ns @ ''Z'') = (ns, ''Z'')"
proof (cases "ns = 0")
  case True
  then show ?thesis by (simp add: frac_text_def parse_frac_def)
next
  case False
  let ?ds = "rev (dropWhile (\<lambda>c. c = CHR ''0'') (rev (pad 9 ns)))"
  from dropWhile_rev_append [of "pad 9 ns" "CHR ''0''"]
  obtain k where k: "pad 9 ns = ?ds @ replicate k (CHR ''0'')" by blast
  have digits: "\<forall>c\<in>set ?ds. is_digit c"
    using pad_digits [of 9 ns] by (subst (asm) k) (auto simp: list_all_iff)
  have "length ?ds + k = 9" using arg_cong [OF k, of length] by simp
  then have pad: "take 9 (?ds @ replicate 9 (CHR ''0'')) = pad 9 ns"
    by (subst k) (simp add: min_def)
  have "?ds \<noteq> []"
  proof
    assume "?ds = []"
    with k have "digits_value (pad 9 ns) = 0" by (simp add: digits_value_zeros)
    with pad_value [of ns 9] assms False show False by simp
  qed
  moreover have "takeWhile is_digit (?ds @ ''Z'') = ?ds" "dropWhile is_digit (?ds @ ''Z'') = ''Z''"
    using digits by (simp_all add: takeWhile_append dropWhile_append is_digit_def)
  ultimately show ?thesis
    using False pad pad_value [of ns 9] assms by (simp add: frac_text_def parse_frac_def)
qed

lemma parse_uint_append:
  "n < 10 ^ k \<Longrightarrow> lo \<le> n \<Longrightarrow> n \<le> hi \<Longrightarrow> Option.bind (parse_uint k lo hi (pad k n @ s)) f = f (n, s)"
  by (simp add: parse_uint_pad)

theorem parse_time_text:
  assumes "time_text t = Some s"
  shows "parse_time s = Some t"
proof -
  obtain y m d where date: "date_of (nat (time_day t)) = (y, m, d)" by (cases "date_of (nat (time_day t))")
  define sod ns where "sod = nat (t div 1000000000 mod 86400)" and "ns = nat (t mod 1000000000)"
  define h mi se where "h = sod div 3600" and "mi = sod div 60 mod 60" and "se = sod mod 60"
  note facts = date_of [OF date]
  have ok: "time_ok t" using assms by (simp add: time_text_def split: if_splits)
  have y: "y < 10 ^ 4" using facts(6) ok year_of_less by (simp add: time_ok_def nat_less_iff)
  have d: "d \<le> 31" using facts(1,2,4) month_lens_le [of "m - 1" y] by linarith
  have sod: "sod < 86400" "ns < 1000000000" by (simp_all add: sod_def ns_def nat_less_iff)
  have hms: "h \<le> 23" "mi \<le> 59" "se \<le> 59" "h * 3600 + mi * 60 + se = sod"
    using sod sod_split [of sod] by (simp_all add: h_def mi_def se_def less_Suc_eq_le [symmetric])
  have s: "s = pad 4 y @ CHR ''-'' # pad 2 m @ CHR ''-'' # pad 2 d @ CHR ''T'' #
      pad 2 h @ CHR '':'' # pad 2 mi @ CHR '':'' # pad 2 se @ frac_text ns @ ''Z''"
    using assms ok date by (simp add: time_text_def sod_def ns_def h_def mi_def se_def Let_def)
  have "int (days_of y m d) = time_day t" using facts(5) ok by (simp add: time_ok_def)
  moreover have "((time_day t - int epoch_day) * 86400 + int sod) * 1000000000 + int ns = t"
    using instant_split [of t] by (simp add: time_day_def sod_def ns_def)
  moreover have "int (h * 3600 + mi * 60 + se) = int sod" using hms(4) by simp
  ultimately have t: "((int (days_of y m d) - int epoch_day) * 86400 + int (h * 3600 + mi * 60 + se) - 0) * 1000000000
      + int ns = t" by simp
  have "parse_time s = Some (((int (days_of y m d) - int epoch_day) * 86400 + int (h * 3600 + mi * 60 + se) - 0)
      * 1000000000 + int ns)"
    unfolding s parse_time_def using facts d y sod hms(1-3)
    by (simp add: parse_uint_append parse_frac_text parse_zone_def del: of_nat_add of_nat_mult)
  then show ?thesis unfolding t .
qed

end
