(* ===== verification/StateCodec.thy ===== *)
theory StateCodec
  imports Rfc3339 FileStore
begin

text \<open>
  The JSON of the checkpoint (the struct tags of \<^verbatim>\<open>State\<close> in internal/state/store.go) and the
  theorem that reading it back gives the state that was written: with it the file store of
  internal/state/file_store.go keeps the contract of a checkpoint store.
\<close>

definition state_fields :: "string list" where
  "state_fields = [''target'', ''applied_uuid'', ''applied_at'']"

text \<open>
  \<^verbatim>\<open>Time.MarshalJSON\<close> puts the text between quotes; it has no byte that a string literal escapes
  (\<open>enc_time_text\<close> below).
\<close>

definition Marshal_State :: "agent_state \<Rightarrow> go_error + string" where
  "Marshal_State st =
     (case time_text (as_AppliedAt st) of
        None \<Rightarrow> Inl (ErrorsNew (''json: error calling MarshalJSON for type time.Time: '' @
                  ''Time.MarshalJSON: year outside of range [0,9999]''))
      | Some at \<Rightarrow> Inr (marshal_obj
          [(''target'', OStr (as_Target st)), (''applied_uuid'', OStr (as_AppliedUUID st)),
           (''applied_at'', OStr at)]))"

text \<open>\<^verbatim>\<open>Time.UnmarshalJSON\<close> works on the raw text between the quotes; null leaves the time alone.\<close>

definition Unmarshal_Time :: "string \<Rightarrow> gtime \<Rightarrow> gtime option" where
  "Unmarshal_Time raw old =
     (if raw = ''null'' then Some old
      else if 2 \<le> length raw \<and> hd raw = quote \<and> last raw = quote then parse_time (butlast (tl raw))
      else None)"

definition put_State :: "string \<Rightarrow> string \<Rightarrow> json \<Rightarrow> agent_state \<Rightarrow> agent_state option" where
  "put_State f raw v st =
     (if f = ''target'' then map_option (\<lambda>x. st\<lparr>as_Target := x\<rparr>) (set_string v (as_Target st))
      else if f = ''applied_uuid'' then
        map_option (\<lambda>x. st\<lparr>as_AppliedUUID := x\<rparr>) (set_string v (as_AppliedUUID st))
      else map_option (\<lambda>x. st\<lparr>as_AppliedAt := x\<rparr>) (Unmarshal_Time raw (as_AppliedAt st)))"

definition Unmarshal_State :: "string \<Rightarrow> go_error + agent_state" where
  "Unmarshal_State data =
     (case json_parse data of
        None \<Rightarrow> Inl (ErrorsNew ''invalid JSON'')
      | Some v \<Rightarrow>
          (case decode_struct state_fields put_State empty_state v of
             None \<Rightarrow> Inl (ErrorsNew ''json: cannot unmarshal'')
           | Some st \<Rightarrow> Inr st))"

definition state_json :: state_codec where
  "state_json = \<lparr>Marshal = Marshal_State, Unmarshal = Unmarshal_State\<rparr>"

text \<open>Strings that are not UTF-8 do not survive: \<^verbatim>\<open>json.Marshal\<close> replaces what is not well-formed.\<close>

definition storable_state :: "agent_state \<Rightarrow> bool" where
  "storable_state st \<longleftrightarrow> utf8_valid (as_Target st) \<and> utf8_valid (as_AppliedUUID st)"

section \<open>The text of a time is its own literal\<close>

definition time_char :: "char \<Rightarrow> bool" where
  "time_char c \<longleftrightarrow> is_digit c \<or> c \<in> {CHR ''-'', CHR '':'', CHR ''T'', CHR ''Z'', CHR ''.''}"

lemma time_char_plain: "time_char c \<Longrightarrow> byte c < 128 \<and> esc_rune [c] = [c]"
proof (cases "is_digit c")
  case True
  then show ?thesis
    by (simp add: is_digit_def esc_rune_def short_escape_def html_escaped_def char_eq_byte [of c])
next
  case False
  assume "time_char c"
  with False have "c = CHR ''-'' \<or> c = CHR '':'' \<or> c = CHR ''T'' \<or> c = CHR ''Z'' \<or> c = CHR ''.''"
    by (simp add: time_char_def)
  then show ?thesis
    by (elim disjE) (simp_all add: esc_rune_def short_escape_def html_escaped_def)
qed

lemma pad_time_chars: "c \<in> set (pad k n) \<Longrightarrow> time_char c"
  using pad_digits [of k n] by (simp add: time_char_def list_all_iff)

lemma frac_time_chars: "c \<in> set (frac_text ns) \<Longrightarrow> time_char c"
  by (auto simp: frac_text_def time_char_def split: if_splits dest!: set_dropWhileD)
    (auto dest: pad_time_chars simp: time_char_def)

lemma time_text_chars:
  assumes "time_text t = Some s"
  shows "\<forall>c\<in>set s. time_char c"
proof -
  obtain y m d where date: "date_of (nat (time_day t)) = (y, m, d)" by (cases "date_of (nat (time_day t))")
  have [simp]: "time_char (CHR ''-'')" "time_char (CHR '':'')" "time_char (CHR ''T'')" "time_char (CHR ''Z'')"
    by (simp_all add: time_char_def)
  show ?thesis
    using assms date
    by (auto simp: time_text_def Let_def split: if_splits dest: pad_time_chars frac_time_chars)
qed

lemma enc_plain: "\<forall>c\<in>set s. time_char c \<Longrightarrow> enc_string s = s"
proof (induction s)
  case (Cons c s)
  then have c: "byte c < 128" "esc_rune [c] = [c]" using time_char_plain [of c] by auto
  then have "utf8_take (c # s) = Some ([c], s)" by (simp add: utf8_take.simps)
  from enc_string_take [OF this] c Cons show ?case by simp
qed simp

lemma enc_time_text: "time_text t = Some s \<Longrightarrow> enc_string s = s"
  by (rule enc_plain) (rule time_text_chars)

lemma time_text_valid: "time_text t = Some s \<Longrightarrow> utf8_valid s"
  using time_text_chars time_char_plain by (blast intro: utf8_valid_ascii)

section \<open>Round trip\<close>

lemma Unmarshal_Time_text:
  assumes "time_text t = Some s"
  shows "Unmarshal_Time (marshal_value (OStr s)) old = Some t"
  using assms
  by (simp add: Unmarshal_Time_def enc_time_text parse_time_text) (simp add: quote_def)

lemma field_for_state [simp]:
  "field_for state_fields ''target'' = Some ''target''"
  "field_for state_fields ''applied_uuid'' = Some ''applied_uuid''"
  "field_for state_fields ''applied_at'' = Some ''applied_at''"
  by (simp_all add: field_for_def state_fields_def)

lemma Unmarshal_Marshal_State:
  assumes "storable_state st" "Marshal_State st = Inr b"
  shows "Unmarshal_State b = Inr st"
proof -
  obtain at where at: "time_text (as_AppliedAt st) = Some at"
    and b: "b = marshal_obj [(''target'', OStr (as_Target st)), (''applied_uuid'', OStr (as_AppliedUUID st)),
      (''applied_at'', OStr at)]"
    using assms(2) by (auto simp: Marshal_State_def split: option.splits)
  have "utf8_valid ''target''" "utf8_valid ''applied_uuid''" "utf8_valid ''applied_at''"
    by (simp_all add: utf8_valid_ascii)
  then have "json_parse b = Some (JObj (map json_member
      [(''target'', OStr (as_Target st)), (''applied_uuid'', OStr (as_AppliedUUID st)), (''applied_at'', OStr at)]))"
    unfolding b
    by (intro json_parse_marshal) (simp add: member_ok_def)
  then show ?thesis
    using Unmarshal_Time_text [OF at] assms(1)
    by (simp add: storable_state_def Unmarshal_State_def decode_struct_def json_member_def put_State_def set_string_def)
qed

lemma state_json_sels [simp]: "Marshal state_json = Marshal_State" "Unmarshal state_json = Unmarshal_State"
  by (simp_all add: state_json_def)

lemma file_store_json: "\<not> temp_like path \<Longrightarrow> file_store state_json path storable_state"
  by unfold_locales (auto intro: Unmarshal_Marshal_State)

text \<open>The store at the default path of the configuration\<close>

definition default_state_file :: string where
  "default_state_file = ''/tmp/vyos-nats-agent/state.json''"

interpretation state_file: file_store state_json default_state_file storable_state
  by (rule file_store_json) (simp add: default_state_file_def temp_like_def after_last_slash_def)

end
