(* ===== verification/VyosAdapters.thy ===== *)
theory VyosAdapters
  imports Pipeline Json
begin

text \<open>
  The two adapters of real configure mode: internal/renderervyos hands a desired config to the VyOS
  renderer, internal/applyvyos hands the rendered commands to the VyOS apply engine.  Renderer and
  engine are packages outside the repository (olg-renderer-vyos): their types have the fields that
  the adapters read or write, and their methods are parameters, the fields of a backend.
\<close>

section \<open>The types of the external packages\<close>

record vyos_input =
  vi_Target :: string
  vi_ConfigUUID :: string
  vi_SchemaName :: string
  vi_SchemaVersion :: string
  vi_PayloadJSON :: string

record vyos_output =
  vo_Target :: string
  vo_ConfigUUID :: string
  vo_SchemaName :: string
  vo_SchemaVersion :: string
  vo_RenderedText :: string

record vyos_info =
  in_SupportedSchemaName :: string
  in_SupportedSchemaVersions :: "string list"

record apply_input =
  ai_Target :: string
  ai_ConfigUUID :: string
  ai_DesiredCommands :: string

record apply_plan =
  pl_Target :: string
  pl_ConfigUUID :: string
  pl_DeleteCommands :: "string list"
  pl_SetCommands :: "string list"
  pl_Commit :: bool
  pl_Save :: bool

text \<open>What the adapters do to their backends, as events\<close>

datatype vyos_event =
    VRender vyos_input "go_error + vyos_output"
  | VPrepare apply_input "go_error + apply_plan"
  | VApply apply_input "go_error option"

type_synonym 'w vyos_world = "('w, vyos_event) tw"
type_synonym ('w, 'r) vyos = "('w vyos_world, 'r) state"

section \<open>Schema metadata (renderervyos)\<close>

definition stringField :: "(string \<rightharpoonup> string) \<Rightarrow> string \<Rightarrow> string option" where
  "stringField obj key =
     (case obj key of
        None \<Rightarrow> None
      | Some raw \<Rightarrow> (case json_parse raw of None \<Rightarrow> None | Some v \<Rightarrow> set_string v []))"

text \<open>\<open>x\<close> is overwritten if there is a value.\<close>

definition overwrite :: "string option \<Rightarrow> string \<Rightarrow> string" where
  "overwrite v x = (case v of Some y \<Rightarrow> y | None \<Rightarrow> x)"

definition mergeMetadata :: "(string \<rightharpoonup> string) \<Rightarrow> string \<times> string \<Rightarrow> string \<times> string" where
  "mergeMetadata obj = (\<lambda>(schemaName, schemaVersion).
     (let schemaName = overwrite (stringField obj ''schema_name'') schemaName;
          schemaVersion = overwrite (stringField obj ''schema_version'') schemaVersion
      in case obj ''schema'' of
           None \<Rightarrow> (schemaName, schemaVersion)
         | Some rawSchema \<Rightarrow>
             (case unmarshal_raw_map rawSchema of
                None \<Rightarrow> (schemaName, schemaVersion)
              | Some schema \<Rightarrow>
                  (overwrite (stringField schema ''name'') schemaName,
                   overwrite (stringField schema ''version'') schemaVersion))))"

definition firstSupportedSchemaVersion :: "vyos_info \<Rightarrow> string" where
  "firstSupportedSchemaVersion info =
     (case in_SupportedSchemaVersions info of [] \<Rightarrow> [] | v # _ \<Rightarrow> v)"

text \<open>The error of \<^verbatim>\<open>json.Unmarshal\<close>; its wording is not read by the code.\<close>

definition bad_json :: go_error where
  "bad_json = ErrorsNew ''json: cannot unmarshal''"

definition payloadAndMetadata :: "vyos_info \<Rightarrow> string \<Rightarrow> go_error + string \<times> string \<times> string" where
  "payloadAndMetadata info raw =
     (case unmarshal_raw_map raw of
        None \<Rightarrow> Inl (wrap ''decode desired payload metadata: '' bad_json)
      | Some root \<Rightarrow>
          (let meta = mergeMetadata root (in_SupportedSchemaName info, firstSupportedSchemaVersion info)
           in case root ''config'' of
                None \<Rightarrow> Inr (raw, meta)
              | Some wrapped \<Rightarrow>
                  Inr (wrapped, (case unmarshal_raw_map wrapped of
                                   Some configRoot \<Rightarrow> mergeMetadata configRoot meta
                                 | None \<Rightarrow> meta))))"

definition render_BuildInput :: "vyos_info \<Rightarrow> stored_desired_config \<Rightarrow> go_error + vyos_input" where
  "render_BuildInput info desired =
     (case payloadAndMetadata info (dr_Payload (sd_Record desired)) of
        Inl e \<Rightarrow> Inl e
      | Inr (payload, schemaName, schemaVersion) \<Rightarrow>
          Inr \<lparr>vi_Target = dr_Target (sd_Record desired), vi_ConfigUUID = dr_UUID (sd_Record desired),
               vi_SchemaName = schemaName, vi_SchemaVersion = schemaVersion, vi_PayloadJSON = payload\<rparr>)"

section \<open>The renderer adapter\<close>

type_synonym 'w render_backend = "'w vyos_world ctx \<Rightarrow> vyos_input \<Rightarrow> 'w \<Rightarrow> (go_error + vyos_output) \<times> 'w"

record 'w render_adapter =
  ra_backend :: "'w render_backend option"
  ra_logger :: "'w logger"
  ra_LogPayloads :: bool
  ra_LogRendered :: bool

text \<open>\<^verbatim>\<open>NewWithBackend\<close> with its options: the logger and the switches, when they are given\<close>

definition render_NewWithBackend ::
  "'w render_backend option \<Rightarrow> ('w render_adapter \<Rightarrow> 'w render_adapter) option list
   \<Rightarrow> go_error + 'w render_adapter" where
  "render_NewWithBackend backend opts =
     (case backend of
        None \<Rightarrow> Inl (ErrorsNew ''vyos renderer backend is required'')
      | Some b \<Rightarrow>
          Inr (fold (\<lambda>opt a. case opt of None \<Rightarrow> a | Some f \<Rightarrow> f a) opts
                 \<lparr>ra_backend = Some b, ra_logger = None, ra_LogPayloads = False, ra_LogRendered = False\<rparr>))"

text \<open>\<^verbatim>\<open>New\<close>, over the constructor of the package\<close>

definition render_New :: "(go_error + 'w render_backend) \<Rightarrow> ('w render_adapter \<Rightarrow> 'w render_adapter) option list
   \<Rightarrow> go_error + 'w render_adapter" where
  "render_New vyosrenderer_New opts =
     (case vyosrenderer_New of
        Inl e \<Rightarrow> Inl (wrap ''create vyos renderer: '' e)
      | Inr b \<Rightarrow> render_NewWithBackend (Some b) opts)"

definition render_WithLogger :: "'w logger \<Rightarrow> 'w render_adapter \<Rightarrow> 'w render_adapter" where
  "render_WithLogger logger a = a\<lparr>ra_logger := logger\<rparr>"

definition render_WithDebugLogging :: "bool \<Rightarrow> bool \<Rightarrow> 'w render_adapter \<Rightarrow> 'w render_adapter" where
  "render_WithDebugLogging payloads rendered a = a\<lparr>ra_LogPayloads := payloads, ra_LogRendered := rendered\<rparr>"

text \<open>The adapter's log functions; without a logger they do nothing.\<close>

definition render_logInfo :: "'w render_adapter \<Rightarrow> string \<Rightarrow> (string \<times> log_value) list \<Rightarrow> ('w, unit) vyos" where
  "render_logInfo a msg kv = emit_log (ra_logger a) LevelInfo msg kv"

definition render_logDebug :: "'w render_adapter \<Rightarrow> string \<Rightarrow> (string \<times> log_value) list \<Rightarrow> ('w, unit) vyos" where
  "render_logDebug a msg kv = emit_log (ra_logger a) LevelDebug msg kv"

lemmas render_log_defs = render_logInfo_def render_logDebug_def

definition input_fields :: "vyos_input \<Rightarrow> (string \<times> log_value) list" where
  "input_fields i =
     [(''target'', LStr (vi_Target i)), (''uuid'', LStr (vi_ConfigUUID i)), (''schema_name'', LStr (vi_SchemaName i)),
      (''schema_version'', LStr (vi_SchemaVersion i)), (''payload_size_bytes'', LNum (int (length (vi_PayloadJSON i))))]"

definition output_fields :: "vyos_output \<Rightarrow> (string \<times> log_value) list" where
  "output_fields out =
     [(''target'', LStr (vo_Target out)), (''uuid'', LStr (vo_ConfigUUID out)),
      (''schema_name'', LStr (vo_SchemaName out)), (''schema_version'', LStr (vo_SchemaVersion out))]"

definition render_body :: "vyos_info \<Rightarrow> 'w render_adapter \<Rightarrow> 'w vyos_world ctx \<Rightarrow> stored_desired_config
    \<Rightarrow> ('w, go_error + rendered_output) vyos" where
  "render_body info a c desired =
     (case ra_backend a of
        None \<Rightarrow> State_Monad.return (Inl (ErrorsNew ''vyos renderer adapter is not initialized''))
      | Some backend \<Rightarrow>
          (case render_BuildInput info desired of
             Inl e \<Rightarrow> State_Monad.return (Inl e)
           | Inr input \<Rightarrow> do {
               _ \<leftarrow> render_logInfo a ''vyos renderer input prepared'' (input_fields input);
               _ \<leftarrow> (if ra_LogPayloads a
                     then render_logDebug a ''vyos renderer input payload summary''
                            (input_fields input @ [(''payload_body_omitted'', LBool True)])
                     else State_Monad.return ());
               r \<leftarrow> call (backend c input) (VRender input);
               case r of
                 Inl e \<Rightarrow> State_Monad.return (Inl (wrap ''vyos render failed: '' e))
               | Inr out \<Rightarrow> do {
                   _ \<leftarrow> render_logInfo a ''vyos renderer output produced''
                          (output_fields out @
                           [(''rendered_size_bytes'', LNum (int (length (vo_RenderedText out)))),
                            (''rendered_command_count'', LNum (countNonEmptyLines (vo_RenderedText out)))]);
                   _ \<leftarrow> (if ra_LogRendered a
                         then render_logDebug a ''vyos renderer output commands produced''
                                (output_fields out @ [(''rendered_commands'', LStr (vo_RenderedText out))])
                         else State_Monad.return ());
                   State_Monad.return (Inr \<lparr>out_Target = vo_Target out, out_UUID = vo_ConfigUUID out,
                                            out_Text = vo_RenderedText out\<rparr>)
                 }
             }))"

text \<open>As the configure service calls it\<close>

definition VyosAdapter_Render :: "vyos_info \<Rightarrow> 'w render_adapter \<Rightarrow> 'w vyos_world renderer" where
  "VyosAdapter_Render info a c desired w = run_state (render_body info a c desired) w"

section \<open>The apply adapter (applyvyos)\<close>

text \<open>The backend: its Apply, and its Prepare when it is a \<^verbatim>\<open>Preparer\<close> as well\<close>

record 'w apply_backend =
  ab_Apply :: "'w vyos_world ctx \<Rightarrow> apply_input \<Rightarrow> 'w \<Rightarrow> go_error option \<times> 'w"
  ab_Prepare :: "('w vyos_world ctx \<Rightarrow> apply_input \<Rightarrow> 'w \<Rightarrow> (go_error + apply_plan) \<times> 'w) option"

record 'w apply_adapter =
  aa_backend :: "'w apply_backend option"
  aa_logger :: "'w logger"
  aa_LogRendered :: bool
  aa_LogApplyPlan :: bool

definition apply_NewWithBackend ::
  "'w apply_backend option \<Rightarrow> ('w apply_adapter \<Rightarrow> 'w apply_adapter) option list \<Rightarrow> go_error + 'w apply_adapter" where
  "apply_NewWithBackend backend opts =
     (case backend of
        None \<Rightarrow> Inl (ErrorsNew ''vyos apply backend is required'')
      | Some b \<Rightarrow>
          Inr (fold (\<lambda>opt a. case opt of None \<Rightarrow> a | Some f \<Rightarrow> f a) opts
                 \<lparr>aa_backend = Some b, aa_logger = None, aa_LogRendered = False, aa_LogApplyPlan = False\<rparr>))"

definition apply_New :: "(bool \<Rightarrow> go_error + 'w apply_backend) \<Rightarrow> bool
   \<Rightarrow> ('w apply_adapter \<Rightarrow> 'w apply_adapter) option list \<Rightarrow> go_error + 'w apply_adapter" where
  "apply_New vyosapply_New saveAfterCommit opts =
     (case vyosapply_New saveAfterCommit of
        Inl e \<Rightarrow> Inl (wrap ''create vyos apply engine: '' e)
      | Inr b \<Rightarrow> apply_NewWithBackend (Some b) opts)"

definition apply_WithLogger :: "'w logger \<Rightarrow> 'w apply_adapter \<Rightarrow> 'w apply_adapter" where
  "apply_WithLogger logger a = a\<lparr>aa_logger := logger\<rparr>"

definition apply_WithDebugLogging :: "bool \<Rightarrow> bool \<Rightarrow> 'w apply_adapter \<Rightarrow> 'w apply_adapter" where
  "apply_WithDebugLogging rendered plan a = a\<lparr>aa_LogRendered := rendered, aa_LogApplyPlan := plan\<rparr>"

definition apply_logInfo :: "'w apply_adapter \<Rightarrow> string \<Rightarrow> (string \<times> log_value) list \<Rightarrow> ('w, unit) vyos" where
  "apply_logInfo a msg kv = emit_log (aa_logger a) LevelInfo msg kv"

definition apply_logDebug :: "'w apply_adapter \<Rightarrow> string \<Rightarrow> (string \<times> log_value) list \<Rightarrow> ('w, unit) vyos" where
  "apply_logDebug a msg kv = emit_log (aa_logger a) LevelDebug msg kv"

definition apply_logWarn :: "'w apply_adapter \<Rightarrow> string \<Rightarrow> (string \<times> log_value) list \<Rightarrow> ('w, unit) vyos" where
  "apply_logWarn a msg kv = emit_log (aa_logger a) LevelWarn msg kv"

lemmas apply_log_defs = apply_logInfo_def apply_logDebug_def apply_logWarn_def

definition apply_BuildInput :: "rendered_output \<Rightarrow> apply_input" where
  "apply_BuildInput rendered =
     \<lparr>ai_Target = out_Target rendered, ai_ConfigUUID = out_UUID rendered, ai_DesiredCommands = out_Text rendered\<rparr>"

definition plan_fields :: "apply_plan \<Rightarrow> (string \<times> log_value) list" where
  "plan_fields p = [(''target'', LStr (pl_Target p)), (''uuid'', LStr (pl_ConfigUUID p))]"

text \<open>The plan is only looked at: failing to prepare one is a warning.\<close>

definition log_plan :: "'w apply_adapter \<Rightarrow> 'w apply_backend \<Rightarrow> 'w vyos_world ctx \<Rightarrow> apply_input \<Rightarrow> ('w, unit) vyos" where
  "log_plan a backend c input =
     (case ab_Prepare backend of
        None \<Rightarrow> State_Monad.return ()
      | Some prepare \<Rightarrow> do {
          r \<leftarrow> call (prepare c input) (VPrepare input);
          case r of
            Inl e \<Rightarrow> apply_logWarn a ''failed to prepare vyos apply plan'' [(''error'', LErr (Some e))]
          | Inr plan \<Rightarrow> do {
              _ \<leftarrow> apply_logInfo a ''vyos apply plan prepared''
                     (plan_fields plan @
                      [(''delete_count'', LNum (int (length (pl_DeleteCommands plan)))),
                       (''set_count'', LNum (int (length (pl_SetCommands plan)))),
                       (''commit'', LBool (pl_Commit plan)), (''save'', LBool (pl_Save plan))]);
              if aa_LogApplyPlan a
              then apply_logDebug a ''vyos apply plan command arrays prepared''
                     (plan_fields plan @
                      [(''delete_commands'', LStrs (pl_DeleteCommands plan)), (''set_commands'', LStrs (pl_SetCommands plan)),
                       (''commit'', LBool (pl_Commit plan)), (''save'', LBool (pl_Save plan))])
              else State_Monad.return ()
            }
        })"

definition apply_body :: "'w apply_adapter \<Rightarrow> 'w vyos_world ctx \<Rightarrow> rendered_output \<Rightarrow> ('w, go_error option) vyos" where
  "apply_body a c rendered =
     (case aa_backend a of
        None \<Rightarrow> State_Monad.return (Some (ErrorsNew ''vyos apply adapter is not initialized''))
      | Some backend \<Rightarrow> do {
          let input = apply_BuildInput rendered;
          _ \<leftarrow> apply_logInfo a ''vyos apply input prepared''
                 [(''target'', LStr (ai_Target input)), (''uuid'', LStr (ai_ConfigUUID input)),
                  (''desired_size_bytes'', LNum (int (length (ai_DesiredCommands input)))),
                  (''desired_command_count'', LNum (countNonEmptyLines (ai_DesiredCommands input)))];
          _ \<leftarrow> (if aa_LogRendered a
                then apply_logDebug a ''vyos apply desired commands prepared''
                       [(''target'', LStr (ai_Target input)), (''uuid'', LStr (ai_ConfigUUID input)),
                        (''desired_commands'', LStr (ai_DesiredCommands input))]
                else State_Monad.return ());
          _ \<leftarrow> log_plan a backend c input;
          e \<leftarrow> call (ab_Apply backend c input) (VApply input);
          State_Monad.return (map_option (wrap ''vyos apply failed: '') e)
        })"

definition VyosAdapter_Apply :: "'w apply_adapter \<Rightarrow> 'w vyos_world apply_engine" where
  "VyosAdapter_Apply a c rendered w = run_state (apply_body a c rendered) w"

section \<open>Facts\<close>

text \<open>The reference for the metadata: the last of the places that names the schema wins.\<close>

definition nested_field :: "(string \<rightharpoonup> string) \<Rightarrow> string \<Rightarrow> string option" where
  "nested_field obj key =
     (case obj ''schema'' of
        None \<Rightarrow> None
      | Some raw \<Rightarrow> (case unmarshal_raw_map raw of None \<Rightarrow> None | Some schema \<Rightarrow> stringField schema key))"

definition last_given :: "string \<Rightarrow> string option list \<Rightarrow> string" where
  "last_given dflt vs = last (dflt # present vs)"

lemma present_append: "present (xs @ ys) = present xs @ present ys"
  by (induction xs rule: present.induct) simp_all

lemma last_given_snoc: "last_given x (vs @ [v]) = overwrite v (last_given x vs)"
  by (cases v) (simp_all add: last_given_def present_append overwrite_def)

lemma last_given_Nil: "last_given x [] = x"
  by (simp add: last_given_def)

lemma last_given_append: "last_given (last_given x us) vs = last_given x (us @ vs)"
proof (induction vs rule: rev_induct)
  case (snoc v vs)
  then show ?case
    unfolding append_assoc [symmetric] by (simp only: last_given_snoc)
qed (simp add: last_given_Nil)

definition schema_names :: "(string \<rightharpoonup> string) \<Rightarrow> string option list" where
  "schema_names obj = [stringField obj ''schema_name'', nested_field obj ''name'']"

definition schema_versions :: "(string \<rightharpoonup> string) \<Rightarrow> string option list" where
  "schema_versions obj = [stringField obj ''schema_version'', nested_field obj ''version'']"

lemma last_given_two: "last_given x [u, v] = overwrite v (overwrite u x)"
  using last_given_snoc [of x "[u]" v] last_given_snoc [of x "[]" u] by (simp add: last_given_Nil)

lemma mergeMetadata_last:
  "mergeMetadata obj (name, version) =
     (last_given name (schema_names obj), last_given version (schema_versions obj))"
  by (simp add: mergeMetadata_def Let_def schema_names_def schema_versions_def nested_field_def last_given_two
      overwrite_def split: option.split)

text \<open>An explicit null counts as a given name: it erases the name that came before it.\<close>

lemma null_erases_schema:
  "mergeMetadata [''schema_name'' \<mapsto> ''null'', ''schema_version'' \<mapsto> ''null''] (name, version) = ([], [])"
proof -
  have "json_parse ''null'' = Some JNull" by code_simp
  then show ?thesis by (simp add: mergeMetadata_def stringField_def set_string_def overwrite_def Let_def)
qed

text \<open>The backend calls of a run and its result\<close>

inductive render_path :: "vyos_info \<Rightarrow> 'w render_adapter \<Rightarrow> stored_desired_config \<Rightarrow> vyos_event list
    \<Rightarrow> go_error + rendered_output \<Rightarrow> bool" for info a d where
  render_uninitialized: "ra_backend a = None \<Longrightarrow> render_path info a d [] (Inl e)"
| render_refused: "render_BuildInput info d = Inl e \<Longrightarrow> render_path info a d [] (Inl e)"
| render_failed: "render_BuildInput info d = Inr input \<Longrightarrow>
    render_path info a d [VRender input (Inl e)] (Inl (wrap ''vyos render failed: '' e))"
| rendered: "render_BuildInput info d = Inr input \<Longrightarrow>
    render_path info a d [VRender input (Inr out)]
      (Inr \<lparr>out_Target = vo_Target out, out_UUID = vo_ConfigUUID out, out_Text = vo_RenderedText out\<rparr>)"

lemma render_body_follows: "follows (render_body info a c d) (render_path info a d)"
  unfolding render_body_def render_log_defs follows_def
  by (auto simp: wp_simps intro!: wp_intro render_failed rendered intro: render_uninitialized render_refused
      split: option.split sum.split)

definition can_prepare :: "'w apply_adapter \<Rightarrow> bool" where
  "can_prepare a = (case aa_backend a of None \<Rightarrow> False | Some b \<Rightarrow> ab_Prepare b \<noteq> None)"

inductive apply_path :: "'w apply_adapter \<Rightarrow> rendered_output \<Rightarrow> vyos_event list \<Rightarrow> go_error option \<Rightarrow> bool"
  for a ro where
  apply_uninitialized: "aa_backend a = None \<Longrightarrow> apply_path a ro [] (Some e)"
| applied: "aa_backend a \<noteq> None \<Longrightarrow> \<not> can_prepare a \<Longrightarrow>
    apply_path a ro [VApply (apply_BuildInput ro) e] (map_option (wrap ''vyos apply failed: '') e)"
| prepared_applied: "can_prepare a \<Longrightarrow>
    apply_path a ro [VPrepare (apply_BuildInput ro) r, VApply (apply_BuildInput ro) e]
      (map_option (wrap ''vyos apply failed: '') e)"

lemma apply_body_follows: "follows (apply_body a c ro) (apply_path a ro)"
  unfolding apply_body_def log_plan_def apply_log_defs follows_def
  by (auto simp: wp_simps can_prepare_def intro!: wp_intro apply_path.intros split: option.split sum.split)

section \<open>What the adapters log\<close>

text \<open>Commands at debug level and only when they are switched on; the payload never, only its size.\<close>

definition vyos_discreet :: "bool \<Rightarrow> bool \<Rightarrow> log_entry \<Rightarrow> bool" where
  "vyos_discreet commands plan en \<longleftrightarrow>
     (\<forall>(k, v)\<in>set (le_kv en).
        (\<forall>x. v = LStr x \<longrightarrow> k \<in> {''target'', ''uuid'', ''schema_name'', ''schema_version''} \<or>
           k \<in> {''rendered_commands'', ''desired_commands''} \<and> commands \<and> le_level en = LevelDebug) \<and>
        (\<forall>xs. v = LStrs xs \<longrightarrow> k \<in> {''delete_commands'', ''set_commands''} \<and> plan \<and> le_level en = LevelDebug))"

lemma render_body_discreet:
  "state_io_rel (logs_grow (vyos_discreet (ra_LogRendered a) p)) (render_body info a c d)"
  unfolding render_body_def render_log_defs input_fields_def output_fields_def
  by (intro io_intro logs_grow_calls logs_grow_emit; simp add: vyos_discreet_def)

lemma apply_body_discreet:
  "state_io_rel (logs_grow (vyos_discreet (aa_LogRendered a) (aa_LogApplyPlan a))) (apply_body a c ro)"
  unfolding apply_body_def log_plan_def apply_log_defs plan_fields_def
  by (intro io_intro logs_grow_calls logs_grow_emit; simp add: vyos_discreet_def)

end
