(* ===== verification/Doubles.thy ===== *)
theory Doubles
  imports ConfigureWorld StateCodec VyosAdapters
begin

text \<open>
  The test doubles of internal/testutil that stand in for the configure service's collaborators,
  as operations on a world that also has a file system: the recording bus client, the in-memory
  state store, the scripted renderer and apply engine, the log capture and the event recorder.
  The service wired to them, and to the file store and the placeholder engines, is an instance of
  the contract of \<open>ConfigureWorld\<close>.
\<close>

section \<open>Types\<close>

text \<open>\<^verbatim>\<open>strings.TrimRight(s, cutset)\<close> for a cutset of one byte\<close>

definition trim_right_char :: "char \<Rightarrow> string \<Rightarrow> string" where
  "trim_right_char ch s = rev (dropWhile (\<lambda>c. c = ch) (rev s))"

text \<open>An \<^verbatim>\<open>*EventRecorder\<close> is nil or the number of a recorder of the world.\<close>

type_synonym recorder_ref = "nat option"

record status_recorder =
  sr_Err :: "go_error option"
  sr_ErrByStage :: "string \<rightharpoonup> go_error"
  sr_Events :: recorder_ref
  sr_statuses :: "status_envelope list"

record result_recorder =
  rr_Err :: "go_error option"
  rr_ErrByResult :: "string \<rightharpoonup> go_error"
  rr_ErrByErrorCode :: "string \<rightharpoonup> go_error"
  rr_Events :: recorder_ref
  rr_results :: "result_envelope list"

record fake_configure_client =
  fc_Status :: status_recorder
  fc_Result :: result_recorder
  fc_Desired :: "stored_desired_config option"
  fc_DesiredByTarget :: "(string \<rightharpoonup> stored_desired_config) option"
  fc_LoadErr :: "go_error option"
  fc_Events :: recorder_ref
  fc_loadCalls :: nat

record fake_state_store =
  fs_Current :: agent_state
  fs_LoadErr :: "go_error option"
  fs_SaveErr :: "go_error option"
  fs_Events :: recorder_ref
  fs_loadCalls :: nat
  fs_saveCalls :: nat
  fs_savedStates :: "agent_state list"

record fake_renderer =
  fr_Output :: rendered_output
  fr_UseOutput :: bool
  fr_Err :: "go_error option"
  fr_Validate :: "(stored_desired_config \<Rightarrow> go_error option) option"
  fr_Events :: recorder_ref
  fr_calls :: nat
  fr_inputs :: "stored_desired_config list"

record fake_apply_engine =
  fa_Err :: "go_error option"
  fa_Errs :: "go_error option list"
  fa_Validate :: "(rendered_output \<Rightarrow> go_error option) option"
  fa_Events :: recorder_ref
  fa_calls :: nat
  fa_inputs :: "rendered_output list"

text \<open>What the simulated VyOS apply engine returns on success, as far as the double sets it\<close>

record vyos_apply_result =
  va_Target :: string
  va_ConfigUUID :: string
  va_Applied :: bool
  va_DeleteCommands :: "string list"
  va_SetCommands :: "string list"

record fake_apply_backend =
  fb_Plan :: apply_plan
  fb_UsePlan :: bool
  fb_Result :: vyos_apply_result
  fb_UseResult :: bool
  fb_PrepareErr :: "go_error option"
  fb_ApplyErr :: "go_error option"
  fb_ValidatePrepare :: "(apply_input \<Rightarrow> go_error option) option"
  fb_ValidateApply :: "(apply_input \<Rightarrow> go_error option) option"
  fb_MutateOnPrepare :: bool
  fb_MutatePrepareInput :: "(apply_input \<Rightarrow> apply_input) option"
  fb_Events :: recorder_ref
  fb_prepareCalls :: nat
  fb_applyCalls :: nat
  fb_prepareInputs :: "apply_input list"
  fb_applyInputs :: "apply_input list"

record doubles = fsys +
  d_client :: fake_configure_client
  d_store :: fake_state_store
  d_renderer :: fake_renderer
  d_engine :: fake_apply_engine
  d_backend :: fake_apply_backend
  d_entries :: "log_entry list"
  d_recorders :: "nat \<Rightarrow> string list"
  d_clock :: gtime

section \<open>Event recorder\<close>

definition EventRecorder_Record :: "recorder_ref \<Rightarrow> string \<Rightarrow> doubles \<Rightarrow> doubles" where
  "EventRecorder_Record ref name w =
     (case ref of
        None \<Rightarrow> w
      | Some a \<Rightarrow> w\<lparr>d_recorders := (d_recorders w)(a := d_recorders w a @ [name])\<rparr>)"

fun index_of :: "'a \<Rightarrow> 'a list \<Rightarrow> int \<Rightarrow> int" where
  "index_of x [] i = - 1"
| "index_of x (y # ys) i = (if y = x then i else index_of x ys (i + 1))"

definition EventRecorder_Index :: "nat \<Rightarrow> string \<Rightarrow> doubles \<Rightarrow> int" where
  "EventRecorder_Index a name w = index_of name (d_recorders w a) 0"

definition EventRecorder_Contains :: "nat \<Rightarrow> string \<Rightarrow> doubles \<Rightarrow> bool" where
  "EventRecorder_Contains a name w = (EventRecorder_Index a name w \<ge> 0)"

lemma index_of_bounds: "index_of x ys i \<ge> i \<or> index_of x ys i = - 1"
proof (induction ys arbitrary: i)
  case (Cons y ys)
  from Cons.IH [of "i + 1"] show ?case by auto
qed simp

lemma index_of_member: "0 \<le> i \<Longrightarrow> index_of x ys i \<ge> 0 \<longleftrightarrow> x \<in> set ys"
  by (induction ys arbitrary: i) auto

lemma EventRecorder_Contains_iff: "EventRecorder_Contains a name w \<longleftrightarrow> name \<in> set (d_recorders w a)"
  by (simp add: EventRecorder_Contains_def EventRecorder_Index_def index_of_member)

section \<open>Status and result recorders, and the client\<close>

definition RecordStatus :: "status_envelope \<Rightarrow> doubles \<Rightarrow> doubles" where
  "RecordStatus msg w =
     (let ref = sr_Events (fc_Status (d_client w));
          w1 = EventRecorder_Record ref ''publish_status'' w;
          w2 = (if se_Status msg = ''success'' then EventRecorder_Record ref ''publish_success_status'' w1 else w1);
          w3 = (if se_Status msg = ''failure'' then EventRecorder_Record ref ''publish_failure_status'' w2 else w2);
          r = fc_Status (d_client w3)
      in w3\<lparr>d_client := d_client w3\<lparr>fc_Status := r\<lparr>sr_statuses := sr_statuses r @ [msg]\<rparr>\<rparr>\<rparr>)"

definition StatusRecorder_PublishStatus ::
  "doubles ctx \<Rightarrow> status_envelope \<Rightarrow> doubles \<Rightarrow> go_error option \<times> doubles" where
  "StatusRecorder_PublishStatus c msg w =
     (let w' = RecordStatus msg w; r = fc_Status (d_client w')
      in (case sr_ErrByStage r (se_Stage msg) of Some e \<Rightarrow> Some e | None \<Rightarrow> sr_Err r, w'))"

definition RecordResult :: "result_envelope \<Rightarrow> doubles \<Rightarrow> doubles" where
  "RecordResult msg w =
     (let ref = rr_Events (fc_Result (d_client w));
          w1 = EventRecorder_Record ref
            (if re_Result msg = ''success'' then ''publish_success''
             else if re_Result msg = ''failure'' then ''publish_failure'' else ''publish_result'') w;
          r = fc_Result (d_client w1)
      in w1\<lparr>d_client := d_client w1\<lparr>fc_Result := r\<lparr>rr_results := rr_results r @ [msg]\<rparr>\<rparr>\<rparr>)"

definition ResultRecorder_PublishResult ::
  "doubles ctx \<Rightarrow> result_envelope \<Rightarrow> doubles \<Rightarrow> go_error option \<times> doubles" where
  "ResultRecorder_PublishResult c msg w =
     (let w' = RecordResult msg w; r = fc_Result (d_client w');
          err = (case rr_ErrByResult r (re_Result msg) of Some e \<Rightarrow> Some e | None \<Rightarrow> rr_Err r)
      in (case rr_ErrByErrorCode r (re_ErrorCode msg) of Some e \<Rightarrow> Some e | None \<Rightarrow> err, w'))"

definition FakeConfigureClient_LoadDesiredConfig ::
  "doubles ctx \<Rightarrow> string \<Rightarrow> doubles \<Rightarrow> (go_error + stored_desired_config option) \<times> doubles" where
  "FakeConfigureClient_LoadDesiredConfig c target w =
     (let w1 = EventRecorder_Record (fc_Events (d_client w)) ''load_desired'' w;
          f = d_client w1;
          w2 = w1\<lparr>d_client := f\<lparr>fc_loadCalls := Suc (fc_loadCalls f)\<rparr>\<rparr>;
          desired = (case fc_DesiredByTarget f of None \<Rightarrow> fc_Desired f | Some m \<Rightarrow> m target)
      in (case fc_LoadErr f of Some e \<Rightarrow> Inl e | None \<Rightarrow> Inr desired, w2))"

definition fake_client :: "doubles configure_client" where
  "fake_client =
     \<lparr>LoadDesiredConfig = FakeConfigureClient_LoadDesiredConfig,
      PublishStatus = StatusRecorder_PublishStatus, PublishResult = ResultRecorder_PublishResult\<rparr>"

definition StatusRecorder_FindStatus :: "string \<Rightarrow> string \<Rightarrow> doubles \<Rightarrow> status_envelope option" where
  "StatusRecorder_FindStatus status stage w =
     List.find (\<lambda>m. se_Status m = status \<and> se_Stage m = stage) (sr_statuses (fc_Status (d_client w)))"

definition ResultRecorder_FindResult :: "string \<Rightarrow> string \<Rightarrow> doubles \<Rightarrow> result_envelope option" where
  "ResultRecorder_FindResult result commandType w =
     List.find (\<lambda>m. re_Result m = result \<and> re_CommandType m = commandType) (rr_results (fc_Result (d_client w)))"

definition StatusRecorder_ContainsStatus :: "string \<Rightarrow> string \<Rightarrow> doubles \<Rightarrow> bool" where
  "StatusRecorder_ContainsStatus status stage w = (StatusRecorder_FindStatus status stage w \<noteq> None)"

definition ResultRecorder_ContainsResult :: "string \<Rightarrow> string \<Rightarrow> doubles \<Rightarrow> bool" where
  "ResultRecorder_ContainsResult result commandType w = (ResultRecorder_FindResult result commandType w \<noteq> None)"

definition StatusRecorder_StatusStages :: "doubles \<Rightarrow> string list" where
  "StatusRecorder_StatusStages w = map se_Stage (sr_statuses (fc_Status (d_client w)))"

text \<open>The last of a recorded list; Go's zero value and \<^verbatim>\<open>false\<close> are \<open>None\<close>.\<close>

definition last_recorded :: "'a list \<Rightarrow> 'a option" where
  "last_recorded xs = (if xs = [] then None else Some (last xs))"

definition StatusRecorder_LastStatus :: "doubles \<Rightarrow> status_envelope option" where
  "StatusRecorder_LastStatus w = last_recorded (sr_statuses (fc_Status (d_client w)))"

definition ResultRecorder_LastResult :: "doubles \<Rightarrow> result_envelope option" where
  "ResultRecorder_LastResult w = last_recorded (rr_results (fc_Result (d_client w)))"

definition StatusRecorder_Reset :: "status_recorder \<Rightarrow> status_recorder" where
  "StatusRecorder_Reset r = r\<lparr>sr_statuses := []\<rparr>"

definition ResultRecorder_Reset :: "result_recorder \<Rightarrow> result_recorder" where
  "ResultRecorder_Reset r = r\<lparr>rr_results := []\<rparr>"

definition FakeConfigureClient_Reset :: "doubles \<Rightarrow> doubles" where
  "FakeConfigureClient_Reset w =
     (let f = d_client w in
      w\<lparr>d_client := f\<lparr>fc_loadCalls := 0, fc_Status := StatusRecorder_Reset (fc_Status f),
                      fc_Result := ResultRecorder_Reset (fc_Result f)\<rparr>\<rparr>)"

section \<open>State store\<close>

definition FakeStateStore_Load :: "doubles ctx \<Rightarrow> doubles \<Rightarrow> (go_error + agent_state) \<times> doubles" where
  "FakeStateStore_Load c w =
     (let f = d_store w
      in (case fs_LoadErr f of Some e \<Rightarrow> Inl e | None \<Rightarrow> Inr (fs_Current f),
          w\<lparr>d_store := f\<lparr>fs_loadCalls := Suc (fs_loadCalls f)\<rparr>\<rparr>))"

definition FakeStateStore_Save :: "doubles ctx \<Rightarrow> agent_state \<Rightarrow> doubles \<Rightarrow> go_error option \<times> doubles" where
  "FakeStateStore_Save c st w =
     (let w1 = EventRecorder_Record (fs_Events (d_store w)) ''state_save'' w;
          f = (d_store w1)\<lparr>fs_saveCalls := Suc (fs_saveCalls (d_store w1))\<rparr>
      in (case fs_SaveErr f of
            Some e \<Rightarrow> (Some e, w1\<lparr>d_store := f\<rparr>)
          | None \<Rightarrow> (None, w1\<lparr>d_store := f\<lparr>fs_savedStates := fs_savedStates f @ [st], fs_Current := st\<rparr>\<rparr>)))"

definition fake_store :: "doubles state_store" where
  "fake_store = \<lparr>Load = FakeStateStore_Load, Save = FakeStateStore_Save\<rparr>"

definition FakeStateStore_LastSavedState :: "doubles \<Rightarrow> agent_state \<times> bool" where
  "FakeStateStore_LastSavedState w =
     (case fs_savedStates (d_store w) of [] \<Rightarrow> (empty_state, False) | sts \<Rightarrow> (last sts, True))"

definition FakeStateStore_Reset :: "doubles \<Rightarrow> doubles" where
  "FakeStateStore_Reset w =
     w\<lparr>d_store := (d_store w)\<lparr>fs_loadCalls := 0, fs_saveCalls := 0, fs_savedStates := []\<rparr>\<rparr>"

section \<open>Renderer and apply engine\<close>

definition FakeRenderer_Render ::
  "doubles ctx \<Rightarrow> stored_desired_config \<Rightarrow> doubles \<Rightarrow> (go_error + rendered_output) \<times> doubles" where
  "FakeRenderer_Render c desired w =
     (let w1 = EventRecorder_Record (fr_Events (d_renderer w)) ''render'' w;
          f = d_renderer w1;
          w2 = w1\<lparr>d_renderer := f\<lparr>fr_calls := Suc (fr_calls f), fr_inputs := fr_inputs f @ [desired]\<rparr>\<rparr>;
          invalid = (case fr_Validate f of None \<Rightarrow> None | Some v \<Rightarrow> v desired)
      in (case invalid of
            Some e \<Rightarrow> Inl e
          | None \<Rightarrow>
              (case fr_Err f of
                 Some e \<Rightarrow> Inl e
               | None \<Rightarrow>
                   if fr_UseOutput f \<or> fr_Output f \<noteq> empty_output then Inr (fr_Output f)
                   else Inr \<lparr>out_Target = dr_Target (sd_Record desired), out_UUID = dr_UUID (sd_Record desired),
                             out_Text = ''# rendered by FakeRenderer'' @ [newline]\<rparr>), w2))"

definition FakeApplyEngine_Apply ::
  "doubles ctx \<Rightarrow> rendered_output \<Rightarrow> doubles \<Rightarrow> go_error option \<times> doubles" where
  "FakeApplyEngine_Apply c rendered w =
     (let w1 = EventRecorder_Record (fa_Events (d_engine w)) ''apply'' w;
          f = d_engine w1;
          err = (case fa_Errs f of [] \<Rightarrow> fa_Err f | e # _ \<Rightarrow> e);
          w2 = w1\<lparr>d_engine := f\<lparr>fa_calls := Suc (fa_calls f), fa_inputs := fa_inputs f @ [rendered],
                                 fa_Errs := tl (fa_Errs f)\<rparr>\<rparr>;
          invalid = (case fa_Validate f of None \<Rightarrow> None | Some v \<Rightarrow> v rendered)
      in (case invalid of Some e \<Rightarrow> Some e | None \<Rightarrow> err, w2))"

definition FakeRenderer_Reset :: "doubles \<Rightarrow> doubles" where
  "FakeRenderer_Reset w = w\<lparr>d_renderer := (d_renderer w)\<lparr>fr_calls := 0, fr_inputs := []\<rparr>\<rparr>"

definition FakeApplyEngine_Reset :: "doubles \<Rightarrow> doubles" where
  "FakeApplyEngine_Reset w = w\<lparr>d_engine := (d_engine w)\<lparr>fa_calls := 0, fa_inputs := []\<rparr>\<rparr>"

definition FakeRenderer_LastInput :: "doubles \<Rightarrow> stored_desired_config option" where
  "FakeRenderer_LastInput w = last_recorded (fr_inputs (d_renderer w))"

definition FakeApplyEngine_LastInput :: "doubles \<Rightarrow> rendered_output option" where
  "FakeApplyEngine_LastInput w = last_recorded (fa_inputs (d_engine w))"

section \<open>Log capture\<close>

definition LogCapture_record :: "log_entry \<Rightarrow> doubles \<Rightarrow> doubles" where
  "LogCapture_record en w = w\<lparr>d_entries := d_entries w @ [en]\<rparr>"

definition LogCapture_EntriesByLevel :: "log_level \<Rightarrow> doubles \<Rightarrow> log_entry list" where
  "LogCapture_EntriesByLevel lvl w = filter (\<lambda>en. le_level en = lvl) (d_entries w)"

definition LogCapture_Reset :: "doubles \<Rightarrow> doubles" where
  "LogCapture_Reset w = w\<lparr>d_entries := []\<rparr>"

definition fake_clock :: "doubles clock" where
  "fake_clock w = (d_clock w, w)"

section \<open>What the doubles change\<close>

text \<open>The stages asked for and the statuses found are those recorded.\<close>

lemma ContainsStatus_iff:
  "StatusRecorder_ContainsStatus status stage w \<longleftrightarrow>
     (\<exists>m\<in>set (sr_statuses (fc_Status (d_client w))). se_Status m = status \<and> se_Stage m = stage)"
  by (auto simp: StatusRecorder_ContainsStatus_def StatusRecorder_FindStatus_def find_None_iff)

lemma ContainsResult_iff:
  "ResultRecorder_ContainsResult result commandType w \<longleftrightarrow>
     (\<exists>m\<in>set (rr_results (fc_Result (d_client w))). re_Result m = result \<and> re_CommandType m = commandType)"
  by (auto simp: ResultRecorder_ContainsResult_def ResultRecorder_FindResult_def find_None_iff)

lemma Record_frame [simp]:
  "d_client (EventRecorder_Record ref n w) = d_client w" "d_store (EventRecorder_Record ref n w) = d_store w"
  "d_renderer (EventRecorder_Record ref n w) = d_renderer w" "d_engine (EventRecorder_Record ref n w) = d_engine w"
  "fs_files (EventRecorder_Record ref n w) = fs_files w" "d_clock (EventRecorder_Record ref n w) = d_clock w"
  "d_entries (EventRecorder_Record ref n w) = d_entries w"
  by (simp_all add: EventRecorder_Record_def split: option.split)

lemma RecordStatus_frame [simp]:
  "d_store (RecordStatus m w) = d_store w" "fs_files (RecordStatus m w) = fs_files w"
  "sr_statuses (fc_Status (d_client (RecordStatus m w))) = sr_statuses (fc_Status (d_client w)) @ [m]"
  "fc_Result (d_client (RecordStatus m w)) = fc_Result (d_client w)"
  by (simp_all add: RecordStatus_def Let_def)

lemma RecordResult_frame [simp]:
  "d_store (RecordResult m' w) = d_store w" "fs_files (RecordResult m' w) = fs_files w"
  "rr_results (fc_Result (d_client (RecordResult m' w))) = rr_results (fc_Result (d_client w)) @ [m']"
  "fc_Status (d_client (RecordResult m' w)) = fc_Status (d_client w)"
  by (simp_all add: RecordResult_def Let_def)

lemmas double_defs = StatusRecorder_PublishStatus_def ResultRecorder_PublishResult_def
  FakeConfigureClient_LoadDesiredConfig_def FakeStateStore_Load_def FakeStateStore_Save_def
  FakeRenderer_Render_def FakeApplyEngine_Apply_def LogCapture_record_def fake_clock_def

section \<open>The wired services\<close>

definition fake_service :: "debug_logging \<Rightarrow> doubles configure_service" where
  "fake_service dbg =
     \<lparr>cs_client = fake_client, cs_stateStore = fake_store, cs_renderer = FakeRenderer_Render,
      cs_applyEngine = FakeApplyEngine_Apply, cs_logger = Some LogCapture_record, cs_now = fake_clock,
      cs_debug = dbg\<rparr>"

text \<open>The file store at its default path and the placeholder engines, as the agent wires them by default\<close>

definition file_service :: "debug_logging \<Rightarrow> doubles configure_service" where
  "file_service dbg =
     \<lparr>cs_client = fake_client, cs_stateStore = NewFileStore state_json default_state_file,
      cs_renderer = Placeholder_Render, cs_applyEngine = Placeholder_Apply,
      cs_logger = Some LogCapture_record, cs_now = fake_clock, cs_debug = dbg\<rparr>"

interpretation fakes: configure_world "fake_service dbg" "\<lambda>w. fs_Current (d_store w)" "\<lambda>_. True" for dbg
  by unfold_locales
    (auto simp: fake_service_def fake_client_def fake_store_def double_defs Let_def split: option.splits if_splits)

lemma ckpt_frame: "fs_files w' = fs_files w \<Longrightarrow> fs_ckpt json p w' = fs_ckpt json p w"
  by (simp add: fs_ckpt_def)

lemma storable_state_names:
  "storable_state st \<Longrightarrow> as_Target st' = as_Target st \<Longrightarrow> as_AppliedUUID st' = as_AppliedUUID st \<Longrightarrow>
   storable_state st'"
  by (simp add: storable_state_def)

interpretation files: configure_world "file_service dbg" "fs_ckpt state_json default_state_file" storable_state
  for dbg
proof -
  have store: "cs_stateStore (file_service dbg) = NewFileStore state_json default_state_file" for dbg
    by (simp add: file_service_def)
  show "configure_world (file_service dbg) (fs_ckpt state_json default_state_file) storable_state" for dbg
  proof (intro configure_world.intro configure_world_axioms.intro)
    show "checkpoint_store (cs_stateStore (file_service dbg)) (fs_ckpt state_json default_state_file) storable_state"
      unfolding store by (rule state_file.checkpoint_store_axioms)
    show "configure_backend (cs_renderer (file_service dbg)) (cs_applyEngine (file_service dbg))
        (fs_ckpt state_json default_state_file)"
      using placeholder.configure_backend_axioms [of state_json default_state_file]
      by (simp add: file_service_def)
  qed (auto simp: file_service_def fake_client_def double_defs Let_def intro!: ckpt_frame intro: storable_state_names)
qed

interpretation files_names: naming_service "file_service dbg" for dbg
proof -
  show "naming_service (file_service dbg)" for dbg
    using placeholder_names.naming_renderer_axioms by (simp add: naming_service_def file_service_def)
qed

end
