(* ===== verification/ConfigureLogs.thy ===== *)
theory ConfigureLogs
  imports ConfigureProps
begin

text \<open>
  What the configure workflow writes to its log: rendered commands only when that is switched on,
  and then at debug level; the payload of a desired config never, only its size.
\<close>

text \<open>The keys under which a text that came with the desired config could appear\<close>

definition discreet :: "'w configure_service \<Rightarrow> log_entry \<Rightarrow> bool" where
  "discreet sv en \<longleftrightarrow>
     (if \<exists>v. (''rendered_commands'', v) \<in> set (le_kv en)
      then le_level en = LevelDebug \<and> LogRendered (cs_debug sv)
      else (\<forall>(k, v)\<in>set (le_kv en). \<forall>x. v = LStr x \<longrightarrow>
             k \<in> {''target'', ''rpc_id'', ''uuid'', ''stage'', ''status'', ''error_code'', ''message'',
                  ''current_uuid'', ''desired_uuid''}))"

lemma logs_calls [io_intro]:
  "state_io_rel (logs_grow P) (cfg_now sv)"
  "state_io_rel (logs_grow P) (load_desired sv c target)"
  "state_io_rel (logs_grow P) (load_state sv c)"
  "state_io_rel (logs_grow P) (save_state sv c st)"
  "state_io_rel (logs_grow P) (render sv c d)"
  "state_io_rel (logs_grow P) (apply_rendered sv c out)"
  "state_io_rel (logs_grow P) (publishStatus sv c msg status stage message)"
  "state_io_rel (logs_grow P) (publishSuccessResult sv c msg message)"
  "state_io_rel (logs_grow P) (publishFailureResult sv c msg code message)"
  unfolding cfg_now_def load_desired_def load_state_def save_state_def render_def apply_rendered_def
    publishStatus_def publishSuccessResult_def publishFailureResult_def
  by (intro io_intro)+

lemma logs_entries [io_intro]:
  "P \<lparr>le_level = LevelInfo, le_msg = msg, le_kv = kv\<rparr> \<Longrightarrow> state_io_rel (logs_grow P) (logInfo sv msg kv)"
  "P \<lparr>le_level = LevelDebug, le_msg = msg, le_kv = kv\<rparr> \<Longrightarrow> state_io_rel (logs_grow P) (logDebug sv msg kv)"
  "P \<lparr>le_level = LevelWarn, le_msg = msg, le_kv = kv\<rparr> \<Longrightarrow> state_io_rel (logs_grow P) (logWarn sv msg kv)"
  "P \<lparr>le_level = LevelError, le_msg = msg, le_kv = kv\<rparr> \<Longrightarrow> state_io_rel (logs_grow P) (logError sv msg kv)"
  unfolding logInfo_def logDebug_def logWarn_def logError_def by (rule logs_grow_emit, assumption)+

lemma discreet_helpers [io_intro]:
  "state_io_rel (logs_grow (discreet sv)) (progress sv c msg stage message)"
  "state_io_rel (logs_grow (discreet sv)) (fail sv c msg code message err)"
  "state_io_rel (logs_grow (discreet sv)) (reportingFailure sv msg e)"
  "state_io_rel (logs_grow (discreet sv)) (reconcile_degraded sv c target lm sm err ret)"
  unfolding progress_def fail_def reportingFailure_def reconcile_degraded_def
  by (intro io_intro; simp add: discreet_def ids_def)+

lemma discreet_process [io_intro]:
  "state_io_rel (logs_grow (discreet sv)) (processDesiredConfigLocked sv c msg d)"
  unfolding processDesiredConfigLocked_def by (intro io_intro; simp add: discreet_def ids_def)

lemma discreet_Handle: "state_io_rel (logs_grow (discreet sv)) (Handle sv c msg)"
  unfolding Handle_def handle_locked_def by (intro io_intro; simp add: discreet_def ids_def)

lemma discreet_Reconcile: "state_io_rel (logs_grow (discreet sv)) (Reconcile nf sv c target)"
  unfolding Reconcile_def reconcile_locked_def by (intro io_intro; simp add: discreet_def ids_def)

end
