(* ===== verification/ConfigureMutex.thy ===== *)
theory ConfigureMutex
  imports ConfigureProps
begin

text \<open>
  The handler of the bus library and the goroutines the agent starts after a reconnect call the
  configure service at the same time; the service serializes them with its mutex.  Here any number
  of goroutines, each running \<^verbatim>\<open>Handle\<close> and \<^verbatim>\<open>Reconcile\<close> again and again, interleave event by
  event under a \<^verbatim>\<open>sync.Mutex\<close>.
\<close>

section \<open>Runs\<close>

definition no_locks :: "cfg_event list \<Rightarrow> bool" where
  "no_locks t \<longleftrightarrow> EvLock \<notin> set t \<and> EvUnlock \<notin> set t"

lemma no_locks_simps [simp]:
  "no_locks []" "no_locks (ev # t) \<longleftrightarrow> ev \<noteq> EvLock \<and> ev \<noteq> EvUnlock \<and> no_locks t"
  by (auto simp: no_locks_def)

lemma reports_no_locks [simp]:
  "status_ev msg st sg e ev \<Longrightarrow> ev \<noteq> EvLock \<and> ev \<noteq> EvUnlock"
  "running_ev msg sg ev \<Longrightarrow> ev \<noteq> EvLock \<and> ev \<noteq> EvUnlock"
  "result_ev msg res code e ev \<Longrightarrow> ev \<noteq> EvLock \<and> ev \<noteq> EvUnlock"
  by (auto simp: status_ev_def running_ev_def result_ev_def)

lemma fail_no_locks: "fail_path msg code orig t r \<Longrightarrow> no_locks t"
  by (auto elim!: fail_path.cases dest: reports_no_locks)

lemma report_no_locks: "report_path msg stage t r \<Longrightarrow> no_locks t"
  by (auto elim!: report_path.cases dest: reports_no_locks)

lemma process_no_locks: "process_path msg d t r \<Longrightarrow> no_locks t"
  by (auto elim!: process_path.cases dest: reports_no_locks fail_no_locks report_no_locks)

lemma handle_no_locks: "handle_path msg t r \<Longrightarrow> no_locks t"
  by (auto elim!: handle_path.cases dest: reports_no_locks fail_no_locks report_no_locks process_no_locks)

lemma reconcile_no_locks: "reconcile_path nf target t r \<Longrightarrow> no_locks t"
  by (auto elim!: reconcile_path.cases dest: reports_no_locks process_no_locks)

lemma locked_path_shape:
  "locked_path c P b r \<Longrightarrow> (\<And>t r. P t r \<Longrightarrow> no_locks t) \<Longrightarrow> b \<noteq> [] \<Longrightarrow> \<exists>body. b = EvLock # body @ [EvUnlock] \<and> no_locks body"
  by (auto elim!: locked_path.cases)

text \<open>
  A call of the service: with its context and arguments, and in the world that it meets.  Its events are
  those of \<^verbatim>\<open>Handle\<close> and \<^verbatim>\<open>Reconcile\<close> themselves.
\<close>

datatype 'w service_call =
    CallHandle "'w ctx" configure_notification "('w, cfg_event) tw"
  | CallReconcile string "'w ctx" string "('w, cfg_event) tw"

primrec call_events :: "'w configure_service \<Rightarrow> 'w service_call \<Rightarrow> cfg_event list" where
  "call_events sv (CallHandle c msg s) = handle_events sv c msg s"
| "call_events sv (CallReconcile nf c target s) = reconcile_events nf sv c target s"

lemma call_shape:
  assumes "call_events sv q \<noteq> []"
  shows "\<exists>body. call_events sv q = EvLock # body @ [EvUnlock] \<and> no_locks body"
proof (cases q)
  case (CallHandle c msg s)
  with assms locked_path_shape [OF follows_events [OF Handle_follows [of sv c msg]] handle_no_locks] show ?thesis by simp
next
  case (CallReconcile nf c target s)
  with assms locked_path_shape [OF follows_events [OF Reconcile_follows [of nf sv c target]] reconcile_no_locks]
  show ?thesis by simp
qed

section \<open>Interleavings\<close>

record sched =
  sc_todo :: "nat \<Rightarrow> cfg_event list"
  sc_locked :: bool
  sc_hist :: "(nat \<times> cfg_event) list"

definition sc_did :: "nat \<Rightarrow> cfg_event \<Rightarrow> cfg_event list \<Rightarrow> bool \<Rightarrow> sched \<Rightarrow> sched" where
  "sc_did i ev t lck s =
     \<lparr>sc_todo = (sc_todo s)(i := t), sc_locked = lck, sc_hist = sc_hist s @ [(i, ev)]\<rparr>"

inductive sched_step :: "sched \<Rightarrow> sched \<Rightarrow> bool" where
  acquire: "sc_todo s i = EvLock # t \<Longrightarrow> \<not> sc_locked s \<Longrightarrow> sched_step s (sc_did i EvLock t True s)"
| release: "sc_todo s i = EvUnlock # t \<Longrightarrow> sc_locked s \<Longrightarrow> sched_step s (sc_did i EvUnlock t False s)"
| act: "sc_todo s i = ev # t \<Longrightarrow> ev \<noteq> EvLock \<Longrightarrow> ev \<noteq> EvUnlock \<Longrightarrow>
    sched_step s (sc_did i ev t (sc_locked s) s)"

definition sched_init :: "(nat \<Rightarrow> cfg_event list) \<Rightarrow> sched" where
  "sched_init progs = \<lparr>sc_todo = progs, sc_locked = False, sc_hist = []\<rparr>"

definition tagged :: "(nat \<times> cfg_event list) list \<Rightarrow> (nat \<times> cfg_event) list" where
  "tagged runs = concat (map (\<lambda>(i, b). map (Pair i) b) runs)"

lemma tagged_simps [simp]:
  "tagged [] = []" "tagged (xs @ ys) = tagged xs @ tagged ys" "tagged ((i, b) # xs) = map (Pair i) b @ tagged xs"
  by (simp_all add: tagged_def)

section \<open>Mutual exclusion\<close>

text \<open>
  What goroutine \<open>i\<close> does are runs, one after the other: \<open>run i\<close> says which.  All that is asked of a run
  is that it takes the mutex first and releases it last, if it does anything.
\<close>

locale mutex_users =
  fixes run :: "nat \<Rightarrow> cfg_event list \<Rightarrow> bool"
  assumes run_shape: "run i b \<Longrightarrow> b \<noteq> [] \<Longrightarrow> \<exists>body. b = EvLock # body @ [EvUnlock] \<and> no_locks body"
begin

definition is_prog :: "nat \<Rightarrow> cfg_event list \<Rightarrow> bool" where
  "is_prog i p \<longleftrightarrow> (\<exists>runs. p = concat runs \<and> (\<forall>b\<in>set runs. run i b))"

lemma is_prog_Cons:
  assumes "is_prog i (ev # t)"
  shows "ev = EvLock \<and> (\<exists>body q. t = body @ EvUnlock # q \<and> no_locks body \<and>
           run i (EvLock # body @ [EvUnlock]) \<and> is_prog i q)"
proof -
  obtain runs where "ev # t = concat runs" "\<forall>b\<in>set runs. run i b"
    using assms by (auto simp: is_prog_def)
  then show ?thesis
  proof (induction runs)
    case (Cons b runs)
    show ?case
    proof (cases "b = []")
      case False
      with Cons.prems(2) obtain body where b: "b = EvLock # body @ [EvUnlock]" "no_locks body"
        using run_shape by force
      with Cons.prems have "t = body @ EvUnlock # concat runs" "ev = EvLock" "run i b"
        "is_prog i (concat runs)"
        by (auto simp: is_prog_def)
      with b show ?thesis by blast
    qed (use Cons in simp)
  qed simp
qed

text \<open>
  The invariant: the complete runs so far one after the other; while the mutex is taken, one
  goroutine is in the middle of a run and the others are between runs.
\<close>

definition idle_inv :: "sched \<Rightarrow> bool" where
  "idle_inv s \<longleftrightarrow> \<not> sc_locked s \<and> (\<forall>j. is_prog j (sc_todo s j)) \<and>
     (\<exists>finished. sc_hist s = tagged finished \<and> (\<forall>(j, b)\<in>set finished. run j b))"

definition busy_inv :: "nat \<Rightarrow> cfg_event list \<Rightarrow> sched \<Rightarrow> bool" where
  "busy_inv i body s \<longleftrightarrow> sc_locked s \<and> (\<forall>j. j \<noteq> i \<longrightarrow> is_prog j (sc_todo s j)) \<and>
     (\<exists>rest q. sc_todo s i = rest @ EvUnlock # q \<and> no_locks rest \<and> is_prog i q \<and>
        run i (EvLock # body @ rest @ [EvUnlock])) \<and>
     (\<exists>finished. sc_hist s = tagged finished @ map (Pair i) (EvLock # body) \<and> (\<forall>(j, b)\<in>set finished. run j b))"

lemma idle_step:
  assumes "idle_inv s" "sched_step s s'"
  shows "\<exists>i. busy_inv i [] s'"
  using assms(2)
proof cases
  case (acquire i t)
  from assms(1) obtain finished where inv: "\<And>j. is_prog j (sc_todo s j)" "sc_hist s = tagged finished"
    "\<forall>(j, b)\<in>set finished. run j b" by (auto simp: idle_inv_def)
  from is_prog_Cons [of i EvLock t] inv(1) [of i] acquire obtain body q where
    "t = body @ EvUnlock # q" "no_locks body" "run i (EvLock # body @ [EvUnlock])" "is_prog i q" by auto
  with inv acquire have "busy_inv i [] s'" by (auto simp: busy_inv_def sc_did_def)
  then show ?thesis by blast
next
  case (release i t)
  with assms(1) show ?thesis by (simp add: idle_inv_def)
next
  case (act i ev t)
  with assms(1) is_prog_Cons [of i ev t] show ?thesis by (auto simp: idle_inv_def dest: spec [of _ i])
qed

lemma busy_owner:
  assumes "busy_inv i body s" "sc_todo s j = ev # t" "ev \<noteq> EvLock"
  shows "j = i"
  using assms is_prog_Cons [of j ev t] by (auto simp: busy_inv_def)

lemma busy_step:
  assumes "busy_inv i body s" "sched_step s s'"
  shows "idle_inv s' \<or> (\<exists>body'. busy_inv i body' s')"
proof -
  from assms(1) obtain rest q finished where inv: "sc_locked s" "\<And>j. j \<noteq> i \<Longrightarrow> is_prog j (sc_todo s j)"
    "sc_todo s i = rest @ EvUnlock # q" "no_locks rest" "is_prog i q"
    "run i (EvLock # body @ rest @ [EvUnlock])"
    "sc_hist s = tagged finished @ map (Pair i) (EvLock # body)" "\<forall>(j, b)\<in>set finished. run j b"
    by (auto simp: busy_inv_def)
  from assms(2) show ?thesis
  proof cases
    case (acquire j t)
    with inv(1) show ?thesis by simp
  next
    case (release j t)
    with busy_owner [OF assms(1)] have [simp]: "j = i" by simp
    from release inv have [simp]: "rest = []" "t = q" by (cases rest; auto)+
    have "sc_hist s' = tagged (finished @ [(i, EvLock # body @ [EvUnlock])])"
      using release inv by (simp add: sc_did_def)
    with release inv have "idle_inv s'"
      unfolding idle_inv_def
      by (intro conjI exI [of _ "finished @ [(i, EvLock # body @ [EvUnlock])]"]) (auto simp: sc_did_def)
    then show ?thesis ..
  next
    case (act j ev t)
    with busy_owner [OF assms(1)] have [simp]: "j = i" by simp
    from act inv obtain rest' where [simp]: "rest = ev # rest'" "t = rest' @ EvUnlock # q" by (cases rest; auto)
    have "busy_inv i (body @ [ev]) s'"
      using act inv by (auto simp: busy_inv_def sc_did_def)
    then show ?thesis by blast
  qed
qed

lemma sched_inv:
  assumes "sched_step\<^sup>*\<^sup>* (sched_init progs) s" "\<And>i. is_prog i (progs i)"
  shows "idle_inv s \<or> (\<exists>i body. busy_inv i body s)"
  using assms(1)
proof (induction rule: rtranclp_induct)
  case base
  have "idle_inv (sched_init progs)"
    unfolding idle_inv_def using assms(2) by (auto simp: sched_init_def intro: exI [of _ "[]"])
  then show ?case ..
next
  case (step s s')
  then show ?case using idle_step busy_step by blast
qed

lemma sched_serial:
  assumes "sched_step\<^sup>*\<^sup>* (sched_init progs) s" "\<And>i. is_prog i (progs i)"
  shows "\<exists>finished i part rest. sc_hist s = tagged finished @ map (Pair i) part \<and>
           (\<forall>(j, b)\<in>set finished. run j b) \<and> (part = [] \<or> run i (part @ rest))"
  using sched_inv [OF assms]
proof
  assume "idle_inv s"
  then obtain finished where "sc_hist s = tagged finished" "\<forall>(j, b)\<in>set finished. run j b"
    by (auto simp: idle_inv_def)
  then show ?thesis
    by (intro exI [of _ finished] exI [of _ 0] exI [of _ "[]"]) simp
next
  assume "\<exists>i body. busy_inv i body s"
  then obtain i body rest finished where
    "run i ((EvLock # body) @ rest @ [EvUnlock])"
    "sc_hist s = tagged finished @ map (Pair i) (EvLock # body)" "\<forall>(j, b)\<in>set finished. run j b"
    by (auto simp: busy_inv_def)
  then show ?thesis by blast
qed

end

section \<open>The callers of the service\<close>

definition runs_of :: "'w configure_service \<Rightarrow> (nat \<Rightarrow> 'w service_call list) \<Rightarrow> nat \<Rightarrow> cfg_event list \<Rightarrow> bool" where
  "runs_of sv calls i b \<longleftrightarrow> (\<exists>q\<in>set (calls i). b = call_events sv q)"

interpretation callers: mutex_users "runs_of sv calls" for sv calls
  by unfold_locales (auto simp: runs_of_def call_shape)

text \<open>The goroutines that make the calls \<open>calls i\<close>, before they start\<close>

definition callers_start :: "'w configure_service \<Rightarrow> (nat \<Rightarrow> 'w service_call list) \<Rightarrow> sched" where
  "callers_start sv calls = sched_init (\<lambda>i. concat (map (call_events sv) (calls i)))"

lemma callers_are_programs: "mutex_users.is_prog (runs_of sv calls) i (concat (map (call_events sv) (calls i)))"
  unfolding mutex_users.is_prog_def [OF callers.mutex_users_axioms]
  by (intro exI [of _ "map (call_events sv) (calls i)"]) (auto simp: runs_of_def)

lemma callers_serial:
  assumes "sched_step\<^sup>*\<^sup>* (callers_start sv calls) s"
  shows "\<exists>finished i part rest. sc_hist s = tagged finished @ map (Pair i) part \<and>
           (\<forall>(j, b)\<in>set finished. runs_of sv calls j b) \<and> (part = [] \<or> runs_of sv calls i (part @ rest))"
  using callers.sched_serial [OF assms [unfolded callers_start_def]] callers_are_programs by blast

end
