(* ===== verification/Scenario.thy ===== *)
theory Scenario
  imports Doubles ConfigureLogs ConfigureMutex
begin

text \<open>
  The fixtures of internal/testutil/fixtures.go and worlds of test doubles built from them: the
  concrete runs at which the properties are shown to apply.
\<close>

section \<open>Fixtures (fixtures.go)\<close>

definition MinimalTarget :: string where "MinimalTarget = ''vyos''"
definition MinimalUUID :: string where "MinimalUUID = ''cfg-test-1''"
definition MinimalRPCID :: string where "MinimalRPCID = ''rpc-test-1''"

text \<open>\<^verbatim>\<open>DesiredConfig\<close> leaves the other fields zero.\<close>

definition DesiredConfig :: "string \<Rightarrow> string \<Rightarrow> string \<Rightarrow> stored_desired_config" where
  "DesiredConfig target uuid payload =
     \<lparr>sd_Record = \<lparr>dr_RPCID = [], dr_Target = target, dr_UUID = uuid, dr_Payload = payload,
                   dr_Timestamp = zero_time\<rparr>, sd_Bucket = [], sd_Key = []\<rparr>"

definition MinimalPlaceholderDesiredConfig :: stored_desired_config where
  "MinimalPlaceholderDesiredConfig =
     DesiredConfig MinimalTarget MinimalUUID
       (''{'' @ [quote] @ ''interfaces'' @ [quote] @ '':[],'' @ [quote] @ ''services'' @ [quote] @ '':{}}'')"

definition lan_interface :: string where
  "lan_interface =
     ''{'' @ [quote] @ ''name'' @ [quote] @ '':'' @ [quote] @ ''LAN'' @ [quote] @ '','' @ [quote] @ ''role'' @ [quote]
     @ '':'' @ [quote] @ ''downstream'' @ [quote] @ ''},''"

definition LargePayload :: "int \<Rightarrow> string" where
  "LargePayload repetitions =
     (let n = nat (if repetitions < 1 then 1 else repetitions)
      in ''{'' @ [quote] @ ''interfaces'' @ [quote] @ '':['' @
         trim_right_char (CHR '','') (concat (replicate n lan_interface)) @
         ''],'' @ [quote] @ ''services'' @ [quote] @ '':{}}'')"

definition InvalidPayload :: string where
  "InvalidPayload = ''{'' @ [quote] @ ''interfaces'' @ [quote] @ '':''"

lemma payload_fixtures_parse:
  "unmarshal_raw_map (dr_Payload (sd_Record MinimalPlaceholderDesiredConfig)) \<noteq> None"
  "unmarshal_raw_map (LargePayload 3) \<noteq> None" "unmarshal_raw_map InvalidPayload = None"
  by code_simp+

definition MinimalConfigureNotification :: configure_notification where
  "MinimalConfigureNotification =
     \<lparr>cn_Version = ''1.0'', cn_RPCID = MinimalRPCID, cn_Target = MinimalTarget, cn_CommandType = [],
      cn_UUID = MinimalUUID, cn_KVBucket = [], cn_KVKey = [], cn_Timestamp = zero_time\<rparr>"

definition MinimalActionCommand :: "string \<Rightarrow> action_command" where
  "MinimalActionCommand action =
     \<lparr>ac_Version = ''1.0'', ac_RPCID = MinimalRPCID, ac_Target = MinimalTarget, ac_Action = action, ac_Payload = []\<rparr>"

definition MinimalRenderedOutput :: rendered_output where
  "MinimalRenderedOutput =
     \<lparr>out_Target = MinimalTarget, out_UUID = MinimalUUID, out_Text = ''# rendered by test fixture'' @ [newline]\<rparr>"

section \<open>A scripted service\<close>

text \<open>
  Collaborators that always answer the same, over a world that is nothing but the checkpoint: runs
  of the service evaluate by rewriting.
\<close>

definition live :: "'w \<Rightarrow> go_error option" where
  "live w = None"

definition start :: "'w \<Rightarrow> ('w, 'e) tw" where
  "start w = \<lparr>world = w, trace = [], logs = []\<rparr>"

definition no_debug :: debug_logging where
  "no_debug = \<lparr>LogPayloads = False, LogRendered = False, LogApplyPlan = False\<rparr>"

record script =
  sp_desired :: "go_error + stored_desired_config option"
  sp_render :: "stored_desired_config \<Rightarrow> go_error + rendered_output"
  sp_apply :: "go_error option"
  sp_save :: "go_error option"
  sp_status :: "go_error option"
  sp_result :: "go_error option"

definition scripted :: "script \<Rightarrow> agent_state configure_service" where
  "scripted p =
     \<lparr>cs_client = \<lparr>LoadDesiredConfig = (\<lambda>c target w. (sp_desired p, w)),
        PublishStatus = (\<lambda>c m w. (sp_status p, w)), PublishResult = (\<lambda>c m w. (sp_result p, w))\<rparr>,
      cs_stateStore = \<lparr>Load = (\<lambda>c w. (Inr w, w)), Save = (\<lambda>c st w. case sp_save p of None \<Rightarrow> (None, st) | Some e \<Rightarrow> (Some e, w))\<rparr>,
      cs_renderer = (\<lambda>c d w. (sp_render p d, w)), cs_applyEngine = (\<lambda>c out w. (sp_apply p, w)),
      cs_logger = None, cs_now = (\<lambda>w. (0, w)), cs_debug = no_debug\<rparr>"

text \<open>A renderer that names what it renders for\<close>

definition output_of :: "stored_desired_config \<Rightarrow> rendered_output" where
  "output_of d = MinimalRenderedOutput\<lparr>out_Target := dr_Target (sd_Record d), out_UUID := dr_UUID (sd_Record d)\<rparr>"

definition all_well :: script where
  "all_well = \<lparr>sp_desired = Inr (Some MinimalPlaceholderDesiredConfig), sp_render = (\<lambda>d. Inr (output_of d)), sp_apply = None, sp_save = None, sp_status = None, sp_result = None\<rparr>"


lemma run_simps:
  "run_state (call f ev) s = (case f (world s) of (r, w') \<Rightarrow> (r, s\<lparr>world := w', trace := trace s @ [ev r]\<rparr>))"
  "run_state (quiet f) s = (case f (world s) of (r, w') \<Rightarrow> (r, s\<lparr>world := w'\<rparr>))"
  "run_state (mark e) s = ((), s\<lparr>trace := trace s @ [e]\<rparr>)"
  "run_state (emit_log None lvl msg kv) s = ((), s)"
  by (simp_all add: call_def quiet_def mark_def emit_log_def)

declare run_simps(3) [simp]

lemma scripted_sels:
  "LoadDesiredConfig (cs_client (scripted p)) c target w = (sp_desired p, w)"
  "PublishStatus (cs_client (scripted p)) c m w = (sp_status p, w)"
  "PublishResult (cs_client (scripted p)) c m' w = (sp_result p, w)"
  "Load (cs_stateStore (scripted p)) c w = (Inr w, w)"
  "Save (cs_stateStore (scripted p)) c st w = (case sp_save p of None \<Rightarrow> (None, st) | Some e \<Rightarrow> (Some e, w))"
  "cs_renderer (scripted p) c d w = (sp_render p d, w)" "cs_applyEngine (scripted p) c out w = (sp_apply p, w)"
  "cs_logger (scripted p) = None" "cs_now (scripted p) w = (0, w)" "cs_debug (scripted p) = no_debug"
  by (simp_all add: scripted_def)

lemma same_world: "s\<lparr>world := world s\<rparr> = s" for s :: "('w, 'e) tw" by simp

lemma run_logs [simp]:
  "run_state (logInfo (scripted p) m kv) s = ((), s)" "run_state (logDebug (scripted p) m kv) s = ((), s)"
  "run_state (logWarn (scripted p) m kv) s = ((), s)" "run_state (logError (scripted p) m kv) s = ((), s)"
  by (simp_all add: logInfo_def logDebug_def logWarn_def logError_def scripted_sels run_simps)

lemma run_calls [simp]:
  "run_state (cfg_now (scripted p)) s = (0, s)"
  "run_state (load_desired (scripted p) c target) s = (sp_desired p, s\<lparr>trace := trace s @ [EvLoadDesired target (sp_desired p)]\<rparr>)"
  "run_state (load_state (scripted p) c) s = (Inr (world s), s\<lparr>trace := trace s @ [EvLoadState (Inr (world s))]\<rparr>)"
  "run_state (save_state (scripted p) c st) s = (sp_save p, s\<lparr>world := (if sp_save p = None then st else world s), trace := trace s @ [EvSaveState st (sp_save p)]\<rparr>)"
  "run_state (render (scripted p) c d) s = (sp_render p d, s\<lparr>trace := trace s @ [EvRender d (sp_render p d)]\<rparr>)"
  "run_state (apply_rendered (scripted p) c out) s = (sp_apply p, s\<lparr>trace := trace s @ [EvApply out (sp_apply p)]\<rparr>)"
  by (simp_all add: cfg_now_def load_desired_def load_state_def save_state_def render_def apply_rendered_def scripted_sels run_simps split: option.split)

lemma run_reports [simp]:
  "run_state (publishStatus (scripted p) c msg status stage message) s =
    (sp_status p, s\<lparr>trace := trace s @ [EvStatus (BuildStatus (cn_RPCID msg) (cn_Target msg) (cn_UUID msg) status stage message 0) (sp_status p)]\<rparr>)"
  "run_state (publishSuccessResult (scripted p) c msg message) s =
    (sp_result p, s\<lparr>trace := trace s @ [EvResult (BuildResult (cn_RPCID msg) (cn_Target msg) ''configure'' (cn_UUID msg) [] ''success'' [] message [] 0) (sp_result p)]\<rparr>)"
  "run_state (publishFailureResult (scripted p) c msg code message) s =
    (sp_result p, s\<lparr>trace := trace s @ [EvResult (BuildResult (cn_RPCID msg) (cn_Target msg) ''configure'' (cn_UUID msg) [] ''failure'' code message [] 0) (sp_result p)]\<rparr>)"
  by (simp_all add: publishStatus_def publishSuccessResult_def publishFailureResult_def scripted_sels run_simps Let_def)

lemma run_progress [simp]:
  "run_state (progress (scripted p) c msg stage message) s =
    ((), s\<lparr>trace := trace s @ [EvStatus (BuildStatus (cn_RPCID msg) (cn_Target msg) (cn_UUID msg) ''running'' stage message 0) (sp_status p)]\<rparr>)"
  by (simp add: progress_def split: option.split)

lemma all_well_sels [simp]: "sp_desired all_well = Inr (Some MinimalPlaceholderDesiredConfig)" "sp_render all_well d = Inr (output_of d)" "sp_apply all_well = None" "sp_save all_well = None" "sp_status all_well = None" "sp_result all_well = None" 
  by (simp_all add: all_well_def)

lemma fixture_sels [simp]: "cn_Target MinimalConfigureNotification = MinimalTarget" "cn_UUID MinimalConfigureNotification = MinimalUUID" "cn_RPCID MinimalConfigureNotification = MinimalRPCID"
 "dr_Target (sd_Record MinimalPlaceholderDesiredConfig) = MinimalTarget"
 "dr_UUID (sd_Record MinimalPlaceholderDesiredConfig) = MinimalUUID"
  by (simp_all add: MinimalConfigureNotification_def MinimalPlaceholderDesiredConfig_def DesiredConfig_def)
lemma output_of_minimal [simp]: "output_of MinimalPlaceholderDesiredConfig = MinimalRenderedOutput"
  by (simp add: output_of_def MinimalRenderedOutput_def)

lemma fixture_not_blank [simp]: "trim_space MinimalTarget = MinimalTarget" "trim_space MinimalUUID = MinimalUUID" "MinimalTarget \<noteq> []" "MinimalUUID \<noteq> []"
  "[] \<noteq> MinimalTarget"
  by code_simp+
lemma scripted_debug [simp]: "cs_debug (scripted p) = no_debug" "LogRendered no_debug = False" "LogPayloads no_debug = False" by (simp_all add: scripted_sels no_debug_def)
lemma empty_sels [simp]: "as_Target empty_state = []" by (simp add: empty_state_def)
lemma start_sels [simp]: "world (start w) = w" "trace (start w) = []" by (simp_all add: start_def)


interpretation scripted: configure_world "scripted p" id "\<lambda>_. True" for p
  by unfold_locales (auto simp: scripted_def split: option.splits)

interpretation all_well_names: naming_service "scripted all_well"
  by unfold_locales (auto simp: scripted_def output_for_def output_of_def)

section \<open>Runs\<close>

definition demo_status :: "string \<Rightarrow> string \<Rightarrow> string \<Rightarrow> cfg_event" where
  "demo_status status stage message =
     EvStatus (BuildStatus MinimalRPCID MinimalTarget MinimalUUID status stage message 0) None"

definition demo_result :: cfg_event where
  "demo_result =
     EvResult (BuildResult MinimalRPCID MinimalTarget ''configure'' MinimalUUID [] ''success'' []
       ''configure apply completed'' [] 0) None"

definition demo_state :: agent_state where
  "demo_state = \<lparr>as_Target = MinimalTarget, as_AppliedUUID = MinimalUUID, as_AppliedAt = 0\<rparr>"

lemma demo_state_sels [simp]:
  "demo_state \<noteq> empty_state" "as_Target demo_state = MinimalTarget" "as_AppliedUUID demo_state = MinimalUUID"
  by (simp_all add: demo_state_def empty_state_def)

abbreviation demo_run :: "((agent_state, cfg_event) tw, go_error option) state" where
  "demo_run \<equiv> Handle (scripted all_well) (Some live) MinimalConfigureNotification"

lemma demo_run:
  "run_state demo_run (start empty_state) =
     (None, \<lparr>world = demo_state,
       trace = [EvLock, demo_status ''running'' ''received'' ''configure notification received'',
         demo_status ''running'' ''loading_desired'' ''loading desired config'',
         EvLoadDesired MinimalTarget (Inr (Some MinimalPlaceholderDesiredConfig)),
         EvLoadState (Inr empty_state),
         demo_status ''running'' ''rendering'' ''rendering desired config'',
         EvRender MinimalPlaceholderDesiredConfig (Inr MinimalRenderedOutput),
         demo_status ''running'' ''rendered'' ''desired config rendered'',
         demo_status ''running'' ''applying'' ''applying rendered config'',
         EvApply MinimalRenderedOutput None, EvSaveState demo_state None,
         demo_status ''success'' ''applied'' ''configure apply completed'', demo_result, EvUnlock],
       logs = []\<rparr>)"
  by (simp add: Handle_def handle_locked_def processDesiredConfigLocked_def demo_status_def demo_result_def
      demo_state_def start_def)

lemma demo_outcome [simp]: "outcome demo_run (start empty_state) = None"
  and demo_final [simp]: "world (final demo_run (start empty_state)) = demo_state"
  by (simp_all add: outcome_def final_def demo_run)

lemma demo_events:
  "events demo_run (start empty_state) =
     [EvLock, demo_status ''running'' ''received'' ''configure notification received'',
      demo_status ''running'' ''loading_desired'' ''loading desired config'',
      EvLoadDesired MinimalTarget (Inr (Some MinimalPlaceholderDesiredConfig)),
      EvLoadState (Inr empty_state),
      demo_status ''running'' ''rendering'' ''rendering desired config'',
      EvRender MinimalPlaceholderDesiredConfig (Inr MinimalRenderedOutput),
      demo_status ''running'' ''rendered'' ''desired config rendered'',
      demo_status ''running'' ''applying'' ''applying rendered config'',
      EvApply MinimalRenderedOutput None, EvSaveState demo_state None,
      demo_status ''success'' ''applied'' ''configure apply completed'', demo_result, EvUnlock]"
  using demo_run by (simp add: events_def final_def)

text \<open>A reconcile that finds a record of another target: it is applied, and so is it the next time.\<close>

definition foreign_desired :: stored_desired_config where
  "foreign_desired = DesiredConfig ''other'' ''cfg-9'' ''{}''"

definition foreign :: script where
  "foreign = all_well\<lparr>sp_desired := Inr (Some foreign_desired)\<rparr>"

lemma foreign_sels [simp]:
  "sp_desired foreign = Inr (Some foreign_desired)" "sp_render foreign d = Inr (output_of d)"
  "sp_apply foreign = None" "sp_save foreign = None" "sp_status foreign = None" "sp_result foreign = None"
  "dr_Target (sd_Record foreign_desired) = ''other''" "dr_UUID (sd_Record foreign_desired) = ''cfg-9''"
  by (simp_all add: foreign_def foreign_desired_def DesiredConfig_def)

abbreviation reconcile_run :: "script \<Rightarrow> ((agent_state, cfg_event) tw, go_error option) state" where
  "reconcile_run p \<equiv> Reconcile ''config_not_found'' (scripted p) (Some live) MinimalTarget"

definition foreign_state :: agent_state where
  "foreign_state = \<lparr>as_Target = ''other'', as_AppliedUUID = ''cfg-9'', as_AppliedAt = 0\<rparr>"

lemma foreign_state_sels [simp]: "as_Target foreign_state \<noteq> MinimalTarget"
  by (simp add: foreign_state_def MinimalTarget_def)

lemma core_suffix: "trace s' = trace s @ t \<Longrightarrow> core (drop (length (trace s)) (trace s')) = core t"
  by simp

lemma run_reconcile_other:
  assumes "as_Target w \<noteq> MinimalTarget" "world s = w" "dr_Target (sd_Record d) = tg"
    "dr_UUID (sd_Record d) = u" "sp_desired p = Inr (Some d)" "sp_render p d = Inr out" "sp_apply p = None" "sp_save p = None"
    "sp_status p = None" "sp_result p = None"
  shows "outcome (reconcile_run p) s = None"
    and "world (final (reconcile_run p) s) = \<lparr>as_Target = tg, as_AppliedUUID = u, as_AppliedAt = 0\<rparr>"
    and "core (events (reconcile_run p) s) =
      [EvLoadState (Inr w), EvLoadDesired MinimalTarget (Inr (Some d)), EvRender d (Inr out),
       EvApply out None, EvSaveState \<lparr>as_Target = tg, as_AppliedUUID = u, as_AppliedAt = 0\<rparr> None]"
  using assms
  by (simp_all add: outcome_def final_def events_def Reconcile_def reconcile_locked_def
      processDesiredConfigLocked_def reconcile_msg_def Let_def ev_simps)

lemma run_reconcile_in_sync:
  assumes "as_Target w = MinimalTarget" "as_AppliedUUID w = dr_UUID (sd_Record d)" "sp_desired p = Inr (Some d)"
  shows "core (events (reconcile_run p) (start w)) =
      [EvLoadState (Inr w), EvLoadDesired MinimalTarget (Inr (Some d))]"
  using assms by (simp add: events_def final_def Reconcile_def reconcile_locked_def ev_simps)

end
