(* ===== verification/ConfigureHistory.thy ===== *)
theory ConfigureHistory
  imports Scenario
begin

text \<open>
  The life of a configure service: the notifications and reconciliations it serves, one after the
  other as its mutex lets them through, and what becomes of the checkpoint over all of them.
\<close>

section \<open>Serving requests\<close>

datatype request =
    Notified configure_notification
  | Reconciled string

fun serve_one :: "string \<Rightarrow> 'w configure_service \<Rightarrow> 'w ctx \<Rightarrow> request \<Rightarrow> ('w, go_error option) cfg" where
  "serve_one nf sv c (Notified msg) = Handle sv c msg"
| "serve_one nf sv c (Reconciled target) = Reconcile nf sv c target"

primrec serve :: "string \<Rightarrow> 'w configure_service \<Rightarrow> 'w ctx \<Rightarrow> request list \<Rightarrow> ('w, go_error option list) cfg" where
  "serve nf sv c [] = State_Monad.return []"
| "serve nf sv c (q # qs) = do {
     r \<leftarrow> serve_one nf sv c q;
     rs \<leftarrow> serve nf sv c qs;
     State_Monad.return (r # rs)
   }"

text \<open>The calls a request may lead to\<close>

definition request_path :: "string \<Rightarrow> 'w ctx \<Rightarrow> request \<Rightarrow> cfg_event list \<Rightarrow> go_error option \<Rightarrow> bool" where
  "request_path nf c q =
     (case q of Notified msg \<Rightarrow> locked_path c (handle_path msg) | Reconciled target \<Rightarrow> locked_path c (reconcile_path nf target))"

lemma serve_one_follows: "follows (serve_one nf sv c q) (request_path nf c q)"
  by (cases q) (simp_all add: request_path_def Handle_follows Reconcile_follows)

lemma serve_follows: "follows (serve nf sv c qs) (\<lambda>_ _. True)"
proof (induction qs)
  case (Cons q qs)
  show ?case
    unfolding follows_def
    by (auto simp: wp_simps intro!: wp_follows [OF serve_one_follows] wp_follows [OF Cons.IH])
qed (simp add: follows_def wp_simps)

section \<open>Successive checkpoints\<close>

text \<open>
  Each checkpoint that is saved names another target or UUID than the one it replaces: nothing is
  applied and recorded twice in a row.
\<close>

definition same_names :: "agent_state \<Rightarrow> agent_state \<Rightarrow> bool" where
  "same_names a b \<longleftrightarrow> as_Target a = as_Target b \<and> as_AppliedUUID a = as_AppliedUUID b"

fun moves_on :: "agent_state \<Rightarrow> cfg_event list \<Rightarrow> bool" where
  "moves_on k [] = True"
| "moves_on k (ev # t) =
     ((case ev of EvSaveState st None \<Rightarrow> \<not> same_names st k | _ \<Rightarrow> True) \<and> moves_on (ckpt_step k ev) t)"

lemma moves_on_append [simp]: "moves_on k (t @ u) \<longleftrightarrow> moves_on k t \<and> moves_on (ckpt_after k t) u"
  by (induction t arbitrary: k) auto

lemma moves_on_core: "moves_on k (core t) = moves_on k t"
  by (induction t arbitrary: k) (simp_all add: core_Cons ev_simps split: cfg_event.split)

text \<open>The bucket holds under the key of a target the record of that target.\<close>

definition well_filed :: "cfg_event list \<Rightarrow> bool" where
  "well_filed t \<longleftrightarrow> (\<forall>target d. EvLoadDesired target (Inr (Some d)) \<in> set t \<longrightarrow> dr_Target (sd_Record d) = target)"

lemma well_filed_append [simp]: "well_filed (t @ u) \<longleftrightarrow> well_filed t \<and> well_filed u"
  by (auto simp: well_filed_def)

lemma well_filed_core: "well_filed (core t) = well_filed t"
  by (simp add: well_filed_def in_core(4) [of _ _ t])

lemma handle_core_moves: "handle_core msg t k r \<Longrightarrow> coherent k0 k \<Longrightarrow> moves_on k0 k"
  by (auto elim!: handle_core.cases process_core.cases
      simp: same_names_def checkpoint_of_def in_sync_def dest!: mismatch_code_None)

lemma reconcile_core_moves:
  "reconcile_core nf target t k r \<Longrightarrow> coherent k0 k \<Longrightarrow> well_filed k \<Longrightarrow> moves_on k0 k"
  by (auto elim!: reconcile_core.cases process_core.cases
      simp: same_names_def checkpoint_of_def in_sync_def reconcile_msg_def well_filed_def)

text \<open>
  The relation every request keeps: as long as what was saved can be stored and what was loaded is
  filed well, the checkpoint is the last one saved, loads found it, and it moves on.
\<close>

definition keeps_moving ::
  "('w \<Rightarrow> agent_state) \<Rightarrow> (agent_state \<Rightarrow> bool) \<Rightarrow> ('w, cfg_event) tw \<Rightarrow> ('w, cfg_event) tw \<Rightarrow> bool" where
  "keeps_moving ckpt storable s s' \<longleftrightarrow>
     (\<exists>t. trace s' = trace s @ t \<and>
        (all_storable storable t \<and> well_filed t \<longrightarrow>
           moves_on (ckpt (world s)) t \<and> ckpt (world s') = ckpt_after (ckpt (world s)) t))"

lemma keeps_moving_preorder [io_intro]:
  "reflp (keeps_moving ckpt storable)" "transp (keeps_moving ckpt storable)"
proof -
  show "reflp (keeps_moving ckpt storable)" by (auto simp: reflp_def keeps_moving_def)
  show "transp (keeps_moving ckpt storable)"
  proof (rule transpI)
    fix a b c
    assume "keeps_moving ckpt storable a b" "keeps_moving ckpt storable b c"
    then obtain t u where
      "trace b = trace a @ t" "all_storable storable t \<and> well_filed t \<longrightarrow>
         moves_on (ckpt (world a)) t \<and> ckpt (world b) = ckpt_after (ckpt (world a)) t"
      "trace c = trace b @ u" "all_storable storable u \<and> well_filed u \<longrightarrow>
         moves_on (ckpt (world b)) u \<and> ckpt (world c) = ckpt_after (ckpt (world b)) u"
      unfolding keeps_moving_def by blast
    then show "keeps_moving ckpt storable a c"
      unfolding keeps_moving_def by (intro exI [of _ "t @ u"]) auto
  qed
qed

context configure_world
begin

lemma request_keeps_moving: "state_io_rel (keeps_moving ckpt storable) (serve_one nf sv c q)"
proof -
  have "keeps_moving ckpt storable s (final (serve_one nf sv c q) s)" for s
  proof -
    let ?m = "serve_one nf sv c q"
    let ?t = "events ?m s"
    have tracks: "state_io_rel (tracks ckpt storable) ?m"
      by (cases q) (simp_all add: tracks_Handle tracks_Reconcile)
    have "moves_on (ckpt (world s)) ?t \<and> ckpt (world (final ?m s)) = ckpt_after (ckpt (world s)) ?t"
      if "all_storable storable ?t" "well_filed ?t"
    proof
      note run = run_tracks [OF tracks that(1)]
      show "ckpt (world (final ?m s)) = ckpt_after (ckpt (world s)) ?t"
        using run(2) by (simp add: ckpt_after_core)
      show "moves_on (ckpt (world s)) ?t"
      proof (cases "?t = []")
        case False
        then obtain ev where ev: "ev \<in> set ?t" using list.set_sel(1) by blast
        have "moves_on (ckpt (world s)) (core ?t)"
        proof (cases q)
          case (Notified msg)
          with ev run(1) show ?thesis by (auto intro: handle_core_moves Handle_core_ev)
        next
          case (Reconciled target)
          with ev run(1) that(2) show ?thesis
            by (auto intro!: reconcile_core_moves Reconcile_core_ev simp: well_filed_core)
        qed
        then show ?thesis by (simp add: moves_on_core)
      qed simp
    qed
    then show ?thesis
      using follows_trace [OF serve_one_follows [of nf sv c q], of s] unfolding keeps_moving_def by blast
  qed
  then show ?thesis by (simp add: state_io_rel_def final_def)
qed

lemma serve_keeps_moving: "state_io_rel (keeps_moving ckpt storable) (serve nf sv c qs)"
  by (induction qs) (simp_all add: io_return io_bind keeps_moving_preorder request_keeps_moving)

lemma history_moves_on:
  assumes "all_storable storable (events (serve nf sv c qs) s)" "well_filed (events (serve nf sv c qs) s)"
  shows "moves_on (ckpt (world s)) (events (serve nf sv c qs) s)"
    and "ckpt (world (final (serve nf sv c qs) s)) = ckpt_after (ckpt (world s)) (events (serve nf sv c qs) s)"
proof -
  from serve_keeps_moving have "keeps_moving ckpt storable s (final (serve nf sv c qs) s)"
    by (simp add: state_io_rel_def final_def)
  with assms follows_trace [OF serve_follows [of nf sv c qs], of s]
  show "moves_on (ckpt (world s)) (events (serve nf sv c qs) s)"
    "ckpt (world (final (serve nf sv c qs) s)) = ckpt_after (ckpt (world s)) (events (serve nf sv c qs) s)"
    by (auto simp: keeps_moving_def)
qed

end

text \<open>
  A notification over services that are well, and then a pass of the reconciliation, which finds its
  target in sync.
\<close>

definition demo_requests :: "request list" where
  "demo_requests = [Notified MinimalConfigureNotification, Reconciled MinimalTarget]"

lemma demo_life:
  "events (serve ''config_not_found'' (scripted all_well) (Some live) demo_requests) (start empty_state) =
     events demo_run (start empty_state) @
     [EvLock, EvLoadState (Inr demo_state), EvLoadDesired MinimalTarget (Inr (Some MinimalPlaceholderDesiredConfig)), EvUnlock]"
  by (simp add: demo_requests_def events_def final_def demo_run Reconcile_def reconcile_locked_def)

end
