(* ===== verification/ConfigureClaims.thy ===== *)
theory ConfigureClaims
  imports ConfigureHistory
begin

text \<open>
  The properties of the configure workflow.  First what holds whatever the collaborators do, then
  what holds when they keep the contract of \<open>ConfigureWorld\<close>; \<open>Scenario\<close> has the runs of the
  witnesses.
\<close>

section \<open>For any collaborators\<close>

text \<open>
  C1. Apply before checkpoint: a state is handed to the store only after the desired config of this
  very target was loaded, rendered and applied, in this order and each successfully; and what is
  checkpointed is the target and the UUID of the notification, which are those of the loaded record.
\<close>

theorem save_only_after_apply:
  assumes "EvSaveState st e \<in> set (handle_events sv c msg s)"
  shows "\<exists>d out. subseq [EvLoadDesired (cn_Target msg) (Inr (Some d)), EvRender d (Inr out),
                         EvApply out None, EvSaveState st e] (handle_events sv c msg s) \<and>
           dr_Target (sd_Record d) = cn_Target msg \<and> dr_UUID (sd_Record d) = cn_UUID msg \<and>
           as_Target st = cn_Target msg \<and> as_AppliedUUID st = cn_UUID msg"
proof -
  let ?t = "handle_events sv c msg s"
  from handle_core_save [OF Handle_core_ev [OF assms] in_core(1) [THEN iffD1, OF assms]]
  obtain d out ls where k: "core ?t = [EvLoadDesired (cn_Target msg) (Inr (Some d)), EvLoadState ls,
      EvRender d (Inr out), EvApply out None, EvSaveState st e]"
    and m: "mismatch_code msg d = None" "checkpoint_of msg d st"
    by blast
  have "subseq [EvLoadDesired (cn_Target msg) (Inr (Some d)), EvRender d (Inr out),
      EvApply out None, EvSaveState st e] (core ?t)"
    unfolding k by simp
  then show ?thesis
    using m by (auto simp: checkpoint_of_def dest!: mismatch_code_None subseq_core)
qed

theorem save_only_after_apply_witness:
  "\<exists>d out. subseq [EvLoadDesired MinimalTarget (Inr (Some d)), EvRender d (Inr out), EvApply out None,
      EvSaveState demo_state None] (events demo_run (start empty_state)) \<and> dr_UUID (sd_Record d) = MinimalUUID"
proof -
  have "EvSaveState demo_state None \<in> set (events demo_run (start empty_state))" by (simp add: demo_events)
  from save_only_after_apply [OF this] show ?thesis by (auto simp only: fixture_sels)
qed

text \<open>
  C2. A success result is only published for a config that is in force: either the store had just
  accepted a checkpoint with the notification's target and UUID, or the checkpoint it holds already
  had them and then nothing was rendered, applied or saved.
\<close>

theorem success_means_checkpointed:
  assumes "EvResult m e \<in> set (handle_events sv c msg s)" and "re_Result m = ''success''"
  shows "(\<exists>st. EvSaveState st None \<in> set (handle_events sv c msg s) \<and>
             as_Target st = cn_Target msg \<and> as_AppliedUUID st = cn_UUID msg) \<or>
         (\<exists>st. EvLoadState (Inr st) \<in> set (handle_events sv c msg s) \<and>
             as_Target st = cn_Target msg \<and> as_AppliedUUID st = cn_UUID msg \<and>
             (\<forall>d ro out ae st' se. EvRender d ro \<notin> set (handle_events sv c msg s) \<and>
                EvApply out ae \<notin> set (handle_events sv c msg s) \<and>
                EvSaveState st' se \<notin> set (handle_events sv c msg s)))"
proof -
  let ?t = "handle_events sv c msg s"
  from handle_core_success [OF Handle_core_ev [OF assms(1)] _ assms(2)] in_results assms(1)
  obtain d st where m: "mismatch_code msg d = None" and
    k: "(\<exists>ls out. core ?t = [EvLoadDesired (cn_Target msg) (Inr (Some d)), EvLoadState ls,
          EvRender d (Inr out), EvApply out None, EvSaveState st None] \<and> checkpoint_of msg d st) \<or>
      (core ?t = [EvLoadDesired (cn_Target msg) (Inr (Some d)), EvLoadState (Inr st)] \<and>
        in_sync (cn_Target msg) d st)"
    by blast
  from mismatch_code_None [OF m] k show ?thesis
    unfolding in_core(1) [of _ _ ?t] in_core(2) [of _ _ ?t] in_core(3) [of _ _ ?t] in_core(5) [of _ ?t]
    by (auto simp: checkpoint_of_def in_sync_def)
qed

theorem success_means_checkpointed_witness:
  "\<exists>st. EvSaveState st None \<in> set (events demo_run (start empty_state)) \<and> as_AppliedUUID st = MinimalUUID"
  using success_means_checkpointed [of "BuildResult MinimalRPCID MinimalTarget ''configure'' MinimalUUID [] ''success'' []
      ''configure apply completed'' [] 0" None "scripted all_well" "Some live" MinimalConfigureNotification
      "start empty_state"]
  by (auto simp: demo_events demo_result_def demo_status_def)

text \<open>
  C3. Every accepted notification is answered with exactly one result; the one exception is a
  checkpoint the store refused after a successful apply, which is answered with none, as README.md and
  SPEC.md say (TDD_SPEC.md expects a failure to be reported there).
\<close>

theorem one_result_unless_save_failed:
  "length (results (handle_events sv (Some cx) msg s)) =
     (if \<exists>st e. EvSaveState st (Some e) \<in> set (handle_events sv (Some cx) msg s) then 0 else 1)"
  using handle_core_results [OF Handle_core_Some [of msg sv cx s]]
  by (simp add: in_core(1) [of _ _ "handle_events sv (Some cx) msg s"])

text \<open>
  No contradiction: once the rendered config was applied, no failure result is published for
  it, whatever happens to the checkpoint or to the reports.
\<close>

theorem no_failure_after_apply:
  assumes "EvApply out None \<in> set (handle_events sv c msg s)"
    and "EvResult m e \<in> set (handle_events sv c msg s)"
  shows "re_Result m = ''success''"
  using handle_core_no_failure [OF Handle_core_ev [OF assms(1)] in_core(2) [THEN iffD1, OF assms(1)]
      in_results [THEN iffD1, OF assms(2)]] .

theorem no_failure_after_apply_witness:
  "re_Result (BuildResult MinimalRPCID MinimalTarget ''configure'' MinimalUUID [] ''success'' []
      ''configure apply completed'' [] 0) = ''success''"
  by (rule no_failure_after_apply [of MinimalRenderedOutput "scripted all_well" "Some live" MinimalConfigureNotification
      "start empty_state" _ None]) (simp_all add: demo_events demo_result_def)

text \<open>
  C5. \<^verbatim>\<open>Handle\<close> returns nil exactly when a success result got out and no success status failed to:
  an error of a collaborator or of a final report is never swallowed, a lost progress report is.
\<close>

theorem nil_iff_success_reported:
  "handle_outcome sv (Some cx) msg s = None \<longleftrightarrow>
     (\<exists>m. EvResult m None \<in> set (handle_events sv (Some cx) msg s) \<and> re_Result m = ''success'') \<and>
     (\<forall>m e. EvStatus m e \<in> set (handle_events sv (Some cx) msg s) \<longrightarrow> se_Status m = ''success'' \<longrightarrow> e = None)"
  using handle_core_nil [OF Handle_core_Some [of msg sv cx s]]
  by (auto simp: in_results in_statuses)

theorem nil_iff_success_reported_witness:
  "\<exists>m. EvResult m None \<in> set (events demo_run (start empty_state)) \<and> re_Result m = ''success''"
  using nil_iff_success_reported [of "scripted all_well" live MinimalConfigureNotification "start empty_state"]
  by simp

text \<open>
  C4. The error codes are exact: a failure result with a code is published if and only if the run
  met the failure of that code, in the order of the checks (notification, desired config, match of
  the two, local state, render, apply).
\<close>

theorem failure_code_exact:
  "failure_code msg (core (handle_events sv (Some cx) msg s)) = Some code \<longleftrightarrow>
     (\<exists>m e. EvResult m e \<in> set (handle_events sv (Some cx) msg s) \<and>
        re_Result m = ''failure'' \<and> re_ErrorCode m = code)"
  using handle_core_code [OF Handle_core_Some [of msg sv cx s]] by (simp add: in_results)

text \<open>
  C16. Every status and result of a run answers the notification that started it: it carries its RPC
  id, target and UUID and the wire version, and a result the command type configure.
\<close>

theorem messages_answer_notification: "list_all (carries msg) (handle_events sv c msg s)"
proof (cases "c = nil_ctx")
  case False
  then show ?thesis
    by (rule Handle_path [of c sv msg s]) (auto simp: list_all_iff dest: handle_carries)
qed simp

text \<open>
  C6. Convergence: when \<^verbatim>\<open>Reconcile\<close> returns nil, there is no desired config for the target, or the
  checkpoint already had the target and the UUID of the desired config, or the desired config was
  rendered, applied and checkpointed with its UUID, and then its success status and its success result
  got out.
\<close>

theorem reconcile_nil_means_converged:
  assumes "reconcile_outcome nf sv (Some cx) target s = None"
  shows "(\<exists>e. EvLoadDesired target (Inl e) \<in> set (reconcile_events nf sv (Some cx) target s) \<and>
            errors_as_agentcore e = Some nf) \<or>
         EvLoadDesired target (Inr None) \<in> set (reconcile_events nf sv (Some cx) target s) \<or>
         (\<exists>d st. subseq [EvLoadState (Inr st), EvLoadDesired target (Inr (Some d))]
                   (reconcile_events nf sv (Some cx) target s) \<and>
            as_Target st = target \<and> as_AppliedUUID st = dr_UUID (sd_Record d)) \<or>
         (\<exists>d out st sm rm. subseq [EvLoadDesired target (Inr (Some d)), EvRender d (Inr out), EvApply out None,
                   EvSaveState st None, EvStatus sm None, EvResult rm None] (reconcile_events nf sv (Some cx) target s) \<and>
            as_Target st = dr_Target (sd_Record d) \<and> as_AppliedUUID st = dr_UUID (sd_Record d) \<and>
            se_Status sm = ''success'' \<and> se_Stage sm = ''applied'' \<and>
            se_Target sm = dr_Target (sd_Record d) \<and> se_UUID sm = dr_UUID (sd_Record d) \<and>
            re_Result rm = ''success'' \<and> re_Target rm = dr_Target (sd_Record d) \<and> re_UUID rm = dr_UUID (sd_Record d))"
proof -
  obtain t where t: "reconcile_events nf sv (Some cx) target s = EvLock # t @ [EvUnlock]"
    and "reconcile_path nf target t None"
    using Reconcile_path [of "Some cx" nf sv target s] assms by (metis option.distinct(1))
  have sub: "subseq xs (reconcile_events nf sv (Some cx) target s)" if "subseq xs t" for xs
    unfolding t by (intro list_emb.list_emb_Cons list_emb_prefix that)
  from reconcile_path_nil [OF \<open>reconcile_path nf target t None\<close>] show ?thesis
  proof (elim disjE exE conjE)
    fix e assume "EvLoadDesired target (Inl e) \<in> set t" "errors_as_agentcore e = Some nf"
    with t show ?thesis by auto
  next
    assume "EvLoadDesired target (Inr None) \<in> set t"
    with t show ?thesis by auto
  next
    fix d st assume "subseq [EvLoadState (Inr st), EvLoadDesired target (Inr (Some d))] t" "in_sync target d st"
    with sub show ?thesis by (auto simp: in_sync_def)
  next
    fix d out st sm rm
    assume "subseq [EvLoadDesired target (Inr (Some d)), EvRender d (Inr out), EvApply out None,
         EvSaveState st None, EvStatus sm None, EvResult rm None] t"
      "checkpoint_of (reconcile_msg d) d st" "status_for (reconcile_msg d) ''success'' ''applied'' sm"
      "result_for (reconcile_msg d) ''success'' [] rm"
    with sub show ?thesis
      by (simp add: checkpoint_of_def reconcile_msg_def status_for_def result_for_def) blast
  qed
qed

theorem reconcile_nil_means_converged_witness:
  "\<exists>d out st sm rm. subseq [EvLoadDesired MinimalTarget (Inr (Some d)), EvRender d (Inr out), EvApply out None,
      EvSaveState st None, EvStatus sm None, EvResult rm None] (events (reconcile_run all_well) (start empty_state)) \<and>
    as_AppliedUUID st = dr_UUID (sd_Record d) \<and> re_Result rm = ''success''"
proof -
  let ?t = "events (reconcile_run all_well) (start empty_state)"
  have run: "outcome (reconcile_run all_well) (start empty_state) = None"
    "core ?t = [EvLoadState (Inr empty_state), EvLoadDesired MinimalTarget (Inr (Some MinimalPlaceholderDesiredConfig)),
      EvRender MinimalPlaceholderDesiredConfig (Inr MinimalRenderedOutput), EvApply MinimalRenderedOutput None,
      EvSaveState demo_state None]"
    using run_reconcile_other [of empty_state "start empty_state" MinimalPlaceholderDesiredConfig MinimalTarget MinimalUUID
        all_well MinimalRenderedOutput] by (simp_all add: demo_state_def)
  have "\<not> (\<exists>e. EvLoadDesired MinimalTarget (Inl e) \<in> set ?t)" "EvLoadDesired MinimalTarget (Inr None) \<notin> set ?t"
    by (simp_all add: in_core(4) [of _ _ ?t] run(2))
  moreover have "\<not> subseq [EvLoadState (Inr st), EvLoadDesired MinimalTarget (Inr (Some d))] ?t"
    if "as_Target st = MinimalTarget" for st d
  proof
    assume "subseq [EvLoadState (Inr st), EvLoadDesired MinimalTarget (Inr (Some d))] ?t"
    then have "EvLoadState (Inr st) \<in> set ?t" by (auto elim: list_emb_set)
    then have "st = empty_state" by (simp add: in_core(5) [of _ ?t] run(2))
    with that show False by simp
  qed
  ultimately show ?thesis
    using reconcile_nil_means_converged [OF run(1)] by blast
qed

text \<open>
  Rendered commands reach the log only when the service is configured to log them, and then only
  at debug level; every other text logged is one of the identifiers, stages and fixed messages:
  neither the payload of a desired config nor what was rendered from it.
\<close>

theorem log_entries_discreet: "list_all (discreet sv) (new_logs (Handle sv c msg) s)"
  using logs_grow_new [OF discreet_Handle] by (auto simp: list_all_iff)

text \<open>
  C9. Mutual exclusion: any number of goroutines call \<^verbatim>\<open>Handle\<close> and \<^verbatim>\<open>Reconcile\<close> of one service, each again
  and again, with any arguments and whatever world a call meets.  However their steps interleave under
  the mutex, what happens is all the steps of one of these calls, then all of another, and so on, and
  the beginning of at most one more call.
\<close>

theorem runs_serialize:
  assumes "sched_step\<^sup>*\<^sup>* (callers_start sv calls) s"
  shows "\<exists>finished i part rest. sc_hist s = tagged finished @ map (Pair i) part \<and>
    (\<forall>(j, b)\<in>set finished. \<exists>q\<in>set (calls j). b = call_events sv q) \<and>
    (part = [] \<or> (\<exists>q\<in>set (calls i). part @ rest = call_events sv q))"
  using callers_serial [OF assms] unfolding runs_of_def .

abbreviation demo_callers :: "nat \<Rightarrow> agent_state service_call list" where
  "demo_callers \<equiv> \<lambda>_. [CallHandle (Some live) MinimalConfigureNotification (start empty_state)]"

theorem runs_serialize_witness:
  "let sv = scripted all_well; s = sc_did 7 EvLock (tl (events demo_run (start empty_state))) True (callers_start sv demo_callers)
   in sc_hist s = [(7, EvLock)] \<and>
      (\<exists>finished i part rest. sc_hist s = tagged finished @ map (Pair i) part \<and>
        (\<forall>(j, b)\<in>set finished. \<exists>q\<in>set (demo_callers j). b = call_events sv q) \<and>
        (part = [] \<or> (\<exists>q\<in>set (demo_callers i). part @ rest = call_events sv q)))"
proof -
  let ?init = "callers_start (scripted all_well) demo_callers"
  let ?nxt = "sc_did 7 EvLock (tl (events demo_run (start empty_state))) True ?init"
  have "sched_step ?init ?nxt"
    by (rule sched_step.acquire) (simp_all add: callers_start_def sched_init_def demo_events)
  then have "sched_step\<^sup>*\<^sup>* ?init ?nxt" by blast
  from runs_serialize [OF this] show ?thesis
    unfolding Let_def by (intro conjI) (simp add: sc_did_def callers_start_def sched_init_def, blast)
qed

section \<open>For collaborators that keep the contract\<close>

text \<open>
  C12. When \<^verbatim>\<open>Handle\<close> returns nil, the checkpoint that the store holds is the notification's target
  and UUID.
\<close>

theorem handle_nil_installs_checkpoint:
  assumes "configure_world sv ckpt storable"
    and "storable (named_state (cn_Target msg) (cn_UUID msg))"
    and "handle_outcome sv (Some cx) msg s = None"
  shows "checkpointed (cn_Target msg) (cn_UUID msg) (ckpt (world (final (Handle sv (Some cx) msg) s)))"
  using configure_world.handle_nil_checkpoint [OF assms] .

theorem handle_nil_installs_checkpoint_witness: "checkpointed MinimalTarget MinimalUUID demo_state"
  using handle_nil_installs_checkpoint [OF scripted.configure_world_axioms [of all_well], where
      msg = MinimalConfigureNotification and cx = live and s = "start empty_state"]
  by simp

text \<open>
  C13. Only an applied config moves the checkpoint: when a run of \<^verbatim>\<open>Handle\<close>, whatever it returns,
  leaves another checkpoint than it found, then that is the notification's, and a config with the
  notification's UUID was rendered and applied, provided the store keeps its contract and can store the
  notification's names (UTF-8, for the file store).
\<close>

theorem checkpoint_moves_only_by_apply:
  assumes "configure_world sv ckpt storable"
    and "storable (named_state (cn_Target msg) (cn_UUID msg))"
    and "ckpt (world (final (Handle sv c msg) s)) \<noteq> ckpt (world s)"
  shows "checkpointed (cn_Target msg) (cn_UUID msg) (ckpt (world (final (Handle sv c msg) s))) \<and>
    (\<exists>d out. subseq [EvRender d (Inr out), EvApply out None] (handle_events sv c msg s) \<and>
       dr_UUID (sd_Record d) = cn_UUID msg)"
  using configure_world.handle_checkpoint_frame [OF assms] .

theorem checkpoint_moves_only_by_apply_witness:
  "\<exists>d out. subseq [EvRender d (Inr out), EvApply out None] (events demo_run (start empty_state)) \<and>
     dr_UUID (sd_Record d) = MinimalUUID"
  using checkpoint_moves_only_by_apply [OF scripted.configure_world_axioms [of all_well], where
      msg = MinimalConfigureNotification and c = "Some live" and s = "start empty_state"]
  by simp

text \<open>
  C15. Redelivery is idempotent: after a notification was handled and nil returned, handling the same
  notification again renders nothing, applies nothing and saves nothing, whatever the bus answers,
  provided the store keeps its contract and can store the notification's names.
\<close>

theorem redelivery_renders_nothing:
  assumes "configure_world sv ckpt storable"
    and "storable (named_state (cn_Target msg) (cn_UUID msg))"
    and "handle_outcome sv (Some cx) msg s = None"
  shows "EvRender d ro \<notin> set (handle_events sv c msg (final (Handle sv (Some cx) msg) s)) \<and>
    EvApply out e \<notin> set (handle_events sv c msg (final (Handle sv (Some cx) msg) s)) \<and>
    EvSaveState st e' \<notin> set (handle_events sv c msg (final (Handle sv (Some cx) msg) s))"
  using configure_world.handle_in_sync_idle [OF assms(1,2) configure_world.handle_nil_checkpoint [OF assms]] by blast

theorem redelivery_renders_nothing_witness:
  "\<forall>d ro out e st e'. EvRender d ro \<notin> set (events demo_run (final demo_run (start empty_state))) \<and>
     EvApply out e \<notin> set (events demo_run (final demo_run (start empty_state))) \<and>
     EvSaveState st e' \<notin> set (events demo_run (final demo_run (start empty_state)))"
  by (intro allI redelivery_renders_nothing [OF scripted.configure_world_axioms]) simp_all

text \<open>
  C17. What is applied is what the notification asked for: with a renderer that names in its output
  what it renders for, an output handed to the apply engine names the notification's target and UUID.
\<close>

theorem applied_output_is_requested:
  assumes "naming_service sv" and "EvApply out e \<in> set (handle_events sv c msg s)"
  shows "out_Target out = cn_Target msg \<and> out_UUID out = cn_UUID msg"
  using naming_service.applied_output_names [OF assms] .

theorem applied_output_is_requested_witness:
  "out_Target MinimalRenderedOutput = MinimalTarget \<and> out_UUID MinimalRenderedOutput = MinimalUUID"
proof -
  have "EvApply MinimalRenderedOutput None \<in> set (events demo_run (start empty_state))" by (simp add: demo_events)
  from applied_output_is_requested [OF all_well_names.naming_service_axioms this] show ?thesis by simp
qed

text \<open>
  A reconcile that finds the checkpoint in sync is silent: it returns nil and publishes no status
  and no result.
\<close>

theorem reconcile_in_sync_is_silent:
  assumes "configure_world sv ckpt storable"
    and "storable (named_state (dr_Target (sd_Record d)) (dr_UUID (sd_Record d)))"
    and "EvLoadDesired target (Inr (Some d)) \<in> set (reconcile_events nf sv c target s)"
    and "checkpointed target (dr_UUID (sd_Record d)) (ckpt (world s))"
  shows "reconcile_outcome nf sv c target s = None \<and> statuses (reconcile_events nf sv c target s) = [] \<and>
         results (reconcile_events nf sv c target s) = []"
  using configure_world.reconcile_in_sync_idle [OF assms(1,3,2,4)] by simp

theorem reconcile_in_sync_is_silent_witness:
  "outcome (reconcile_run all_well) (start demo_state) = None \<and>
   statuses (events (reconcile_run all_well) (start demo_state)) = []"
proof -
  let ?t = "events (reconcile_run all_well) (start demo_state)"
  have "core ?t = [EvLoadState (Inr demo_state), EvLoadDesired MinimalTarget (Inr (Some MinimalPlaceholderDesiredConfig))]"
    by (rule run_reconcile_in_sync) simp_all
  then have "EvLoadDesired MinimalTarget (Inr (Some MinimalPlaceholderDesiredConfig)) \<in> set ?t"
    by (simp add: in_core(4) [of _ _ ?t])
  from reconcile_in_sync_is_silent [OF scripted.configure_world_axioms [of all_well] _ this]
  show ?thesis by (simp add: checkpointed_def)
qed

text \<open>
  A desired record of another target is not recognised: \<^verbatim>\<open>Reconcile\<close> applies it, checkpoints it
  under its own target, and because of that renders and applies it again the next time.
\<close>

theorem foreign_record_applied_again:
  assumes "configure_world sv ckpt storable"
    and "storable (named_state (dr_Target (sd_Record d)) (dr_UUID (sd_Record d)))"
    and "dr_Target (sd_Record d) \<noteq> target"
    and "reconcile_outcome nf sv c target s = None" and "EvRender d ro \<in> set (reconcile_events nf sv c target s)"
    and "EvLoadDesired target (Inr (Some d)) \<in> set (reconcile_events nf sv c' target (final (Reconcile nf sv c target) s))"
  shows "\<exists>ro. EvRender d ro \<in> set (reconcile_events nf sv c' target (final (Reconcile nf sv c target) s))"
proof -
  have "checkpointed (dr_Target (sd_Record d)) (dr_UUID (sd_Record d)) (ckpt (world (final (Reconcile nf sv c target) s)))"
    using configure_world.reconcile_applied_checkpoint [OF assms(1,5,2,4)] .
  with assms(3) have "\<not> checkpointed target (dr_UUID (sd_Record d)) (ckpt (world (final (Reconcile nf sv c target) s)))"
    by (simp add: checkpointed_def)
  from configure_world.reconcile_drift_renders [OF assms(1,6,2) this] show ?thesis .
qed

theorem foreign_record_applied_again_witness:
  "\<exists>ro. EvRender foreign_desired ro \<in>
     set (events (reconcile_run foreign) (final (reconcile_run foreign) (start empty_state)))"
proof -
  let ?r = "reconcile_run foreign"
  let ?s = "final ?r (start empty_state)"
  have one: "outcome ?r (start empty_state) = None" "world ?s = foreign_state"
    "EvRender foreign_desired (Inr (output_of foreign_desired)) \<in> set (core (events ?r (start empty_state)))"
    using run_reconcile_other [of empty_state "start empty_state" foreign_desired "''other''" "''cfg-9''" foreign
        "output_of foreign_desired"]
    by (simp_all add: foreign_state_def)
  have "EvLoadDesired MinimalTarget (Inr (Some foreign_desired)) \<in> set (core (events ?r ?s))"
    using run_reconcile_other(3) [of foreign_state ?s foreign_desired "''other''" "''cfg-9''" foreign
        "output_of foreign_desired"] one(2) by simp
  then have two: "EvLoadDesired MinimalTarget (Inr (Some foreign_desired)) \<in> set (events ?r ?s)"
    by (simp add: in_core(4) [of _ _ "events ?r ?s"])
  have "EvRender foreign_desired (Inr (output_of foreign_desired)) \<in> set (events ?r (start empty_state))"
    using one(3) by (simp add: in_core(3) [of _ _ "events ?r (start empty_state)"])
  from foreign_record_applied_again [OF scripted.configure_world_axioms [of foreign] TrueI _ one(1) this two]
  show ?thesis by (simp add: MinimalTarget_def)
qed

section \<open>Histories\<close>

text \<open>
  C14. Over any sequence of notifications and reconciliation passes, in any order and whatever fails in
  between, no checkpoint is saved twice in a row: each one that is saved names another target or
  another UUID than the one it replaces, and in the end the store holds the last one that was saved,
  provided the store keeps its contract and the desired configs are filed under their target and have
  names the store can store.
\<close>

theorem saved_checkpoints_always_move_on:
  assumes "configure_world sv ckpt storable"
    and "all_storable storable (events (serve nf sv c qs) s)"
    and "well_filed (events (serve nf sv c qs) s)"
  shows "moves_on (ckpt (world s)) (events (serve nf sv c qs) s) \<and>
    ckpt (world (final (serve nf sv c qs) s)) = ckpt_after (ckpt (world s)) (events (serve nf sv c qs) s)"
  using configure_world.history_moves_on [OF assms] by simp

theorem saved_checkpoints_always_move_on_witness:
  "moves_on empty_state (events (serve ''config_not_found'' (scripted all_well) (Some live) demo_requests) (start empty_state)) \<and>
   world (final (serve ''config_not_found'' (scripted all_well) (Some live) demo_requests) (start empty_state)) = demo_state"
proof -
  let ?m = "serve ''config_not_found'' (scripted all_well) (Some live) demo_requests"
  have "well_filed (events ?m (start empty_state))"
    by (simp add: demo_life demo_events well_filed_def demo_status_def demo_result_def)
  from saved_checkpoints_always_move_on [OF scripted.configure_world_axioms _ this] show ?thesis
    by (simp add: all_storable_def demo_life demo_events demo_status_def demo_result_def)
qed

end
