(* ===== verification/BackendDouble.thy ===== *)
theory BackendDouble
  imports Doubles
begin

text \<open>
  The controllable VyOS apply backend of internal/testutil/apply_fake.go, as operations on the world
  of the test doubles: what it is asked to prepare and to apply is recorded, and what it answers is
  scripted.  The copies of its slices (\<^verbatim>\<open>cloneApplyPlan\<close>, \<^verbatim>\<open>cloneApplyResult\<close>) are the values
  themselves.
\<close>

section \<open>Prepare\<close>

definition default_mutation :: "apply_input \<Rightarrow> apply_input" where
  "default_mutation i =
     i\<lparr>ai_DesiredCommands := trim_right_char newline (ai_DesiredCommands i) @ [newline] @
         ''# mutated by FakeApplyBackend Prepare'' @ [newline]\<rparr>"

text \<open>Only the record of the call is mutated; plan and validation see the input.\<close>

definition recorded_input :: "fake_apply_backend \<Rightarrow> apply_input \<Rightarrow> apply_input" where
  "recorded_input f input =
     (if fb_MutateOnPrepare f
      then (case fb_MutatePrepareInput f of None \<Rightarrow> default_mutation | Some mutate \<Rightarrow> mutate) input
      else input)"

definition plan_for :: "apply_input \<Rightarrow> apply_plan" where
  "plan_for input =
     \<lparr>pl_Target = ai_Target input, pl_ConfigUUID = ai_ConfigUUID input, pl_DeleteCommands = [],
      pl_SetCommands = [], pl_Commit = True, pl_Save = False\<rparr>"

definition FakeApplyBackend_Prepare ::
  "doubles vyos_world ctx \<Rightarrow> apply_input \<Rightarrow> doubles \<Rightarrow> (go_error + apply_plan) \<times> doubles" where
  "FakeApplyBackend_Prepare c input w =
     (let w1 = EventRecorder_Record (fb_Events (d_backend w)) ''prepare'' w;
          f = d_backend w1;
          w2 = w1\<lparr>d_backend := f\<lparr>fb_prepareCalls := Suc (fb_prepareCalls f),
                                  fb_prepareInputs := fb_prepareInputs f @ [recorded_input f input]\<rparr>\<rparr>;
          invalid = (case fb_ValidatePrepare f of None \<Rightarrow> None | Some v \<Rightarrow> v input)
      in (case invalid of
            Some e \<Rightarrow> Inl e
          | None \<Rightarrow>
              (case fb_PrepareErr f of
                 Some e \<Rightarrow> Inl e
               | None \<Rightarrow> Inr (if fb_UsePlan f then fb_Plan f else plan_for input)), w2))"

section \<open>Apply\<close>

definition result_of_apply :: "apply_input \<Rightarrow> vyos_apply_result" where
  "result_of_apply input =
     \<lparr>va_Target = ai_Target input, va_ConfigUUID = ai_ConfigUUID input, va_Applied = True,
      va_DeleteCommands = [], va_SetCommands = []\<rparr>"

definition FakeApplyBackend_Apply ::
  "doubles vyos_world ctx \<Rightarrow> apply_input \<Rightarrow> doubles \<Rightarrow> (go_error + vyos_apply_result) \<times> doubles" where
  "FakeApplyBackend_Apply c input w =
     (let w1 = EventRecorder_Record (fb_Events (d_backend w)) ''apply'' w;
          f = d_backend w1;
          w2 = w1\<lparr>d_backend := f\<lparr>fb_applyCalls := Suc (fb_applyCalls f),
                                  fb_applyInputs := fb_applyInputs f @ [input]\<rparr>\<rparr>;
          invalid = (case fb_ValidateApply f of None \<Rightarrow> None | Some v \<Rightarrow> v input)
      in (case invalid of
            Some e \<Rightarrow> Inl e
          | None \<Rightarrow>
              (case fb_ApplyErr f of
                 Some e \<Rightarrow> Inl e
               | None \<Rightarrow> Inr (if fb_UseResult f then fb_Result f else result_of_apply input)), w2))"

text \<open>As the adapter uses it: both a \<^verbatim>\<open>Backend\<close> and a \<^verbatim>\<open>Preparer\<close>, the result of Apply unused\<close>

definition apply_backend_double :: "doubles apply_backend" where
  "apply_backend_double =
     \<lparr>ab_Apply = (\<lambda>c input w. case FakeApplyBackend_Apply c input w of
                    (Inl e, w') \<Rightarrow> (Some e, w') | (Inr _, w') \<Rightarrow> (None, w')),
      ab_Prepare = Some FakeApplyBackend_Prepare\<rparr>"

section \<open>What tests ask it\<close>

definition FakeApplyBackend_LastPrepareInput :: "doubles \<Rightarrow> apply_input option" where
  "FakeApplyBackend_LastPrepareInput w =
     last_recorded (fb_prepareInputs (d_backend w))"

definition FakeApplyBackend_LastApplyInput :: "doubles \<Rightarrow> apply_input option" where
  "FakeApplyBackend_LastApplyInput w =
     last_recorded (fb_applyInputs (d_backend w))"

definition FakeApplyBackend_Reset :: "doubles \<Rightarrow> doubles" where
  "FakeApplyBackend_Reset w =
     w\<lparr>d_backend := (d_backend w)\<lparr>fb_prepareCalls := 0, fb_applyCalls := 0, fb_prepareInputs := [],
                                  fb_applyInputs := []\<rparr>\<rparr>"

section \<open>Facts\<close>

text \<open>Both calls are recorded, whatever they answer, and leave the configuration of the double alone.\<close>

lemma Prepare_records:
  "fb_prepareInputs (d_backend (snd (FakeApplyBackend_Prepare c i w))) =
     fb_prepareInputs (d_backend w) @ [recorded_input (d_backend w) i]"
  "fb_applyInputs (d_backend (snd (FakeApplyBackend_Prepare c i w))) = fb_applyInputs (d_backend w)"
  by (simp_all add: FakeApplyBackend_Prepare_def Let_def EventRecorder_Record_def split: option.split)

lemma Apply_records:
  "fb_applyInputs (d_backend (snd (FakeApplyBackend_Apply c i w))) = fb_applyInputs (d_backend w) @ [i]"
  "fb_prepareInputs (d_backend (snd (FakeApplyBackend_Apply c i w))) = fb_prepareInputs (d_backend w)"
  by (simp_all add: FakeApplyBackend_Apply_def Let_def EventRecorder_Record_def split: option.split)

text \<open>A Prepare that mutates its record of the input does not change what Apply is given.\<close>

lemma mutation_stays_in_prepare:
  "FakeApplyBackend_LastApplyInput (snd (FakeApplyBackend_Apply c i (snd (FakeApplyBackend_Prepare c i w)))) = Some i"
  by (simp add: FakeApplyBackend_LastApplyInput_def last_recorded_def Apply_records)

end
