(* ===== verification/RealMode.thy ===== *)
theory RealMode
  imports BackendDouble Scenario
begin

text \<open>
  Real configure mode: the configure service with the VyOS adapters as its renderer and its apply
  engine.  A run of the service has then two traces, the service's own calls and below them the
  calls of the adapters on the VyOS packages; the contract \<open>real_mode\<close> ties them together.
\<close>

section \<open>The contract\<close>

text \<open>Which calls on the VyOS packages lie behind a call of the service\<close>

definition explains :: "vyos_info \<Rightarrow> 'w render_adapter \<Rightarrow> 'w apply_adapter \<Rightarrow> cfg_event \<Rightarrow> vyos_event list \<Rightarrow> bool" where
  "explains info ra aa ev us =
     (case ev of
        EvRender d r \<Rightarrow> render_path info ra d us r
      | EvApply ro e \<Rightarrow> apply_path aa ro us e
      | _ \<Rightarrow> us = [])"

lemma explains_simps [simp]:
  "explains info ra aa EvLock us = (us = [])" "explains info ra aa EvUnlock us = (us = [])"
  "explains info ra aa (EvStatus m e) us = (us = [])" "explains info ra aa (EvResult m' e) us = (us = [])"
  "explains info ra aa (EvLoadDesired tg ld) us = (us = [])" "explains info ra aa (EvLoadState ls) us = (us = [])"
  "explains info ra aa (EvSaveState st e) us = (us = [])"
  "explains info ra aa (EvRender d r) us = render_path info ra d us r"
  "explains info ra aa (EvApply ro e) us = apply_path aa ro us e"
  by (simp_all add: explains_def)

text \<open>The record simplifier does not look through a world that is itself a \<open>tw\<close>.\<close>

lemma tw_sels [simp]:
  "world (s\<lparr>world := w\<rparr>) = w" "trace (s\<lparr>world := w\<rparr>) = trace s" "logs (s\<lparr>world := w\<rparr>) = logs s"
  "world (s\<lparr>trace := t\<rparr>) = world s" "trace (s\<lparr>trace := t\<rparr>) = t" "logs (s\<lparr>trace := t\<rparr>) = logs s"
  "world (s\<lparr>logs := ls\<rparr>) = world s" "trace (s\<lparr>logs := ls\<rparr>) = trace s" "logs (s\<lparr>logs := ls\<rparr>) = ls"
  by (cases s; simp)+

definition explained :: "vyos_info \<Rightarrow> 'w render_adapter \<Rightarrow> 'w apply_adapter
    \<Rightarrow> ('w vyos_world, cfg_event) tw \<Rightarrow> ('w vyos_world, cfg_event) tw \<Rightarrow> bool" where
  "explained info ra aa s s' \<longleftrightarrow>
     (\<exists>t us. trace s' = trace s @ t \<and> trace (world s') = trace (world s) @ concat us \<and>
             list_all2 (explains info ra aa) t us)"

lemma explainedI:
  "trace s' = trace s @ t \<Longrightarrow> trace (world s') = trace (world s) @ concat us \<Longrightarrow>
   list_all2 (explains info ra aa) t us \<Longrightarrow> explained info ra aa s s'"
  by (auto simp: explained_def)

lemma explained_preorder [io_intro]: "reflp (explained info ra aa)" "transp (explained info ra aa)"
proof -
  show "reflp (explained info ra aa)"
    by (rule reflpI, rule explainedI [where t = "[]" and us = "[]"]) simp_all
  show "transp (explained info ra aa)"
  proof (rule transpI)
    fix a b c
    assume "explained info ra aa a b" "explained info ra aa b c"
    then obtain t us t' us' where "trace b = trace a @ t" "trace c = trace b @ t'"
      "trace (world b) = trace (world a) @ concat us" "trace (world c) = trace (world b) @ concat us'"
      "list_all2 (explains info ra aa) t us" "list_all2 (explains info ra aa) t' us'"
      unfolding explained_def by blast
    then show "explained info ra aa a c"
      by (intro explainedI [where t = "t @ t'" and us = "us @ us'"]) (simp_all add: list_all2_appendI)
  qed
qed

text \<open>The other collaborators do not call the VyOS packages.\<close>

definition leaves_engine :: "('w vyos_world \<Rightarrow> 'r \<times> 'w vyos_world) \<Rightarrow> bool" where
  "leaves_engine f \<longleftrightarrow> (\<forall>w. trace (snd (f w)) = trace w)"

text \<open>What a run added to the trace of the engine\<close>

definition engine_events :: "(('w vyos_world, cfg_event) tw, 'r) state \<Rightarrow> ('w vyos_world, cfg_event) tw \<Rightarrow> vyos_event list" where
  "engine_events m s = drop (length (trace (world s))) (trace (world (final m s)))"

lemma explained_run:
  assumes "state_io_rel (explained info ra aa) m"
  obtains us where "engine_events m s = concat us" "list_all2 (explains info ra aa) (events m s) us"
proof -
  from assms have "explained info ra aa s (final m s)" by (simp add: state_io_rel_def final_def)
  then show ?thesis by (auto simp: explained_def engine_events_def events_def intro: that)
qed

text \<open>The rest of the trace is silent below.\<close>

lemma explained_core:
  "list_all2 (explains info ra aa) t us \<Longrightarrow>
   \<exists>us'. list_all2 (explains info ra aa) (core t) us' \<and> concat us' = concat us"
proof (induction t arbitrary: us)
  case (Cons ev t)
  from Cons.prems obtain u us0 where us: "us = u # us0" "explains info ra aa ev u"
    "list_all2 (explains info ra aa) t us0" by (auto simp: list_all2_Cons1)
  from Cons.IH [OF us(3)] obtain us' where us':
    "list_all2 (explains info ra aa) (core t) us'" "concat us' = concat us0" by blast
  show ?case
  proof (cases "core [ev] = []")
    case True
    then have "core (ev # t) = core t" "u = []"
      using us(2) by (cases ev; simp add: ev_simps)+
    then show ?thesis using us us' by auto
  next
    case False
    then have "core (ev # t) = ev # core t" by (cases ev) (simp_all add: ev_simps)
    then show ?thesis using us us' by (intro exI [of _ "u # us'"]) simp
  qed
qed (auto simp: ev_simps)

text \<open>
  The calls of a run that hands commands to the engine: rendered once from the desired config,
  perhaps prepared, and applied once.
\<close>

definition delivered :: "vyos_info \<Rightarrow> stored_desired_config \<Rightarrow> apply_input \<Rightarrow> go_error option \<Rightarrow> vyos_event list \<Rightarrow> bool" where
  "delivered info d i e us \<longleftrightarrow>
     (\<exists>vi out prep. us = VRender vi (Inr out) # prep @ [VApply i e] \<and>
        render_BuildInput info d = Inr vi \<and>
        i = \<lparr>ai_Target = vo_Target out, ai_ConfigUUID = vo_ConfigUUID out, ai_DesiredCommands = vo_RenderedText out\<rparr> \<and>
        (prep = [] \<or> (\<exists>r. prep = [VPrepare i r])))"

lemma process_core_engine:
  assumes "process_core msg d t k r" "list_all2 (explains info ra aa) k us" "VApply i e \<in> set (concat us)"
  shows "delivered info d i e (concat us) \<and> (e = None \<longleftrightarrow> (\<exists>st se. EvSaveState st se \<in> set k))"
  using assms
  by (auto elim!: process_core.cases render_path.cases apply_path.cases
      simp: list_all2_Cons1 delivered_def apply_BuildInput_def)

lemma handle_core_engine:
  assumes "handle_core msg t k r" "list_all2 (explains info ra aa) k us" "VApply i e \<in> set (concat us)"
  shows "\<exists>d. EvLoadDesired (cn_Target msg) (Inr (Some d)) \<in> set k \<and> mismatch_code msg d = None \<and>
    delivered info d i e (concat us) \<and> (e = None \<longleftrightarrow> (\<exists>st se. EvSaveState st se \<in> set k))"
  using assms
proof cases
  case (7 d st k')
  with assms(2) obtain us' where us': "list_all2 (explains info ra aa) k' us'" "concat us = concat us'"
    by (auto simp: list_all2_Cons1)
  from process_core_engine [OF 7(5) us'(1), of i e] assms(3) us'(2) 7(1,3) show ?thesis
    by (intro exI [of _ d]) simp
qed (auto simp: list_all2_Cons1)

lemma reconcile_core_engine:
  assumes "reconcile_core nf target t k r" "list_all2 (explains info ra aa) k us" "VApply i e \<in> set (concat us)"
  shows "\<exists>d. EvLoadDesired target (Inr (Some d)) \<in> set k \<and>
    delivered info d i e (concat us) \<and> (e = None \<longleftrightarrow> (\<exists>st se. EvSaveState st se \<in> set k))"
  using assms
proof cases
  case (6 d st k')
  with assms(2) obtain us' where us': "list_all2 (explains info ra aa) k' us'" "concat us = concat us'"
    by (auto simp: list_all2_Cons1)
  from process_core_engine [OF 6(3) us'(1), of i e] assms(3) us'(2) 6(1) show ?thesis
    by (intro exI [of _ d]) simp
qed (auto simp: list_all2_Cons1)

locale real_mode =
  fixes sv :: "'w vyos_world configure_service"
    and info :: vyos_info
    and ra :: "'w render_adapter"
    and aa :: "'w apply_adapter"
  assumes renders: "cs_renderer sv = VyosAdapter_Render info ra"
    and applies: "cs_applyEngine sv = VyosAdapter_Apply aa"
    and client_leaves: "leaves_engine (LoadDesiredConfig (cs_client sv) c target)"
      "leaves_engine (PublishStatus (cs_client sv) c sm)" "leaves_engine (PublishResult (cs_client sv) c rm)"
    and store_leaves: "leaves_engine (Load (cs_stateStore sv) c)" "leaves_engine (Save (cs_stateStore sv) c st)"
    and now_leaves: "leaves_engine (cs_now sv)"
    and log_leaves: "cs_logger sv = Some sink \<Longrightarrow> trace (sink en w) = trace w"
begin

abbreviation rel where "rel \<equiv> explained info ra aa"

text \<open>A step that only touches the world, and not the trace of the engine\<close>

lemma silent_explained:
  fixes s :: "('w vyos_world, cfg_event) tw"
  assumes "trace w' = trace (world s)"
  shows "rel s (s\<lparr>world := w'\<rparr>)" "rel s (s\<lparr>world := w', logs := ls\<rparr>)"
  using assms by (intro explainedI [where t = "[]" and us = "[]"]; simp)+

lemma quiet_explained: "leaves_engine f \<Longrightarrow> state_io_rel rel (quiet f)"
  by (simp add: state_io_rel_def quiet_def leaves_engine_def split: prod.split) (metis silent_explained(1) snd_conv)

lemma call_explained:
  assumes "\<And>w r w'. f w = (r, w') \<Longrightarrow> \<exists>u. trace w' = trace w @ u \<and> explains info ra aa (ev r) u"
  shows "state_io_rel rel (call f ev)"
  unfolding state_io_rel_def
proof
  fix s :: "('w vyos_world, cfg_event) tw"
  obtain r w' where f: "f (world s) = (r, w')" by (cases "f (world s)")
  from assms [OF f] obtain u where "trace w' = trace (world s) @ u" "explains info ra aa (ev r) u" by blast
  with f show "rel s (snd (run_state (call f ev) s))"
    by (intro explainedI [where t = "[ev r]" and us = "[u]"]) (simp_all add: call_def)
qed

lemma engine_call_explained:
  assumes "\<And>w. run_state m w = f w" "follows m P" "\<And>t r. P t r \<Longrightarrow> explains info ra aa (ev r) t"
  shows "state_io_rel rel (call f ev)"
proof (rule call_explained)
  fix w r w'
  assume "f w = (r, w')"
  with assms(1) have "run_state m w = (r, w')" by simp
  with assms(2) [unfolded follows_def, rule_format, of w] assms(3)
  show "\<exists>u. trace w' = trace w @ u \<and> explains info ra aa (ev r) u"
    by (auto simp: wp_def)
qed

lemma other_call_explained:
  assumes "leaves_engine f" "\<And>r. explains info ra aa (ev r) []"
  shows "state_io_rel rel (call f ev)"
proof (rule call_explained)
  fix w r w'
  assume "f w = (r, w')"
  with assms(1) [unfolded leaves_engine_def, rule_format, of w] have "trace w' = trace w" by simp
  with assms(2) show "\<exists>u. trace w' = trace w @ u \<and> explains info ra aa (ev r) u"
    by (intro exI [of _ "[]"]) simp
qed

lemma log_explained: "state_io_rel rel (emit_log (cs_logger sv) lvl msg kv)"
proof (cases "cs_logger sv")
  case None
  then show ?thesis by (simp add: emit_log_def io_return explained_preorder)
next
  case (Some sink)
  then show ?thesis
    by (simp add: state_io_rel_def emit_log_def Let_def silent_explained log_leaves)
qed

lemma mark_explained:
  assumes "explains info ra aa ev []"
  shows "state_io_rel rel (mark ev)"
  using assms by (auto simp: state_io_rel_def mark_def intro: explainedI [where t = "[ev]" and us = "[[]]"])

lemma explained_calls [io_intro]:
  "state_io_rel rel (cfg_now sv)"
  "state_io_rel rel (load_desired sv c target)"
  "state_io_rel rel (load_state sv c)"
  "state_io_rel rel (save_state sv c st)"
  "state_io_rel rel (call (PublishStatus (cs_client sv) c sm) (EvStatus sm))"
  "state_io_rel rel (call (PublishResult (cs_client sv) c rm) (EvResult rm))"
  "state_io_rel rel (mark EvLock)" "state_io_rel rel (mark EvUnlock)"
  "state_io_rel rel (logInfo sv m kv)" "state_io_rel rel (logDebug sv m kv)"
  "state_io_rel rel (logWarn sv m kv)" "state_io_rel rel (logError sv m kv)"
  unfolding cfg_now_def load_desired_def load_state_def save_state_def logInfo_def logDebug_def logWarn_def logError_def
  by (simp_all add: quiet_explained other_call_explained log_explained mark_explained client_leaves store_leaves
      now_leaves)

lemma explained_engine [io_intro]:
  "state_io_rel rel (render sv c d)"
  "state_io_rel rel (apply_rendered sv c out)"
  unfolding render_def apply_rendered_def renders applies
  by (rule engine_call_explained [OF _ render_body_follows], simp add: VyosAdapter_Render_def, simp)
    (rule engine_call_explained [OF _ apply_body_follows], simp add: VyosAdapter_Apply_def, simp)

lemma explained_reports [io_intro]:
  "state_io_rel rel (publishStatus sv c msg status stage message)"
  "state_io_rel rel (publishSuccessResult sv c msg message)"
  "state_io_rel rel (publishFailureResult sv c msg code message)"
  unfolding publishStatus_def publishSuccessResult_def publishFailureResult_def by (intro io_intro)+

lemma explained_helpers [io_intro]:
  "state_io_rel rel (progress sv c msg stage message)"
  "state_io_rel rel (fail sv c msg code message err)"
  "state_io_rel rel (reportingFailure sv msg e)"
  "state_io_rel rel (reconcile_degraded sv c target lm sm err ret)"
  unfolding progress_def fail_def reportingFailure_def reconcile_degraded_def by (intro io_intro)+

lemma explained_process [io_intro]: "state_io_rel rel (processDesiredConfigLocked sv c msg d)"
  unfolding processDesiredConfigLocked_def by (intro io_intro)

lemma explained_Handle: "state_io_rel rel (Handle sv c msg)"
  unfolding Handle_def handle_locked_def by (intro io_intro)

lemma explained_Reconcile: "state_io_rel rel (Reconcile nf sv c target)"
  unfolding Reconcile_def reconcile_locked_def by (intro io_intro)

lemma Handle_delivers:
  assumes "VApply i e \<in> set (engine_events (Handle sv c msg) s)"
  shows "\<exists>d. EvLoadDesired (cn_Target msg) (Inr (Some d)) \<in> set (handle_events sv c msg s) \<and>
    dr_Target (sd_Record d) = cn_Target msg \<and> dr_UUID (sd_Record d) = cn_UUID msg \<and>
    delivered info d i e (engine_events (Handle sv c msg) s) \<and>
    (e = None \<longleftrightarrow> (\<exists>st se. EvSaveState st se \<in> set (handle_events sv c msg s)))"
proof -
  obtain us where us: "engine_events (Handle sv c msg) s = concat us"
    "list_all2 (explains info ra aa) (handle_events sv c msg s) us"
    by (rule explained_run [OF explained_Handle])
  with assms have "handle_events sv c msg s \<noteq> []" by auto
  then obtain ev where "ev \<in> set (handle_events sv c msg s)" using list.set_sel(1) by blast
  note core = Handle_core_ev [OF this]
  obtain us' where us': "list_all2 (explains info ra aa) (core (handle_events sv c msg s)) us'" "concat us' = concat us"
    using explained_core [OF us(2)] by blast
  let ?t = "handle_events sv c msg s"
  from handle_core_engine [OF core us'(1), of i e] assms us(1) us'(2) show ?thesis
    by (auto simp: in_core(1,4) [where t = ?t] dest!: mismatch_code_None)
qed

lemma Reconcile_delivers:
  assumes "VApply i e \<in> set (engine_events (Reconcile nf sv c target) s)"
  shows "\<exists>d. EvLoadDesired target (Inr (Some d)) \<in> set (reconcile_events nf sv c target s) \<and>
    delivered info d i e (engine_events (Reconcile nf sv c target) s) \<and>
    (e = None \<longleftrightarrow> (\<exists>st se. EvSaveState st se \<in> set (reconcile_events nf sv c target s)))"
proof -
  obtain us where us: "engine_events (Reconcile nf sv c target) s = concat us"
    "list_all2 (explains info ra aa) (reconcile_events nf sv c target s) us"
    by (rule explained_run [OF explained_Reconcile])
  with assms have "reconcile_events nf sv c target s \<noteq> []" by auto
  then obtain ev where "ev \<in> set (reconcile_events nf sv c target s)" using list.set_sel(1) by blast
  note core = Reconcile_core_ev [OF this]
  obtain us' where us': "list_all2 (explains info ra aa) (core (reconcile_events nf sv c target s)) us'"
    "concat us' = concat us"
    using explained_core [OF us(2)] by blast
  let ?t = "reconcile_events nf sv c target s"
  from reconcile_core_engine [OF core us'(1), of i e] assms us(1) us'(2) show ?thesis
    by (auto simp: in_core(1,4) [where t = ?t])
qed

end

section \<open>A service in real mode\<close>

text \<open>
  Any configure service, its renderer and engine replaced by the adapters: the other collaborators
  act on the world, which the backends share, and know nothing of the engine's trace.
\<close>

definition aside :: "('w \<Rightarrow> 'r \<times> 'w) \<Rightarrow> 'w vyos_world \<Rightarrow> 'r \<times> 'w vyos_world" where
  "aside f s = (case f (world s) of (r, w') \<Rightarrow> (r, s\<lparr>world := w'\<rparr>))"

definition narrow :: "'w vyos_world ctx \<Rightarrow> 'w vyos_world \<Rightarrow> 'w ctx" where
  "narrow c s = map_option (\<lambda>cx w. cx (s\<lparr>world := w\<rparr>)) c"

definition real_service :: "'w configure_service \<Rightarrow> vyos_info \<Rightarrow> 'w render_adapter \<Rightarrow> 'w apply_adapter
    \<Rightarrow> 'w vyos_world configure_service" where
  "real_service sv info ra aa =
     \<lparr>cs_client =
        \<lparr>LoadDesiredConfig = (\<lambda>c target s. aside (LoadDesiredConfig (cs_client sv) (narrow c s) target) s),
         PublishStatus = (\<lambda>c m s. aside (PublishStatus (cs_client sv) (narrow c s) m) s),
         PublishResult = (\<lambda>c m s. aside (PublishResult (cs_client sv) (narrow c s) m) s)\<rparr>,
      cs_stateStore =
        \<lparr>Load = (\<lambda>c s. aside (Load (cs_stateStore sv) (narrow c s)) s),
         Save = (\<lambda>c st s. aside (Save (cs_stateStore sv) (narrow c s) st) s)\<rparr>,
      cs_renderer = VyosAdapter_Render info ra, cs_applyEngine = VyosAdapter_Apply aa,
      cs_logger = map_option (\<lambda>sink en s. s\<lparr>world := sink en (world s)\<rparr>) (cs_logger sv),
      cs_now = aside (cs_now sv), cs_debug = cs_debug sv\<rparr>"

interpretation real: real_mode "real_service sv info ra aa" info ra aa for sv info ra aa
  by unfold_locales
    (auto simp: real_service_def leaves_engine_def aside_def narrow_def split: prod.split)

text \<open>The mocked agent of the integration tests: the doubles and the simulated apply backend\<close>

definition mocked_agent :: "debug_logging \<Rightarrow> vyos_info \<Rightarrow> doubles render_backend \<Rightarrow> doubles vyos_world configure_service" where
  "mocked_agent dbg info renderBackend =
     real_service (fake_service dbg) info
       \<lparr>ra_backend = Some renderBackend, ra_logger = None, ra_LogPayloads = False, ra_LogRendered = False\<rparr>
       \<lparr>aa_backend = Some apply_backend_double, aa_logger = None, aa_LogRendered = False, aa_LogApplyPlan = False\<rparr>"

section \<open>A run\<close>

definition demo_info :: vyos_info where
  "demo_info = \<lparr>in_SupportedSchemaName = ''olg-ucentral'', in_SupportedSchemaVersions = [''4.2.0'']\<rparr>"

definition demo_render :: "vyos_input \<Rightarrow> vyos_output" where
  "demo_render i =
     \<lparr>vo_Target = vi_Target i, vo_ConfigUUID = vi_ConfigUUID i, vo_SchemaName = vi_SchemaName i,
      vo_SchemaVersion = vi_SchemaVersion i, vo_RenderedText = ''set system host-name real-mock''\<rparr>"

definition demo_ra :: "agent_state render_adapter" where
  "demo_ra = \<lparr>ra_backend = Some (\<lambda>c i w. (Inr (demo_render i), w)), ra_logger = None, ra_LogPayloads = False,
              ra_LogRendered = False\<rparr>"

definition demo_aa :: "agent_state apply_adapter" where
  "demo_aa = \<lparr>aa_backend = Some \<lparr>ab_Apply = (\<lambda>c i w. (None, w)), ab_Prepare = None\<rparr>, aa_logger = None,
              aa_LogRendered = False, aa_LogApplyPlan = False\<rparr>"

abbreviation demo_real :: "agent_state vyos_world configure_service" where
  "demo_real \<equiv> real_service (scripted all_well) demo_info demo_ra demo_aa"

lemma real_sels:
  "LoadDesiredConfig (cs_client demo_real) c target w = (Inr (Some MinimalPlaceholderDesiredConfig), w)"
  "PublishStatus (cs_client demo_real) c m w = (None, w)" "PublishResult (cs_client demo_real) c m' w = (None, w)"
  "Load (cs_stateStore demo_real) c w = (Inr (world w), w)"
  "Save (cs_stateStore demo_real) c st w = (None, w\<lparr>world := st\<rparr>)"
  "cs_renderer demo_real = VyosAdapter_Render demo_info demo_ra" "cs_applyEngine demo_real = VyosAdapter_Apply demo_aa"
  "cs_logger demo_real = None" "cs_now demo_real w = (0, w)" "cs_debug demo_real = no_debug"
  by (simp_all add: real_service_def aside_def narrow_def scripted_sels same_world)

definition demo_vyos_input :: vyos_input where
  "demo_vyos_input =
     \<lparr>vi_Target = MinimalTarget, vi_ConfigUUID = MinimalUUID, vi_SchemaName = ''olg-ucentral'',
      vi_SchemaVersion = ''4.2.0'', vi_PayloadJSON = dr_Payload (sd_Record MinimalPlaceholderDesiredConfig)\<rparr>"

definition demo_apply_input :: apply_input where
  "demo_apply_input =
     \<lparr>ai_Target = MinimalTarget, ai_ConfigUUID = MinimalUUID, ai_DesiredCommands = ''set system host-name real-mock''\<rparr>"

lemma demo_build: "render_BuildInput demo_info MinimalPlaceholderDesiredConfig = Inr demo_vyos_input"
  by code_simp

lemma run_real [simp]:
  "run_state (cfg_now demo_real) s = (0, s)"
  "run_state (load_desired demo_real c target) s =
     (Inr (Some MinimalPlaceholderDesiredConfig),
      s\<lparr>trace := trace s @ [EvLoadDesired target (Inr (Some MinimalPlaceholderDesiredConfig))]\<rparr>)"
  "run_state (load_state demo_real c) s =
     (Inr (world (world s)), s\<lparr>trace := trace s @ [EvLoadState (Inr (world (world s)))]\<rparr>)"
  "run_state (save_state demo_real c st) s =
     (None, s\<lparr>world := (world s)\<lparr>world := st\<rparr>, trace := trace s @ [EvSaveState st None]\<rparr>)"
  "run_state (logInfo demo_real m kv) s = ((), s)" "run_state (logDebug demo_real m kv) s = ((), s)"
  "run_state (logWarn demo_real m kv) s = ((), s)" "run_state (logError demo_real m kv) s = ((), s)"
  "run_state (call (PublishStatus (cs_client demo_real) c sm) (EvStatus sm)) s =
     (None, s\<lparr>trace := trace s @ [EvStatus sm None]\<rparr>)"
  "run_state (call (PublishResult (cs_client demo_real) c rm) (EvResult rm)) s =
     (None, s\<lparr>trace := trace s @ [EvResult rm None]\<rparr>)"
  "cs_debug demo_real = no_debug"
  by (simp_all add: cfg_now_def load_desired_def load_state_def save_state_def logInfo_def logDebug_def logWarn_def
      logError_def real_sels run_simps same_world)

definition demo_output :: rendered_output where
  "demo_output = \<lparr>out_Target = MinimalTarget, out_UUID = MinimalUUID, out_Text = ''set system host-name real-mock''\<rparr>"

lemma run_demo_bodies:
  "run_state (render_body demo_info demo_ra c MinimalPlaceholderDesiredConfig) w =
     (Inr demo_output, w\<lparr>trace := trace w @ [VRender demo_vyos_input (Inr (demo_render demo_vyos_input))]\<rparr>)"
  "run_state (apply_body demo_aa c demo_output) w = (None, w\<lparr>trace := trace w @ [VApply demo_apply_input None]\<rparr>)"
  by (simp_all add: render_body_def apply_body_def log_plan_def render_log_defs apply_log_defs demo_build demo_ra_def demo_aa_def demo_render_def
      demo_vyos_input_def demo_output_def demo_apply_input_def apply_BuildInput_def run_simps same_world)

lemma run_real_engine [simp]:
  "run_state (render demo_real c MinimalPlaceholderDesiredConfig) s =
     (Inr demo_output,
      s\<lparr>world := (world s)\<lparr>trace := trace (world s) @ [VRender demo_vyos_input (Inr (demo_render demo_vyos_input))]\<rparr>,
        trace := trace s @ [EvRender MinimalPlaceholderDesiredConfig (Inr demo_output)]\<rparr>)"
  "run_state (apply_rendered demo_real c demo_output) s =
     (None, s\<lparr>world := (world s)\<lparr>trace := trace (world s) @ [VApply demo_apply_input None]\<rparr>,
              trace := trace s @ [EvApply demo_output None]\<rparr>)"
  by (simp_all add: render_def apply_rendered_def real_sels run_simps VyosAdapter_Render_def VyosAdapter_Apply_def
      run_demo_bodies)

lemma run_real_reports [simp]:
  "run_state (publishStatus demo_real c msg status stage message) s =
    (None, s\<lparr>trace := trace s @ [EvStatus (BuildStatus (cn_RPCID msg) (cn_Target msg) (cn_UUID msg) status stage message 0) None]\<rparr>)"
  "run_state (publishSuccessResult demo_real c msg message) s =
    (None, s\<lparr>trace := trace s @ [EvResult (BuildResult (cn_RPCID msg) (cn_Target msg) ''configure'' (cn_UUID msg) [] ''success'' [] message [] 0) None]\<rparr>)"
  by (simp_all add: publishStatus_def publishSuccessResult_def Let_def)

lemma run_real_progress [simp]:
  "run_state (progress demo_real c msg stage message) s =
    ((), s\<lparr>trace := trace s @ [EvStatus (BuildStatus (cn_RPCID msg) (cn_Target msg) (cn_UUID msg) ''running'' stage message 0) None]\<rparr>)"
  by (simp add: progress_def)

lemma demo_real_events:
  "engine_events (Handle demo_real (Some live) MinimalConfigureNotification) (start (start empty_state)) =
     [VRender demo_vyos_input (Inr (demo_render demo_vyos_input)), VApply demo_apply_input None]"
  by (simp add: engine_events_def final_def Handle_def handle_locked_def processDesiredConfigLocked_def)

section \<open>The composition\<close>

text \<open>
  C7. In real mode, when a notification makes the VyOS apply engine apply something, the run loaded
  a desired config with the notification's target and UUID, rendered it once, and applied exactly
  the target, the UUID and the text of that rendering, once; preparing a plan before is the only
  other call.  Saving the checkpoint is attempted if and only if the engine reported no error.
\<close>

theorem engine_gets_what_was_rendered:
  assumes "VApply i e \<in> set (engine_events (Handle (real_service sv info ra aa) c msg) s)"
  shows "\<exists>d. EvLoadDesired (cn_Target msg) (Inr (Some d)) \<in> set (handle_events (real_service sv info ra aa) c msg s) \<and>
    dr_Target (sd_Record d) = cn_Target msg \<and> dr_UUID (sd_Record d) = cn_UUID msg \<and>
    delivered info d i e (engine_events (Handle (real_service sv info ra aa) c msg) s) \<and>
    (e = None \<longleftrightarrow>
       (\<exists>st se. EvSaveState st se \<in> set (handle_events (real_service sv info ra aa) c msg s)))"
  using assms by (rule real.Handle_delivers)

lemma engine_gets_what_was_rendered_witness:
  "VApply demo_apply_input None \<in> set (engine_events (Handle demo_real (Some live) MinimalConfigureNotification) (start (start empty_state))) \<and>
   (\<exists>d. EvLoadDesired MinimalTarget (Inr (Some d)) \<in>
          set (handle_events demo_real (Some live) MinimalConfigureNotification (start (start empty_state))) \<and>
        delivered demo_info d demo_apply_input None
          (engine_events (Handle demo_real (Some live) MinimalConfigureNotification) (start (start empty_state)))) \<and>
   (\<exists>st se. EvSaveState st se \<in>
      set (handle_events demo_real (Some live) MinimalConfigureNotification (start (start empty_state))))"
proof -
  have "VApply demo_apply_input None \<in>
      set (engine_events (Handle demo_real (Some live) MinimalConfigureNotification) (start (start empty_state)))"
    by (simp add: demo_real_events)
  from engine_gets_what_was_rendered [OF this] this show ?thesis by auto
qed

end
