(* ===== verification/ConfigureModes.thy ===== *)
theory ConfigureModes
  imports RealMode ConfigureHistory
begin

text \<open>
  The two modes of the agent side by side: placeholder engines, and the VyOS adapters over any renderer
  and apply engine.  Two configure services over different worlds are run on the same requests; as long
  as no engine of either fails they answer and publish the same, whatever they render and log.
\<close>

named_theorems sim_intro "syntax-directed rules that relate the runs of two services"

section \<open>Two runs side by side\<close>

text \<open>What the configure service learns of its engines: that a render or an apply failed\<close>

definition engine_failure :: "cfg_event \<Rightarrow> bool" where
  "engine_failure ev = (case ev of EvRender d r \<Rightarrow> (case r of Inl e \<Rightarrow> True | Inr out \<Rightarrow> False)
     | EvApply out e \<Rightarrow> e \<noteq> None | _ \<Rightarrow> False)"

definition smooth :: "cfg_event list \<Rightarrow> bool" where
  "smooth t \<longleftrightarrow> list_all (\<lambda>ev. \<not> engine_failure ev) t"

lemma smooth_simps [simp]:
  "smooth []" "smooth (t @ u) \<longleftrightarrow> smooth t \<and> smooth u" "smooth (ev # t) \<longleftrightarrow> \<not> engine_failure ev \<and> smooth t"
  by (auto simp: smooth_def)

lemma engine_failure_simps [simp]:
  "engine_failure (EvRender d (Inl e))" "\<not> engine_failure (EvRender d (Inr out))" "engine_failure (EvApply out x) \<longleftrightarrow> x \<noteq> None"
  "\<not> engine_failure EvLock" "\<not> engine_failure EvUnlock" "\<not> engine_failure (EvStatus m r)" "\<not> engine_failure (EvResult rm r)"
  "\<not> engine_failure (EvLoadDesired tg ld)" "\<not> engine_failure (EvLoadState ls)" "\<not> engine_failure (EvSaveState st r)"
  by (simp_all add: engine_failure_def)

text \<open>The same call with the same answer; what is rendered and applied may differ.\<close>

fun alike_ev :: "cfg_event \<Rightarrow> cfg_event \<Rightarrow> bool" where
  "alike_ev (EvRender d r) ev = (case ev of EvRender d' r' \<Rightarrow> d = d' | _ \<Rightarrow> False)"
| "alike_ev (EvApply a e) ev = (case ev of EvApply b e' \<Rightarrow> e = e' | _ \<Rightarrow> False)"
| "alike_ev ev ev' = (ev = ev')"

lemma alike_reports:
  "list_all2 alike_ev t u \<Longrightarrow> statuses t = statuses u \<and> results t = results u"
proof (induction rule: list_all2_induct)
  case (Cons ev t ev' u)
  then show ?case by (cases ev; cases ev') (auto simp: ev_simps)
qed simp

definition side_by_side :: "('v \<Rightarrow> 'w \<Rightarrow> bool) \<Rightarrow> ('v, cfg_event) tw \<Rightarrow> ('w, cfg_event) tw \<Rightarrow> bool" where
  "side_by_side R s t \<longleftrightarrow> R (world s) (world t) \<and> list_all2 alike_ev (trace s) (trace t)"

definition adds :: "(('w, cfg_event) tw, 'r) state \<Rightarrow> bool" where
  "adds m \<longleftrightarrow> (\<forall>s. \<exists>t. trace (final m s) = trace s @ t)"

text \<open>As long as the traces are smooth, the runs stay side by side.\<close>

definition sim :: "('v \<Rightarrow> 'w \<Rightarrow> bool) \<Rightarrow> ('a \<Rightarrow> 'b \<Rightarrow> bool) \<Rightarrow> (('v, cfg_event) tw, 'a) state \<Rightarrow> (('w, cfg_event) tw, 'b) state \<Rightarrow> bool" where
  "sim R V m n \<longleftrightarrow> adds m \<and> adds n \<and>
     (\<forall>s t. side_by_side R s t \<longrightarrow> smooth (trace (final m s)) \<longrightarrow> smooth (trace (final n t)) \<longrightarrow>
        V (outcome m s) (outcome n t) \<and> side_by_side R (final m s) (final n t))"

lemma simI:
  assumes "adds m" "adds n"
    and "\<And>s t. side_by_side R s t \<Longrightarrow> smooth (trace (final m s)) \<Longrightarrow> smooth (trace (final n t)) \<Longrightarrow>
      V (outcome m s) (outcome n t) \<and> side_by_side R (final m s) (final n t)"
  shows "sim R V m n"
  using assms by (simp add: sim_def)

lemma bind_run [simp]:
  "final (State_Monad.bind m f) s = final (f (outcome m s)) (final m s)"
  "outcome (State_Monad.bind m f) s = outcome (f (outcome m s)) (final m s)"
  by (simp_all add: final_def outcome_def split_beta)

lemma return_run [simp]: "final (State_Monad.return a) s = s" "outcome (State_Monad.return a) s = a"
  by (simp_all add: final_def outcome_def)

lemma adds_intro:
  "adds (State_Monad.return a)"
  "adds m \<Longrightarrow> (\<And>a. adds (f a)) \<Longrightarrow> adds (State_Monad.bind m f)"
  "adds (call g ev)" "adds (mark e)" "adds (quiet g)" "adds (emit_log lg lvl msg kv)"
proof -
  show "adds (State_Monad.bind m f)" if m: "adds m" and f: "\<And>a. adds (f a)"
    unfolding adds_def
  proof
    fix s
    obtain t where "trace (final m s) = trace s @ t" using m by (auto simp: adds_def)
    moreover obtain u where "trace (final (f (outcome m s)) (final m s)) = trace (final m s) @ u" using f by (auto simp: adds_def)
    ultimately show "\<exists>t. trace (final (State_Monad.bind m f) s) = trace s @ t" by simp
  qed
qed (auto simp: adds_def final_def call_def mark_def quiet_def emit_log_def Let_def split: prod.split option.split)

lemma adds_smooth: "adds m \<Longrightarrow> smooth (trace (final m s)) \<Longrightarrow> smooth (trace s)"
  by (auto simp: adds_def dest!: spec [of _ s])

lemma sim_adds: "sim R V m n \<Longrightarrow> adds m" "sim R V m n \<Longrightarrow> adds n"
  by (simp_all add: sim_def)

lemma sim_return: "V a b \<Longrightarrow> sim R V (State_Monad.return a) (State_Monad.return b)"
  by (simp add: sim_def adds_intro)

lemma sim_bind:
  assumes "sim R V m n" "\<And>a b. V a b \<Longrightarrow> sim R W (f a) (g b)" "\<And>a. adds (f a)" "\<And>b. adds (g b)"
  shows "sim R W (State_Monad.bind m f) (State_Monad.bind n g)"
proof (rule simI)
  fix s t
  assume st: "side_by_side R s t" and smooth: "smooth (trace (final (State_Monad.bind m f) s))"
    "smooth (trace (final (State_Monad.bind n g) t))"
  have "smooth (trace (final m s))" by (rule adds_smooth [OF assms(3) [of "outcome m s"]]) (use smooth(1) in simp)
  moreover have "smooth (trace (final n t))" by (rule adds_smooth [OF assms(4) [of "outcome n t"]]) (use smooth(2) in simp)
  ultimately have "V (outcome m s) (outcome n t)" "side_by_side R (final m s) (final n t)"
    using assms(1) st by (auto simp: sim_def)
  with assms(2) smooth show "W (outcome (State_Monad.bind m f) s) (outcome (State_Monad.bind n g) t) \<and>
      side_by_side R (final (State_Monad.bind m f) s) (final (State_Monad.bind n g) t)"
    by (simp add: sim_def)
qed (use assms sim_adds in \<open>blast intro: adds_intro\<close>)+

lemma sim_return_eq [sim_intro]: "sim R (=) (State_Monad.return a) (State_Monad.return a)"
  by (rule sim_return) simp

lemma sim_bind_eq [sim_intro]:
  assumes "sim R (=) m n" "\<And>a. sim R W (f a) (g a)"
  shows "sim R W (State_Monad.bind m f) (State_Monad.bind n g)"
  by (rule sim_bind [OF assms(1)]) (use assms(2) sim_adds in blast)+

lemma sim_if [sim_intro]:
  "(b \<Longrightarrow> sim R V m n) \<Longrightarrow> (\<not> b \<Longrightarrow> sim R V m' n') \<Longrightarrow> sim R V (if b then m else m') (if b then n else n')"
  by simp

lemma sim_Let [sim_intro]: "sim R V (f x) (g x) \<Longrightarrow> sim R V (Let x f) (Let x g)"
  by simp

lemma sim_case_option [sim_intro]:
  "(x = None \<Longrightarrow> sim R V m n) \<Longrightarrow> (\<And>a. x = Some a \<Longrightarrow> sim R V (f a) (g a)) \<Longrightarrow>
   sim R V (case x of None \<Rightarrow> m | Some a \<Rightarrow> f a) (case x of None \<Rightarrow> n | Some a \<Rightarrow> g a)"
  by (cases x) simp_all

lemma sim_case_sum [sim_intro]:
  "(\<And>a. x = Inl a \<Longrightarrow> sim R V (f a) (f' a)) \<Longrightarrow> (\<And>a. x = Inr a \<Longrightarrow> sim R V (g a) (g' a)) \<Longrightarrow>
   sim R V (case x of Inl a \<Rightarrow> f a | Inr a \<Rightarrow> g a) (case x of Inl a \<Rightarrow> f' a | Inr a \<Rightarrow> g' a)"
  by (cases x) simp_all

text \<open>Once it is known which case it is, the two sides may differ in the value.\<close>

lemma sim_known_case:
  "sim R V (f e) (f' e') \<Longrightarrow> sim R V (case Inl e of Inl a \<Rightarrow> f a | Inr a \<Rightarrow> g a) (case Inl e' of Inl a \<Rightarrow> f' a | Inr a \<Rightarrow> g' a)"
  "sim R V (g b) (g' b') \<Longrightarrow> sim R V (case Inr b of Inl a \<Rightarrow> f a | Inr a \<Rightarrow> g a) (case Inr b' of Inl a \<Rightarrow> f' a | Inr a \<Rightarrow> g' a)"
  by simp_all

text \<open>A call: the relation has to hold when neither side met a failure of an engine.\<close>

lemma sim_call:
  assumes "\<And>w x a w' b x'. R w x \<Longrightarrow> f w = (a, w') \<Longrightarrow> g x = (b, x') \<Longrightarrow> \<not> engine_failure (ev a) \<Longrightarrow> \<not> engine_failure (ev' b) \<Longrightarrow>
    V a b \<and> R w' x' \<and> alike_ev (ev a) (ev' b)"
  shows "sim R V (call f ev) (call g ev')"
proof (rule simI)
  fix s t
  assume "side_by_side R s t" "smooth (trace (final (call f ev) s))" "smooth (trace (final (call g ev') t))"
  then show "V (outcome (call f ev) s) (outcome (call g ev') t) \<and> side_by_side R (final (call f ev) s) (final (call g ev') t)"
    using assms [of "world s" "world t" "fst (f (world s))" "snd (f (world s))" "fst (g (world t))" "snd (g (world t))"]
    by (simp add: outcome_def final_def call_def side_by_side_def split_beta list_all2_appendI)
qed (rule adds_intro)+

lemma sim_quiet:
  assumes "\<And>w x. R w x \<Longrightarrow> V (fst (f w)) (fst (g x)) \<and> R (snd (f w)) (snd (g x))"
  shows "sim R V (quiet f) (quiet g)"
proof (rule simI)
  fix s t
  assume "side_by_side R s t"
  then show "V (outcome (quiet f) s) (outcome (quiet g) t) \<and> side_by_side R (final (quiet f) s) (final (quiet g) t)"
    using assms [of "world s" "world t"]
    by (simp add: outcome_def final_def quiet_def side_by_side_def split_beta)
qed (rule adds_intro)+

lemma sim_mark: "alike_ev ev ev \<Longrightarrow> sim R (=) (mark ev) (mark ev)"
  by (rule simI, rule adds_intro, rule adds_intro) (simp add: outcome_def final_def mark_def side_by_side_def list_all2_appendI)

lemma sim_call_eq:
  "(\<And>w x. R w x \<Longrightarrow> rel_prod (=) R (f w) (g x)) \<Longrightarrow> (\<And>a. alike_ev (ev a) (ev a)) \<Longrightarrow> sim R (=) (call f ev) (call g ev)"
  by (rule sim_call) (metis rel_prod_inject)

section \<open>Two services\<close>

text \<open>
  Two services whose worlds are related by \<open>R\<close>, called with the contexts \<open>c\<close> and \<open>c'\<close>: clients, stores
  and clocks answer the same.  Of the engines it is only asked that they keep the worlds related when
  neither fails.  Loggers, whatever they are given, keep the worlds related; the debug switches may differ.
\<close>

locale same_behaviour =
  fixes sv :: "'v configure_service"
    and sv' :: "'w configure_service"
    and c :: "'v ctx"
    and c' :: "'w ctx"
    and R :: "'v \<Rightarrow> 'w \<Rightarrow> bool"
  assumes both_nil: "c = nil_ctx \<longleftrightarrow> c' = nil_ctx"
    and loads: "R w x \<Longrightarrow> rel_prod (=) R (LoadDesiredConfig (cs_client sv) c target w)
        (LoadDesiredConfig (cs_client sv') c' target x)"
    and publishes_status: "R w x \<Longrightarrow> rel_prod (=) R (PublishStatus (cs_client sv) c sm w) (PublishStatus (cs_client sv') c' sm x)"
    and publishes_result: "R w x \<Longrightarrow> rel_prod (=) R (PublishResult (cs_client sv) c rm w) (PublishResult (cs_client sv') c' rm x)"
    and loads_state: "R w x \<Longrightarrow> rel_prod (=) R (Load (cs_stateStore sv) c w) (Load (cs_stateStore sv') c' x)"
    and saves_state: "R w x \<Longrightarrow> rel_prod (=) R (Save (cs_stateStore sv) c st w) (Save (cs_stateStore sv') c' st x)"
    and clocks: "R w x \<Longrightarrow> rel_prod (=) R (cs_now sv w) (cs_now sv' x)"
    and renders: "R w x \<Longrightarrow> cs_renderer sv c d w = (Inr a, w') \<Longrightarrow> cs_renderer sv' c' d x = (Inr b, x') \<Longrightarrow> R w' x'"
    and applies: "R w x \<Longrightarrow> cs_applyEngine sv c a w = (None, w') \<Longrightarrow> cs_applyEngine sv' c' b x = (None, x') \<Longrightarrow> R w' x'"
    and logs_left: "R w x \<Longrightarrow> cs_logger sv = Some sink \<Longrightarrow> R (sink en w) x"
    and logs_right: "R w x \<Longrightarrow> cs_logger sv' = Some sink' \<Longrightarrow> R w (sink' en x)"
begin

lemma sim_calls [sim_intro]:
  "sim R (=) (cfg_now sv) (cfg_now sv')"
  "sim R (=) (load_desired sv c target) (load_desired sv' c' target)"
  "sim R (=) (load_state sv c) (load_state sv' c')"
  "sim R (=) (save_state sv c st) (save_state sv' c' st)"
  "sim R (=) (call (PublishStatus (cs_client sv) c sm) (EvStatus sm)) (call (PublishStatus (cs_client sv') c' sm) (EvStatus sm))"
  "sim R (=) (call (PublishResult (cs_client sv) c rm) (EvResult rm)) (call (PublishResult (cs_client sv') c' rm) (EvResult rm))"
  "sim R (=) (mark EvLock) (mark EvLock)" "sim R (=) (mark EvUnlock) (mark EvUnlock)"
  unfolding cfg_now_def load_desired_def load_state_def save_state_def
  by (rule sim_quiet sim_call_eq sim_mark;
      simp add: clocks [unfolded rel_prod_sel] loads loads_state saves_state publishes_status publishes_result)+

lemma sim_render [sim_intro]:
  assumes "\<And>e. sim R V (f (Inl e)) (g (Inl e))" "\<And>a b. sim R V (f (Inr a)) (g (Inr b))"
  shows "sim R V (State_Monad.bind (render sv c d) f) (State_Monad.bind (render sv' c' d) g)"
  unfolding render_def
proof (rule sim_bind)
  show "sim R (\<lambda>a b. \<exists>x y. a = Inr x \<and> b = Inr y) (call (cs_renderer sv c d) (EvRender d)) (call (cs_renderer sv' c' d) (EvRender d))"
  proof (rule sim_call)
    fix w x a w' b x'
    assume "R w x" "cs_renderer sv c d w = (a, w')" "cs_renderer sv' c' d x = (b, x')"
      "\<not> engine_failure (EvRender d a)" "\<not> engine_failure (EvRender d b)"
    then show "(\<exists>x y. a = Inr x \<and> b = Inr y) \<and> R w' x' \<and> alike_ev (EvRender d a) (EvRender d b)"
      by (cases a; cases b) (auto intro: renders)
  qed
next
  show "adds (f a)" for a by (cases a) (use assms sim_adds in blast)+
  show "adds (g b)" for b by (cases b) (use assms sim_adds in blast)+
qed (use assms(2) in blast)

lemma sim_apply [sim_intro]:
  "sim R (=) (apply_rendered sv c a) (apply_rendered sv' c' b)"
  unfolding apply_rendered_def by (rule sim_call) (auto intro: applies)

text \<open>Logging changes nothing that the other side could notice.\<close>

lemma sim_logs [sim_intro]:
  "sim R (=) (emit_log (cs_logger sv) lvl m kv) (emit_log (cs_logger sv') lvl' m' kv')"
  "sim R (=) (emit_log (cs_logger sv) lvl m kv) (State_Monad.return ())"
  "sim R (=) (State_Monad.return ()) (emit_log (cs_logger sv') lvl' m' kv')"
  by (rule simI; (rule adds_intro | simp add: outcome_def final_def emit_log_def Let_def side_by_side_def logs_left logs_right
        split: option.split))+

lemmas log_defs = logInfo_def logDebug_def logWarn_def logError_def

lemma sim_reports [sim_intro]:
  "sim R (=) (publishStatus sv c msg status stage message) (publishStatus sv' c' msg status stage message)"
  "sim R (=) (publishSuccessResult sv c msg message) (publishSuccessResult sv' c' msg message)"
  "sim R (=) (publishFailureResult sv c msg code message) (publishFailureResult sv' c' msg code message)"
  unfolding publishStatus_def publishSuccessResult_def publishFailureResult_def by (intro sim_intro)+

lemma sim_helpers [sim_intro]:
  "sim R (=) (progress sv c msg stage message) (progress sv' c' msg stage message)"
  "sim R (=) (fail sv c msg code message err) (fail sv' c' msg code message err)"
  "sim R (=) (reportingFailure sv msg e) (reportingFailure sv' msg e)"
  "sim R (=) (reconcile_degraded sv c target lm rmsg err ret) (reconcile_degraded sv' c' target lm rmsg err ret)"
  unfolding progress_def fail_def reportingFailure_def reconcile_degraded_def log_defs by (intro sim_intro)+

text \<open>A switch that only decides whether something is logged may be set differently.\<close>

lemma sim_switch [sim_intro]:
  "sim R (=) (if b then logDebug sv m kv else State_Monad.return ()) (if b' then logDebug sv' m' kv' else State_Monad.return ())"
  unfolding log_defs by (auto intro: sim_intro)

lemma sim_log_calls [sim_intro]:
  "sim R (=) (logInfo sv m kv) (logInfo sv' m' kv')" "sim R (=) (logError sv m kv) (logError sv' m' kv')"
  unfolding log_defs by (intro sim_intro)+

text \<open>A bind is split by the rule for its first call, if that call has one of its own.\<close>

lemmas sim_steps = sim_render sim_known_case

lemma sim_process [sim_intro]:
  "sim R (=) (processDesiredConfigLocked sv c msg d) (processDesiredConfigLocked sv' c' msg d)"
  unfolding processDesiredConfigLocked_def
  by ((rule sim_steps | rule sim_intro | assumption)+)

lemma sim_ctx:
  "sim R V m n \<Longrightarrow> sim R V f g \<Longrightarrow> sim R V (case c of None \<Rightarrow> m | Some _ \<Rightarrow> f) (case c' of None \<Rightarrow> n | Some _ \<Rightarrow> g)"
  using both_nil by (cases c; cases c') simp_all

lemma sim_Handle: "sim R (=) (Handle sv c msg) (Handle sv' c' msg)"
  unfolding Handle_def handle_locked_def
  by (rule sim_ctx, rule sim_return_eq, (rule sim_steps | rule sim_intro | simp; fail)+)

lemma sim_Reconcile: "sim R (=) (Reconcile nf sv c target) (Reconcile nf sv' c' target)"
  unfolding Reconcile_def reconcile_locked_def
  by (rule sim_ctx, rule sim_return_eq, (rule sim_steps | rule sim_intro | simp; fail)+)

lemma sim_serve: "sim R (=) (serve nf sv c qs) (serve nf sv' c' qs)"
proof (induction qs)
  case (Cons q qs)
  have "sim R (=) (serve_one nf sv c q) (serve_one nf sv' c' q)"
    by (cases q) (simp_all add: sim_Handle sim_Reconcile)
  with Cons.IH show ?case by (auto intro: sim_bind_eq sim_return_eq)
qed (simp add: sim_return_eq)

text \<open>From fresh traces, the runs answer and publish the same.\<close>

lemma serve_alike:
  fixes w x qs nf
  defines "m \<equiv> serve nf sv c qs" and "n \<equiv> serve nf sv' c' qs"
  assumes "R w x" "smooth (events m (start w))" "smooth (events n (start x))"
  shows "outcome m (start w) = outcome n (start x) \<and>
    statuses (events m (start w)) = statuses (events n (start x)) \<and>
    results (events m (start w)) = results (events n (start x)) \<and>
    R (world (final m (start w))) (world (final n (start x)))"
proof -
  have traces: "trace (final m (start w)) = events m (start w)" "trace (final n (start x)) = events n (start x)"
    using follows_trace [OF serve_follows [of nf sv c qs], of "start w"] follows_trace [OF serve_follows [of nf sv' c' qs], of "start x"]
    unfolding m_def n_def by (simp_all only: start_def tw.select_convs append_Nil)
  have "side_by_side R (start w) (start x)" using assms(3) by (simp add: side_by_side_def start_def)
  with sim_serve [of nf qs] assms(4,5) have run: "outcome m (start w) = outcome n (start x)"
    "side_by_side R (final m (start w)) (final n (start x))"
    by (simp_all add: sim_def m_def n_def traces [unfolded m_def n_def])
  then have "list_all2 alike_ev (events m (start w)) (events n (start x))" "R (world (final m (start w))) (world (final n (start x)))"
    by (simp_all add: side_by_side_def traces)
  with run alike_reports show ?thesis by simp
qed

end

section \<open>The two modes of one agent\<close>

text \<open>An agent with placeholder engines is any configure service with the two placeholders.\<close>

definition placeholder_mode :: "'w configure_service \<Rightarrow> 'w configure_service" where
  "placeholder_mode sv = sv\<lparr>cs_renderer := Placeholder_Render, cs_applyEngine := Placeholder_Apply\<rparr>"

text \<open>
  The service's view of the world: what its client, its store and its clock go by and act on.  A function
  goes through a view when the view alone decides its answer and what it does to the view.
\<close>

definition through :: "('w \<Rightarrow> 'u) \<Rightarrow> ('w \<Rightarrow> 'r \<times> 'w) \<Rightarrow> bool" where
  "through view f \<longleftrightarrow> (\<forall>w x. view w = view x \<longrightarrow> fst (f w) = fst (f x) \<and> view (snd (f w)) = view (snd (f x)))"

definition keeps :: "('w \<Rightarrow> 'u) \<Rightarrow> ('w \<Rightarrow> 'r \<times> 'w) \<Rightarrow> bool" where
  "keeps view f \<longleftrightarrow> (\<forall>w. view (snd (f w)) = view w)"

text \<open>
  The client, the store and the clock go through the view, the loggers and the VyOS packages keep it:
  they are other systems than the bus and the checkpoint file.  What the packages answer is left open.
\<close>

locale two_modes =
  fixes view :: "'w \<Rightarrow> 'u"
    and sv :: "'w configure_service"
    and cx :: "'w \<Rightarrow> go_error option"
    and ra :: "'w render_adapter"
    and aa :: "'w apply_adapter"
  assumes client_through: "through view (LoadDesiredConfig (cs_client sv) (Some cx) target)"
      "through view (PublishStatus (cs_client sv) (Some cx) sm)" "through view (PublishResult (cs_client sv) (Some cx) rm)"
    and store_through: "through view (Load (cs_stateStore sv) (Some cx))" "through view (Save (cs_stateStore sv) (Some cx) st)"
    and clock_through: "through view (cs_now sv)"
    and logger_keeps: "cs_logger sv = Some sink \<Longrightarrow> view (sink en w) = view w"
    and render_keeps: "ra_backend ra = Some rb \<Longrightarrow> keeps view (rb c i)"
      "ra_logger ra = Some sink \<Longrightarrow> view (sink en w) = view w"
    and apply_keeps: "aa_backend aa = Some ab \<Longrightarrow> keeps view (ab_Apply ab c ai)"
      "aa_backend aa = Some ab \<Longrightarrow> ab_Prepare ab = Some prep \<Longrightarrow> keeps view (prep c ai)"
      "aa_logger aa = Some sink \<Longrightarrow> view (sink en w) = view w"
begin

definition rel :: "'w vyos_world \<Rightarrow> 'w vyos_world \<Rightarrow> bool" where
  "rel s s' \<longleftrightarrow> view (world s') = view (world s)"

lemma rel_preorder [io_intro]: "reflp rel" "transp rel"
  by (auto simp: rel_def reflp_def transp_def)

lemma rel_call: "keeps view f \<Longrightarrow> state_io_rel rel (call f ev)"
  by (simp add: state_io_rel_def rel_def call_def keeps_def split_beta)

lemma rel_log: "(\<And>sink en w. lg = Some sink \<Longrightarrow> view (sink en w) = view w) \<Longrightarrow> state_io_rel rel (emit_log lg lvl m kv)"
  by (auto simp: state_io_rel_def rel_def emit_log_def Let_def split: option.split)

lemma render_body_keeps: "state_io_rel rel (render_body info ra c d)"
  unfolding render_body_def render_log_defs
  by (intro io_intro rel_log rel_call; use render_keeps in blast)

lemma apply_body_keeps: "state_io_rel rel (apply_body aa c out)"
  unfolding apply_body_def log_plan_def apply_log_defs
  by (intro io_intro rel_log rel_call; use apply_keeps in blast)

lemma adapters_keep:
  "VyosAdapter_Render info ra c d x = (r, x') \<Longrightarrow> view (world x') = view (world x)"
  "VyosAdapter_Apply aa c out x = (e, x') \<Longrightarrow> view (world x') = view (world x)"
  using render_body_keeps [of info c d, unfolded state_io_rel_def, THEN spec, of x]
    apply_body_keeps [of c out, unfolded state_io_rel_def, THEN spec, of x]
  by (simp_all add: VyosAdapter_Render_def VyosAdapter_Apply_def rel_def)

lemma placeholders_keep:
  "Placeholder_Render c d w = (r, w') \<Longrightarrow> w' = w" "Placeholder_Apply c out w = (e, w') \<Longrightarrow> w' = w"
  by (auto simp: Placeholder_Render_def Placeholder_Apply_def split: option.splits if_splits)

lemma rel_prod_aside:
  "through view f \<Longrightarrow> view w = view (world x) \<Longrightarrow> rel_prod (=) (\<lambda>w x. view w = view (world x)) (f w) (aside f x)"
  by (simp add: aside_def rel_prod_sel split_beta) (unfold through_def, blast)

end

lemma mode_sels:
  "cs_client (placeholder_mode sv) = cs_client sv" "cs_stateStore (placeholder_mode sv) = cs_stateStore sv"
  "cs_now (placeholder_mode sv) = cs_now sv" "cs_logger (placeholder_mode sv) = cs_logger sv"
  "cs_renderer (placeholder_mode sv) = Placeholder_Render" "cs_applyEngine (placeholder_mode sv) = Placeholder_Apply"
  "cs_debug (placeholder_mode sv) = cs_debug sv"
  by (simp_all add: placeholder_mode_def)

abbreviation real_mode_of where
  "real_mode_of sv dbg info ra aa \<equiv> real_service (sv\<lparr>cs_debug := dbg\<rparr>) info ra aa"

text \<open>The context of a call is the same in both modes.\<close>

abbreviation below :: "('w \<Rightarrow> go_error option) \<Rightarrow> 'w vyos_world \<Rightarrow> go_error option" where
  "below cx \<equiv> \<lambda>x. cx (world x)"

lemma narrow_below [simp]: "narrow (Some (below cx)) x = Some cx"
  by (simp add: narrow_def)

sublocale two_modes \<subseteq> modes: same_behaviour "placeholder_mode sv" "real_mode_of sv dbg info ra aa" "Some cx" "Some (below cx)"
  "\<lambda>w x. view w = view (world x)" for dbg info
proof unfold_locales
  fix w x d a w' b x'
  assume "view w = view (world x)" "cs_renderer (placeholder_mode sv) (Some cx) d w = (Inr a, w')"
    "cs_renderer (real_mode_of sv dbg info ra aa) (Some (below cx)) d x = (Inr b, x')"
  then show "view w' = view (world x')"
    by (auto simp: mode_sels real_service_def dest!: placeholders_keep adapters_keep)
next
  fix w x a w' b x'
  assume "view w = view (world x)" "cs_applyEngine (placeholder_mode sv) (Some cx) a w = (None, w')"
    "cs_applyEngine (real_mode_of sv dbg info ra aa) (Some (below cx)) b x = (None, x')"
  then show "view w' = view (world x')"
    by (auto simp: mode_sels real_service_def dest!: placeholders_keep adapters_keep)
qed (auto simp: mode_sels real_service_def logger_keeps intro!: rel_prod_aside client_through store_through clock_through)

context two_modes
begin

lemma modes_alike:
  assumes "smooth (events (serve nf (placeholder_mode sv) (Some cx) qs) (start w))"
    and "smooth (events (serve nf (real_mode_of sv dbg info ra aa) (Some (below cx)) qs) (start (start w)))"
  shows "outcome (serve nf (placeholder_mode sv) (Some cx) qs) (start w) =
      outcome (serve nf (real_mode_of sv dbg info ra aa) (Some (below cx)) qs) (start (start w)) \<and>
    statuses (events (serve nf (placeholder_mode sv) (Some cx) qs) (start w)) =
      statuses (events (serve nf (real_mode_of sv dbg info ra aa) (Some (below cx)) qs) (start (start w))) \<and>
    results (events (serve nf (placeholder_mode sv) (Some cx) qs) (start w)) =
      results (events (serve nf (real_mode_of sv dbg info ra aa) (Some (below cx)) qs) (start (start w))) \<and>
    view (world (final (serve nf (placeholder_mode sv) (Some cx) qs) (start w))) =
      view (world (world (final (serve nf (real_mode_of sv dbg info ra aa) (Some (below cx)) qs) (start (start w)))))"
  by (rule modes.serve_alike [OF _ assms]) simp

end

section \<open>Over the doubles\<close>

lemma client_calls:
  "d_client (snd (StatusRecorder_PublishStatus c m w)) =
     (d_client w)\<lparr>fc_Status := (fc_Status (d_client w))\<lparr>sr_statuses := sr_statuses (fc_Status (d_client w)) @ [m]\<rparr>\<rparr>"
  "d_client (snd (ResultRecorder_PublishResult c m' w)) =
     (d_client w)\<lparr>fc_Result := (fc_Result (d_client w))\<lparr>rr_results := rr_results (fc_Result (d_client w)) @ [m']\<rparr>\<rparr>"
  "d_client (snd (FakeConfigureClient_LoadDesiredConfig c tg w)) =
     (d_client w)\<lparr>fc_loadCalls := Suc (fc_loadCalls (d_client w))\<rparr>"
  by (simp_all add: double_defs RecordStatus_def RecordResult_def Let_def)

lemma client_frames:
  "d_store (snd (StatusRecorder_PublishStatus c m w)) = d_store w"
  "d_store (snd (ResultRecorder_PublishResult c m' w)) = d_store w"
  "d_store (snd (FakeConfigureClient_LoadDesiredConfig c tg w)) = d_store w"
  "d_clock (snd (StatusRecorder_PublishStatus c m w)) = d_clock w"
  "d_clock (snd (ResultRecorder_PublishResult c m' w)) = d_clock w"
  "d_clock (snd (FakeConfigureClient_LoadDesiredConfig c tg w)) = d_clock w"
  "d_backend (snd (StatusRecorder_PublishStatus c m w)) = d_backend w"
  "d_backend (snd (ResultRecorder_PublishResult c m' w)) = d_backend w"
  "d_backend (snd (FakeConfigureClient_LoadDesiredConfig c tg w)) = d_backend w"
  by (simp_all add: double_defs RecordStatus_def RecordResult_def Let_def EventRecorder_Record_def split: option.split)

lemma store_frames:
  "d_client (snd (FakeStateStore_Save c st w)) = d_client w" "d_clock (snd (FakeStateStore_Save c st w)) = d_clock w"
  "d_backend (snd (FakeStateStore_Save c st w)) = d_backend w"
  "d_client (snd (FakeStateStore_Load c w)) = d_client w" "d_clock (snd (FakeStateStore_Load c w)) = d_clock w"
  "d_backend (snd (FakeStateStore_Load c w)) = d_backend w"
  by (simp_all add: double_defs Let_def EventRecorder_Record_def split: option.split)

text \<open>What the fakes answer and make of their own records depends on these records alone.\<close>

lemma same_calls:
  assumes "d_client w = d_client w'" "d_store w = d_store w'"
  shows "fst (StatusRecorder_PublishStatus c m w) = fst (StatusRecorder_PublishStatus c' m w')"
    "fst (ResultRecorder_PublishResult c m' w) = fst (ResultRecorder_PublishResult c' m' w')"
    "fst (FakeConfigureClient_LoadDesiredConfig c tg w) = fst (FakeConfigureClient_LoadDesiredConfig c' tg w')"
    "fst (FakeStateStore_Load c w) = fst (FakeStateStore_Load c' w')"
    "fst (FakeStateStore_Save c st w) = fst (FakeStateStore_Save c' st w')"
    "d_store (snd (FakeStateStore_Load c w)) = d_store (snd (FakeStateStore_Load c' w'))"
    "d_store (snd (FakeStateStore_Save c st w)) = d_store (snd (FakeStateStore_Save c' st w'))"
  using assms by (simp_all add: double_defs RecordStatus_def RecordResult_def Let_def split: option.split)

lemma fake_sels:
  "LoadDesiredConfig (cs_client (fake_service dbg)) = FakeConfigureClient_LoadDesiredConfig"
  "PublishStatus (cs_client (fake_service dbg)) = StatusRecorder_PublishStatus"
  "PublishResult (cs_client (fake_service dbg)) = ResultRecorder_PublishResult"
  "Load (cs_stateStore (fake_service dbg)) = FakeStateStore_Load"
  "Save (cs_stateStore (fake_service dbg)) = FakeStateStore_Save"
  "cs_now (fake_service dbg) = fake_clock" "cs_logger (fake_service dbg) = Some LogCapture_record"
  by (simp_all add: fake_service_def fake_client_def fake_store_def)

lemma log_frames:
  "d_client (LogCapture_record en w) = d_client w" "d_store (LogCapture_record en w) = d_store w"
  "d_clock (LogCapture_record en w) = d_clock w"
  by (simp_all add: LogCapture_record_def)

definition bus_and_store :: "doubles \<Rightarrow> fake_configure_client \<times> fake_state_store \<times> gtime" where
  "bus_and_store w = (d_client w, d_store w, d_clock w)"

lemma doubles_through:
  assumes "\<And>w x. d_client w = d_client x \<Longrightarrow> d_store w = d_store x \<Longrightarrow> d_clock w = d_clock x \<Longrightarrow>
    fst (f w) = fst (f x) \<and> d_client (snd (f w)) = d_client (snd (f x)) \<and> d_store (snd (f w)) = d_store (snd (f x)) \<and>
    d_clock (snd (f w)) = d_clock (snd (f x))"
  shows "through bus_and_store f"
  unfolding through_def bus_and_store_def prod.inject by (intro allI impI) (use assms in blast)

interpretation doubles_modes: two_modes bus_and_store "fake_service dbg" cx
  "\<lparr>ra_backend = Some (\<lambda>c i w. (answer i, w)), ra_logger = Some LogCapture_record, ra_LogPayloads = p, ra_LogRendered = r\<rparr>"
  "\<lparr>aa_backend = Some apply_backend_double, aa_logger = Some LogCapture_record, aa_LogRendered = r', aa_LogApplyPlan = q\<rparr>"
  for dbg cx answer p r r' q
proof -
  have applies: "keeps bus_and_store (ab_Apply apply_backend_double c i)" for c i
    by (auto simp: keeps_def bus_and_store_def apply_backend_double_def FakeApplyBackend_Apply_def EventRecorder_Record_def Let_def
        split: option.split)
  have prepares: "keeps bus_and_store (prep c i)" if "ab_Prepare apply_backend_double = Some prep" for prep c i
    using that by (auto simp: apply_backend_double_def keeps_def bus_and_store_def FakeApplyBackend_Prepare_def EventRecorder_Record_def Let_def split: option.split)
  have calls: "through bus_and_store (FakeConfigureClient_LoadDesiredConfig c tg)" "through bus_and_store (StatusRecorder_PublishStatus c sm)"
    "through bus_and_store (ResultRecorder_PublishResult c rm)" "through bus_and_store (FakeStateStore_Load c)"
    "through bus_and_store (FakeStateStore_Save c st)" "through bus_and_store fake_clock" for c tg sm rm st
    by (rule doubles_through; auto simp: client_calls client_frames store_frames fake_clock_def intro: same_calls)+
  have log: "bus_and_store (LogCapture_record en w) = bus_and_store w" for en w
    by (simp add: bus_and_store_def log_frames)
  have silent: "keeps bus_and_store (\<lambda>w. (y, w))" for y :: "go_error + vyos_output"
    by (simp add: keeps_def)
  show "two_modes bus_and_store (fake_service dbg) cx
      \<lparr>ra_backend = Some (\<lambda>c i w. (answer i, w)), ra_logger = Some LogCapture_record, ra_LogPayloads = p, ra_LogRendered = r\<rparr>
      \<lparr>aa_backend = Some apply_backend_double, aa_logger = Some LogCapture_record, aa_LogRendered = r', aa_LogApplyPlan = q\<rparr>"
    for dbg cx answer p r r' q
    by unfold_locales (auto simp: fake_sels applies calls log silent prepares)
qed

section \<open>A pair of runs\<close>


abbreviation demo_placeholder :: "agent_state configure_service" where
  "demo_placeholder \<equiv> placeholder_mode (scripted all_well)"

definition placeholder_output :: rendered_output where
  "placeholder_output =
     \<lparr>out_Target = MinimalTarget, out_UUID = MinimalUUID,
      out_Text = ''# placeholder vyos config'' @ [newline] @ ''# target: '' @ MinimalTarget @ [newline] @
                 ''# uuid: '' @ MinimalUUID @ [newline]\<rparr>"

lemma run_placeholder [simp]:
  "run_state (cfg_now demo_placeholder) s = (0, s)"
  "run_state (load_desired demo_placeholder c target) s =
     (Inr (Some MinimalPlaceholderDesiredConfig),
      s\<lparr>trace := trace s @ [EvLoadDesired target (Inr (Some MinimalPlaceholderDesiredConfig))]\<rparr>)"
  "run_state (load_state demo_placeholder c) s = (Inr (world s), s\<lparr>trace := trace s @ [EvLoadState (Inr (world s))]\<rparr>)"
  "run_state (save_state demo_placeholder c st) s = (None, s\<lparr>world := st, trace := trace s @ [EvSaveState st None]\<rparr>)"
  "run_state (render demo_placeholder (Some live) MinimalPlaceholderDesiredConfig) s =
     (Inr placeholder_output, s\<lparr>trace := trace s @ [EvRender MinimalPlaceholderDesiredConfig (Inr placeholder_output)]\<rparr>)"
  "run_state (apply_rendered demo_placeholder (Some live) placeholder_output) s =
     (None, s\<lparr>trace := trace s @ [EvApply placeholder_output None]\<rparr>)"
  "run_state (logInfo demo_placeholder m kv) s = ((), s)" "run_state (logDebug demo_placeholder m kv) s = ((), s)"
  "run_state (logWarn demo_placeholder m kv) s = ((), s)" "run_state (logError demo_placeholder m kv) s = ((), s)"
  "run_state (call (PublishStatus (cs_client demo_placeholder) c sm) (EvStatus sm)) s =
     (None, s\<lparr>trace := trace s @ [EvStatus sm None]\<rparr>)"
  "run_state (call (PublishResult (cs_client demo_placeholder) c rm) (EvResult rm)) s =
     (None, s\<lparr>trace := trace s @ [EvResult rm None]\<rparr>)"
  "cs_debug demo_placeholder = no_debug"
  by (simp_all add: cfg_now_def load_desired_def load_state_def save_state_def logInfo_def logDebug_def logWarn_def
      logError_def render_def apply_rendered_def mode_sels scripted_sels run_simps same_world
      Placeholder_Render_def Placeholder_Apply_def placeholder_output_def live_def)

lemma run_placeholder_reports [simp]:
  "run_state (publishStatus demo_placeholder c msg status stage message) s =
    (None, s\<lparr>trace := trace s @ [EvStatus (BuildStatus (cn_RPCID msg) (cn_Target msg) (cn_UUID msg) status stage message 0) None]\<rparr>)"
  "run_state (publishSuccessResult demo_placeholder c msg message) s =
    (None, s\<lparr>trace := trace s @ [EvResult (BuildResult (cn_RPCID msg) (cn_Target msg) ''configure'' (cn_UUID msg) [] ''success'' [] message [] 0) None]\<rparr>)"
  by (simp_all add: publishStatus_def publishSuccessResult_def Let_def)

lemma run_placeholder_progress [simp]:
  "run_state (progress demo_placeholder c msg stage message) s =
    ((), s\<lparr>trace := trace s @ [EvStatus (BuildStatus (cn_RPCID msg) (cn_Target msg) (cn_UUID msg) ''running'' stage message 0) None]\<rparr>)"
  by (simp add: progress_def)


section \<open>Where the modes differ\<close>



end
