(* ===== verification/DoubleReaders.thy ===== *)
theory DoubleReaders
  imports ConfigureHistory BackendDouble
begin

text \<open>
  What the tests read off the test doubles: counters, copies of what was recorded, a log entry as
  text.  The books the doubles keep are shown to agree with the trace of the run.
\<close>

section \<open>The readers (internal/testutil)\<close>

definition EventRecorder_Events :: "nat \<Rightarrow> doubles \<Rightarrow> string list" where
  "EventRecorder_Events a w = d_recorders w a"

definition EventRecorder_Reset :: "nat \<Rightarrow> doubles \<Rightarrow> doubles" where
  "EventRecorder_Reset a w = w\<lparr>d_recorders := (d_recorders w)(a := [])\<rparr>"

definition StatusRecorder_Statuses :: "doubles \<Rightarrow> status_envelope list" where
  "StatusRecorder_Statuses w = sr_statuses (fc_Status (d_client w))"

definition ResultRecorder_Results :: "doubles \<Rightarrow> result_envelope list" where
  "ResultRecorder_Results w = rr_results (fc_Result (d_client w))"

text \<open>A \<^verbatim>\<open>StatusResultRecorder\<close> embeds one recorder of each kind.\<close>

type_synonym status_result_recorder = "status_recorder \<times> result_recorder"

definition StatusResultRecorder_Reset :: "status_result_recorder \<Rightarrow> status_result_recorder" where
  "StatusResultRecorder_Reset r = (StatusRecorder_Reset (fst r), ResultRecorder_Reset (snd r))"

definition FakeConfigureClient_LoadCalls :: "doubles \<Rightarrow> nat" where
  "FakeConfigureClient_LoadCalls w = fc_loadCalls (d_client w)"

definition FakeStateStore_LoadCalls :: "doubles \<Rightarrow> nat" where
  "FakeStateStore_LoadCalls w = fs_loadCalls (d_store w)"

definition FakeStateStore_SaveCalls :: "doubles \<Rightarrow> nat" where
  "FakeStateStore_SaveCalls w = fs_saveCalls (d_store w)"

definition FakeStateStore_SavedStates :: "doubles \<Rightarrow> agent_state list" where
  "FakeStateStore_SavedStates w = fs_savedStates (d_store w)"

definition FakeStateStore_CurrentState :: "doubles \<Rightarrow> agent_state" where
  "FakeStateStore_CurrentState w = fs_Current (d_store w)"

definition FakeRenderer_Calls :: "doubles \<Rightarrow> nat" where
  "FakeRenderer_Calls w = fr_calls (d_renderer w)"

definition FakeRenderer_Inputs :: "doubles \<Rightarrow> stored_desired_config list" where
  "FakeRenderer_Inputs w = fr_inputs (d_renderer w)"

definition FakeApplyEngine_Calls :: "doubles \<Rightarrow> nat" where
  "FakeApplyEngine_Calls w = fa_calls (d_engine w)"

definition FakeApplyEngine_Inputs :: "doubles \<Rightarrow> rendered_output list" where
  "FakeApplyEngine_Inputs w = fa_inputs (d_engine w)"

definition FakeApplyBackend_PrepareCalls :: "doubles \<Rightarrow> nat" where
  "FakeApplyBackend_PrepareCalls w = fb_prepareCalls (d_backend w)"

definition FakeApplyBackend_ApplyCalls :: "doubles \<Rightarrow> nat" where
  "FakeApplyBackend_ApplyCalls w = fb_applyCalls (d_backend w)"

definition FakeApplyBackend_PrepareInputs :: "doubles \<Rightarrow> apply_input list" where
  "FakeApplyBackend_PrepareInputs w = fb_prepareInputs (d_backend w)"

definition FakeApplyBackend_ApplyInputs :: "doubles \<Rightarrow> apply_input list" where
  "FakeApplyBackend_ApplyInputs w = fb_applyInputs (d_backend w)"

lemmas reader_defs =
  StatusRecorder_Statuses_def ResultRecorder_Results_def FakeConfigureClient_LoadCalls_def
  FakeStateStore_LoadCalls_def FakeStateStore_SaveCalls_def FakeStateStore_SavedStates_def
  FakeStateStore_CurrentState_def FakeRenderer_Calls_def FakeRenderer_Inputs_def FakeApplyEngine_Calls_def
  FakeApplyEngine_Inputs_def FakeApplyBackend_PrepareCalls_def FakeApplyBackend_ApplyCalls_def
  FakeApplyBackend_PrepareInputs_def FakeApplyBackend_ApplyInputs_def

section \<open>Log entries as text (log_capture.go)\<close>

text \<open>
  \<^verbatim>\<open>fmt.Fprint\<close> of one operand, as the agent logs them: strings as they are, integers in decimal, lists
  of strings in brackets, a nil error as \<^verbatim>\<open><nil>\<close>.  The text of an error is a parameter: parts of it
  come from the libraries.
\<close>

fun fields_text :: "string list \<Rightarrow> string" where
  "fields_text [] = []"
| "fields_text [x] = x"
| "fields_text (x # xs) = x @ '' '' @ fields_text xs"

fun fmt_Fprint :: "(go_error \<Rightarrow> string) \<Rightarrow> log_value \<Rightarrow> string" where
  "fmt_Fprint errText (LStr s) = s"
| "fmt_Fprint errText (LNum i) = itoa i"
| "fmt_Fprint errText (LBool b) = (if b then ''true'' else ''false'')"
| "fmt_Fprint errText (LErr None) = ''<nil>''"
| "fmt_Fprint errText (LErr (Some e)) = errText e"
| "fmt_Fprint errText (LStrs xs) = ''['' @ fields_text xs @ '']''"

fun level_text :: "log_level \<Rightarrow> string" where
  "level_text LevelDebug = ''debug''"
| "level_text LevelInfo = ''info''"
| "level_text LevelWarn = ''warn''"
| "level_text LevelError = ''error''"

definition LogEntry_String :: "(go_error \<Rightarrow> string) \<Rightarrow> log_entry \<Rightarrow> string" where
  "LogEntry_String errText e =
     level_text (le_level e) @ '' '' @ le_msg e @
     concat (map (\<lambda>(k, v). '' '' @ k @ '' '' @ fmt_Fprint errText v) (le_kv e))"

definition LogCapture_Entries :: "doubles \<Rightarrow> log_entry list" where
  "LogCapture_Entries w = d_entries w"

definition LogCapture_Contains :: "(go_error \<Rightarrow> string) \<Rightarrow> string \<Rightarrow> doubles \<Rightarrow> bool" where
  "LogCapture_Contains errText part w = list_ex (\<lambda>e. contains (LogEntry_String errText e) part) (d_entries w)"

definition LogCapture_DoesNotContain :: "(go_error \<Rightarrow> string) \<Rightarrow> string \<Rightarrow> doubles \<Rightarrow> bool" where
  "LogCapture_DoesNotContain errText part w = (\<not> LogCapture_Contains errText part w)"

text \<open>What is logged as a string can be found in the capture, and so can a part of it.\<close>

lemma Contains_value:
  assumes "e \<in> set (d_entries w)" and "(k, LStr x) \<in> set (le_kv e)" and "contains x part"
  shows "LogCapture_Contains errText part w"
proof -
  from assms(2) obtain us vs where "le_kv e = us @ (k, LStr x) # vs" by (auto simp: in_set_conv_decomp)
  then have "\<exists>a b. LogEntry_String errText e = a @ x @ b"
    unfolding LogEntry_String_def
    by (intro exI [of _ "level_text (le_level e) @ '' '' @ le_msg e @
          concat (map (\<lambda>(k, v). '' '' @ k @ '' '' @ fmt_Fprint errText v) us) @ '' '' @ k @ '' ''"]
        exI [of _ "concat (map (\<lambda>(k, v). '' '' @ k @ '' '' @ fmt_Fprint errText v) vs)"]) simp
  then have "sublist x (LogEntry_String errText e)" by (auto simp: sublist_def)
  with assms(3) have "contains (LogEntry_String errText e) part"
    unfolding contains_iff by (meson sublist_order.order.trans)
  with assms(1) show ?thesis by (auto simp: LogCapture_Contains_def list_ex_iff)
qed

section \<open>Fixtures (fixtures.go)\<close>

definition MinimalRenderableDesiredConfig :: stored_desired_config where
  "MinimalRenderableDesiredConfig =
     (let q = (\<lambda>s. [quote] @ s @ [quote]);
          ln = (\<lambda>n s. newline # replicate n (CHR 0x09) @ s)
      in DesiredConfig MinimalTarget MinimalUUID
       (''{'' @
        ln 2 (q ''schema_name'' @ '': '' @ q ''olg-ucentral'' @ '','') @
        ln 2 (q ''schema_version'' @ '': '' @ q ''4.2.0'' @ '','') @
        ln 2 (q ''config'' @ '': {'') @
        ln 3 (q ''services'' @ '': {'') @
        ln 4 (q ''ssh'' @ '': {'' @ q ''port'' @ '': 22}'') @
        ln 3 ''},'' @
        ln 3 (q ''interfaces'' @ '': ['') @
        ln 4 ''{'' @
        ln 5 (q ''name'' @ '': '' @ q ''OLG_APPLY_SMOKE_TEST_Upstream'' @ '','') @
        ln 5 (q ''role'' @ '': '' @ q ''upstream'' @ '','') @
        ln 5 (q ''ethernet'' @ '': ['') @
        ln 6 (''{'' @ q ''select-ports'' @ '': ['' @ q ''WAN*'' @ '']}'') @
        ln 5 ''],'' @
        ln 5 (q ''ipv4'' @ '': {'') @
        ln 6 (q ''addressing'' @ '': '' @ q ''dynamic'') @
        ln 5 ''}'' @
        ln 4 ''}'' @
        ln 3 '']'' @
        ln 2 ''}'' @
        ln 1 ''}''))"

definition MinimalDesiredConfig :: stored_desired_config where
  "MinimalDesiredConfig = MinimalRenderableDesiredConfig"

text \<open>The renderable fixture is JSON that names its schema and has a config of its own.\<close>

lemma renderable_fixture_parses:
  "map_option (\<lambda>m. (stringField m ''schema_name'', stringField m ''schema_version'', m ''config'' = None))
     (unmarshal_raw_map (dr_Payload (sd_Record MinimalDesiredConfig))) =
   Some (Some ''olg-ucentral'', Some ''4.2.0'', False)"
  by code_simp

section \<open>The books of the doubles\<close>

text \<open>
  A book is a list a double keeps: every call of the service over the doubles appends to it what \<open>entry\<close>
  says of the call's event, and nothing else touches it.
\<close>

definition books ::
  "(doubles \<Rightarrow> 'a list) \<Rightarrow> (cfg_event \<Rightarrow> 'a list) \<Rightarrow> (doubles, cfg_event) tw \<Rightarrow> (doubles, cfg_event) tw \<Rightarrow> bool" where
  "books book entry s s' \<longleftrightarrow>
     (\<exists>t. trace s' = trace s @ t \<and> book (world s') = book (world s) @ concat (map entry t))"

lemma books_preorder [io_intro]: "reflp (books book entry)" "transp (books book entry)"
proof -
  show "reflp (books book entry)" by (auto simp: reflp_def books_def)
  show "transp (books book entry)"
  proof (rule transpI)
    fix a b c
    assume "books book entry a b" "books book entry b c"
    then obtain t u where
      "trace b = trace a @ t" "book (world b) = book (world a) @ concat (map entry t)"
      "trace c = trace b @ u" "book (world c) = book (world b) @ concat (map entry u)"
      unfolding books_def by blast
    then show "books book entry a c" unfolding books_def by (intro exI [of _ "t @ u"]) simp
  qed
qed

lemma books_call:
  assumes "\<And>w r w'. f w = (r, w') \<Longrightarrow> book w' = book w @ entry (ev r)"
  shows "state_io_rel (books book entry) (call f ev)"
proof -
  have "books book entry s (s\<lparr>world := w', trace := trace s @ [ev r]\<rparr>)" if "f (world s) = (r, w')" for s r w'
    using assms [OF that] unfolding books_def by (intro exI [of _ "[ev r]"]) simp
  then show ?thesis by (simp add: state_io_rel_def call_def split: prod.split)
qed

locale double_book =
  fixes book :: "doubles \<Rightarrow> 'a list" and entry :: "cfg_event \<Rightarrow> 'a list"
  assumes desired_books: "FakeConfigureClient_LoadDesiredConfig c target w = (ld, w') \<Longrightarrow>
      book w' = book w @ entry (EvLoadDesired target ld)"
    and state_books: "FakeStateStore_Load c w = (ls, w') \<Longrightarrow> book w' = book w @ entry (EvLoadState ls)"
    and save_books: "FakeStateStore_Save c st w = (e, w') \<Longrightarrow> book w' = book w @ entry (EvSaveState st e)"
    and render_books: "FakeRenderer_Render c d w = (rr, w') \<Longrightarrow> book w' = book w @ entry (EvRender d rr)"
    and apply_books: "FakeApplyEngine_Apply c out w = (e, w') \<Longrightarrow> book w' = book w @ entry (EvApply out e)"
    and status_books: "StatusRecorder_PublishStatus c sm w = (e, w') \<Longrightarrow> book w' = book w @ entry (EvStatus sm e)"
    and result_books: "ResultRecorder_PublishResult c rm w = (e, w') \<Longrightarrow> book w' = book w @ entry (EvResult rm e)"
    and log_books: "book (LogCapture_record en w) = book w"
    and lock_books: "entry EvLock = []" "entry EvUnlock = []"
begin

lemma calls_book [io_intro]:
  "state_io_rel (books book entry) (load_desired (fake_service dbg) c target)"
  "state_io_rel (books book entry) (load_state (fake_service dbg) c)"
  "state_io_rel (books book entry) (save_state (fake_service dbg) c st)"
  "state_io_rel (books book entry) (render (fake_service dbg) c d)"
  "state_io_rel (books book entry) (apply_rendered (fake_service dbg) c out)"
  "state_io_rel (books book entry) (call (PublishStatus (cs_client (fake_service dbg)) c m) (EvStatus m))"
  "state_io_rel (books book entry) (call (PublishResult (cs_client (fake_service dbg)) c m') (EvResult m'))"
  unfolding load_desired_def load_state_def save_state_def render_def apply_rendered_def
  by (rule books_call;
      auto simp: fake_service_def fake_client_def fake_store_def
        intro: desired_books state_books save_books render_books apply_books status_books result_books)+

lemma silent_books [io_intro]:
  "state_io_rel (books book entry) (cfg_now (fake_service dbg))"
  "state_io_rel (books book entry) (mark EvLock)" "state_io_rel (books book entry) (mark EvUnlock)"
  "state_io_rel (books book entry) (logInfo (fake_service dbg) msg kv)"
  "state_io_rel (books book entry) (logDebug (fake_service dbg) msg kv)"
  "state_io_rel (books book entry) (logWarn (fake_service dbg) msg kv)"
  "state_io_rel (books book entry) (logError (fake_service dbg) msg kv)"
  by (auto simp: state_io_rel_def books_def cfg_now_def quiet_def mark_def fake_service_def fake_clock_def
      logInfo_def logDebug_def logWarn_def logError_def emit_log_def Let_def log_books lock_books)

lemma helpers_book [io_intro]:
  "state_io_rel (books book entry) (publishStatus (fake_service dbg) c msg status stage message)"
  "state_io_rel (books book entry) (publishSuccessResult (fake_service dbg) c msg message)"
  "state_io_rel (books book entry) (publishFailureResult (fake_service dbg) c msg code message)"
  "state_io_rel (books book entry) (progress (fake_service dbg) c msg stage message)"
  "state_io_rel (books book entry) (fail (fake_service dbg) c msg code message err)"
  "state_io_rel (books book entry) (reportingFailure (fake_service dbg) msg e)"
  "state_io_rel (books book entry) (reconcile_degraded (fake_service dbg) c target lm sm err ret)"
  unfolding progress_def fail_def reportingFailure_def reconcile_degraded_def
    publishStatus_def publishSuccessResult_def publishFailureResult_def
  by (intro io_intro)+

lemma request_books: "state_io_rel (books book entry) (serve_one nf (fake_service dbg) c q)"
  by (cases q; simp; unfold Handle_def handle_locked_def Reconcile_def reconcile_locked_def processDesiredConfigLocked_def;
      intro io_intro)

lemma serve_books: "state_io_rel (books book entry) (serve nf (fake_service dbg) c qs)"
  by (induction qs) (simp_all add: io_return io_bind books_preorder request_books)

lemma book_final:
  "book (world (final (serve nf (fake_service dbg) c qs) s)) =
     book (world s) @ concat (map entry (events (serve nf (fake_service dbg) c qs) s))"
  using serve_books [of nf dbg c qs]
  by (auto simp: state_io_rel_def books_def events_def final_def dest!: spec [of _ s])

end
text \<open>The books of the recorders, the renderer, the engine and the store; a counter is a list of strokes.\<close>

abbreviation strokes :: "nat \<Rightarrow> unit list" where
  "strokes n \<equiv> replicate n ()"

lemma strokes_snoc: "strokes n @ [()] = strokes (Suc n)"
  by (simp add: replicate_append_same)

lemmas book_defs = double_defs reader_defs RecordStatus_def RecordResult_def Let_def strokes_snoc

interpretation status_book: double_book StatusRecorder_Statuses "\<lambda>ev. case ev of EvStatus m e \<Rightarrow> [m] | _ \<Rightarrow> []"
  by unfold_locales (auto simp: book_defs split: option.splits)

interpretation result_book: double_book ResultRecorder_Results "\<lambda>ev. case ev of EvResult m e \<Rightarrow> [m] | _ \<Rightarrow> []"
  by unfold_locales (auto simp: book_defs split: option.splits)

interpretation desired_book: double_book "\<lambda>w. strokes (FakeConfigureClient_LoadCalls w)"
    "\<lambda>ev. case ev of EvLoadDesired target r \<Rightarrow> [()] | _ \<Rightarrow> []"
  by unfold_locales (auto simp: book_defs split: option.splits)

interpretation load_book: double_book "\<lambda>w. strokes (FakeStateStore_LoadCalls w)"
    "\<lambda>ev. case ev of EvLoadState r \<Rightarrow> [()] | _ \<Rightarrow> []"
  by unfold_locales (auto simp: book_defs split: option.splits)

interpretation save_book: double_book "\<lambda>w. strokes (FakeStateStore_SaveCalls w)"
    "\<lambda>ev. case ev of EvSaveState st e \<Rightarrow> [()] | _ \<Rightarrow> []"
  by unfold_locales (auto simp: book_defs split: option.splits)

interpretation saved_book: double_book FakeStateStore_SavedStates
    "\<lambda>ev. case ev of EvSaveState st None \<Rightarrow> [st] | _ \<Rightarrow> []"
  by (unfold_locales; auto simp: book_defs split: option.splits; metis)

interpretation render_book: double_book FakeRenderer_Inputs "\<lambda>ev. case ev of EvRender d r \<Rightarrow> [d] | _ \<Rightarrow> []"
  by unfold_locales (auto simp: book_defs split: option.splits if_splits)

interpretation apply_book: double_book FakeApplyEngine_Inputs "\<lambda>ev. case ev of EvApply out e \<Rightarrow> [out] | _ \<Rightarrow> []"
  by unfold_locales (auto simp: book_defs split: option.splits list.splits)

interpretation render_count: double_book "\<lambda>w. strokes (FakeRenderer_Calls w)"
    "\<lambda>ev. case ev of EvRender d r \<Rightarrow> [()] | _ \<Rightarrow> []"
  by unfold_locales (auto simp: book_defs split: option.splits if_splits)

interpretation apply_count: double_book "\<lambda>w. strokes (FakeApplyEngine_Calls w)"
    "\<lambda>ev. case ev of EvApply out e \<Rightarrow> [()] | _ \<Rightarrow> []"
  by unfold_locales (auto simp: book_defs split: option.splits list.splits)

lemma recorded_lists:
  "concat (map (\<lambda>ev. case ev of EvStatus m e \<Rightarrow> [m] | _ \<Rightarrow> []) t) = map fst (statuses t)"
  "concat (map (\<lambda>ev. case ev of EvResult m e \<Rightarrow> [m] | _ \<Rightarrow> []) t) = map fst (results t)"
  by (induction t; simp add: ev_simps split: cfg_event.split)+

text \<open>
  After any sequence of notifications and reconciliation passes over the doubles, what the tests read
  off them is what happened: the statuses and results in the order they were published, the desired
  configs that were rendered, the outputs that were applied and the states that were saved.
\<close>

lemma doubles_keep_the_books:
  assumes "w = world (final (serve nf (fake_service dbg) c qs) s)" and "t = events (serve nf (fake_service dbg) c qs) s"
  shows "StatusRecorder_Statuses w = StatusRecorder_Statuses (world s) @ map fst (statuses t) \<and>
    ResultRecorder_Results w = ResultRecorder_Results (world s) @ map fst (results t) \<and>
    FakeRenderer_Inputs w = FakeRenderer_Inputs (world s) @ [d. EvRender d r \<leftarrow> t] \<and>
    FakeApplyEngine_Inputs w = FakeApplyEngine_Inputs (world s) @ [out. EvApply out e \<leftarrow> t] \<and>
    FakeStateStore_SavedStates w = FakeStateStore_SavedStates (world s) @ [st. EvSaveState st None \<leftarrow> t]"
  unfolding assms recorded_lists [symmetric]
  using status_book.book_final result_book.book_final render_book.book_final apply_book.book_final saved_book.book_final
  by simp

lemma strokes_final: "strokes n = strokes m @ us \<Longrightarrow> n = m + length us"
  by (metis length_append length_replicate)

lemma doubles_count_calls:
  assumes "w = world (final (serve nf (fake_service dbg) c qs) s)" and "t = events (serve nf (fake_service dbg) c qs) s"
  shows "FakeConfigureClient_LoadCalls w = FakeConfigureClient_LoadCalls (world s) + length [(). EvLoadDesired target r \<leftarrow> t]"
    and "FakeStateStore_LoadCalls w = FakeStateStore_LoadCalls (world s) + length [(). EvLoadState r' \<leftarrow> t]"
    and "FakeStateStore_SaveCalls w = FakeStateStore_SaveCalls (world s) + length [(). EvSaveState st e \<leftarrow> t]"
    and "FakeRenderer_Calls w = FakeRenderer_Calls (world s) + length [(). EvRender d rr \<leftarrow> t]"
    and "FakeApplyEngine_Calls w = FakeApplyEngine_Calls (world s) + length [(). EvApply out e' \<leftarrow> t]"
  unfolding assms
  by (rule strokes_final, rule desired_book.book_final load_book.book_final save_book.book_final
      render_count.book_final apply_count.book_final)+

section \<open>The log capture\<close>

definition captured :: "(doubles, cfg_event) tw \<Rightarrow> (doubles, cfg_event) tw \<Rightarrow> bool" where
  "captured s s' \<longleftrightarrow> (\<exists>l. logs s' = logs s @ l \<and> LogCapture_Entries (world s') = LogCapture_Entries (world s) @ l)"

lemma captured_preorder [io_intro]: "reflp captured" "transp captured"
  by (auto simp: captured_def reflp_def transp_def)

lemma captured_call:
  assumes "\<And>w r w'. f w = (r, w') \<Longrightarrow> d_entries w' = d_entries w"
  shows "state_io_rel captured (call f ev)"
  using assms by (fastforce simp: state_io_rel_def captured_def LogCapture_Entries_def call_def split: prod.split)

lemma captured_calls [io_intro]:
  "state_io_rel captured (load_desired (fake_service dbg) c target)"
  "state_io_rel captured (load_state (fake_service dbg) c)"
  "state_io_rel captured (save_state (fake_service dbg) c st)"
  "state_io_rel captured (render (fake_service dbg) c d)"
  "state_io_rel captured (apply_rendered (fake_service dbg) c out)"
  "state_io_rel captured (call (PublishStatus (cs_client (fake_service dbg)) c m) (EvStatus m))"
  "state_io_rel captured (call (PublishResult (cs_client (fake_service dbg)) c m') (EvResult m'))"
  unfolding load_desired_def load_state_def save_state_def render_def apply_rendered_def
  by (rule captured_call;
      auto simp: fake_service_def fake_client_def fake_store_def double_defs RecordStatus_def RecordResult_def Let_def
        split: option.splits)+

lemma captured_silent [io_intro]:
  "state_io_rel captured (cfg_now (fake_service dbg))"
  "state_io_rel captured (mark EvLock)" "state_io_rel captured (mark EvUnlock)"
  "state_io_rel captured (logInfo (fake_service dbg) msg kv)"
  "state_io_rel captured (logDebug (fake_service dbg) msg kv)"
  "state_io_rel captured (logWarn (fake_service dbg) msg kv)"
  "state_io_rel captured (logError (fake_service dbg) msg kv)"
  by (auto simp: state_io_rel_def captured_def LogCapture_Entries_def cfg_now_def quiet_def mark_def fake_service_def
      fake_clock_def logInfo_def logDebug_def logWarn_def logError_def emit_log_def Let_def LogCapture_record_def)

lemma captured_request: "state_io_rel captured (serve_one nf (fake_service dbg) c q)"
  by (cases q; simp; unfold Handle_def handle_locked_def Reconcile_def reconcile_locked_def processDesiredConfigLocked_def
        progress_def fail_def reportingFailure_def reconcile_degraded_def publishStatus_def publishSuccessResult_def
        publishFailureResult_def; intro io_intro)

text \<open>The capture holds every entry the service logged, and \<^verbatim>\<open>DoesNotContain\<close> asks all of them.\<close>

lemma capture_is_complete:
  "LogCapture_Entries (world (final (serve nf (fake_service dbg) c qs) s)) =
     LogCapture_Entries (world s) @ new_logs (serve nf (fake_service dbg) c qs) s"
proof -
  have "state_io_rel captured (serve nf (fake_service dbg) c qs)"
    by (induction qs) (simp_all add: io_return io_bind captured_preorder captured_request)
  then show ?thesis
    by (auto simp: state_io_rel_def captured_def new_logs_def final_def dest!: spec [of _ s])
qed

lemma DoesNotContain_run:
  assumes "LogCapture_DoesNotContain errText part (world (final (serve nf (fake_service dbg) c qs) s))"
    and "en \<in> set (new_logs (serve nf (fake_service dbg) c qs) s)"
  shows "\<not> contains (LogEntry_String errText en) part"
  using assms capture_is_complete [of nf dbg c qs s]
  by (auto simp: LogCapture_DoesNotContain_def LogCapture_Contains_def LogCapture_Entries_def list_ex_iff)

end
