(* ===== verification/FileClaims.thy ===== *)
theory FileClaims
  imports Scenario
begin

text \<open>
  The properties of the file store and of the JSON it writes.
\<close>

text \<open>
  C10. Crash safety: at no point of a \<^verbatim>\<open>Save\<close>, whether it succeeds or any of its system calls fails,
  does the file at the store's path hold anything but what it held before or the complete new
  encoding; so a crash in between leaves the old checkpoint or the new one, as far as the map of files
  that can be seen goes.  The path itself must not be named like a temporary file of the store.
\<close>

theorem save_never_exposes_a_torn_file:
  assumes "\<not> temp_like path" and "run_state (FileStore_Save state_json path c st) s = (r, s')"
  shows "\<exists>hs. fs_hist s' = fs_hist s @ hs \<and>
    (\<forall>f\<in>set hs. f path = fs_files s path \<or> (\<exists>b. Marshal_State st = Inr b \<and> f path = Some b))"
  using save_post_run [OF assms] by (simp add: save_post_def)

text \<open>A file system with nothing in it and no faults\<close>

definition empty_fs :: fsys where
  "empty_fs = \<lparr>fs_files = Map.empty, fs_tick = 0, fs_fault = (\<lambda>_. None), fs_short = (\<lambda>_. 0), fs_rand = (\<lambda>n. n), fs_hist = []\<rparr>"

lemma default_not_temp [simp]: "\<not> temp_like default_state_file"
  by (rule state_file.not_temp)

theorem save_never_exposes_a_torn_file_witness:
  "\<exists>hs. fs_hist (snd (run_state (FileStore_Save state_json default_state_file (Some live) demo_state) empty_fs)) = hs \<and>
     (\<forall>f\<in>set hs. f default_state_file = None \<or>
        (\<exists>b. Marshal_State demo_state = Inr b \<and> f default_state_file = Some b))"
  using save_never_exposes_a_torn_file [OF default_not_temp prod.collapse [symmetric],
      of "Some live" demo_state empty_fs]
  by (simp add: empty_fs_def)

text \<open>
  C18. A failed \<^verbatim>\<open>Save\<close> changes no file that was there: neither the checkpoint nor any other (at a path
  that is not itself named like a temporary file of the store).
\<close>

theorem failed_save_keeps_files:
  assumes "\<not> temp_like path" and "run_state (FileStore_Save state_json path c st) s = (Some e, s')"
    and "fs_files s p = Some b"
  shows "fs_files s' p = Some b \<and> fs_ckpt state_json path s' = fs_ckpt state_json path s"
  using save_post_run [OF assms(1,2)] assms(3) by (simp add: save_post_def fs_ckpt_def)

theorem failed_save_keeps_files_witness:
  "fs_files (snd (run_state (FileStore_Save state_json default_state_file None demo_state)
     (empty_fs\<lparr>fs_files := [''/etc/hosts'' \<mapsto> ''x'']\<rparr>))) ''/etc/hosts'' = Some ''x''"
proof -
  let ?s = "empty_fs\<lparr>fs_files := [''/etc/hosts'' \<mapsto> ''x'']\<rparr>"
  have "run_state (FileStore_Save state_json default_state_file None demo_state) ?s =
      (Some (ErrorsNew ''save state: context is nil''), ?s)"
    by (simp add: FileStore_Save_def)
  from failed_save_keeps_files [OF default_not_temp this, of "''/etc/hosts''" "''x''"] this
  show ?thesis by simp
qed

text \<open>
  C11. Round trip through the file: after a \<^verbatim>\<open>Save\<close> that succeeded, a \<^verbatim>\<open>Load\<close> that answers answers with
  the very state that was saved, to the nanosecond, if its target and UUID are well-formed UTF-8 and the
  path is not itself named like a temporary file of the store.
\<close>

theorem load_returns_what_was_saved:
  assumes "\<not> temp_like path" and "storable_state st"
    and "run_state (FileStore_Save state_json path c st) s = (None, s1)"
    and "run_state (FileStore_Load state_json path c') s1 = (Inr st', s2)"
  shows "st' = st"
proof -
  from save_post_run [OF assms(1,3)] obtain b where "Marshal_State st = Inr b" "fs_files s1 path = Some b"
    by (auto simp: save_post_def)
  with assms(2) have "fs_ckpt state_json path s1 = st"
    by (simp add: fs_ckpt_def Unmarshal_Marshal_State)
  with load_post_run [OF assms(4)] show ?thesis by (simp add: load_post_def)
qed

text \<open>
  C20. The JSON round trip behind it: what \<^verbatim>\<open>json.Marshal\<close> writes for a state, \<^verbatim>\<open>json.Unmarshal\<close> reads
  back as that state, for all names in UTF-8 (escapes, surrogates and HTML characters included) and
  all times from year 0 to year 9999.
\<close>

theorem state_json_round_trip:
  assumes "storable_state st" and "time_ok (as_AppliedAt st)"
  shows "\<exists>b. Marshal_State st = Inr b \<and> Unmarshal_State b = Inr st"
proof -
  obtain at where "time_text (as_AppliedAt st) = Some at"
    using assms(2) by (cases "date_of (nat (time_day (as_AppliedAt st)))") (simp add: time_text_def Let_def)
  then obtain b where "Marshal_State st = Inr b" by (simp add: Marshal_State_def)
  with Unmarshal_Marshal_State [OF assms(1)] show ?thesis by blast
qed

lemma demo_storable: "storable_state demo_state"
  by (simp add: storable_state_def MinimalTarget_def MinimalUUID_def utf8_valid_ascii)

lemma epoch_ok: "time_ok 0"
  by (simp add: time_ok_def time_day_def epoch_day_def year_start_def)

theorem state_json_round_trip_witness:
  "\<exists>b. Marshal_State demo_state = Inr b \<and> Unmarshal_State b = Inr demo_state"
  by (rule state_json_round_trip [OF demo_storable]) (simp add: demo_state_def epoch_ok)

text \<open>
  A checkpoint that is missing or does not decode is no error: with a live context and a readable
  directory \<^verbatim>\<open>Load\<close> answers, with what the file decodes to and with the empty state otherwise.
\<close>

theorem load_answers_checkpoint:
  assumes "\<not> blank path" and "\<And>w. cx w = None" and "fs_fault s (fs_tick s) = None"
  shows "fst (run_state (FileStore_Load state_json path (Some cx)) s) = Inr (fs_ckpt state_json path s)"
  using assms
  by (simp add: FileStore_Load_def ctx_Err_def os_ReadFile_def syscall_def Let_def fs_ckpt_def
      split: option.split sum.split)

lemma default_not_blank [simp]: "\<not> blank default_state_file"
  by (simp only: default_state_file_def) code_simp

theorem load_answers_checkpoint_witness:
  "fst (run_state (FileStore_Load state_json default_state_file (Some live)) empty_fs) = Inr empty_state"
  using load_answers_checkpoint [of default_state_file live empty_fs]
  by (simp add: live_def empty_fs_def fs_ckpt_def)

lemma syscall_ok:
  "fs_fault s = (\<lambda>_. None) \<Longrightarrow> good (fs_files s) = (Inr r, fs) \<Longrightarrow>
   run_state (syscall bad good) s = (Inr r, after_call s fs)"
  by (simp add: syscall_def after_call_def)

lemma after_call_env [simp]: "fs_fault (after_call s fs) = fs_fault s" "fs_rand (after_call s fs) = fs_rand s"
  by (simp_all add: after_call_def)

lemma calls_ok [simp]:
  assumes "fs_fault s = (\<lambda>_. None)"
  shows "run_state os_touch s = (None, after_call s (fs_files s))"
    and "run_state (file_Write p b) s = (None, after_call s ((fs_files s)(p \<mapsto> b)))"
    and "fs_files s (temp_name dir (fs_rand s (fs_tick s))) = None \<Longrightarrow>
      run_state (os_CreateTemp dir) s = (Inr (temp_name dir (fs_rand s (fs_tick s))),
        after_call s ((fs_files s)(temp_name dir (fs_rand s (fs_tick s)) \<mapsto> [])))"
    and "fs_files s a = Some f \<Longrightarrow>
      run_state (os_Rename a q) s = (None, after_call s ((fs_files s)(a := None, q \<mapsto> f)))"
  using assms
  by (simp_all add: os_touch_def file_Write_def os_CreateTemp_def os_Rename_def Let_def syscall_ok)

text \<open>
  C19. \<^verbatim>\<open>Save\<close> gets through: with a live context, no failing system call and no left-over temporary
  file, every state whose time can be written is saved to a path that is not blank, and \<^verbatim>\<open>Save\<close>
  returns nil.
\<close>

theorem save_gets_through:
  assumes "\<not> blank path" and "\<And>w. cx w = None" and "fs_fault s = (\<lambda>_. None)"
    and "\<And>dir r. fs_files s (temp_name dir r) = None" and "Marshal_State st = Inr b"
  shows "fst (run_state (FileStore_Save state_json path (Some cx) st) s) = None"
  using assms by (simp add: FileStore_Save_def ctx_Err_def Let_def)

lemma demo_marshals: "\<exists>b. Marshal_State demo_state = Inr b"
  by (cases "date_of (nat (time_day 0))")
    (simp add: Marshal_State_def demo_state_def time_text_def epoch_ok Let_def)

theorem save_gets_through_witness:
  "fst (run_state (FileStore_Save state_json default_state_file (Some live) demo_state) empty_fs) = None"
proof -
  obtain b where "Marshal_State demo_state = Inr b" using demo_marshals by blast
  from save_gets_through [OF default_not_blank _ _ _ this, of live empty_fs]
  show ?thesis by (simp add: live_def empty_fs_def)
qed

lemma demo_saved:
  obtains s1 where "run_state (FileStore_Save state_json default_state_file (Some live) demo_state) empty_fs = (None, s1)"
    "fs_fault s1 = (\<lambda>_. None)"
proof -
  obtain b where "Marshal_State demo_state = Inr b" using demo_marshals by blast
  then have "\<exists>s1. run_state (FileStore_Save state_json default_state_file (Some live) demo_state) empty_fs = (None, s1) \<and>
      fs_fault s1 = (\<lambda>_. None)"
    by (simp add: FileStore_Save_def ctx_Err_def live_def Let_def empty_fs_def)
  with that show thesis by blast
qed

theorem load_returns_what_was_saved_witness:
  "\<exists>s1 s2. run_state (FileStore_Save state_json default_state_file (Some live) demo_state) empty_fs = (None, s1) \<and>
     run_state (FileStore_Load state_json default_state_file (Some live)) s1 = (Inr demo_state, s2)"
proof -
  obtain s1 where s1: "run_state (FileStore_Save state_json default_state_file (Some live) demo_state) empty_fs = (None, s1)"
    "fs_fault s1 = (\<lambda>_. None)" by (rule demo_saved)
  have "\<exists>st' s2. run_state (FileStore_Load state_json default_state_file (Some live)) s1 = (Inr st', s2)"
    using s1(2) by (auto simp: FileStore_Load_def ctx_Err_def live_def os_ReadFile_def syscall_def Let_def
        split: option.split sum.split)
  then obtain st' s2 where s2: "run_state (FileStore_Load state_json default_state_file (Some live)) s1 = (Inr st', s2)"
    by blast
  from load_returns_what_was_saved [OF default_not_temp demo_storable s1(1) s2] s1(1) s2 show ?thesis by blast
qed

text \<open>
  The parser's fuel never runs out: \<^verbatim>\<open>json.Valid\<close> and \<^verbatim>\<open>json.Unmarshal\<close> give the same verdict with
  any greater amount, so they decide every input.
\<close>

lemma json_fuel_is_enough:
  assumes "2 * length s < n"
  shows "p_value n d s = p_value (Suc (2 * length s)) d s"
  by (rule p_fuel(1)) (use assms in simp_all)

end
