(* ===== verification/ActionService.thy ===== *)
theory ActionService
  imports Wire Json
begin

text \<open>
  The action workflow (internal/actions: types.go, trace.go, service.go): a command is announced,
  checked against the enabled actions and the registered executors, executed, and answered with a
  status and a result.  Executors are an interface; what the four executors of the agent have in
  common is the locale \<open>action_executor\<close>, interpreted where they are defined.
\<close>

section \<open>Types\<close>

record 'w action_client =
  act_PublishStatus :: "'w ctx \<Rightarrow> status_envelope \<Rightarrow> 'w \<Rightarrow> go_error option \<times> 'w"
  act_PublishResult :: "'w ctx \<Rightarrow> result_envelope \<Rightarrow> 'w \<Rightarrow> go_error option \<times> 'w"

record action_output =
  ao_Payload :: string
  ao_Message :: string

text \<open>
  \<^verbatim>\<open>Execute\<close> returns an output and an error; on an error the output is the zero one, and the service
  does not look at it.
\<close>

type_synonym 'w executor = "'w ctx \<Rightarrow> action_command \<Rightarrow> 'w \<Rightarrow> (go_error + action_output) \<times> 'w"

text \<open>
  What the service and its users rely on.  An executor answers only for the action it is named after;
  it refuses a command without a context, with a dead one, or with a payload that is not JSON, before
  it has touched anything; a payload that it refuses is reported as such; and the payload that it
  answers with is JSON.
\<close>

locale action_executor =
  fixes exec :: "'w executor" and name :: string
  assumes needs_context: "\<exists>e. exec nil_ctx msg w = (Inl e, w)"
    and needs_live_context: "cx w = Some e \<Longrightarrow> \<exists>e'. exec (Some cx) msg w = (Inl e', w) \<and> errors_is e' = errors_is e"
    and only_named: "ac_Action msg \<noteq> name \<Longrightarrow> \<exists>e. exec c msg w = (Inl e, w)"
    and needs_identity: "ac_Target msg = [] \<or> ac_RPCID msg = [] \<Longrightarrow> \<exists>e. exec c msg w = (Inl e, w)"
    and rejects_bad_json:
      "cx w = None \<Longrightarrow> ac_Target msg \<noteq> [] \<Longrightarrow> ac_RPCID msg \<noteq> [] \<Longrightarrow> ac_Action msg = name \<Longrightarrow>
       \<not> json_valid (ac_Payload msg) \<Longrightarrow>
       \<exists>e. exec (Some cx) msg w = (Inl e, w) \<and> errors_is e ErrInvalidActionPayload"
    and answers_json: "exec c msg w = (Inr out, w') \<Longrightarrow> json_valid (ao_Payload out)"

definition ActionTrace :: string where "ActionTrace = ''trace''"
definition ActionRTTY :: string where "ActionRTTY = ''rtty''"

text \<open>
  The checks every executor starts with, in their order: the error it returns when one fails.
\<close>

definition command_guard :: "string \<Rightarrow> 'w ctx \<Rightarrow> action_command \<Rightarrow> 'w \<Rightarrow> go_error option" where
  "command_guard name c msg w =
     (case c of
        None \<Rightarrow> Some (ErrorsNew ''execute action: context is nil'')
      | Some cx \<Rightarrow>
          (case cx w of
             Some e \<Rightarrow> Some (wrap ''execute action: '' e)
           | None \<Rightarrow>
               if ac_Target msg = [] then Some (ErrorsNew ''execute action: target is empty'')
               else if ac_Action msg \<noteq> name then
                 Some (Errorf [Txt ''execute action: unsupported action '', Quoted (ac_Action msg)])
               else if ac_RPCID msg = [] then Some (ErrorsNew ''execute action: rpc id is empty'')
               else if ac_Payload msg = [] \<or> \<not> json_valid (ac_Payload msg) then
                 Some (Errorf [Wrapped (Sentinel ErrInvalidActionPayload), Txt '': payload must be valid json''])
               else None))"

text \<open>An executor with these checks in front keeps the contract, whatever else it does, if it answers JSON.\<close>

lemma guarded_executor:
  assumes "\<And>c msg w e. command_guard name c msg w = Some e \<Longrightarrow> exec c msg w = (Inl e, w)"
    and "\<And>c msg w out w'. exec c msg w = (Inr out, w') \<Longrightarrow> json_valid (ao_Payload out)"
  shows "action_executor exec name"
proof
  fix c :: "'a ctx" and cx :: "'a \<Rightarrow> go_error option" and msg :: action_command and w :: 'a
  show "\<exists>e. exec nil_ctx msg w = (Inl e, w)"
    by (rule exI, rule assms(1)) (simp add: command_guard_def)
  show "\<exists>e. exec c msg w = (Inl e, w)" if "ac_Action msg \<noteq> name"
    using that assms(1) [of c msg w] by (cases "command_guard name c msg w")
      (auto simp: command_guard_def split: option.splits if_splits)
  show "\<exists>e. exec c msg w = (Inl e, w)" if "ac_Target msg = [] \<or> ac_RPCID msg = []"
    using that assms(1) [of c msg w] by (cases "command_guard name c msg w")
      (auto simp: command_guard_def split: option.splits if_splits)
  show "\<exists>e'. exec (Some cx) msg w = (Inl e', w) \<and> errors_is e' = errors_is e" if "cx w = Some e" for e
    using that assms(1) [of "Some cx" msg w] by (auto simp: command_guard_def)
  show "\<exists>e. exec (Some cx) msg w = (Inl e, w) \<and> errors_is e ErrInvalidActionPayload"
    if "cx w = None" "ac_Target msg \<noteq> []" "ac_RPCID msg \<noteq> []" "ac_Action msg = name" "\<not> json_valid (ac_Payload msg)"
    using that assms(1) [of "Some cx" msg w] by (auto simp: command_guard_def)
qed (use assms(2) in blast)

record 'w action_service =
  act_client :: "'w action_client"
  act_logger :: "'w logger"
  act_now :: "'w \<Rightarrow> gtime \<times> 'w"
  act_enabled :: "string set"
  act_executors :: "string \<rightharpoonup> 'w executor"

text \<open>
  The executors are a Go map, whose values may be nil: its entries in the order in which the loop
  meets them, each key once.
\<close>

record 'w action_dependencies =
  ad_Client :: "'w action_client option"
  ad_Logger :: "'w logger"
  ad_Now :: "('w \<Rightarrow> gtime \<times> 'w) option"
  ad_Enabled :: "string list"
  ad_Executors :: "(string \<times> 'w executor option) list"

fun enable_actions :: "string list \<Rightarrow> string set" where
  "enable_actions [] = {}"
| "enable_actions (a # as) =
     (let trimmed = trim_space a
      in if trimmed = [] then enable_actions as else insert trimmed (enable_actions as))"

fun keep_executors :: "(string \<times> 'w executor option) list \<Rightarrow> go_error + (string \<times> 'w executor) list" where
  "keep_executors [] = Inr []"
| "keep_executors ((action, ex) # rest) =
     (if blank action then keep_executors rest
      else (case ex of
              None \<Rightarrow> Inl (Errorf [Txt ''action service: executor '', Quoted action, Txt '' is nil''])
            | Some e \<Rightarrow> (case keep_executors rest of Inl err \<Rightarrow> Inl err | Inr kept \<Rightarrow> Inr ((action, e) # kept))))"

definition NewActionService ::
  "('w \<Rightarrow> gtime \<times> 'w) \<Rightarrow> 'w action_dependencies \<Rightarrow> go_error + 'w action_service" where
  "NewActionService time_Now deps =
     (case ad_Client deps of
        None \<Rightarrow> Inl (ErrorsNew ''action service: client is required'')
      | Some client \<Rightarrow>
          (case keep_executors (ad_Executors deps) of
             Inl err \<Rightarrow> Inl err
           | Inr [] \<Rightarrow> Inl (ErrorsNew ''action service: at least one executor is required'')
           | Inr (e # es) \<Rightarrow>
               Inr \<lparr>act_client = client, act_logger = ad_Logger deps,
                    act_now = (case ad_Now deps of None \<Rightarrow> time_Now | Some now \<Rightarrow> now),
                    act_enabled = enable_actions (ad_Enabled deps),
                    act_executors = map_of (e # es)\<rparr>))"

section \<open>Calls on the collaborators\<close>

datatype act_event =
    AStatus status_envelope "go_error option"
  | AResult result_envelope "go_error option"
  | AExecute action_command "go_error + action_output"

type_synonym ('w, 'r) act = "(('w, act_event) tw, 'r) state"

definition act_publishStatus :: "'w action_service \<Rightarrow> 'w ctx \<Rightarrow> action_command
    \<Rightarrow> string \<Rightarrow> string \<Rightarrow> string \<Rightarrow> ('w, go_error option) act" where
  "act_publishStatus s c msg status stage message = do {
     now \<leftarrow> quiet (act_now s);
     let m = BuildStatus (ac_RPCID msg) (ac_Target msg) [] status stage message now;
     call (act_PublishStatus (act_client s) c m) (AStatus m)
   }"

definition act_publishResult :: "'w action_service \<Rightarrow> 'w ctx \<Rightarrow> action_command
    \<Rightarrow> string \<Rightarrow> string \<Rightarrow> string \<Rightarrow> string \<Rightarrow> ('w, go_error option) act" where
  "act_publishResult s c msg result code message payload = do {
     now \<leftarrow> quiet (act_now s);
     let m = BuildResult (ac_RPCID msg) (ac_Target msg) ''action'' [] (ac_Action msg) result code message payload now;
     call (act_PublishResult (act_client s) c m) (AResult m)
   }"

definition act_execute :: "'w executor \<Rightarrow> 'w ctx \<Rightarrow> action_command \<Rightarrow> ('w, go_error + action_output) act" where
  "act_execute ex c msg = call (ex c msg) (AExecute msg)"

definition act_logInfo :: "'w action_service \<Rightarrow> string \<Rightarrow> (string \<times> log_value) list \<Rightarrow> ('w, unit) act" where
  "act_logInfo s msg kv = emit_log (act_logger s) LevelInfo msg kv"

definition act_logError :: "'w action_service \<Rightarrow> string \<Rightarrow> (string \<times> log_value) list \<Rightarrow> ('w, unit) act" where
  "act_logError s msg kv = emit_log (act_logger s) LevelError msg kv"

text \<open>The three keys every entry starts with\<close>

definition act_ids :: "action_command \<Rightarrow> (string \<times> log_value) list" where
  "act_ids msg = [(''target'', LStr (ac_Target msg)), (''action'', LStr (ac_Action msg)), (''rpc_id'', LStr (ac_RPCID msg))]"

section \<open>Handle\<close>

definition act_fail :: "'w action_service \<Rightarrow> 'w ctx \<Rightarrow> action_command \<Rightarrow> string \<Rightarrow> string
    \<Rightarrow> go_error \<Rightarrow> ('w, go_error option) act" where
  "act_fail s c msg code safeMessage originalErr = do {
     _ \<leftarrow> act_logError s ''action failed'' (act_ids msg @
            [(''stage'', LStr ''failed''), (''status'', LStr ''failure''),
             (''error_code'', LStr code), (''message'', LStr safeMessage)]);
     serr \<leftarrow> act_publishStatus s c msg ''failure'' ''failed'' ''action processing failed'';
     let statusErr = map_option (wrap ''publish action failure status: '') serr;
     rerr \<leftarrow> act_publishResult s c msg ''failure'' code safeMessage [];
     let resultErr = map_option (wrap ''publish action failure result: '') rerr;
     State_Monad.return (errors_join [Some originalErr, statusErr, resultErr])
   }"

text \<open>The code and the message for an executor's error\<close>

definition execute_failure :: "go_error \<Rightarrow> string \<times> string" where
  "execute_failure err =
     (if errors_is err ErrInvalidActionPayload then (''invalid_action_payload'', ''invalid action payload'')
      else (''action_execute_failed'', ''action execution failed''))"

text \<open>What follows once the executor has answered with an output\<close>

definition complete_action :: "'w action_service \<Rightarrow> 'w ctx \<Rightarrow> action_command \<Rightarrow> action_output
    \<Rightarrow> ('w, go_error option) act" where
  "complete_action s c msg output = do {
     _ \<leftarrow> act_logInfo s ''action completed'' (act_ids msg @
            [(''stage'', LStr ''completed''), (''status'', LStr ''success'')]);
     e3 \<leftarrow> act_publishStatus s c msg ''success'' ''completed'' (ac_Action msg @ '' action completed'');
     case e3 of
       Some err \<Rightarrow> act_fail s c msg ''status_publish_failed'' ''action processing failed''
                     (wrap ''publish action status completed: '' err)
     | None \<Rightarrow> do {
     _ \<leftarrow> act_logInfo s ''action result publishing'' (act_ids msg @ [(''status'', LStr ''success'')]);
     e4 \<leftarrow> act_publishResult s c msg ''success'' [] (ao_Message output) (ao_Payload output);
     case e4 of
       Some err \<Rightarrow> act_fail s c msg ''result_publish_failed'' ''failed to publish action result''
                     (wrap ''publish action success result: '' err)
     | None \<Rightarrow> do {
     _ \<leftarrow> act_logInfo s ''action result published'' (act_ids msg @ [(''status'', LStr ''success'')]);
     State_Monad.return None
     }}
   }"

text \<open>What follows once the command is known to have an executor\<close>

definition run_action :: "'w action_service \<Rightarrow> 'w executor \<Rightarrow> 'w ctx \<Rightarrow> action_command
    \<Rightarrow> ('w, go_error option) act" where
  "run_action s executor c msg = do {
     _ \<leftarrow> act_logInfo s ''action executing'' (act_ids msg @
            [(''stage'', LStr ''executing''), (''status'', LStr ''running'')]);
     e2 \<leftarrow> act_publishStatus s c msg ''running'' ''executing'' (''executing '' @ ac_Action msg @ '' action'');
     case e2 of
       Some err \<Rightarrow> act_fail s c msg ''status_publish_failed'' ''action processing failed''
                     (wrap ''publish action status executing: '' err)
     | None \<Rightarrow> do {
     r \<leftarrow> act_execute executor c msg;
     case r of
       Inl err \<Rightarrow> act_fail s c msg (fst (execute_failure err)) (snd (execute_failure err))
                    (Errorf [Txt ''execute action '', Quoted (ac_Action msg), Txt '': '', Wrapped err])
     | Inr output \<Rightarrow> complete_action s c msg output
     }
   }"

definition HandleAction :: "'w action_service \<Rightarrow> 'w ctx \<Rightarrow> action_command \<Rightarrow> ('w, go_error option) act" where
  "HandleAction s c msg =
     (case c of
        None \<Rightarrow> State_Monad.return (Some (ErrorsNew ''action handle: context is nil''))
      | Some _ \<Rightarrow> do {
          _ \<leftarrow> act_logInfo s ''action received'' (act_ids msg @
                 [(''stage'', LStr ''received''), (''status'', LStr ''running'')]);
          e1 \<leftarrow> act_publishStatus s c msg ''running'' ''received'' ''action command received'';
          case e1 of
            Some err \<Rightarrow> act_fail s c msg ''status_publish_failed'' ''action processing failed''
                          (wrap ''publish action status received: '' err)
          | None \<Rightarrow>
          if ac_Action msg \<notin> act_enabled s then
            act_fail s c msg ''disabled_action'' ''action is not enabled''
              (Errorf [Txt ''action '', Quoted (ac_Action msg), Txt '' is not enabled''])
          else (case act_executors s (ac_Action msg) of
                  None \<Rightarrow> act_fail s c msg ''unsupported_action'' ''action is not supported''
                            (Errorf [Txt ''action '', Quoted (ac_Action msg), Txt '' has no executor''])
                | Some executor \<Rightarrow> run_action s executor c msg)
        })"

end
