(* ===== verification/ActionProtocol.thy ===== *)
theory ActionProtocol
  imports ActionService
begin

text \<open>
  The action workflow as a state machine over its events: the phases a command goes through, the
  steps between them, and what a trace that reaches a phase contains.  \<open>HandleAction\<close> refines the
  machine: on a live context it always runs it from the first phase to the last one.
\<close>

section \<open>The machine\<close>

text \<open>
  \<open>Failing code\<close>: something went wrong and nothing of it was reported yet; \<open>Failed code\<close>: the failure
  status was tried; \<open>Done ok\<close>: the last result was tried.
\<close>

datatype act_phase =
    Idle
  | Received
  | Ready
  | Executed action_output
  | Completed action_output
  | Failing string
  | Failed string
  | Done bool

definition act_status :: "action_command \<Rightarrow> string \<Rightarrow> string \<Rightarrow> status_envelope \<Rightarrow> bool" where
  "act_status msg status stage m \<longleftrightarrow>
     se_RPCID m = ac_RPCID msg \<and> se_Target m = ac_Target msg \<and> se_UUID m = [] \<and>
     se_Status m = status \<and> se_Stage m = stage"

definition act_result :: "action_command \<Rightarrow> string \<Rightarrow> string \<Rightarrow> string \<Rightarrow> result_envelope \<Rightarrow> bool" where
  "act_result msg result code payload m \<longleftrightarrow>
     re_RPCID m = ac_RPCID msg \<and> re_Target m = ac_Target msg \<and> re_UUID m = [] \<and>
     re_CommandType m = ''action'' \<and> re_Action m = ac_Action msg \<and>
     re_Result m = result \<and> re_ErrorCode m = code \<and> re_Payload m = payload"

definition cleared :: "'w action_service \<Rightarrow> action_command \<Rightarrow> bool" where
  "cleared sv msg \<longleftrightarrow> ac_Action msg \<in> act_enabled sv \<and> act_executors sv (ac_Action msg) \<noteq> None"

text \<open>The phases from which the next thing to happen is a failure report, and its code\<close>

inductive failing :: "'w action_service \<Rightarrow> action_command \<Rightarrow> act_phase \<Rightarrow> string \<Rightarrow> bool" for sv msg where
  "failing sv msg (Failing code) code"
| "ac_Action msg \<notin> act_enabled sv \<Longrightarrow> failing sv msg Received ''disabled_action''"
| "ac_Action msg \<in> act_enabled sv \<Longrightarrow> act_executors sv (ac_Action msg) = None \<Longrightarrow>
   failing sv msg Received ''unsupported_action''"

inductive act_step :: "'w action_service \<Rightarrow> action_command \<Rightarrow> act_phase \<Rightarrow> act_event \<Rightarrow> act_phase \<Rightarrow> bool"
  for sv msg where
  received:
  "act_status msg ''running'' ''received'' m \<Longrightarrow>
   act_step sv msg Idle (AStatus m e) (case e of None \<Rightarrow> Received | Some _ \<Rightarrow> Failing ''status_publish_failed'')"
| executing:
  "cleared sv msg \<Longrightarrow> act_status msg ''running'' ''executing'' m \<Longrightarrow>
   act_step sv msg Received (AStatus m e) (case e of None \<Rightarrow> Ready | Some _ \<Rightarrow> Failing ''status_publish_failed'')"
| executed:
  "act_step sv msg Ready (AExecute msg r)
     (case r of Inr out \<Rightarrow> Executed out | Inl e \<Rightarrow> Failing (fst (execute_failure e)))"
| completed:
  "act_status msg ''success'' ''completed'' m \<Longrightarrow>
   act_step sv msg (Executed out) (AStatus m e)
     (case e of None \<Rightarrow> Completed out | Some _ \<Rightarrow> Failing ''status_publish_failed'')"
| answered:
  "act_result msg ''success'' [] (ao_Payload out) m \<Longrightarrow> re_Message m = ao_Message out \<Longrightarrow>
   act_step sv msg (Completed out) (AResult m e)
     (case e of None \<Rightarrow> Done True | Some _ \<Rightarrow> Failing ''result_publish_failed'')"
| failure_status:
  "failing sv msg p code \<Longrightarrow> act_status msg ''failure'' ''failed'' m \<Longrightarrow>
   act_step sv msg p (AStatus m e) (Failed code)"
| failure_result:
  "act_result msg ''failure'' code [] m \<Longrightarrow> act_step sv msg (Failed code) (AResult m e) (Done False)"

inductive act_reach :: "'w action_service \<Rightarrow> action_command \<Rightarrow> act_event list \<Rightarrow> act_phase \<Rightarrow> bool" for sv msg where
  start: "act_reach sv msg [] Idle"
| step: "act_reach sv msg t p \<Longrightarrow> act_step sv msg p ev q \<Longrightarrow> act_reach sv msg (t @ [ev]) q"

inductive_cases failing_cases [elim]: "failing sv msg p code"
inductive_simps failing_Failing [simp]: "failing sv msg (Failing c) code"
inductive_simps act_step_Done [simp]: "act_step sv msg (Done ok) ev q"

section \<open>The service runs the machine\<close>

text \<open>
  \<open>goes sv msg p t q\<close>: the events \<open>t\<close> take the machine from phase \<open>p\<close> to phase \<open>q\<close>.
\<close>

definition goes :: "'w action_service \<Rightarrow> action_command \<Rightarrow> act_phase \<Rightarrow> act_event list \<Rightarrow> act_phase \<Rightarrow> bool" where
  "goes sv msg p t q \<longleftrightarrow> (\<forall>t0. act_reach sv msg t0 p \<longrightarrow> act_reach sv msg (t0 @ t) q)"

lemma goes_Nil: "goes sv msg p [] p"
  by (simp add: goes_def)

lemma goes_step: "act_step sv msg p ev q \<Longrightarrow> goes sv msg q t d \<Longrightarrow> goes sv msg p (ev # t) d"
  unfolding goes_def by (metis act_reach.step append.assoc append_Cons append_Nil)

lemmas machine_steps =
  goes_step [OF received [where e = None, simplified]] goes_step [OF received [where e = "Some x" for x, simplified]]
  goes_step [OF executing [where e = None, simplified]] goes_step [OF executing [where e = "Some x" for x, simplified]]
  goes_step [OF executed [where r = "Inl x" for x, simplified]] goes_step [OF executed [where r = "Inr x" for x, simplified]]
  goes_step [OF completed [where e = None, simplified]] goes_step [OF completed [where e = "Some x" for x, simplified]]
  goes_step [OF answered [where e = None, simplified]] goes_step [OF answered [where e = "Some x" for x, simplified]]

definition drives :: "'w action_service \<Rightarrow> action_command \<Rightarrow> act_phase \<Rightarrow> ('w, go_error option) act \<Rightarrow> bool" where
  "drives sv msg p m \<longleftrightarrow> follows m (\<lambda>t r. goes sv msg p t (Done (r = None)))"

lemma wp_act_publishStatus [wp_intro]:
  assumes "\<And>m e w'. act_status msg status stage m \<Longrightarrow> Q e (s\<lparr>world := w', trace := trace s @ [AStatus m e]\<rparr>)"
  shows "wp (act_publishStatus sv c msg status stage message) Q s"
  by (auto simp: act_publishStatus_def wp_simps act_status_def intro!: wp_intro assms)

lemma wp_act_publishResult [wp_intro]:
  assumes "\<And>m e w'. act_result msg result code payload m \<Longrightarrow> re_Message m = message \<Longrightarrow>
    Q e (s\<lparr>world := w', trace := trace s @ [AResult m e]\<rparr>)"
  shows "wp (act_publishResult sv c msg result code message payload) Q s"
  by (auto simp: act_publishResult_def wp_simps act_result_def intro!: wp_intro assms)

lemma wp_act_execute [wp_intro]:
  "(\<And>r w'. Q r (s\<lparr>world := w', trace := trace s @ [AExecute msg r]\<rparr>)) \<Longrightarrow> wp (act_execute ex c msg) Q s"
  unfolding act_execute_def by (intro wp_intro)

lemma wp_act_log [wp_intro]:
  "(\<And>w' ls. Q () (s\<lparr>world := w', logs := ls\<rparr>)) \<Longrightarrow> wp (act_logInfo sv m kv) Q s"
  "(\<And>w' ls. Q () (s\<lparr>world := w', logs := ls\<rparr>)) \<Longrightarrow> wp (act_logError sv m kv) Q s"
  unfolding act_logInfo_def act_logError_def by (intro wp_intro; simp)+

lemma wp_drives:
  assumes "drives sv msg p m"
    and "\<And>t r w' ls. goes sv msg p t (Done (r = None)) \<Longrightarrow> Q r \<lparr>world = w', trace = trace s @ t, logs = ls\<rparr>"
  shows "wp m Q s"
  using assms unfolding drives_def by (rule wp_follows)

lemma fail_drives:
  assumes "failing sv msg p code"
  shows "drives sv msg p (act_fail sv c msg code safe orig)"
  unfolding drives_def follows_def act_fail_def
  by (auto simp: wp_simps intro!: wp_intro goes_step [OF failure_status [OF assms]] goes_step [OF failure_result] goes_Nil)

lemmas reported_failure = wp_drives [OF fail_drives]

lemma complete_drives: "drives sv msg (Executed out) (complete_action sv c msg out)"
  unfolding drives_def follows_def complete_action_def
  by (auto simp: wp_simps intro!: wp_intro reported_failure [OF failing.intros(1)] machine_steps goes_Nil
      split: option.split)

lemma run_drives: "cleared sv msg \<Longrightarrow> drives sv msg Received (run_action sv ex c msg)"
  unfolding drives_def follows_def run_action_def
  by (auto simp: wp_simps intro!: wp_intro reported_failure [OF failing.intros(1)] wp_drives [OF complete_drives] machine_steps
      split: option.split sum.split)

lemma handle_drives: "drives sv msg Idle (HandleAction sv (Some cx) msg)"
  unfolding drives_def follows_def HandleAction_def
  by (auto simp: wp_simps cleared_def intro!: wp_intro
      reported_failure [OF failing.intros(1) [where code = "''status_publish_failed''"]]
      reported_failure [OF failing.intros(2)] reported_failure [OF failing.intros(3)]
      wp_drives [OF run_drives] machine_steps
      split: option.split sum.split)

text \<open>On a live context every run of the service is a run of the machine, from the first phase to the last.\<close>

lemma HandleAction_reaches:
  "act_reach sv msg (events (HandleAction sv (Some cx) msg) s) (Done (outcome (HandleAction sv (Some cx) msg) s = None))"
  using follows_events [OF handle_drives [unfolded drives_def goes_def], where s = s and sv1 = sv and msg1 = msg and cx1 = cx, rule_format, OF act_reach.start]
  by simp

section \<open>What a trace that reaches a phase contains\<close>

definition act_results :: "act_event list \<Rightarrow> (result_envelope \<times> go_error option) list" where
  "act_results t = List.map_filter (\<lambda>ev. case ev of AResult m e \<Rightarrow> Some (m, e) | _ \<Rightarrow> None) t"

definition executions :: "act_event list \<Rightarrow> (go_error + action_output) list" where
  "executions t = List.map_filter (\<lambda>ev. case ev of AExecute _ r \<Rightarrow> Some r | _ \<Rightarrow> None) t"

definition stages_reached :: "act_event list \<Rightarrow> string list" where
  "stages_reached t =
     List.map_filter (\<lambda>ev. case ev of AStatus m None \<Rightarrow> Some (se_Stage m) | _ \<Rightarrow> None) t"

lemma act_views [simp]:
  "act_results [] = []" "act_results (t @ u) = act_results t @ act_results u"
  "act_results [AStatus s e] = []" "act_results [AResult m e] = [(m, e)]" "act_results [AExecute c r] = []"
  "executions [] = []" "executions (t @ u) = executions t @ executions u"
  "executions [AStatus s e] = []" "executions [AResult m e] = []" "executions [AExecute c r] = [r]"
  "stages_reached [] = []" "stages_reached (t @ u) = stages_reached t @ stages_reached u"
  "stages_reached [AStatus s None] = [se_Stage s]" "stages_reached [AStatus s (Some x)] = []"
  "stages_reached [AResult m e] = []" "stages_reached [AExecute c r] = []"
  by (simp_all add: act_results_def executions_def stages_reached_def List.map_filter_def)

text \<open>Why a command fails: what its events so far must be for the failure to get a code\<close>

inductive cause :: "'w action_service \<Rightarrow> action_command \<Rightarrow> string \<Rightarrow> act_event list \<Rightarrow> bool" for sv msg where
  disabled:
  "ac_Action msg \<notin> act_enabled sv \<Longrightarrow> executions t = [] \<Longrightarrow> act_results t = [] \<Longrightarrow>
   cause sv msg ''disabled_action'' t"
| unsupported:
  "ac_Action msg \<in> act_enabled sv \<Longrightarrow> act_executors sv (ac_Action msg) = None \<Longrightarrow> executions t = [] \<Longrightarrow>
   act_results t = [] \<Longrightarrow> cause sv msg ''unsupported_action'' t"
| invalid_payload:
  "cleared sv msg \<Longrightarrow> executions t = [Inl e] \<Longrightarrow> errors_is e ErrInvalidActionPayload \<Longrightarrow> act_results t = [] \<Longrightarrow>
   cause sv msg ''invalid_action_payload'' t"
| execute_failed:
  "cleared sv msg \<Longrightarrow> executions t = [Inl e] \<Longrightarrow> \<not> errors_is e ErrInvalidActionPayload \<Longrightarrow> act_results t = [] \<Longrightarrow>
   cause sv msg ''action_execute_failed'' t"
| status_lost:
  "AStatus m (Some e) \<in> set t \<Longrightarrow> se_Status m \<noteq> ''failure'' \<Longrightarrow> act_results t = [] \<Longrightarrow>
   length (executions t) \<le> 1 \<Longrightarrow> cause sv msg ''status_publish_failed'' t"
| result_lost:
  "cleared sv msg \<Longrightarrow> executions t = [Inr out] \<Longrightarrow> act_results t = [(m, Some e)] \<Longrightarrow>
   act_result msg ''success'' [] (ao_Payload out) m \<Longrightarrow> cause sv msg ''result_publish_failed'' t"

lemma cause_failure_status [intro]:
  assumes "cause sv msg code t"
  shows "cause sv msg code (t @ [AStatus m e])"
proof -
  have "executions (t @ [AStatus m e]) = executions t" "act_results (t @ [AStatus m e]) = act_results t" by simp_all
  with assms show ?thesis by (cases rule: cause.cases) (auto intro: cause.intros)
qed

fun phase_inv :: "'w action_service \<Rightarrow> action_command \<Rightarrow> act_event list \<Rightarrow> act_phase \<Rightarrow> bool" where
  "phase_inv sv msg t Idle \<longleftrightarrow> t = []"
| "phase_inv sv msg t Received \<longleftrightarrow> stages_reached t = [''received''] \<and> executions t = [] \<and> act_results t = []"
| "phase_inv sv msg t Ready \<longleftrightarrow> cleared sv msg \<and> stages_reached t = [''received'', ''executing''] \<and>
     executions t = [] \<and> act_results t = []"
| "phase_inv sv msg t (Executed out) \<longleftrightarrow> cleared sv msg \<and> stages_reached t = [''received'', ''executing''] \<and>
     executions t = [Inr out] \<and> act_results t = []"
| "phase_inv sv msg t (Completed out) \<longleftrightarrow> cleared sv msg \<and> stages_reached t = [''received'', ''executing'', ''completed''] \<and>
     executions t = [Inr out] \<and> act_results t = []"
| "phase_inv sv msg t (Failing code) \<longleftrightarrow> cause sv msg code t"
| "phase_inv sv msg t (Failed code) \<longleftrightarrow> cause sv msg code t"
| "phase_inv sv msg t (Done True) \<longleftrightarrow> cleared sv msg \<and> stages_reached t = [''received'', ''executing'', ''completed''] \<and>
     (\<exists>out m. executions t = [Inr out] \<and> act_results t = [(m, None)] \<and>
        act_result msg ''success'' [] (ao_Payload out) m \<and> re_Message m = ao_Message out)"
| "phase_inv sv msg t (Done False) \<longleftrightarrow>
     (\<exists>t0 code m e. t = t0 @ [AResult m e] \<and> cause sv msg code t0 \<and> act_result msg ''failure'' code [] m)"

lemma cause_execute: "cleared sv msg \<Longrightarrow> executions t = [Inl e] \<Longrightarrow> act_results t = [] \<Longrightarrow>
    cause sv msg (fst (execute_failure e)) t"
  by (auto simp: execute_failure_def intro: invalid_payload execute_failed)

lemma phase_step: "act_step sv msg p ev q \<Longrightarrow> phase_inv sv msg t p \<Longrightarrow> phase_inv sv msg (t @ [ev]) q"
proof (induction rule: act_step.induct)
  case (received m e)
  then show ?case by (cases e) (auto simp: act_status_def intro!: status_lost)
next
  case (executing m e)
  then show ?case by (cases e) (auto simp: act_status_def intro!: status_lost)
next
  case (executed r)
  then show ?case by (cases r) (auto intro!: cause_execute)
next
  case (completed m out e)
  then show ?case by (cases e) (auto simp: act_status_def intro!: status_lost)
next
  case (answered out m e)
  then show ?case by (cases e) (auto intro!: result_lost)
next
  case (failure_status p code m e)
  then show ?case by (auto elim!: failing.cases intro: disabled unsupported)
qed auto

lemma phase_invariant: "act_reach sv msg t p \<Longrightarrow> phase_inv sv msg t p"
  by (induction rule: act_reach.induct) (simp, rule phase_step)

text \<open>Every message answers the command.\<close>

fun act_carries :: "action_command \<Rightarrow> act_event \<Rightarrow> bool" where
  "act_carries msg (AStatus m e) \<longleftrightarrow> se_RPCID m = ac_RPCID msg \<and> se_Target m = ac_Target msg"
| "act_carries msg (AResult m e) \<longleftrightarrow> re_RPCID m = ac_RPCID msg \<and> re_Target m = ac_Target msg \<and>
     re_Action m = ac_Action msg \<and> re_CommandType m = ''action''"
| "act_carries msg (AExecute c r) \<longleftrightarrow> c = msg"

lemma reach_carries: "act_reach sv msg t p \<Longrightarrow> list_all (act_carries msg) t"
proof (induction rule: act_reach.induct)
  case (step t p ev q)
  from step.hyps(2) step.IH show ?case
    by (cases rule: act_step.cases) (auto simp: act_status_def act_result_def)
qed simp

text \<open>An execution happens once, and after both running statuses got out.\<close>

fun executed_phase :: "act_phase \<Rightarrow> bool" where
  "executed_phase Idle = False" | "executed_phase Received = False" | "executed_phase Ready = False"
| "executed_phase _ = True"

definition announced_run :: "act_event list \<Rightarrow> bool" where
  "announced_run t \<longleftrightarrow> (\<forall>u v m r. t = u @ AExecute m r # v \<longrightarrow>
     stages_reached u = [''received'', ''executing''] \<and> executions (u @ v) = [])"

lemma executions_Nil_iff: "executions t = [] \<longleftrightarrow> (\<forall>m r. AExecute m r \<notin> set t)"
  by (induction t) (auto simp: executions_def List.map_filter_def split: act_event.splits option.splits)

lemma announced_run_snoc:
  assumes "announced_run t"
    and "\<And>m r. ev = AExecute m r \<Longrightarrow> stages_reached t = [''received'', ''executing''] \<and> executions t = []"
  shows "announced_run (t @ [ev])"
  unfolding announced_run_def
proof (intro allI impI)
  fix u v m' r' assume split: "t @ [ev] = u @ AExecute m' r' # v"
  show "stages_reached u = [''received'', ''executing''] \<and> executions (u @ v) = []"
  proof (cases v rule: rev_cases)
    case Nil
    with split assms(2) show ?thesis by auto
  next
    case (snoc v' x)
    with split have "t = u @ AExecute m' r' # v'" "x = ev" by simp_all
    moreover from this assms(2) have "executions [ev] = []" by (cases ev) (auto simp: executions_Nil_iff)
    ultimately show ?thesis using assms(1) snoc by (auto simp: announced_run_def)
  qed
qed

lemma reach_announced: "act_reach sv msg t p \<Longrightarrow> announced_run t"
proof (induction rule: act_reach.induct)
  case start
  show ?case by (simp add: announced_run_def)
next
  case (step t p ev q)
  have inv: "phase_inv sv msg t p" using step.hyps(1) by (rule phase_invariant)
  show ?case
    by (rule announced_run_snoc [OF step.IH]) (use step.hyps(2) inv in \<open>cases rule: act_step.cases; simp\<close>)
qed

lemma reach_cleared: "act_reach sv msg t p \<Longrightarrow> executions t \<noteq> [] \<Longrightarrow> cleared sv msg"
proof (induction rule: act_reach.induct)
  case (step t p ev q)
  have inv: "phase_inv sv msg t p" using step.hyps(1) by (rule phase_invariant)
  from step.hyps(2) inv step.IH step.prems show ?case
    by (cases rule: act_step.cases) auto
qed simp

section \<open>Which executor answered\<close>

text \<open>Every execution in the trace is a call of the registered executor with the command.\<close>

definition by_registered :: "'w action_service \<Rightarrow> 'w ctx \<Rightarrow> action_command \<Rightarrow> act_event \<Rightarrow> bool" where
  "by_registered sv c msg ev \<longleftrightarrow>
     (\<forall>m r. ev = AExecute m r \<longrightarrow> m = msg \<and>
        (\<exists>ex w w'. act_executors sv (ac_Action msg) = Some ex \<and> ex c msg w = (r, w')))"

lemma by_registered_calls [io_intro]:
  "state_io_rel (events_keep (by_registered sv c msg)) (act_publishStatus sv c' m status stage message)"
  "state_io_rel (events_keep (by_registered sv c msg)) (act_publishResult sv c' m result code message' payload)"
  "act_executors sv (ac_Action msg) = Some ex \<Longrightarrow>
   state_io_rel (events_keep (by_registered sv c msg)) (act_execute ex c msg)"
  "state_io_rel (events_keep (by_registered sv c msg)) (act_logInfo sv m' kv)"
  "state_io_rel (events_keep (by_registered sv c msg)) (act_logError sv m' kv)"
  unfolding act_publishStatus_def act_publishResult_def act_execute_def act_logInfo_def act_logError_def Let_def
  by (intro io_intro events_keep_call; auto simp: by_registered_def)+

lemma by_registered_Handle: "state_io_rel (events_keep (by_registered sv c msg)) (HandleAction sv c msg)"
  unfolding HandleAction_def run_action_def complete_action_def act_fail_def Let_def
  by (intro io_intro) assumption+

lemma executed_by_registered:
  assumes "AExecute m r \<in> set (events (HandleAction sv c msg) s)"
  obtains ex w w' where "m = msg" "act_executors sv (ac_Action msg) = Some ex" "ex c msg w = (r, w')"
  using events_keep_events [OF by_registered_Handle assms] by (auto simp: by_registered_def)

lemma in_executions: "r \<in> set (executions t) \<longleftrightarrow> (\<exists>m. AExecute m r \<in> set t)"
  by (induction t) (auto simp: executions_def List.map_filter_def split: act_event.splits option.splits)

lemma in_act_results: "(m, e) \<in> set (act_results t) \<longleftrightarrow> AResult m e \<in> set t"
  by (induction t) (auto simp: act_results_def List.map_filter_def split: act_event.splits option.splits)

section \<open>Reading a finished trace\<close>

lemma cause_code: "cause sv msg code t \<Longrightarrow> act_results t = [] \<or>
    (\<exists>m e. act_results t = [(m, e)] \<and> re_Result m = ''success'')"
  by (cases rule: cause.cases) (auto simp: act_result_def)

lemma done_failure:
  assumes "phase_inv sv msg t (Done ok)"
  shows "\<forall>before after m e. t = before @ AResult m e # after \<and> re_Result m = ''failure'' \<longrightarrow>
    cause sv msg (re_ErrorCode m) before \<and> after = []"
proof (intro allI impI, elim conjE)
  fix before after m e assume t: "t = before @ AResult m e # after" and m: "re_Result m = ''failure''"
  have "(m, e) \<in> set (act_results t)" unfolding t by (simp add: act_results_def List.map_filter_def)
  with assms m obtain t0 code m' e' where t0: "t = t0 @ [AResult m' e']" "cause sv msg code t0" "act_result msg ''failure'' code [] m'"
    by (cases ok) (auto simp: act_result_def)
  show "cause sv msg (re_ErrorCode m) before \<and> after = []"
  proof (cases after rule: rev_cases)
    case Nil
    with t t0 show ?thesis by (simp add: act_result_def)
  next
    case (snoc as a)
    with t t0(1) have "t0 = before @ AResult m e # as" by simp
    then have "(m, e) \<in> set (act_results t0)" by (simp add: act_results_def List.map_filter_def)
    with cause_code [OF t0(2)] m show ?thesis by auto
  qed
qed

lemma done_success:
  assumes "phase_inv sv msg t (Done ok)" "AResult m e \<in> set t" "re_Result m = ''success''"
  shows "\<exists>out. Inr out \<in> set (executions t) \<and> act_result msg ''success'' [] (ao_Payload out) m"
proof (cases ok)
  case True
  with assms show ?thesis by (auto simp: in_act_results [symmetric])
next
  case False
  with assms(1) obtain t0 code m' e' where t0: "t = t0 @ [AResult m' e']" "cause sv msg code t0" "act_result msg ''failure'' code [] m'"
    by auto
  with assms(2,3) have "(m, e) \<in> set (act_results t0)" by (auto simp: in_act_results act_result_def)
  with t0(2) show ?thesis by (cases rule: cause.cases) (auto simp: t0(1))
qed

lemma done_bad_payload:
  assumes "phase_inv sv msg t (Done ok)"
    and "\<And>m r. AExecute m r \<in> set t \<Longrightarrow> \<exists>e. r = Inl e \<and> errors_is e ErrInvalidActionPayload"
    and "cleared sv msg" and "\<forall>m e. AStatus m (Some e) \<in> set t \<longrightarrow> se_Status m = ''failure''"
  shows "\<exists>m e. act_results t = [(m, e)] \<and> act_result msg ''failure'' ''invalid_action_payload'' [] m"
proof -
  have no_out: "\<forall>out. Inr out \<notin> set (executions t)"
    using assms(2) by (auto simp: in_executions)
  obtain t0 code m e where t0: "t = t0 @ [AResult m e]" "cause sv msg code t0" "act_result msg ''failure'' code [] m"
  proof (cases ok)
    case True
    with assms(1) obtain out where "executions t = [Inr out]" by auto
    with no_out show thesis by simp
  qed (use assms(1) that in auto)
  have "errors_is x ErrInvalidActionPayload" if "Inl x \<in> set (executions t)" for x
    using assms(2) that by (auto simp: in_executions)
  with t0 no_out assms(3,4) show ?thesis
    by (auto simp: cleared_def elim!: cause.cases)
qed

section \<open>With an executor that keeps the contract\<close>

context action_executor
begin

text \<open>A success result carries JSON.\<close>

lemma executed_json:
  assumes "act_executors sv (ac_Action msg) = Some exec" and "AExecute m (Inr out) \<in> set (events (HandleAction sv c msg) s)"
  shows "json_valid (ao_Payload out)"
  using assms by (elim executed_by_registered) (auto dest: answers_json)

text \<open>A payload that is not JSON is refused as such, unless the context died first.\<close>

lemma executed_bad_json:
  assumes "act_executors sv (ac_Action msg) = Some exec" and "\<not> json_valid (ac_Payload msg)"
    and "\<And>w. cx w = None" and "ac_Target msg \<noteq> []" and "ac_RPCID msg \<noteq> []" and "ac_Action msg = name"
    and "AExecute m r \<in> set (events (HandleAction sv (Some cx) msg) s)"
  shows "\<exists>e. r = Inl e \<and> errors_is e ErrInvalidActionPayload"
  using assms(7,1-6) rejects_bad_json [of cx _ msg]
  by (elim executed_by_registered) (metis fst_conv option.inject)

end

end
