(* ===== verification/Executors.thy ===== *)
theory Executors
  imports ActionProtocol
begin

text \<open>
  The placeholder executors and the \<^verbatim>\<open>rtty\<close> payload (internal/actions: placeholder_trace.go,
  placeholder_rtty.go, rtty.go), and what the two real executors share: their events and the frame
  in which a checked command runs.
\<close>

section \<open>Trace placeholder\<close>

definition PlaceholderTrace_Execute :: "'w executor" where
  "PlaceholderTrace_Execute c msg w =
     (case command_guard ActionTrace c msg w of
        Some e \<Rightarrow> (Inl e, w)
      | None \<Rightarrow>
          (Inr \<lparr>ao_Payload = marshal_map
                  [(''executor'', OStr ''placeholder_trace''), (''action'', OStr ActionTrace),
                   (''target'', OStr (ac_Target msg)), (''status'', OStr ''completed''),
                   (''placeholder'', OBool True), (''received_payload'', OBool True)],
                ao_Message = ''placeholder trace action completed''\<rparr>, w))"

section \<open>RTTY payload\<close>

record rtty_payload =
  rp_Method :: string
  rp_Serial :: string
  rp_ID :: string
  rp_Token :: string
  rp_Server :: string
  rp_Port :: int
  rp_User :: string
  rp_Timeout :: int
  rp_Password :: string

definition rtty_fields :: "string list" where
  "rtty_fields = [''method'', ''serial'', ''id'', ''token'', ''server'', ''port'', ''user'', ''timeout'', ''password'']"

definition zero_rtty :: rtty_payload where
  "zero_rtty = \<lparr>rp_Method = [], rp_Serial = [], rp_ID = [], rp_Token = [], rp_Server = [], rp_Port = 0,
     rp_User = [], rp_Timeout = 0, rp_Password = []\<rparr>"

definition put_RTTYPayload :: "string \<Rightarrow> string \<Rightarrow> json \<Rightarrow> rtty_payload \<Rightarrow> rtty_payload option" where
  "put_RTTYPayload f raw v p =
     (if f = ''method'' then map_option (\<lambda>x. p\<lparr>rp_Method := x\<rparr>) (set_string v (rp_Method p))
      else if f = ''serial'' then map_option (\<lambda>x. p\<lparr>rp_Serial := x\<rparr>) (set_string v (rp_Serial p))
      else if f = ''id'' then map_option (\<lambda>x. p\<lparr>rp_ID := x\<rparr>) (set_string v (rp_ID p))
      else if f = ''token'' then map_option (\<lambda>x. p\<lparr>rp_Token := x\<rparr>) (set_string v (rp_Token p))
      else if f = ''server'' then map_option (\<lambda>x. p\<lparr>rp_Server := x\<rparr>) (set_string v (rp_Server p))
      else if f = ''port'' then map_option (\<lambda>x. p\<lparr>rp_Port := x\<rparr>) (set_int v (rp_Port p))
      else if f = ''user'' then map_option (\<lambda>x. p\<lparr>rp_User := x\<rparr>) (set_string v (rp_User p))
      else if f = ''timeout'' then map_option (\<lambda>x. p\<lparr>rp_Timeout := x\<rparr>) (set_int v (rp_Timeout p))
      else map_option (\<lambda>x. p\<lparr>rp_Password := x\<rparr>) (set_string v (rp_Password p)))"

definition Unmarshal_RTTYPayload :: "string \<Rightarrow> go_error + rtty_payload" where
  "Unmarshal_RTTYPayload data =
     (case json_parse data of
        None \<Rightarrow> Inl (ErrorsNew ''invalid JSON'')
      | Some v \<Rightarrow>
          (case decode_struct rtty_fields put_RTTYPayload zero_rtty v of
             None \<Rightarrow> Inl (ErrorsNew ''json: cannot unmarshal'')
           | Some p \<Rightarrow> Inr p))"

text \<open>
  The two regular expressions, \<^verbatim>\<open>^[a-zA-Z0-9_.-]+$\<close> and \<^verbatim>\<open>^[a-zA-Z0-9_.:-]+$\<close>: one or more characters
  of a set, and nothing else.
\<close>

definition is_alnum :: "char \<Rightarrow> bool" where
  "is_alnum c \<longleftrightarrow> within 48 57 c \<or> within 65 90 c \<or> within 97 122 c"

definition safe_token_char :: "char \<Rightarrow> bool" where
  "safe_token_char c \<longleftrightarrow> is_alnum c \<or> c \<in> set ''_.-''"

definition safe_host_char :: "char \<Rightarrow> bool" where
  "safe_host_char c \<longleftrightarrow> is_alnum c \<or> c \<in> set ''_.:-''"

definition matches_all :: "(char \<Rightarrow> bool) \<Rightarrow> string \<Rightarrow> bool" where
  "matches_all P s \<longleftrightarrow> s \<noteq> [] \<and> list_all P s"

definition invalid_payload_error :: "fmt_piece list \<Rightarrow> go_error" where
  "invalid_payload_error ps = Errorf (Wrapped (Sentinel ErrInvalidActionPayload) # ps)"

lemma errors_is_invalid_payload [simp]: "errors_is (invalid_payload_error ps) ErrInvalidActionPayload"
  by (simp add: invalid_payload_error_def)

text \<open>\<^verbatim>\<open>Validate\<close> has a pointer receiver and sets the default timeout: the payload after it.\<close>

definition RTTYPayload_Validate :: "rtty_payload \<Rightarrow> go_error + rtty_payload" where
  "RTTYPayload_Validate p =
     (if blank (rp_ID p) then Inl (invalid_payload_error [Txt '': rtty id is required''])
      else if \<not> matches_all safe_token_char (trim_space (rp_ID p)) then
        Inl (invalid_payload_error [Txt '': rtty id contains invalid characters''])
      else if blank (rp_Token p) then Inl (invalid_payload_error [Txt '': rtty token is required''])
      else if \<not> matches_all safe_token_char (trim_space (rp_Token p)) then
        Inl (invalid_payload_error [Txt '': rtty token contains invalid characters''])
      else if blank (rp_Server p) then Inl (invalid_payload_error [Txt '': rtty server is required''])
      else if \<not> matches_all safe_host_char (trim_space (rp_Server p)) then
        Inl (invalid_payload_error [Txt '': rtty server contains invalid characters''])
      else if rp_Port p \<le> 0 \<or> rp_Port p > 65535 then
        Inl (invalid_payload_error [Txt '': rtty port must be between 1 and 65535, got '', Decimal (rp_Port p)])
      else if rp_Timeout p < 0 then Inl (invalid_payload_error [Txt '': rtty timeout cannot be negative''])
      else Inr (if rp_Timeout p = 0 then p\<lparr>rp_Timeout := 60\<rparr> else p))"

text \<open>Parsing and validating, as both executors do it\<close>

definition rtty_command :: "string \<Rightarrow> go_error + rtty_payload" where
  "rtty_command data =
     (case Unmarshal_RTTYPayload data of
        Inl err \<Rightarrow> Inl (invalid_payload_error [Txt '': parse rtty payload: '', Wrapped err])
      | Inr p \<Rightarrow> RTTYPayload_Validate p)"

section \<open>RTTY placeholder\<close>

definition PlaceholderRTTY_Execute :: "'w executor" where
  "PlaceholderRTTY_Execute c msg w =
     (case command_guard ActionRTTY c msg w of
        Some e \<Rightarrow> (Inl e, w)
      | None \<Rightarrow>
          (case rtty_command (ac_Payload msg) of
             Inl e \<Rightarrow> (Inl e, w)
           | Inr payload \<Rightarrow>
               (Inr \<lparr>ao_Payload = marshal_map
                       [(''error'', ONum 0), (''text'', OStr ''Success''), (''executor'', OStr ''placeholder_rtty''),
                        (''action'', OStr ActionRTTY), (''target'', OStr (ac_Target msg)),
                        (''status'', OStr ''completed''), (''placeholder'', OBool True),
                        (''received_payload'', OBool True), (''id'', OStr (rp_ID payload))],
                     ao_Message = ''placeholder rtty action completed''\<rparr>, w)))"

section \<open>The frame of the real executors\<close>

text \<open>
  What the goroutine of an upload writes into the pipe is a multipart form with one part: nothing but an
  error when the file cannot be opened, otherwise the part with the field, the file name and the bytes,
  and how it ends (the framing of the form, with a random boundary, is left out).
\<close>

datatype form_stream =
    OpenFailed go_error
  | FilePart string string string "go_error option"

text \<open>
  What the executors do to the system outside: processes, temporary files and uploads.  A file is opened
  for its bytes, as far as they can be read; a post answers with a status code and a body.
\<close>

datatype exec_event =
    XFindBinary "go_error + string"
  | XKillExisting "go_error option"
  | XStart string "string list" "go_error option"
  | XCreateTemp "go_error + string"
  | XCommand int string "string list" "go_error option"
  | XOpen string "go_error + string \<times> go_error option"
  | XPost string form_stream "go_error + int \<times> string"
  | XRemove string

type_synonym 'w exec_world = "('w, exec_event) tw"
type_synonym 'w run_body = "('w exec_world, go_error + action_output) state"

definition guarded :: "string \<Rightarrow> 'w exec_world ctx \<Rightarrow> action_command \<Rightarrow> 'w run_body \<Rightarrow> 'w run_body" where
  "guarded name c msg body = do {
     s \<leftarrow> State_Monad.get;
     case command_guard name c msg s of
       Some e \<Rightarrow> State_Monad.return (Inl e)
     | None \<Rightarrow> body
   }"

lemma run_guarded:
  "run_state (guarded name c msg body) s =
     (case command_guard name c msg s of Some e \<Rightarrow> (Inl e, s) | None \<Rightarrow> run_state body s)"
  by (simp add: guarded_def split: option.split)

lemma wp_guarded: "wp (guarded name c msg body) Q s =
    (case command_guard name c msg s of Some e \<Rightarrow> Q (Inl e) s | None \<Rightarrow> wp body Q s)"
  by (simp add: wp_def run_guarded split: option.split)

lemma guarded_follows:
  "follows body P \<Longrightarrow> follows (guarded name c msg body) (\<lambda>t r. (t = [] \<and> (\<exists>err. r = Inl err)) \<or> P t r)"
  by (auto simp: follows_def wp_guarded split: option.split intro: wp_mono)

text \<open>A checked command keeps the contract of an executor when what it answers with is JSON.\<close>

lemma guarded_body_executor:
  assumes "\<And>c msg w. exec c msg w = run_state (guarded name c msg (body c msg)) w"
    and "\<And>c msg. follows (body c msg) (P msg)"
    and "\<And>msg t out. P msg t (Inr out) \<Longrightarrow> json_valid (ao_Payload out)"
  shows "action_executor exec name"
proof (rule guarded_executor)
  fix c :: "'a exec_world ctx" and msg and w :: "'a exec_world"
  show "exec c msg w = (Inl e, w)" if "command_guard name c msg w = Some e" for e
    using that by (simp add: assms(1) run_guarded)
  show "json_valid (ao_Payload out)" if "exec c msg w = (Inr out, w')" for out w'
    using follows_events [OF guarded_follows [OF assms(2)], of name c msg c msg w] that
    by (auto simp: assms(1) outcome_def dest: assms(3))
qed

section \<open>The placeholders keep the contract\<close>

lemma member_ok_ascii: "\<forall>c\<in>set k. byte c < 128 \<Longrightarrow> member_ok (k, v)"
  by (simp add: member_ok_def utf8_valid_ascii)

interpretation placeholder_trace: action_executor PlaceholderTrace_Execute ActionTrace
  by (rule guarded_executor)
    (auto simp: PlaceholderTrace_Execute_def member_ok_ascii split: option.splits intro!: marshal_map_valid)

interpretation placeholder_rtty: action_executor PlaceholderRTTY_Execute ActionRTTY
  by (rule guarded_executor)
    (auto simp: PlaceholderRTTY_Execute_def member_ok_ascii split: option.splits sum.splits intro!: marshal_map_valid)

end
