(* ===== verification/Rtty.thy ===== *)
theory Rtty
  imports Executors
begin

text \<open>
  The RTTY executor (internal/actions/vyos_rtty.go): it validates the payload, finds the binary and
  the client certificate, terminates the session that is running and starts a new one.  The process
  runner is an interface; the real one is modelled in \<open>RttyRunner\<close>.  The operating system (file
  status, environment, the search path) is asked in the current world.
\<close>

section \<open>Environment\<close>

datatype file_info = FileInfo (is_dir: bool) (executable: bool)

record 'w rtty_os =
  os_Stat :: "string \<Rightarrow> 'w \<Rightarrow> file_info option"
  os_Getenv :: "string \<Rightarrow> 'w \<Rightarrow> string"
  os_LookPath :: "string \<Rightarrow> 'w \<Rightarrow> string option"

record 'w rtty_runner =
  rr_FindBinary :: "'w \<Rightarrow> go_error + string"
  rr_KillExisting :: "'w exec_world ctx \<Rightarrow> 'w \<Rightarrow> go_error option \<times> 'w"
  rr_Start :: "string \<Rightarrow> string list \<Rightarrow> 'w \<Rightarrow> go_error option \<times> 'w"

record 'w rtty_executor =
  re_runner :: "'w rtty_runner"
  re_certFile :: string
  re_keyFile :: string

definition NewVyOSRTTYExecutor :: "'w rtty_runner \<Rightarrow> 'w rtty_runner option \<Rightarrow> 'w rtty_executor" where
  "NewVyOSRTTYExecutor real_runner runner =
     \<lparr>re_runner = (case runner of None \<Rightarrow> real_runner | Some r \<Rightarrow> r), re_certFile = [], re_keyFile = []\<rparr>"

definition WithCertAndKey :: "'w rtty_executor \<Rightarrow> string \<Rightarrow> string \<Rightarrow> 'w rtty_executor" where
  "WithCertAndKey e cert key = e\<lparr>re_certFile := cert, re_keyFile := key\<rparr>"

definition fileExists :: "'w rtty_os \<Rightarrow> string \<Rightarrow> 'w \<Rightarrow> bool" where
  "fileExists sys path w = (case os_Stat sys path w of None \<Rightarrow> False | Some fi \<Rightarrow> \<not> is_dir fi)"

text \<open>\<^verbatim>\<open>FindBinary\<close> of the real runner\<close>

definition rtty_binaries :: "string list" where
  "rtty_binaries = [''/usr/sbin/rtty'', ''/usr/bin/rtty'', ''/usr/local/bin/rtty'']"

definition runnable :: "'w rtty_os \<Rightarrow> string \<Rightarrow> 'w \<Rightarrow> bool" where
  "runnable sys path w = (case os_Stat sys path w of None \<Rightarrow> False | Some fi \<Rightarrow> \<not> is_dir fi \<and> executable fi)"

definition Real_FindBinary :: "'w rtty_os \<Rightarrow> 'w \<Rightarrow> go_error + string" where
  "Real_FindBinary sys w =
     (case List.find (\<lambda>p. runnable sys p w) rtty_binaries of
        Some path \<Rightarrow> Inr path
      | None \<Rightarrow>
          (case os_LookPath sys ''rtty'' w of
             Some lp \<Rightarrow> Inr lp
           | None \<Rightarrow> Inl (ErrorsNew
               ''rtty binary not found in /usr/sbin, /usr/bin, /usr/local/bin, or PATH'')))"

definition cert_candidates :: "(string \<times> string) list" where
  "cert_candidates =
     [(''/etc/olg/secrets/cert.pem'', ''/etc/olg/secrets/key.pem''),
      (''/etc/rtty/cert.pem'', ''/etc/rtty/key.pem''),
      (''/etc/olg/client/cert.pem'', ''/etc/olg/client/key.pem'')]"

definition findCertAndKey :: "'w rtty_os \<Rightarrow> 'w rtty_executor \<Rightarrow> 'w \<Rightarrow> string \<times> string" where
  "findCertAndKey sys e w =
     (if re_certFile e \<noteq> [] \<and> re_keyFile e \<noteq> [] then (re_certFile e, re_keyFile e)
      else
        (let c = os_Getenv sys ''RTTY_CERT_FILE'' w; k = os_Getenv sys ''RTTY_KEY_FILE'' w
         in if c \<noteq> [] \<and> k \<noteq> [] \<and> fileExists sys c w \<and> fileExists sys k w then (c, k)
            else (case List.find (\<lambda>(c, k). fileExists sys c w \<and> fileExists sys k w) cert_candidates of
                    Some pair \<Rightarrow> pair
                  | None \<Rightarrow> ([], []))))"

section \<open>Execute\<close>

definition rtty_args :: "rtty_payload \<Rightarrow> string \<Rightarrow> string \<Rightarrow> string list" where
  "rtty_args payload cert key =
     [''-I'', rp_ID payload, ''-h'', rp_Server payload, ''-p'', itoa (rp_Port payload), ''-t'', rp_Token payload,
      ''-s'', ''-a'', ''-v'', ''-d'', ''VyOS''] @
     (if rp_Timeout payload > 0 then [''-e'', itoa (rp_Timeout payload)] else []) @
     [''-c'', cert, ''-k'', key]"

definition rtty_launch :: "'w rtty_runner \<Rightarrow> 'w exec_world ctx \<Rightarrow> string \<Rightarrow> rtty_payload \<Rightarrow> string \<Rightarrow> string
    \<Rightarrow> 'w run_body" where
  "rtty_launch runner c bin payload cert key = do {
     kerr \<leftarrow> call (rr_KillExisting runner c) XKillExisting;
     case kerr of
       Some e \<Rightarrow> State_Monad.return (Inl (wrap ''kill existing rtty: '' e))
     | None \<Rightarrow> do {
         serr \<leftarrow> call (rr_Start runner bin (rtty_args payload cert key)) (XStart bin (rtty_args payload cert key));
         case serr of
           Some e \<Rightarrow> State_Monad.return (Inl (wrap ''launch rtty: '' e))
         | None \<Rightarrow>
             State_Monad.return (Inr \<lparr>ao_Payload = marshal_map
                 [(''error'', ONum 0), (''text'', OStr ''Success''), (''id'', OStr (rp_ID payload))],
               ao_Message = ''rtty session initiated''\<rparr>)
       }
   }"

definition rtty_body :: "'w rtty_os \<Rightarrow> 'w rtty_executor \<Rightarrow> 'w exec_world ctx \<Rightarrow> action_command \<Rightarrow> 'w run_body" where
  "rtty_body sys e c msg =
     (case rtty_command (ac_Payload msg) of
        Inl err \<Rightarrow> State_Monad.return (Inl err)
      | Inr payload \<Rightarrow> do {
          b \<leftarrow> call (\<lambda>w. (rr_FindBinary (re_runner e) w, w)) XFindBinary;
          case b of
            Inl err \<Rightarrow> State_Monad.return (Inl (wrap ''find rtty binary: '' err))
          | Inr bin \<Rightarrow> do {
              (cert, key) \<leftarrow> quiet (\<lambda>w. (findCertAndKey sys e w, w));
              if cert = [] \<or> key = [] then State_Monad.return (Inl (Sentinel ErrMTLSCertNotFound))
              else rtty_launch (re_runner e) c bin payload cert key
            }
        })"

definition VyOSRTTY_Execute :: "'w rtty_os \<Rightarrow> 'w rtty_executor \<Rightarrow> 'w exec_world executor" where
  "VyOSRTTY_Execute sys e c msg w = run_state (guarded ActionRTTY c msg (rtty_body sys e c msg)) w"

section \<open>What a run does to the system\<close>

inductive session_path :: "string \<Rightarrow> exec_event list \<Rightarrow> go_error + action_output \<Rightarrow> bool" for data where
  refused: "rtty_command data = Inl err \<Longrightarrow> session_path data [] (Inl err)"
| no_binary:
  "rtty_command data = Inr p \<Longrightarrow>
   session_path data [XFindBinary (Inl err)] (Inl (wrap ''find rtty binary: '' err))"
| no_certificate:
  "rtty_command data = Inr p \<Longrightarrow>
   session_path data [XFindBinary (Inr bin)] (Inl (Sentinel ErrMTLSCertNotFound))"
| not_killed:
  "rtty_command data = Inr p \<Longrightarrow>
   session_path data [XFindBinary (Inr bin), XKillExisting (Some err)] (Inl (wrap ''kill existing rtty: '' err))"
| not_started:
  "rtty_command data = Inr p \<Longrightarrow> cert \<noteq> [] \<Longrightarrow> key \<noteq> [] \<Longrightarrow>
   session_path data [XFindBinary (Inr bin), XKillExisting None, XStart bin (rtty_args p cert key) (Some err)]
     (Inl (wrap ''launch rtty: '' err))"
| started:
  "rtty_command data = Inr p \<Longrightarrow> cert \<noteq> [] \<Longrightarrow> key \<noteq> [] \<Longrightarrow> json_valid (ao_Payload out) \<Longrightarrow>
   session_path data [XFindBinary (Inr bin), XKillExisting None, XStart bin (rtty_args p cert key) None] (Inr out)"

inductive_cases session_success: "session_path data t (Inr out)"

lemma rtty_body_follows: "follows (rtty_body sys e c msg) (session_path (ac_Payload msg))"
  unfolding rtty_body_def rtty_launch_def follows_def
  by (auto simp: wp_simps intro!: wp_intro session_path.intros marshal_map_valid split: sum.split option.split prod.split)
    (auto simp: member_ok_ascii)

lemma VyOSRTTY_follows:
  "follows (guarded ActionRTTY c msg (rtty_body sys e c msg))
     (\<lambda>t r. (t = [] \<and> (\<exists>err. r = Inl err)) \<or> session_path (ac_Payload msg) t r)"
  by (rule guarded_follows [OF rtty_body_follows])

interpretation vyos_rtty: action_executor "VyOSRTTY_Execute sys e" ActionRTTY for sys e
  by (rule guarded_body_executor [OF _ rtty_body_follows]) (auto simp: VyOSRTTY_Execute_def elim: session_success)

text \<open>A payload that validates has safe names, a port in range and a positive timeout.\<close>

definition safe_payload :: "rtty_payload \<Rightarrow> bool" where
  "safe_payload p \<longleftrightarrow>
     matches_all safe_token_char (trim_space (rp_ID p)) \<and> matches_all safe_token_char (trim_space (rp_Token p)) \<and>
     matches_all safe_host_char (trim_space (rp_Server p)) \<and> rp_Port p \<in> {1..65535} \<and> 0 < rp_Timeout p"

lemma RTTYPayload_Validate_ok: "RTTYPayload_Validate p = Inr q \<Longrightarrow>
    safe_payload q \<and> q = p\<lparr>rp_Timeout := rp_Timeout q\<rparr> \<and> (rp_Timeout p \<noteq> 0 \<longrightarrow> q = p)"
  by (auto simp: RTTYPayload_Validate_def safe_payload_def split: if_splits)

lemma RTTYPayload_Validate_iff:
  "(\<exists>q. RTTYPayload_Validate p = Inr q) \<longleftrightarrow>
     matches_all safe_token_char (trim_space (rp_ID p)) \<and> matches_all safe_token_char (trim_space (rp_Token p)) \<and>
     matches_all safe_host_char (trim_space (rp_Server p)) \<and> rp_Port p \<in> {1..65535} \<and> 0 \<le> rp_Timeout p"
  by (auto simp: RTTYPayload_Validate_def matches_all_def)

lemma RTTYPayload_Validate_error: "RTTYPayload_Validate p = Inl err \<Longrightarrow> errors_is err ErrInvalidActionPayload"
  by (auto simp: RTTYPayload_Validate_def split: if_splits)

lemma rtty_command_ok: "rtty_command data = Inr p \<Longrightarrow> safe_payload p"
  by (auto simp: rtty_command_def dest: RTTYPayload_Validate_ok split: sum.splits)

lemma rtty_command_error: "rtty_command data = Inl err \<Longrightarrow> errors_is err ErrInvalidActionPayload"
  by (auto simp: rtty_command_def dest: RTTYPayload_Validate_error split: sum.splits)

section \<open>The events of one command\<close>

abbreviation rtty_events :: "'w rtty_os \<Rightarrow> 'w rtty_executor \<Rightarrow> 'w exec_world ctx \<Rightarrow> action_command \<Rightarrow> 'w exec_world
    \<Rightarrow> exec_event list" where
  "rtty_events sys e c msg s \<equiv> events (guarded ActionRTTY c msg (rtty_body sys e c msg)) s"

abbreviation rtty_result :: "'w rtty_os \<Rightarrow> 'w rtty_executor \<Rightarrow> 'w exec_world ctx \<Rightarrow> action_command \<Rightarrow> 'w exec_world
    \<Rightarrow> go_error + action_output" where
  "rtty_result sys e c msg s \<equiv> fst (VyOSRTTY_Execute sys e c msg s)"

lemma rtty_run:
  "(rtty_events sys e c msg s = [] \<and> (\<exists>err. rtty_result sys e c msg s = Inl err)) \<or>
   session_path (ac_Payload msg) (rtty_events sys e c msg s) (rtty_result sys e c msg s)"
  using follows_events [OF VyOSRTTY_follows [of c msg sys e], of s]
  by (simp add: VyOSRTTY_Execute_def outcome_def)

text \<open>A payload as a controller sends it\<close>

lemma decode_rtty:
  assumes "utf8_valid i" "utf8_valid t" "utf8_valid h" "in_int64 port"
  shows "Unmarshal_RTTYPayload (marshal_obj [(''id'', OStr i), (''token'', OStr t), (''server'', OStr h), (''port'', ONum port)]) =
    Inr (zero_rtty\<lparr>rp_ID := i, rp_Token := t, rp_Server := h, rp_Port := port\<rparr>)"
proof -
  have "json_parse (marshal_obj [(''id'', OStr i), (''token'', OStr t), (''server'', OStr h), (''port'', ONum port)]) =
      Some (JObj (map json_member [(''id'', OStr i), (''token'', OStr t), (''server'', OStr h), (''port'', ONum port)]))"
    by (rule json_parse_marshal) (auto simp: member_ok_ascii)
  with assms show ?thesis
    by (simp add: Unmarshal_RTTYPayload_def decode_struct_def json_member_def field_for_def rtty_fields_def
        put_RTTYPayload_def set_string_def set_int_def json_int_itoa)
qed

end
