(* ===== verification/NetUrl.thy ===== *)
theory NetUrl
  imports Utf8
begin

text \<open>
  \<^verbatim>\<open>url.Parse\<close> and \<^verbatim>\<open>URL.String\<close> of Go's net/url (Go 1.25.0, the version in go.mod), which the trace
  executor applies to the upload address and the configuration to server addresses before it shows
  them.  A string that does not parse is None; what the error says is not modelled.
\<close>

section \<open>Characters and escapes\<close>

datatype url_mode = EncPath | EncUserPassword | EncHost | EncZone | EncFragment

definition url_alnum :: "char \<Rightarrow> bool" where
  "url_alnum c \<longleftrightarrow> within 48 57 c \<or> within 65 90 c \<or> within 97 122 c"

definition shouldEscape :: "char \<Rightarrow> url_mode \<Rightarrow> bool" where
  "shouldEscape c mode =
     (if url_alnum c then False
      else if (mode = EncHost \<or> mode = EncZone) \<and> (c \<in> set ''!$&()*+,;=:[]<>'' \<or> c = CHR 0x27 \<or> c = CHR 0x22) then False
      else if c \<in> set ''-_.~'' then False
      else if c \<in> set ''$&+,/:;=?@'' \<and> mode = EncPath then c = CHR ''?''
      else if c \<in> set ''$&+,/:;=?@'' \<and> mode = EncUserPassword then c \<in> set ''@/?:''
      else if c \<in> set ''$&+,/:;=?@'' \<and> mode = EncFragment then False
      else if mode = EncFragment \<and> c \<in> set ''!()*'' then False
      else True)"

text \<open>The byte an escape stands for, when it is well-formed and allowed in this part of the URL\<close>

definition escape_byte :: "url_mode \<Rightarrow> char \<Rightarrow> char \<Rightarrow> char option" where
  "escape_byte mode h l =
     (case (hexval h, hexval l) of
        (Some a, Some b) \<Rightarrow>
          (let v = chr (16 * a + b)
           in if mode = EncHost \<and> a < 8 \<and> v \<noteq> CHR ''%'' then None
              else if mode = EncZone \<and> v \<noteq> CHR ''%'' \<and> v \<noteq> CHR '' '' \<and> shouldEscape v EncHost then None
              else Some v)
      | _ \<Rightarrow> None)"

fun url_unescape :: "url_mode \<Rightarrow> string \<Rightarrow> string option" where
  "url_unescape mode [] = Some []"
| "url_unescape mode (c # s) =
     (if c = CHR ''%'' then
        (case s of
           h # l # rest \<Rightarrow>
             (case escape_byte mode h l of
                None \<Rightarrow> None
              | Some v \<Rightarrow> map_option (\<lambda>t. v # t) (url_unescape mode rest))
         | _ \<Rightarrow> None)
      else if (mode = EncHost \<or> mode = EncZone) \<and> byte c < 128 \<and> shouldEscape c mode then None
      else map_option (\<lambda>t. c # t) (url_unescape mode s))"

definition upper_hexd :: "nat \<Rightarrow> char" where
  "upper_hexd n = (if n < 10 then chr (48 + n) else chr (55 + n))"

definition url_escape :: "url_mode \<Rightarrow> string \<Rightarrow> string" where
  "url_escape mode s =
     concat (map (\<lambda>c. if shouldEscape c mode then [CHR ''%'', upper_hexd (byte c div 16), upper_hexd (byte c mod 16)]
                      else [c]) s)"

definition validEncoded :: "url_mode \<Rightarrow> string \<Rightarrow> bool" where
  "validEncoded mode s =
     list_all (\<lambda>c. c \<in> set ''!$&()*+,;=:@[]%'' \<or> c = CHR 0x27 \<or> \<not> shouldEscape c mode) s"

text \<open>\<^verbatim>\<open>strings.Cut\<close>, \<^verbatim>\<open>strings.LastIndex\<close> at one byte\<close>

fun cut :: "char \<Rightarrow> string \<Rightarrow> string \<times> string option" where
  "cut sep [] = ([], None)"
| "cut sep (c # s) =
     (if c = sep then ([], Some s) else (case cut sep s of (a, b) \<Rightarrow> (c # a, b)))"

definition cut_last :: "char \<Rightarrow> string \<Rightarrow> (string \<times> string) option" where
  "cut_last sep s =
     (case cut sep (rev s) of (a, None) \<Rightarrow> None | (a, Some b) \<Rightarrow> Some (rev b, rev a))"

section \<open>Parsing\<close>

record url =
  u_Scheme :: string
  u_Opaque :: string
  u_User :: "(string \<times> string option) option"
  u_Host :: string
  u_Path :: string
  u_RawPath :: string
  u_OmitHost :: bool
  u_ForceQuery :: bool
  u_RawQuery :: string
  u_Fragment :: string
  u_RawFragment :: string

definition zero_url :: url where
  "zero_url = \<lparr>u_Scheme = [], u_Opaque = [], u_User = None, u_Host = [], u_Path = [], u_RawPath = [],
     u_OmitHost = False, u_ForceQuery = False, u_RawQuery = [], u_Fragment = [], u_RawFragment = []\<rparr>"

text \<open>The scheme in front of the colon and the rest; no scheme is the empty one, a leading colon an error.\<close>

fun scheme_span :: "string \<Rightarrow> (string \<times> string) option" where
  "scheme_span [] = None"
| "scheme_span (c # s) =
     (if c = CHR '':'' then Some ([], s)
      else if url_alnum c \<or> c \<in> set ''+-.'' then map_option (\<lambda>(a, b). (c # a, b)) (scheme_span s)
      else None)"

definition getScheme :: "string \<Rightarrow> (string \<times> string) option" where
  "getScheme raw =
     (case raw of
        [] \<Rightarrow> Some ([], raw)
      | c # _ \<Rightarrow>
          if c = CHR '':'' then None
          else if \<not> (within 65 90 c \<or> within 97 122 c) then Some ([], raw)
          else (case scheme_span raw of None \<Rightarrow> Some ([], raw) | Some p \<Rightarrow> Some p))"

definition validOptionalPort :: "string \<Rightarrow> bool" where
  "validOptionalPort p = (case p of [] \<Rightarrow> True | c # ds \<Rightarrow> c = CHR '':'' \<and> list_all is_digit ds)"

text \<open>\<^verbatim>\<open>strings.Index(host[:i], "%25")\<close>: what is before and from the first zone mark\<close>

fun split_zone :: "string \<Rightarrow> (string \<times> string) option" where
  "split_zone [] = None"
| "split_zone (c # s) =
     (if take 3 (c # s) = ''%25'' then Some ([], c # s)
      else map_option (\<lambda>(a, b). (c # a, b)) (split_zone s))"

definition parseHost :: "string \<Rightarrow> string option" where
  "parseHost host =
     (if take 1 host = ''['' then
        (case cut_last (CHR '']'') host of
           None \<Rightarrow> None
         | Some (inner, port) \<Rightarrow>
             if \<not> validOptionalPort port then None
             else (case split_zone inner of
                     Some (h1, h2) \<Rightarrow>
                       (case (url_unescape EncHost h1, url_unescape EncZone h2, url_unescape EncHost (CHR '']'' # port)) of
                          (Some a, Some b, Some d) \<Rightarrow> Some (a @ b @ d)
                        | _ \<Rightarrow> None)
                   | None \<Rightarrow> url_unescape EncHost host))
      else (case cut_last (CHR '':'') host of
              Some (_, port) \<Rightarrow> if validOptionalPort (CHR '':'' # port) then url_unescape EncHost host else None
            | None \<Rightarrow> url_unescape EncHost host))"

definition validUserinfo :: "string \<Rightarrow> bool" where
  "validUserinfo s = list_all (\<lambda>c. url_alnum c \<or> c \<in> set ''-._:~!$&()*+,;=%@'' \<or> c = CHR 0x27) s"

definition parseUserinfo :: "string \<Rightarrow> (string \<times> string option) option" where
  "parseUserinfo info =
     (if \<not> validUserinfo info then None
      else (case cut (CHR '':'') info of
              (name, None) \<Rightarrow> map_option (\<lambda>n. (n, None)) (url_unescape EncUserPassword name)
            | (name, Some pw) \<Rightarrow>
                (case (url_unescape EncUserPassword name, url_unescape EncUserPassword pw) of
                   (Some n, Some p) \<Rightarrow> Some (n, Some p)
                 | _ \<Rightarrow> None)))"

definition parseAuthority :: "string \<Rightarrow> ((string \<times> string option) option \<times> string) option" where
  "parseAuthority authority =
     (case cut_last (CHR ''@'') authority of
        None \<Rightarrow> map_option (\<lambda>h. (None, h)) (parseHost authority)
      | Some (info, host) \<Rightarrow>
          (case parseHost host of
             None \<Rightarrow> None
           | Some h \<Rightarrow> map_option (\<lambda>u. (Some u, h)) (parseUserinfo info)))"

definition setPath :: "string \<Rightarrow> url \<Rightarrow> url option" where
  "setPath p u =
     map_option (\<lambda>path. u\<lparr>u_Path := path, u_RawPath := (if p = url_escape EncPath path then [] else p)\<rparr>)
       (url_unescape EncPath p)"

definition setFragment :: "string \<Rightarrow> url \<Rightarrow> url option" where
  "setFragment f u =
     map_option (\<lambda>frag. u\<lparr>u_Fragment := frag, u_RawFragment := (if f = url_escape EncFragment frag then [] else f)\<rparr>)
       (url_unescape EncFragment f)"

text \<open>What comes after the scheme, with the query taken off\<close>

definition parse_hier :: "string \<Rightarrow> url \<Rightarrow> url option" where
  "parse_hier rest u =
     (if take 1 rest \<noteq> ''/'' \<and> u_Scheme u \<noteq> [] then Some (u\<lparr>u_Opaque := rest\<rparr>)
      else if take 1 rest \<noteq> ''/'' \<and> CHR '':'' \<in> set (fst (cut (CHR ''/'') rest)) then None
      else if (u_Scheme u \<noteq> [] \<or> take 3 rest \<noteq> ''///'') \<and> take 2 rest = ''//'' then
        (let (authority, path) = (takeWhile (\<lambda>c. c \<noteq> CHR ''/'') (drop 2 rest), dropWhile (\<lambda>c. c \<noteq> CHR ''/'') (drop 2 rest))
         in case parseAuthority authority of
              None \<Rightarrow> None
            | Some (user, host) \<Rightarrow> setPath path (u\<lparr>u_User := user, u_Host := host\<rparr>))
      else setPath rest (u\<lparr>u_OmitHost := u_Scheme u \<noteq> [] \<and> take 1 rest = ''/''\<rparr>))"

definition url_parse :: "string \<Rightarrow> url option" where
  "url_parse raw =
     (if list_ex (\<lambda>c. byte c < 32 \<or> byte c = 127) raw then None
      else if raw = ''*'' then Some (zero_url\<lparr>u_Path := ''*''\<rparr>)
      else (case getScheme raw of
              None \<Rightarrow> None
            | Some (scheme, rest) \<Rightarrow>
                (let u = zero_url\<lparr>u_Scheme := to_lower scheme\<rparr>
                 in case cut (CHR ''?'') rest of
                      (r, None) \<Rightarrow> parse_hier r u
                    | (r, Some []) \<Rightarrow> parse_hier r (u\<lparr>u_ForceQuery := True\<rparr>)
                    | (r, Some (q # qs)) \<Rightarrow> parse_hier r (u\<lparr>u_RawQuery := q # qs\<rparr>))))"

definition url_Parse :: "string \<Rightarrow> url option" where
  "url_Parse raw =
     (case cut (CHR ''#'') raw of
        (u, frag) \<Rightarrow>
          (case url_parse u of
             None \<Rightarrow> None
           | Some p \<Rightarrow> (case frag of None \<Rightarrow> Some p | Some [] \<Rightarrow> Some p | Some (f # fs) \<Rightarrow> setFragment (f # fs) p)))"

section \<open>Printing\<close>

text \<open>The escaped form a part was parsed from if it is still good, and otherwise the standard one\<close>

definition escaped_as :: "url_mode \<Rightarrow> string \<Rightarrow> string \<Rightarrow> string" where
  "escaped_as mode raw val =
     (if raw \<noteq> [] \<and> validEncoded mode raw \<and> url_unescape mode raw = Some val then raw else url_escape mode val)"

definition EscapedPath :: "url \<Rightarrow> string" where
  "EscapedPath u =
     (if u_RawPath u \<noteq> [] \<and> validEncoded EncPath (u_RawPath u) \<and> url_unescape EncPath (u_RawPath u) = Some (u_Path u)
      then u_RawPath u else if u_Path u = ''*'' then ''*'' else url_escape EncPath (u_Path u))"

definition Userinfo_String :: "string \<times> string option \<Rightarrow> string" where
  "Userinfo_String ui =
     (case ui of
        (name, None) \<Rightarrow> url_escape EncUserPassword name
      | (name, Some pw) \<Rightarrow> url_escape EncUserPassword name @ '':'' @ url_escape EncUserPassword pw)"

text \<open>The part between the scheme and the path\<close>

definition authority_text :: "url \<Rightarrow> string" where
  "authority_text u =
     (if u_Scheme u = [] \<and> u_Host u = [] \<and> u_User u = None then []
      else if u_OmitHost u \<and> u_Host u = [] \<and> u_User u = None then []
      else (if u_Host u \<noteq> [] \<or> u_Path u \<noteq> [] \<or> u_User u \<noteq> None then ''//'' else []) @
           (case u_User u of None \<Rightarrow> [] | Some ui \<Rightarrow> Userinfo_String ui @ ''@'') @
           url_escape EncHost (u_Host u))"

definition URL_String :: "url \<Rightarrow> string" where
  "URL_String u =
     (let scheme = (if u_Scheme u = [] then [] else u_Scheme u @ '':'');
          path = EscapedPath u;
          auth = authority_text u;
          slash = (if path \<noteq> [] \<and> hd path \<noteq> CHR ''/'' \<and> u_Host u \<noteq> [] then ''/'' else []);
          dot = (if scheme @ auth @ slash = [] \<and> CHR '':'' \<in> set (fst (cut (CHR ''/'') path)) then ''./'' else [])
      in scheme @ (if u_Opaque u \<noteq> [] then u_Opaque u else auth @ slash @ dot @ path) @
         (if u_ForceQuery u \<or> u_RawQuery u \<noteq> [] then CHR ''?'' # u_RawQuery u else []) @
         (if u_Fragment u = [] then [] else CHR ''#'' # escaped_as EncFragment (u_RawFragment u) (u_Fragment u)))"

end
