(* ===== verification/VyosTrace.thy ===== *)
theory VyosTrace
  imports Executors NetUrl FileStore
begin

text \<open>
  The packet capture executor (internal/actions/vyos_trace.go): it checks the bounds of the payload,
  finds the interface to listen on, runs tcpdump for a bounded time into a temporary file, uploads the
  file and removes it.
\<close>

section \<open>Environment\<close>

record interface_info =
  if_Name :: string
  if_Alias :: string
  if_IsSlave :: bool

record 'w network_inspector =
  NetInterfaces :: "'w \<Rightarrow> go_error + interface_info list"
  InterfaceExists :: "string \<Rightarrow> 'w \<Rightarrow> bool"

text \<open>What the system inspector reads of \<^verbatim>\<open>/sys/class/net\<close>\<close>

record 'w sys_files =
  sf_ReadDir :: "string \<Rightarrow> 'w \<Rightarrow> go_error + string list"
  sf_ReadFile :: "string \<Rightarrow> 'w \<Rightarrow> string option"
  sf_Exists :: "string \<Rightarrow> 'w \<Rightarrow> bool"

text \<open>\<^verbatim>\<open>filepath.Join\<close> of non-empty elements\<close>

definition filepath_Join :: "string list \<Rightarrow> string" where
  "filepath_Join elems = filepath_Clean (join_slash elems)"

definition system_InterfaceExists :: "'w sys_files \<Rightarrow> string \<Rightarrow> 'w \<Rightarrow> bool" where
  "system_InterfaceExists fs name w = sf_Exists fs (filepath_Join [''/sys/class/net'', name]) w"

definition interface_entry :: "'w sys_files \<Rightarrow> 'w \<Rightarrow> string \<Rightarrow> interface_info" where
  "interface_entry fs w name =
     \<lparr>if_Name = name,
      if_Alias = (case sf_ReadFile fs (filepath_Join [''/sys/class/net'', name, ''ifalias'']) w of
                    None \<Rightarrow> [] | Some text \<Rightarrow> trim_space text),
      if_IsSlave = sf_Exists fs (filepath_Join [''/sys/class/net'', name, ''master'']) w\<rparr>"

definition system_NetInterfaces :: "'w sys_files \<Rightarrow> 'w \<Rightarrow> go_error + interface_info list" where
  "system_NetInterfaces fs w =
     (case sf_ReadDir fs ''/sys/class/net'' w of
        Inl err \<Rightarrow> Inl (wrap ''read /sys/class/net: '' err)
      | Inr names \<Rightarrow> Inr (map (interface_entry fs w) (filter (\<lambda>n. n \<noteq> ''lo'') names)))"

definition system_inspector :: "'w sys_files \<Rightarrow> 'w network_inspector" where
  "system_inspector fs =
     \<lparr>NetInterfaces = system_NetInterfaces fs, InterfaceExists = system_InterfaceExists fs\<rparr>"

text \<open>
  The calls that act: a temporary file, the capture, the upload, the removal.  \<open>tr_Run\<close> runs a command
  under a context that ends with the caller's or after a number of nanoseconds, and returns the error
  of \<^verbatim>\<open>Run\<close> and what \<^verbatim>\<open>Err()\<close> of that context is afterwards.  \<open>tr_Open\<close> opens a file: its bytes as far
  as they can be read, and the error if they end in one.  \<open>tr_Post\<close> posts what comes out of a pipe: the
  error of \<^verbatim>\<open>Do\<close>, or the status code and the body of the response.
\<close>

record 'w trace_system =
  tr_CreateTemp :: "'w \<Rightarrow> (go_error + string) \<times> 'w"
  tr_Run :: "'w exec_world ctx \<Rightarrow> int \<Rightarrow> string \<Rightarrow> string list \<Rightarrow> 'w \<Rightarrow> (go_error option \<times> go_error option) \<times> 'w"
  tr_Open :: "string \<Rightarrow> 'w \<Rightarrow> go_error + string \<times> go_error option"
  tr_Post :: "'w exec_world ctx \<Rightarrow> int \<Rightarrow> string \<Rightarrow> form_stream \<Rightarrow> 'w \<Rightarrow> (go_error + int \<times> string) \<times> 'w"
  tr_Remove :: "string \<Rightarrow> 'w \<Rightarrow> 'w"

text \<open>A nil inspector of the executor stands for the system's, which the constructor also sets.\<close>

record 'w trace_executor =
  te_system :: "'w trace_system"
  te_uploadTimeout :: int
  te_inspector :: "'w network_inspector"
  te_routeResolver :: "(string \<Rightarrow> 'w \<Rightarrow> string) option"

definition NewVyOSTraceExecutor :: "'w trace_system \<Rightarrow> 'w sys_files \<Rightarrow> 'w trace_executor" where
  "NewVyOSTraceExecutor sys fs =
     \<lparr>te_system = sys, te_uploadTimeout = 30 * 1000000000, te_inspector = system_inspector fs,
      te_routeResolver = None\<rparr>"

section \<open>Payload\<close>

record trace_payload =
  tp_Interface :: string
  tp_Network :: string
  tp_Duration :: int
  tp_Packets :: int
  tp_URI :: string

definition trace_fields :: "string list" where
  "trace_fields = [''interface'', ''network'', ''duration'', ''packets'', ''uri'']"

definition zero_trace :: trace_payload where
  "zero_trace = \<lparr>tp_Interface = [], tp_Network = [], tp_Duration = 0, tp_Packets = 0, tp_URI = []\<rparr>"

definition put_tracePayload :: "string \<Rightarrow> string \<Rightarrow> json \<Rightarrow> trace_payload \<Rightarrow> trace_payload option" where
  "put_tracePayload f raw v p =
     (if f = ''interface'' then map_option (\<lambda>x. p\<lparr>tp_Interface := x\<rparr>) (set_string v (tp_Interface p))
      else if f = ''network'' then map_option (\<lambda>x. p\<lparr>tp_Network := x\<rparr>) (set_string v (tp_Network p))
      else if f = ''duration'' then map_option (\<lambda>x. p\<lparr>tp_Duration := x\<rparr>) (set_int v (tp_Duration p))
      else if f = ''packets'' then map_option (\<lambda>x. p\<lparr>tp_Packets := x\<rparr>) (set_int v (tp_Packets p))
      else map_option (\<lambda>x. p\<lparr>tp_URI := x\<rparr>) (set_string v (tp_URI p)))"

definition Unmarshal_tracePayload :: "string \<Rightarrow> go_error + trace_payload" where
  "Unmarshal_tracePayload data =
     (case json_parse data of
        None \<Rightarrow> Inl (ErrorsNew ''invalid JSON'')
      | Some v \<Rightarrow>
          (case decode_struct trace_fields put_tracePayload zero_trace v of
             None \<Rightarrow> Inl (ErrorsNew ''json: cannot unmarshal'')
           | Some p \<Rightarrow> Inr p))"

section \<open>The interface\<close>

definition resolveInterfaceByAlias :: "'w network_inspector \<Rightarrow> string \<Rightarrow> 'w \<Rightarrow> string" where
  "resolveInterfaceByAlias insp targetAlias w =
     (case NetInterfaces insp w of
        Inl _ \<Rightarrow> []
      | Inr itfs \<Rightarrow>
          (case filter (\<lambda>i. if_Name i \<noteq> ''lo'' \<and> \<not> if_IsSlave i \<and> equal_fold (if_Alias i) targetAlias) itfs of
             [i] \<Rightarrow> if_Name i
           | _ \<Rightarrow> []))"

definition undetermined :: "string \<Rightarrow> go_error" where
  "undetermined network =
     Errorf [Txt ''interface is required and could not be determined for network: '', Txt network]"

definition resolveNetwork :: "'w trace_executor \<Rightarrow> string \<Rightarrow> 'w \<Rightarrow> go_error + string" where
  "resolveNetwork e network w =
     (case te_routeResolver e of
        Some resolver \<Rightarrow>
          (if resolver network w \<noteq> [] then Inr (resolver network w)
           else if network \<noteq> [] then Inl (undetermined network)
           else Inl (ErrorsNew ''interface is required and could not be determined''))
      | None \<Rightarrow>
          (let netLower = to_lower (trim_space network)
           in if netLower = ''down'' \<or> netLower = ''lan'' then
                (let lan = resolveInterfaceByAlias (te_inspector e) ''lan'' w
                 in if lan = [] then Inl (undetermined network) else Inr lan)
              else
                (let wan = resolveInterfaceByAlias (te_inspector e) ''wan'' w
                 in if wan \<noteq> [] then Inr wan
                    else if network \<noteq> [] then Inl (undetermined network)
                    else Inl (ErrorsNew ''interface is required and could not be determined''))))"

definition maxDuration :: int where "maxDuration = 300"
definition maxPackets :: int where "maxPackets = 10000"
definition maxInterfaceNameLen :: nat where "maxInterfaceNameLen = 15"

text \<open>\<^verbatim>\<open>^[a-zA-Z0-9_.:@-]+$\<close>\<close>

definition safe_interface_char :: "char \<Rightarrow> bool" where
  "safe_interface_char c \<longleftrightarrow> is_alnum c \<or> c \<in> set ''_.:@-''"

text \<open>The name of the interface, given or found, before it is checked\<close>

definition choose_interface :: "'w trace_executor \<Rightarrow> trace_payload \<Rightarrow> 'w \<Rightarrow> go_error + string" where
  "choose_interface e p w =
     (if trim_space (tp_Interface p) \<noteq> [] then Inr (trim_space (tp_Interface p))
      else if to_lower (trim_space (tp_Network p)) \<notin> {[], ''up'', ''wan'', ''down'', ''lan''} then
        Inl (invalid_payload_error [Txt '': unsupported network '', Quoted (tp_Network p),
               Txt '' (allowed: up, wan, down, lan)''])
      else (case resolveNetwork e (tp_Network p) w of
              Inl err \<Rightarrow> Inl (invalid_payload_error [Txt '': '', Shown err])
            | Inr name \<Rightarrow> Inr name))"

definition check_interface :: "'w trace_executor \<Rightarrow> string \<Rightarrow> 'w \<Rightarrow> go_error option" where
  "check_interface e name w =
     (if name = [] then Some (invalid_payload_error [Txt '': interface is required and could not be determined''])
      else if length name > maxInterfaceNameLen then
        Some (invalid_payload_error [Txt '': interface name '', Quoted name, Txt '' exceeds maximum length ('',
                Decimal (int maxInterfaceNameLen), Txt '')''])
      else if contains name ''..'' \<or> contains name ''/'' \<or> contains name [CHR 0x5C] then
        Some (invalid_payload_error [Txt '': invalid interface name '', Quoted name])
      else if \<not> matches_all safe_interface_char name then
        Some (invalid_payload_error [Txt '': invalid interface name '', Quoted name])
      else if \<not> InterfaceExists (te_inspector e) name w then
        Some (invalid_payload_error [Txt '': interface '', Quoted name, Txt '' does not exist''])
      else None)"

section \<open>Execute\<close>

definition check_uri :: "string \<Rightarrow> go_error option" where
  "check_uri uri =
     (if uri = [] then Some (invalid_payload_error [Txt '': uri is required''])
      else (case url_Parse uri of
              None \<Rightarrow> Some (invalid_payload_error [Txt '': invalid upload uri '', Quoted uri])
            | Some u \<Rightarrow>
                if u_Scheme u \<noteq> ''http'' \<and> u_Scheme u \<noteq> ''https''
                then Some (invalid_payload_error [Txt '': invalid upload uri '', Quoted uri])
                else None))"

text \<open>
  Everything that is checked before anything is done: the payload with its interface filled in, or
  the error.
\<close>

definition trace_request :: "'w trace_executor \<Rightarrow> string \<Rightarrow> 'w \<Rightarrow> go_error + trace_payload" where
  "trace_request e data w =
     (case Unmarshal_tracePayload data of
        Inl err \<Rightarrow> Inl (invalid_payload_error [Txt '': failed to unmarshal payload: '', Shown err])
      | Inr p \<Rightarrow>
          if tp_Duration p < 0 \<or> tp_Duration p > maxDuration then
            Inl (invalid_payload_error [Txt '': duration '', Decimal (tp_Duration p),
                   Txt '' must be between 0 and '', Decimal maxDuration, Txt '' seconds''])
          else if tp_Packets p < 0 \<or> tp_Packets p > maxPackets then
            Inl (invalid_payload_error [Txt '': packets '', Decimal (tp_Packets p),
                   Txt '' must be between 0 and '', Decimal maxPackets])
          else (case choose_interface e p w of
                  Inl err \<Rightarrow> Inl err
                | Inr name \<Rightarrow>
                    (case check_interface e name w of
                       Some err \<Rightarrow> Inl err
                     | None \<Rightarrow>
                         (case check_uri (tp_URI p) of
                            Some err \<Rightarrow> Inl err
                          | None \<Rightarrow> Inr (p\<lparr>tp_Interface := name\<rparr>)))))"

definition tcpdump_args :: "trace_payload \<Rightarrow> string \<Rightarrow> string list" where
  "tcpdump_args p pcapPath =
     [''-U'', ''-i'', tp_Interface p, ''-w'', pcapPath] @
     (if tp_Packets p > 0 then [''-c'', itoa (tp_Packets p)] else [])"

definition capture_seconds :: "trace_payload \<Rightarrow> int" where
  "capture_seconds p = (if tp_Duration p \<le> 0 then 60 else tp_Duration p)"

text \<open>
  What the goroutine of \<^verbatim>\<open>uploadFile\<close> writes into the pipe, given what opening the file came to, and what
  the answer to the request means
\<close>

definition upload_stream :: "string \<Rightarrow> go_error + string \<times> go_error option \<Rightarrow> form_stream" where
  "upload_stream filePath opened =
     (case opened of
        Inl err \<Rightarrow> OpenFailed err
      | Inr (content, err) \<Rightarrow> FilePart ''file'' (after_last_slash filePath) content err)"

definition upload_answer :: "go_error + int \<times> string \<Rightarrow> go_error option" where
  "upload_answer r =
     (case r of
        Inl err \<Rightarrow> Some (wrap ''send upload request: '' err)
      | Inr (status, body) \<Rightarrow>
          if status < 200 \<or> status \<ge> 300 then
            Some (Errorf [Txt ''upload failed status='', Decimal status, Txt '' response='', Quoted body])
          else None)"

text \<open>
  The goroutine opens the file and the request sends what it writes; the two calls are events.  A request
  that cannot be made is answered at once (its URI has passed the checks of \<^verbatim>\<open>Execute\<close>, so it can).
\<close>

definition uploadFile :: "'w trace_executor \<Rightarrow> 'w exec_world ctx \<Rightarrow> string \<Rightarrow> string
    \<Rightarrow> ('w exec_world, go_error option) state" where
  "uploadFile e c uri filePath =
     (if url_Parse uri = None then
        State_Monad.return (Some (wrap ''create upload request: '' (ErrorsNew ''parse'')))
      else do {
        opened \<leftarrow> call (\<lambda>w. (tr_Open (te_system e) filePath w, w)) (XOpen filePath);
        let stream = upload_stream filePath opened;
        r \<leftarrow> call (tr_Post (te_system e) c (te_uploadTimeout e) uri stream) (XPost uri stream);
        State_Monad.return (upload_answer r)
      })"

text \<open>\<^verbatim>\<open>ctx.Err()\<close> in the current world\<close>

definition ctx_error :: "'w exec_world ctx \<Rightarrow> 'w exec_world \<Rightarrow> go_error option" where
  "ctx_error c s = (case c of None \<Rightarrow> None | Some cx \<Rightarrow> cx s)"

text \<open>
  Why the capture counts as failed, if it does: an error of the command is none when the time for the
  capture was up.
\<close>

definition capture_failure :: "go_error option \<Rightarrow> go_error option \<Rightarrow> go_error option \<Rightarrow> go_error option" where
  "capture_failure runErr captureErr callerErr =
     (case runErr of
        None \<Rightarrow> None
      | Some err \<Rightarrow>
          (if (case captureErr of None \<Rightarrow> False | Some x \<Rightarrow> errors_is x ContextDeadlineExceeded) then None
           else (case callerErr of
                   Some cerr \<Rightarrow>
                     if errors_is cerr ContextCanceled then Some (wrap ''capture aborted: '' cerr)
                     else Some (wrap ''packet capture failed: '' err)
                 | None \<Rightarrow> Some (wrap ''packet capture failed: '' err))))"

definition capture_and_upload :: "'w trace_executor \<Rightarrow> 'w exec_world ctx \<Rightarrow> action_command \<Rightarrow> trace_payload
    \<Rightarrow> string \<Rightarrow> 'w run_body" where
  "capture_and_upload e c msg p pcapPath = do {
     (runErr, captureErr) \<leftarrow> call (tr_Run (te_system e) c (capture_seconds p * 1000000000) ''/usr/bin/tcpdump''
                                      (tcpdump_args p pcapPath))
                              (\<lambda>r. XCommand (capture_seconds p * 1000000000) ''/usr/bin/tcpdump'' (tcpdump_args p pcapPath) (fst r));
     s \<leftarrow> State_Monad.get;
     case capture_failure runErr captureErr (ctx_error c s) of
       Some err \<Rightarrow> State_Monad.return (Inl err)
     | None \<Rightarrow> do {
         uerr \<leftarrow> uploadFile e c (tp_URI p) pcapPath;
         case uerr of
           Some err \<Rightarrow> State_Monad.return (Inl (wrap ''upload captured file: '' err))
         | None \<Rightarrow>
             State_Monad.return (Inr \<lparr>ao_Payload = marshal_map
                 [(''executor'', OStr ''vyos_trace''), (''action'', OStr ActionTrace),
                  (''target'', OStr (ac_Target msg)), (''status'', OStr ''completed''),
                  (''interface'', OStr (tp_Interface p)), (''duration_seconds'', ONum (capture_seconds p)),
                  (''pcap_file'', OStr (after_last_slash pcapPath))],
               ao_Message = ''trace action completed''\<rparr>)
       }
   }"

text \<open>The deferred removal runs last, whatever happened.\<close>

definition trace_body :: "'w trace_executor \<Rightarrow> 'w exec_world ctx \<Rightarrow> action_command \<Rightarrow> 'w run_body" where
  "trace_body e c msg = do {
     s \<leftarrow> State_Monad.get;
     case trace_request e (ac_Payload msg) (world s) of
       Inl err \<Rightarrow> State_Monad.return (Inl err)
     | Inr p \<Rightarrow> do {
         tmp \<leftarrow> call (tr_CreateTemp (te_system e)) XCreateTemp;
         case tmp of
           Inl err \<Rightarrow> State_Monad.return (Inl (wrap ''create temporary pcap file: '' err))
         | Inr pcapPath \<Rightarrow> do {
             r \<leftarrow> capture_and_upload e c msg p pcapPath;
             _ \<leftarrow> call (\<lambda>w. ((), tr_Remove (te_system e) pcapPath w)) (\<lambda>_. XRemove pcapPath);
             State_Monad.return r
           }
       }
   }"

definition VyOSTrace_Execute :: "'w trace_executor \<Rightarrow> 'w exec_world executor" where
  "VyOSTrace_Execute e c msg w = run_state (guarded ActionTrace c msg (trace_body e c msg)) w"

section \<open>What a run does to the system\<close>

text \<open>What holds of a request that passed the checks\<close>

definition safe_request :: "trace_payload \<Rightarrow> bool" where
  "safe_request p \<longleftrightarrow>
     tp_Duration p \<in> {0..300} \<and> tp_Packets p \<in> {0..10000} \<and>
     matches_all safe_interface_char (tp_Interface p) \<and> length (tp_Interface p) \<le> 15 \<and>
     \<not> contains (tp_Interface p) ''..'' \<and>
     (\<exists>u. url_Parse (tp_URI p) = Some u \<and> u_Scheme u \<in> {''http'', ''https''})"

inductive trace_path :: "exec_event list \<Rightarrow> go_error + action_output \<Rightarrow> bool" where
  refused: "errors_is err ErrInvalidActionPayload \<Longrightarrow> trace_path [] (Inl err)"
| no_temp: "trace_path [XCreateTemp (Inl err)] (Inl (wrap ''create temporary pcap file: '' err))"
| not_captured:
  "safe_request p \<Longrightarrow>
   trace_path [XCreateTemp (Inr path), XCommand (capture_seconds p * 1000000000) ''/usr/bin/tcpdump'' (tcpdump_args p path) (Some runErr), XRemove path]
     (Inl err)"
| not_uploaded:
  "safe_request p \<Longrightarrow> upload_answer r = Some err \<Longrightarrow>
   trace_path [XCreateTemp (Inr path), XCommand (capture_seconds p * 1000000000) ''/usr/bin/tcpdump'' (tcpdump_args p path) runErr,
      XOpen path opened, XPost (tp_URI p) (upload_stream path opened) r, XRemove path] (Inl (wrap ''upload captured file: '' err))"
| uploaded:
  "safe_request p \<Longrightarrow> json_valid (ao_Payload out) \<Longrightarrow> upload_answer r = None \<Longrightarrow>
   trace_path [XCreateTemp (Inr path), XCommand (capture_seconds p * 1000000000) ''/usr/bin/tcpdump'' (tcpdump_args p path) runErr,
      XOpen path opened, XPost (tp_URI p) (upload_stream path opened) r, XRemove path] (Inr out)"

inductive_cases trace_success: "trace_path t (Inr out)"

lemma capture_seconds_bounds: "safe_request p \<Longrightarrow> capture_seconds p \<in> {1..300}"
  by (auto simp: safe_request_def capture_seconds_def)

lemma check_uri_ok: "check_uri uri = None \<Longrightarrow> \<exists>u. url_Parse uri = Some u \<and> u_Scheme u \<in> {''http'', ''https''}"
  by (auto simp: check_uri_def split: if_splits option.splits)

lemma trace_request_ok: "trace_request e data w = Inr p \<Longrightarrow> safe_request p \<and> InterfaceExists (te_inspector e) (tp_Interface p) w"
  by (auto simp: trace_request_def safe_request_def check_interface_def maxDuration_def maxPackets_def
      maxInterfaceNameLen_def split: sum.splits if_splits option.splits dest!: check_uri_ok)

lemma choose_interface_error:
  "choose_interface e p w = Inl err \<Longrightarrow> errors_is err ErrInvalidActionPayload"
  by (auto simp: choose_interface_def split: if_splits sum.splits)

lemma trace_request_error: "trace_request e data w = Inl err \<Longrightarrow> errors_is err ErrInvalidActionPayload"
  by (auto simp: trace_request_def check_interface_def check_uri_def
      split: sum.splits if_splits option.splits dest: choose_interface_error)

lemma capture_failure_Some: "capture_failure runErr captureErr callerErr = Some err \<Longrightarrow> \<exists>x. runErr = Some x"
  by (cases runErr) (simp_all add: capture_failure_def)

lemma wp_uploadFile [wp_intro]:
  assumes "\<exists>u. url_Parse uri = Some u"
    and "\<And>opened r w'. Q (upload_answer r)
      (s\<lparr>world := w', trace := trace s @ [XOpen path opened, XPost uri (upload_stream path opened) r]\<rparr>)"
  shows "wp (uploadFile e c uri path) Q s"
  using assms by (auto simp: uploadFile_def wp_simps intro!: wp_intro)

text \<open>An upload that succeeds was answered with a 2xx status.\<close>

lemma upload_answer_None: "upload_answer r = None \<longleftrightarrow> (\<exists>status body. r = Inr (status, body) \<and> 200 \<le> status \<and> status < 300)"
  by (auto simp: upload_answer_def split: sum.splits prod.splits if_splits)

lemma upload_accepted: "200 \<le> status \<Longrightarrow> status < 300 \<Longrightarrow> upload_answer (Inr (status, body)) = None"
  by (simp add: upload_answer_def)

lemma safe_request_uri: "safe_request p \<Longrightarrow> \<exists>u. url_Parse (tp_URI p) = Some u"
  by (auto simp: safe_request_def)

lemma trace_body_follows: "follows (trace_body e c msg) trace_path"
  unfolding trace_body_def capture_and_upload_def follows_def
  by (auto simp: wp_simps intro!: wp_intro split: sum.split option.split prod.split
      dest!: trace_request_ok capture_failure_Some intro!: trace_path.intros dest: trace_request_error)
    (auto simp: member_ok_ascii intro!: marshal_map_valid dest: safe_request_uri)

lemma VyOSTrace_follows:
  "follows (guarded ActionTrace c msg (trace_body e c msg)) (\<lambda>t r. (t = [] \<and> (\<exists>err. r = Inl err)) \<or> trace_path t r)"
  by (rule guarded_follows [OF trace_body_follows])

interpretation vyos_trace: action_executor "VyOSTrace_Execute e" ActionTrace for e
  by (rule guarded_body_executor [OF _ trace_body_follows]) (auto simp: VyOSTrace_Execute_def elim: trace_success)

section \<open>Finding an interface by its alias\<close>

text \<open>The interfaces that qualify: not loopback, no member of a bridge, and of this alias\<close>

definition declares_alias :: "string \<Rightarrow> interface_info \<Rightarrow> bool" where
  "declares_alias alias i \<longleftrightarrow> if_Name i \<noteq> ''lo'' \<and> \<not> if_IsSlave i \<and> to_lower (if_Alias i) = to_lower alias"

lemma resolve_unique:
  assumes "NetInterfaces insp w = Inr itfs" and "\<forall>i\<in>set itfs. if_Name i \<noteq> []"
  shows "resolveInterfaceByAlias insp alias w = name \<and> name \<noteq> [] \<longleftrightarrow>
    (\<exists>i. filter (declares_alias alias) itfs = [i] \<and> if_Name i = name)"
proof -
  have f: "(\<lambda>i. if_Name i \<noteq> ''lo'' \<and> \<not> if_IsSlave i \<and> equal_fold (if_Alias i) alias) = declares_alias alias"
    by (simp add: fun_eq_iff declares_alias_def equal_fold_def)
  have "if_Name i \<noteq> []" if "filter (declares_alias alias) itfs = [i]" for i
    using that assms(2) by (metis (mono_tags, lifting) list.set_intros(1) mem_Collect_eq set_filter)
  then show ?thesis
    using assms(1) by (auto simp: resolveInterfaceByAlias_def f split: list.split)
qed

section \<open>The events of one command\<close>

abbreviation trace_events :: "'w trace_executor \<Rightarrow> 'w exec_world ctx \<Rightarrow> action_command \<Rightarrow> 'w exec_world \<Rightarrow> exec_event list" where
  "trace_events e c msg s \<equiv> events (guarded ActionTrace c msg (trace_body e c msg)) s"

abbreviation trace_result :: "'w trace_executor \<Rightarrow> 'w exec_world ctx \<Rightarrow> action_command \<Rightarrow> 'w exec_world
    \<Rightarrow> go_error + action_output" where
  "trace_result e c msg s \<equiv> fst (VyOSTrace_Execute e c msg s)"

lemma trace_run:
  "(trace_events e c msg s = [] \<and> (\<exists>err. trace_result e c msg s = Inl err)) \<or>
   trace_path (trace_events e c msg s) (trace_result e c msg s)"
  using follows_events [OF VyOSTrace_follows [of c msg e], of s]
  by (simp add: VyOSTrace_Execute_def outcome_def)

end
