(* ===== verification/RttyRunner.thy ===== *)
theory RttyRunner
  imports Main
begin

text \<open>
  The process runner of the RTTY executor (internal/actions/vyos_rtty.go: \<^verbatim>\<open>KillExisting\<close>, \<^verbatim>\<open>Start\<close> and the
  goroutine that waits for the process) as a transition system: the executor's calls, which its mutex
  makes sequential, the waiting goroutines, and the operating system, interleaved.

  A session is numbered by the \<^verbatim>\<open>*exec.Cmd\<close> it was started with; its exit channel has the same
  number.  The operating system may give a process number to a new process as soon as the process that
  had it was waited for.
\<close>

section \<open>States\<close>

text \<open>
  \<open>Waited\<close>: \<^verbatim>\<open>Wait\<close> has returned; \<open>Signalled\<close>: the exit channel is closed; \<open>Settled\<close>: the goroutine has been
  through its critical section.
\<close>

datatype proc_phase = Unstarted | Running | Zombie | Waited | Signalled | Settled

text \<open>
  Where the executor is: between two calls; in \<^verbatim>\<open>KillExisting\<close>, waiting for the exit of a session (and
  whether it has escalated to SIGKILL); after a \<^verbatim>\<open>KillExisting\<close> that returned nil; in \<^verbatim>\<open>Start\<close>, whose
  whole body holds the runner's mutex.
\<close>

datatype caller = Resting | Killing nat bool | Cleared | Starting nat

record runner =
  rn_activePID :: nat
  rn_activeCmd :: "nat option"
  rn_activeDone :: "nat option"
  rn_pid :: "nat \<Rightarrow> nat"
  rn_phase :: "nat \<Rightarrow> proc_phase"
  rn_caller :: caller
  rn_killFailed :: bool

definition new_runner :: runner where
  "new_runner = \<lparr>rn_activePID = 0, rn_activeCmd = None, rn_activeDone = None, rn_pid = (\<lambda>_. 0),
     rn_phase = (\<lambda>_. Unstarted), rn_caller = Resting, rn_killFailed = False\<rparr>"

definition forget_active :: "runner \<Rightarrow> runner" where
  "forget_active r = r\<lparr>rn_activePID := 0, rn_activeCmd := None, rn_activeDone := None\<rparr>"

definition advance :: "nat \<Rightarrow> proc_phase \<Rightarrow> runner \<Rightarrow> runner" where
  "advance h ph r = r\<lparr>rn_phase := (rn_phase r)(h := ph)\<rparr>"

text \<open>The critical section of the waiting goroutine: forget the active session if it has this process number.\<close>

definition settle :: "nat \<Rightarrow> runner \<Rightarrow> runner" where
  "settle h r =
     (if rn_activePID r = rn_pid r h then forget_active (advance h Settled r) else advance h Settled r)"

definition start_session :: "nat \<Rightarrow> nat \<Rightarrow> runner \<Rightarrow> runner" where
  "start_session h pid r =
     (advance h Running r)\<lparr>rn_activePID := pid, rn_activeCmd := Some h, rn_activeDone := Some h,
       rn_pid := (rn_pid r)(h := pid), rn_caller := Starting h\<rparr>"

text \<open>
  When a process number may be given to a new process: no process that exists has it; with \<open>reuse\<close> off,
  the goroutine of a process that had it must also be through.
\<close>

definition pid_free :: "bool \<Rightarrow> nat \<Rightarrow> runner \<Rightarrow> bool" where
  "pid_free reuse pid r \<longleftrightarrow> 0 < pid \<and>
     (\<forall>h. rn_pid r h = pid \<longrightarrow> rn_phase r h \<notin> {Running, Zombie} \<and> (reuse \<or> rn_phase r h \<in> {Unstarted, Settled}))"

section \<open>Steps\<close>

inductive runner_step :: "bool \<Rightarrow> runner \<Rightarrow> runner \<Rightarrow> bool" for reuse where
  nothing_to_kill:
  "rn_caller r = Resting \<Longrightarrow> rn_activeCmd r = None \<Longrightarrow>
   runner_step reuse r ((forget_active r)\<lparr>rn_caller := Cleared\<rparr>)"
| terminate:
  "rn_caller r = Resting \<Longrightarrow> rn_activeCmd r = Some h \<Longrightarrow>
   runner_step reuse r ((forget_active r)\<lparr>rn_caller := Killing h False\<rparr>)"
| escalate:
  "rn_caller r = Killing h False \<Longrightarrow> runner_step reuse r (r\<lparr>rn_caller := Killing h True\<rparr>)"
| killed:
  "rn_caller r = Killing h esc \<Longrightarrow> rn_phase r h \<in> {Signalled, Settled} \<Longrightarrow>
   runner_step reuse r (r\<lparr>rn_caller := Cleared\<rparr>)"
| kill_timeout:
  "rn_caller r = Killing h True \<Longrightarrow> runner_step reuse r (r\<lparr>rn_caller := Resting, rn_killFailed := True\<rparr>)"
| kill_cancelled:
  "rn_caller r = Killing h esc \<Longrightarrow> runner_step reuse r (r\<lparr>rn_caller := Resting, rn_killFailed := True\<rparr>)"
| start_fails:
  "rn_caller r = Cleared \<Longrightarrow> runner_step reuse r (r\<lparr>rn_caller := Resting\<rparr>)"
| start:
  "rn_caller r = Cleared \<Longrightarrow> rn_phase r h = Unstarted \<Longrightarrow> pid_free reuse pid r \<Longrightarrow>
   runner_step reuse r (start_session h pid r)"
| start_returns:
  "rn_caller r = Starting h \<Longrightarrow> runner_step reuse r (r\<lparr>rn_caller := Resting\<rparr>)"
| exits:
  "rn_phase r h = Running \<Longrightarrow> runner_step reuse r (advance h Zombie r)"
| waited:
  "rn_phase r h = Zombie \<Longrightarrow> runner_step reuse r (advance h Waited r)"
| signalled:
  "rn_phase r h = Waited \<Longrightarrow> runner_step reuse r (advance h Signalled r)"
| settled:
  "rn_phase r h = Signalled \<Longrightarrow> (\<forall>h'. rn_caller r \<noteq> Starting h') \<Longrightarrow> runner_step reuse r (settle h r)"

inductive runner_reach :: "bool \<Rightarrow> runner \<Rightarrow> bool" for reuse where
  initial: "runner_reach reuse new_runner"
| step: "runner_reach reuse r \<Longrightarrow> runner_step reuse r r' \<Longrightarrow> runner_reach reuse r'"

section \<open>Invariant\<close>

text \<open>
  What is active is one session with its process number and exit channel; no other goroutine that is
  still to settle has this process number; and unless a \<^verbatim>\<open>KillExisting\<close> has failed, a session whose exit
  channel is still open is the active one or the one that is being killed.
\<close>

definition open_session :: "runner \<Rightarrow> nat \<Rightarrow> bool" where
  "open_session r h \<longleftrightarrow> rn_phase r h \<in> {Running, Zombie, Waited}"

fun being_killed :: "caller \<Rightarrow> nat \<Rightarrow> bool" where
  "being_killed (Killing h _) k \<longleftrightarrow> k = h"
| "being_killed _ k \<longleftrightarrow> False"

definition tracked :: "runner \<Rightarrow> nat \<Rightarrow> bool" where
  "tracked r h \<longleftrightarrow> rn_activeCmd r = Some h \<or> being_killed (rn_caller r) h"

fun caller_fits :: "caller \<Rightarrow> nat option \<Rightarrow> bool" where
  "caller_fits Resting cmd \<longleftrightarrow> True"
| "caller_fits (Starting h) cmd \<longleftrightarrow> cmd = Some h"
| "caller_fits _ cmd \<longleftrightarrow> cmd = None"

definition runner_inv :: "runner \<Rightarrow> bool" where
  "runner_inv r \<longleftrightarrow>
     rn_activeDone r = rn_activeCmd r \<and> (rn_activeCmd r = None \<longrightarrow> rn_activePID r = 0) \<and> caller_fits (rn_caller r) (rn_activeCmd r) \<and>
     (\<forall>h. rn_phase r h \<noteq> Unstarted \<longrightarrow> 0 < rn_pid r h) \<and>
     (\<forall>h. rn_activeCmd r = Some h \<longrightarrow> rn_pid r h = rn_activePID r \<and> rn_phase r h \<notin> {Unstarted, Settled}) \<and>
     (\<forall>h. rn_phase r h \<notin> {Unstarted, Settled} \<longrightarrow> rn_pid r h = rn_activePID r \<longrightarrow> rn_activeCmd r = Some h) \<and>
     (rn_killFailed r \<or> (\<forall>h. open_session r h \<longrightarrow> tracked r h))"

lemmas runner_defs = runner_inv_def open_session_def tracked_def
  forget_active_def start_session_def advance_def settle_def

lemma runner_inv_initial: "runner_inv new_runner"
  by (simp add: runner_defs new_runner_def)

lemma runner_invD:
  assumes "runner_inv r"
  shows "rn_activeDone r = rn_activeCmd r" and "rn_activeCmd r = None \<Longrightarrow> rn_activePID r = 0"
    and "caller_fits (rn_caller r) (rn_activeCmd r)" and "rn_phase r h \<noteq> Unstarted \<Longrightarrow> 0 < rn_pid r h"
    and "rn_activeCmd r = Some h \<Longrightarrow> rn_pid r h = rn_activePID r"
    and "rn_activeCmd r = Some h \<Longrightarrow> rn_phase r h \<noteq> Unstarted \<and> rn_phase r h \<noteq> Settled"
    and "rn_phase r h \<noteq> Unstarted \<Longrightarrow> rn_phase r h \<noteq> Settled \<Longrightarrow> rn_pid r h = rn_activePID r \<Longrightarrow> rn_activeCmd r = Some h"
    and "open_session r h \<Longrightarrow> rn_killFailed r \<or> tracked r h"
  using assms unfolding runner_inv_def by blast+

lemma runner_invI:
  assumes "rn_activeDone r = rn_activeCmd r" and "rn_activeCmd r = None \<Longrightarrow> rn_activePID r = 0"
    and "caller_fits (rn_caller r) (rn_activeCmd r)" and "\<And>h. rn_phase r h \<noteq> Unstarted \<Longrightarrow> 0 < rn_pid r h"
    and "\<And>h. rn_activeCmd r = Some h \<Longrightarrow> rn_pid r h = rn_activePID r \<and> rn_phase r h \<noteq> Unstarted \<and> rn_phase r h \<noteq> Settled"
    and "\<And>h. rn_phase r h \<noteq> Unstarted \<Longrightarrow> rn_phase r h \<noteq> Settled \<Longrightarrow> rn_pid r h = rn_activePID r \<Longrightarrow> rn_activeCmd r = Some h"
    and "\<And>h. open_session r h \<Longrightarrow> rn_killFailed r \<or> tracked r h"
  shows "runner_inv r"
  using assms unfolding runner_inv_def by blast

lemmas session_defs = open_session_def tracked_def advance_def forget_active_def start_session_def settle_def

lemma inv_advance:
  assumes "runner_inv r" and "rn_phase r h \<in> {Running, Zombie, Waited}" "q \<in> {Zombie, Waited, Signalled}"
  shows "runner_inv (advance h q r)"
proof -
  have h: "rn_phase r h \<noteq> Unstarted" "rn_phase r h \<noteq> Settled" "q \<noteq> Unstarted" "q \<noteq> Settled" "open_session r h"
    using assms(2,3) by (auto simp: open_session_def)
  have open_session: "open_session (advance h q r) k \<Longrightarrow> open_session r k" for k
    using h(5) by (simp add: open_session_def advance_def split: if_splits)
  show ?thesis
  proof (rule runner_invI)
    show "rn_killFailed (advance h q r) \<or> tracked (advance h q r) k" if "open_session (advance h q r) k" for k
      using runner_invD(8) [OF assms(1) open_session [OF that]] by (simp add: tracked_def advance_def)
  qed (simp_all add: advance_def split: if_splits, (use runner_invD [OF assms(1)] h in blast)+)
qed

lemma inv_start:
  assumes "runner_inv r" and "rn_caller r = Cleared" "pid_free False pid r"
  shows "runner_inv (start_session h pid r)"
proof -
  have none: "rn_activeCmd r = None" using runner_invD(3) [OF assms(1)] assms(2) by simp
  have pid: "0 < pid" "rn_pid r k = pid \<Longrightarrow> rn_phase r k = Unstarted \<or> rn_phase r k = Settled" for k
    using assms(3) by (auto simp: pid_free_def)
  show ?thesis
  proof (rule runner_invI)
    show "rn_killFailed (start_session h pid r) \<or> tracked (start_session h pid r) k"
      if "open_session (start_session h pid r) k" for k
      using that runner_invD(8) [OF assms(1), of k] none assms(2)
      by (auto simp: session_defs split: if_splits)
  qed (simp_all add: start_session_def advance_def split: if_splits, (use runner_invD(4) [OF assms(1)] pid in blast)+)
qed

lemma inv_settle:
  assumes "runner_inv r" and "rn_phase r h = Signalled" "\<forall>k. rn_caller r \<noteq> Starting k"
  shows "runner_inv (settle h r)"
proof -
  have fits: "caller_fits (rn_caller r) None"
    using runner_invD(3) [OF assms(1)] assms(3) by (cases "rn_caller r") auto
  have own: "rn_activePID r = rn_pid r h \<longleftrightarrow> rn_activeCmd r = Some h"
    using runner_invD(5,7) [OF assms(1), of h] assms(2) by auto
  show ?thesis
  proof (rule runner_invI)
    show "rn_killFailed (settle h r) \<or> tracked (settle h r) k" if "open_session (settle h r) k" for k
      using that runner_invD(8) [OF assms(1), of k] assms(2) own
      by (auto simp: session_defs split: if_splits)
    show "rn_activeCmd (settle h r) = Some k" if "rn_phase (settle h r) k \<noteq> Unstarted" "rn_phase (settle h r) k \<noteq> Settled"
      "rn_pid (settle h r) k = rn_activePID (settle h r)" for k
      using that runner_invD(4,7) [OF assms(1), of k] by (simp add: session_defs split: if_splits)
    show "rn_pid (settle h r) k = rn_activePID (settle h r) \<and> rn_phase (settle h r) k \<noteq> Unstarted \<and> rn_phase (settle h r) k \<noteq> Settled"
      if "rn_activeCmd (settle h r) = Some k" for k
      using that own runner_invD(5,6) [OF assms(1), of k] by (simp add: session_defs split: if_splits)
    show "0 < rn_pid (settle h r) k" if "rn_phase (settle h r) k \<noteq> Unstarted" for k
      using that assms(2) runner_invD(4) [OF assms(1), of k] by (simp add: session_defs split: if_splits)
  qed (use runner_invD(1-3) [OF assms(1)] fits in \<open>simp_all add: session_defs split: if_splits\<close>)
qed

text \<open>Steps that change neither the sessions nor what is active\<close>

lemma inv_caller:
  assumes "runner_inv r" and "caller_fits c (rn_activeCmd r)"
    and "\<And>h. open_session r h \<Longrightarrow> being_killed (rn_caller r) h \<Longrightarrow> f \<or> being_killed c h" and "rn_killFailed r \<Longrightarrow> f"
  shows "runner_inv (r\<lparr>rn_caller := c, rn_killFailed := f\<rparr>)"
proof (rule runner_invI)
  show "rn_killFailed (r\<lparr>rn_caller := c, rn_killFailed := f\<rparr>) \<or> tracked (r\<lparr>rn_caller := c, rn_killFailed := f\<rparr>) k"
    if "open_session (r\<lparr>rn_caller := c, rn_killFailed := f\<rparr>) k" for k
    using that runner_invD(8) [OF assms(1), of k] assms(3) [of k] assms(4) by (auto simp: open_session_def tracked_def)
qed (simp_all, (use runner_invD [OF assms(1)] assms(2) in blast)+)

lemma inv_forget:
  assumes "runner_inv r" and "rn_caller r = Resting" and "caller_fits c None"
    and "\<And>h. rn_activeCmd r = Some h \<Longrightarrow> being_killed c h"
  shows "runner_inv ((forget_active r)\<lparr>rn_caller := c\<rparr>)"
proof (rule runner_invI)
  show "rn_killFailed ((forget_active r)\<lparr>rn_caller := c\<rparr>) \<or> tracked ((forget_active r)\<lparr>rn_caller := c\<rparr>) k"
    if "open_session ((forget_active r)\<lparr>rn_caller := c\<rparr>) k" for k
    using that runner_invD(8) [OF assms(1), of k] assms(2,4) by (auto simp: open_session_def tracked_def forget_active_def)
  show "rn_activeCmd ((forget_active r)\<lparr>rn_caller := c\<rparr>) = Some k"
    if "rn_phase ((forget_active r)\<lparr>rn_caller := c\<rparr>) k \<noteq> Unstarted"
       "rn_pid ((forget_active r)\<lparr>rn_caller := c\<rparr>) k = rn_activePID ((forget_active r)\<lparr>rn_caller := c\<rparr>)" for k
    using that runner_invD(4) [OF assms(1), of k] by (simp add: forget_active_def)
qed (use runner_invD(4) [OF assms(1)] assms(3) in \<open>simp_all add: forget_active_def\<close>)

lemma same_failed: "r\<lparr>rn_caller := c, rn_killFailed := rn_killFailed r\<rparr> = r\<lparr>rn_caller := c\<rparr>"
  by simp

lemma runner_inv_step: "runner_step False r r' \<Longrightarrow> runner_inv r \<Longrightarrow> runner_inv r'"
proof (induction rule: runner_step.induct)
  case (killed r h esc)
  then have "runner_inv (r\<lparr>rn_caller := Cleared, rn_killFailed := rn_killFailed r\<rparr>)"
    by (intro inv_caller) (auto simp: open_session_def dest: runner_invD(3))
  then show ?case by (simp add: same_failed)
next
  case (escalate r h)
  then have "runner_inv (r\<lparr>rn_caller := Killing h True, rn_killFailed := rn_killFailed r\<rparr>)"
    by (intro inv_caller) (auto dest: runner_invD(3))
  then show ?case by (simp add: same_failed)
next
  case (start_fails r)
  then have "runner_inv (r\<lparr>rn_caller := Resting, rn_killFailed := rn_killFailed r\<rparr>)"
    by (intro inv_caller) auto
  then show ?case by (simp add: same_failed)
next
  case (start_returns r h)
  then have "runner_inv (r\<lparr>rn_caller := Resting, rn_killFailed := rn_killFailed r\<rparr>)"
    by (intro inv_caller) auto
  then show ?case by (simp add: same_failed)
qed (auto intro: inv_advance inv_start inv_settle inv_forget inv_caller)

lemma runner_invariant: "runner_reach False r \<Longrightarrow> runner_inv r"
  by (induction rule: runner_reach.induct) (auto intro: runner_inv_initial runner_inv_step)

end
