(* ===== verification/ActionClaims.thy ===== *)
theory ActionClaims
  imports Scenario Rtty VyosTrace RttyRunner
begin

text \<open>
  The properties of the action workflow and of its executors, with the runs of their witnesses: a
  service whose bus answers as a script says and that has one executor for both actions.
\<close>

section \<open>A scripted service\<close>

definition act_scripted ::
  "(status_envelope \<Rightarrow> go_error option) \<Rightarrow> (result_envelope \<Rightarrow> go_error option) \<Rightarrow> 'w executor \<Rightarrow> 'w action_service" where
  "act_scripted es er ex =
     \<lparr>act_client = \<lparr>act_PublishStatus = (\<lambda>c m w. (es m, w)), act_PublishResult = (\<lambda>c m w. (er m, w))\<rparr>,
      act_logger = None, act_now = (\<lambda>w. (0, w)), act_enabled = {ActionTrace, ActionRTTY},
      act_executors = [ActionTrace \<mapsto> ex, ActionRTTY \<mapsto> ex]\<rparr>"

abbreviation well :: "'m \<Rightarrow> go_error option" where
  "well \<equiv> \<lambda>_. None"

lemma act_scripted_sels [simp]:
  "act_PublishStatus (act_client (act_scripted es er ex)) c m w = (es m, w)"
  "act_PublishResult (act_client (act_scripted es er ex)) c m' w = (er m', w)"
  "act_logger (act_scripted es er ex) = None" "act_now (act_scripted es er ex) w = (0, w)"
  "act_enabled (act_scripted es er ex) = {ActionTrace, ActionRTTY}"
  "act_executors (act_scripted es er ex) = [ActionTrace \<mapsto> ex, ActionRTTY \<mapsto> ex]"
  by (simp_all add: act_scripted_def)

definition act_said :: "action_command \<Rightarrow> string \<Rightarrow> string \<Rightarrow> string \<Rightarrow> status_envelope" where
  "act_said msg status stage message = BuildStatus (ac_RPCID msg) (ac_Target msg) [] status stage message 0"

definition act_answer :: "action_command \<Rightarrow> string \<Rightarrow> string \<Rightarrow> string \<Rightarrow> string \<Rightarrow> result_envelope" where
  "act_answer msg result code message payload =
     BuildResult (ac_RPCID msg) (ac_Target msg) ''action'' [] (ac_Action msg) result code message payload 0"

lemma run_act_calls [simp]:
  "run_state (act_publishStatus (act_scripted es er ex) c msg status stage message) s =
     (es (act_said msg status stage message),
      s\<lparr>trace := trace s @ [AStatus (act_said msg status stage message) (es (act_said msg status stage message))]\<rparr>)"
  "run_state (act_publishResult (act_scripted es er ex) c msg result code message payload) s =
     (er (act_answer msg result code message payload),
      s\<lparr>trace := trace s @ [AResult (act_answer msg result code message payload) (er (act_answer msg result code message payload))]\<rparr>)"
  "run_state (act_logInfo (act_scripted es er ex) m kv) s = ((), s)"
  "run_state (act_logError (act_scripted es er ex) m kv) s = ((), s)"
  by (simp_all add: act_publishStatus_def act_publishResult_def act_logInfo_def act_logError_def run_simps
      act_said_def act_answer_def Let_def)

lemma act_lookup [simp]:
  "ac_Action msg \<in> {ActionTrace, ActionRTTY} \<Longrightarrow> act_executors (act_scripted es er ex) (ac_Action msg) = Some ex"
  by auto

lemmas act_evaluate = HandleAction_def run_action_def complete_action_def act_execute_def act_fail_def
  outcome_def events_def final_def run_simps execute_failure_def

lemma act_run_ok:
  assumes "ex (Some cx) msg (world s) = (Inr out, w')" and "ac_Action msg \<in> {ActionTrace, ActionRTTY}"
  shows "outcome (HandleAction (act_scripted well well ex) (Some cx) msg) s = None"
    and "events (HandleAction (act_scripted well well ex) (Some cx) msg) s =
      [AStatus (act_said msg ''running'' ''received'' ''action command received'') None,
       AStatus (act_said msg ''running'' ''executing'' (''executing '' @ ac_Action msg @ '' action'')) None,
       AExecute msg (Inr out),
       AStatus (act_said msg ''success'' ''completed'' (ac_Action msg @ '' action completed'')) None,
       AResult (act_answer msg ''success'' [] (ao_Message out) (ao_Payload out)) None]"
  using assms by (simp_all add: act_evaluate del: act_scripted_sels(6))

lemma act_run_refused:
  assumes "ex (Some cx) msg (world s) = (Inl err, w')" and "ac_Action msg \<in> {ActionTrace, ActionRTTY}"
    and "errors_is err ErrInvalidActionPayload"
  shows "events (HandleAction (act_scripted well well ex) (Some cx) msg) s =
      [AStatus (act_said msg ''running'' ''received'' ''action command received'') None,
       AStatus (act_said msg ''running'' ''executing'' (''executing '' @ ac_Action msg @ '' action'')) None,
       AExecute msg (Inl err),
       AStatus (act_said msg ''failure'' ''failed'' ''action processing failed'') None,
       AResult (act_answer msg ''failure'' ''invalid_action_payload'' ''invalid action payload'' []) None]"
  using assms by (simp add: act_evaluate del: act_scripted_sels(6))

text \<open>A trace command with an empty object as its payload, on the placeholder executor\<close>

definition demo_command :: "string \<Rightarrow> action_command" where
  "demo_command payload = MinimalActionCommand ActionTrace\<lparr>ac_Payload := payload\<rparr>"

lemma demo_command_sels [simp]:
  "ac_Action (demo_command p) = ActionTrace" "ac_Payload (demo_command p) = p"
  "ac_Target (demo_command p) = MinimalTarget" "ac_RPCID (demo_command p) = MinimalRPCID"
  by (simp_all add: demo_command_def MinimalActionCommand_def)

definition demo_output :: action_output where
  "demo_output = \<lparr>ao_Payload = marshal_map
     [(''executor'', OStr ''placeholder_trace''), (''action'', OStr ActionTrace), (''target'', OStr MinimalTarget),
      (''status'', OStr ''completed''), (''placeholder'', OBool True), (''received_payload'', OBool True)],
     ao_Message = ''placeholder trace action completed''\<rparr>"

lemma json_samples [simp]: "json_valid ''{}''" "\<not> json_valid ''{''"
  by code_simp+

lemma placeholder_demo: "PlaceholderTrace_Execute (Some live) (demo_command ''{}'') w = (Inr demo_output, w)"
  by (simp add: PlaceholderTrace_Execute_def command_guard_def live_def demo_output_def MinimalTarget_def MinimalRPCID_def)

lemma placeholder_demo_bad: "\<exists>e. PlaceholderTrace_Execute (Some live) (demo_command ''{'') w = (Inl e, w) \<and>
    errors_is e ErrInvalidActionPayload"
  by (simp add: PlaceholderTrace_Execute_def command_guard_def live_def MinimalTarget_def MinimalRPCID_def)

abbreviation demo_action :: "string \<Rightarrow> ((unit, act_event) tw, go_error option) state" where
  "demo_action p \<equiv> HandleAction (act_scripted well well PlaceholderTrace_Execute) (Some live) (demo_command p)"

lemma demo_action_ok:
  "outcome (demo_action ''{}'') s = None"
  "events (demo_action ''{}'') s =
     [AStatus (act_said (demo_command ''{}'') ''running'' ''received'' ''action command received'') None,
      AStatus (act_said (demo_command ''{}'') ''running'' ''executing'' (''executing '' @ ActionTrace @ '' action'')) None,
      AExecute (demo_command ''{}'') (Inr demo_output),
      AStatus (act_said (demo_command ''{}'') ''success'' ''completed'' (ActionTrace @ '' action completed'')) None,
      AResult (act_answer (demo_command ''{}'') ''success'' [] (ao_Message demo_output) (ao_Payload demo_output)) None]"
  using act_run_ok [where ex = PlaceholderTrace_Execute and cx = live and msg = "demo_command ''{}''" and s = s,
      OF placeholder_demo] by simp_all

text \<open>The same command with a payload that is not JSON\<close>

lemma refused_events:
  "\<exists>err. events (HandleAction (act_scripted well well PlaceholderTrace_Execute) (Some live) (demo_command ''{'')) s =
     [AStatus (act_said (demo_command ''{'') ''running'' ''received'' ''action command received'') None,
      AStatus (act_said (demo_command ''{'') ''running'' ''executing'' (''executing '' @ ActionTrace @ '' action'')) None,
      AExecute (demo_command ''{'') (Inl err),
      AStatus (act_said (demo_command ''{'') ''failure'' ''failed'' ''action processing failed'') None,
      AResult (act_answer (demo_command ''{'') ''failure'' ''invalid_action_payload'' ''invalid action payload'' []) None]"
proof -
  obtain e where e: "PlaceholderTrace_Execute (Some live) (demo_command ''{'') (world s) = (Inl e, world s)"
    "errors_is e ErrInvalidActionPayload"
    using placeholder_demo_bad [of "world s"] by blast
  from act_run_refused [where ex = PlaceholderTrace_Execute and cx = live and msg = "demo_command ''{''" and
      s = s and err = e, OF e(1) _ e(2)]
  show ?thesis by simp
qed

lemmas demo_refused_events = refused_events [of "start ()"]

section \<open>The workflow\<close>

text \<open>
  C21. An executor runs only for a command whose action is enabled and has an executor, it runs on
  exactly that command, after the statuses \<open>received\<close> and \<open>executing\<close> both got out, and once.
\<close>

theorem executor_runs_only_when_cleared:
  assumes "events (HandleAction sv c msg) s = before @ AExecute m r # after"
  shows "m = msg \<and> ac_Action msg \<in> act_enabled sv \<and> act_executors sv (ac_Action msg) \<noteq> None \<and>
    stages_reached before = [''received'', ''executing''] \<and> executions (before @ after) = []"
proof (cases c)
  case None
  with assms show ?thesis by (simp add: HandleAction_def events_def final_def)
next
  case (Some cx)
  note reach = HandleAction_reaches [of sv msg cx s, folded Some]
  have "announced_run (events (HandleAction sv c msg) s)" "list_all (act_carries msg) (events (HandleAction sv c msg) s)"
    using reach_announced [OF reach] reach_carries [OF reach] by simp_all
  moreover have "cleared sv msg"
    using reach_cleared [OF reach] assms by (auto simp: executions_Nil_iff)
  ultimately show ?thesis
    using assms by (auto simp: announced_run_def cleared_def)
qed

theorem executor_runs_only_when_cleared_witness:
  "\<exists>before after. events (demo_action ''{}'') (start ()) = before @ AExecute (demo_command ''{}'') (Inr demo_output) # after \<and>
     stages_reached before = [''received'', ''executing''] \<and> executions (before @ after) = []"
proof -
  obtain before after where run:
    "events (demo_action ''{}'') (start ()) = before @ AExecute (demo_command ''{}'') (Inr demo_output) # after"
    using split_list [of "AExecute (demo_command ''{}'') (Inr demo_output)" "events (demo_action ''{}'') (start ())"]
    by (auto simp: demo_action_ok(2))
  from run executor_runs_only_when_cleared [OF run] show ?thesis by blast
qed

text \<open>
  C22. On a live context a command is answered with one result; only a success result that did not get
  out is followed by a second one, a failure.  \<^verbatim>\<open>Handle\<close> returns nil exactly when the success result
  got out.
\<close>

theorem action_results_exact:
  "case act_results (events (HandleAction sv (Some cx) msg) s) of
      [(m, e)] \<Rightarrow> (outcome (HandleAction sv (Some cx) msg) s = None \<longleftrightarrow> re_Result m = ''success'') \<and>
                  (re_Result m = ''success'' \<and> e = None \<or> re_Result m = ''failure'')
    | [(m, e), (m', e')] \<Rightarrow> outcome (HandleAction sv (Some cx) msg) s \<noteq> None \<and> re_Result m = ''success'' \<and> e \<noteq> None \<and>
                  re_Result m' = ''failure'' \<and> re_ErrorCode m' = ''result_publish_failed''
    | _ \<Rightarrow> False"
  using phase_invariant [OF HandleAction_reaches [of sv msg cx s]]
  by (cases "outcome (HandleAction sv (Some cx) msg) s") (auto simp: act_result_def elim!: cause.cases)

text \<open>
  C23. Every failure result names its cause: the events before it are those of the failure that the code
  stands for, and a failure of the executor is told apart by whether it refused the payload.
\<close>

theorem action_failure_code_exact:
  assumes "events (HandleAction sv c msg) s = before @ AResult m e # after" and "re_Result m = ''failure''"
  shows "cause sv msg (re_ErrorCode m) before \<and> after = []"
proof (cases c)
  case None
  with assms show ?thesis by (simp add: HandleAction_def events_def final_def)
next
  case (Some cx)
  have "phase_inv sv msg (events (HandleAction sv c msg) s) (Done (outcome (HandleAction sv c msg) s = None))"
    unfolding Some by (rule phase_invariant [OF HandleAction_reaches])
  from done_failure [OF this] assms show ?thesis by blast
qed

theorem action_failure_code_exact_witness:
  "\<exists>before. cause (act_scripted well well PlaceholderTrace_Execute :: unit action_service) (demo_command ''{'')
     ''invalid_action_payload'' before"
proof -
  have "\<exists>before. events (demo_action ''{'') (start ()) = before @
      [AResult (act_answer (demo_command ''{'') ''failure'' ''invalid_action_payload'' ''invalid action payload'' []) None]"
    using demo_refused_events by (auto intro: append_eq_appendI)
  then obtain before where "events (demo_action ''{'') (start ()) = before @
      [AResult (act_answer (demo_command ''{'') ''failure'' ''invalid_action_payload'' ''invalid action payload'' []) None]" ..
  from action_failure_code_exact [OF this] show ?thesis by (auto simp: act_answer_def)
qed



text \<open>The executors of this repository, under the names they are registered with\<close>

definition repository_executor :: "string \<Rightarrow> 'w exec_world executor \<Rightarrow> bool" where
  "repository_executor name exec \<longleftrightarrow>
     name = ActionTrace \<and> (exec = PlaceholderTrace_Execute \<or> (\<exists>e. exec = VyOSTrace_Execute e)) \<or>
     name = ActionRTTY \<and> (exec = PlaceholderRTTY_Execute \<or> (\<exists>sys e. exec = VyOSRTTY_Execute sys e))"

lemma repository_executor_contract: "repository_executor name exec \<Longrightarrow> action_executor exec name"
  by (auto simp: repository_executor_def placeholder_trace.action_executor_axioms placeholder_rtty.action_executor_axioms
      vyos_trace.action_executor_axioms vyos_rtty.action_executor_axioms)

text \<open>
  C25. A payload that is not JSON is answered with one result, a failure with the code
  \<open>invalid_action_payload\<close>, by all four executors, whatever they run on: for an action that is enabled and
  registered, on a context that stays live, with a target and an RPC id, if both running statuses got out.
\<close>

theorem bad_payload_is_reported:
  assumes "act_executors sv (ac_Action msg) = Some exec" and "repository_executor (ac_Action msg) exec"
    and "ac_Action msg \<in> act_enabled sv" and "\<And>w. cx w = None" and "ac_Target msg \<noteq> []" and "ac_RPCID msg \<noteq> []"
    and "\<not> json_valid (ac_Payload msg)"
    and "\<forall>m e. AStatus m (Some e) \<in> set (events (HandleAction sv (Some cx) msg) s) \<longrightarrow> se_Status m = ''failure''"
  shows "\<exists>m e. act_results (events (HandleAction sv (Some cx) msg) s) = [(m, e)] \<and>
    act_result msg ''failure'' ''invalid_action_payload'' [] m"
proof -
  let ?t = "events (HandleAction sv (Some cx) msg) s"
  have bad: "\<exists>e. r = Inl e \<and> errors_is e ErrInvalidActionPayload" if "AExecute m r \<in> set ?t" for m r
    using action_executor.executed_bad_json [OF repository_executor_contract [OF assms(2)] assms(1,7,4,5,6) refl that] .
  show ?thesis
    by (rule done_bad_payload [OF phase_invariant [OF HandleAction_reaches]]) (use bad assms(1,3,8) in \<open>auto simp: cleared_def\<close>)
qed

theorem bad_payload_is_reported_witness:
  "let m = HandleAction (act_scripted well well (PlaceholderTrace_Execute :: unit exec_world executor)) (Some live) (demo_command ''{'')
   in \<exists>m' e. act_results (events m (start (start ()))) = [(m', e)] \<and>
        act_result (demo_command ''{'') ''failure'' ''invalid_action_payload'' [] m'"
  unfolding Let_def
proof (rule bad_payload_is_reported [where exec = PlaceholderTrace_Execute])
  show "\<forall>m e. AStatus m (Some e) \<in> set (events (HandleAction (act_scripted well well
      (PlaceholderTrace_Execute :: unit exec_world executor)) (Some live) (demo_command ''{'')) (start (start ()))) \<longrightarrow> se_Status m = ''failure''"
    using refused_events [of "start (start () :: unit exec_world)"] by auto
qed (simp_all add: repository_executor_def live_def MinimalTarget_def MinimalRPCID_def)

section \<open>The RTTY executor\<close>

text \<open>
  C26. What the payload is checked for: a payload passes exactly when its id, token and server, trimmed,
  are non-empty words over the allowed characters, its port is a TCP port and its timeout not
  negative; every refusal is an invalid payload.
\<close>

theorem rtty_validate_exact:
  "(case RTTYPayload_Validate p of
      Inr q \<Rightarrow> matches_all safe_token_char (trim_space (rp_ID p)) \<and> matches_all safe_token_char (trim_space (rp_Token p)) \<and>
        matches_all safe_host_char (trim_space (rp_Server p)) \<and> rp_Port p \<in> {1..65535} \<and> 0 \<le> rp_Timeout p \<and>
        q = p\<lparr>rp_Timeout := if rp_Timeout p = 0 then 60 else rp_Timeout p\<rparr>
    | Inl err \<Rightarrow> errors_is err ErrInvalidActionPayload \<and>
        \<not> (matches_all safe_token_char (trim_space (rp_ID p)) \<and> matches_all safe_token_char (trim_space (rp_Token p)) \<and>
           matches_all safe_host_char (trim_space (rp_Server p)) \<and> rp_Port p \<in> {1..65535} \<and> 0 \<le> rp_Timeout p))"
  using RTTYPayload_Validate_iff [of p] RTTYPayload_Validate_ok [of p] RTTYPayload_Validate_error [of p]
  by (cases "RTTYPayload_Validate p") (auto, auto simp: RTTYPayload_Validate_def split: if_splits)

text \<open>
  C27. A session is started only with arguments from a payload that validated, with a certificate and a
  key, and right after \<^verbatim>\<open>KillExisting\<close> of the runner returned nil; a command starts at most one.  What nil from the
  runner means for the sessions before is shown of the runner.
\<close>

theorem rtty_starts_after_kill:
  assumes "XStart bin args r \<in> set (rtty_events sys e c msg s)"
  shows "\<exists>p cert key. rtty_command (ac_Payload msg) = Inr p \<and> safe_payload p \<and> cert \<noteq> [] \<and> key \<noteq> [] \<and>
    args = rtty_args p cert key \<and>
    rtty_events sys e c msg s = [XFindBinary (Inr bin), XKillExisting None, XStart bin args r]"
  using rtty_run [of c msg sys e s] assms rtty_command_ok
  by (auto elim!: session_path.cases; blast)

text \<open>An operating system with a binary, a runner that always succeeds, and a command for it\<close>

definition demo_os :: "unit rtty_os" where
  "demo_os = \<lparr>os_Stat = (\<lambda>_ _. None), os_Getenv = (\<lambda>_ _. []), os_LookPath = (\<lambda>_ _. None)\<rparr>"

definition demo_rtty :: "unit rtty_executor" where
  "demo_rtty = \<lparr>re_runner = \<lparr>rr_FindBinary = (\<lambda>_. Inr ''/usr/sbin/rtty''), rr_KillExisting = (\<lambda>_ w. (None, w)),
     rr_Start = (\<lambda>_ _ w. (None, w))\<rparr>, re_certFile = ''cert.pem'', re_keyFile = ''key.pem''\<rparr>"

definition demo_session :: rtty_payload where
  "demo_session = zero_rtty\<lparr>rp_ID := ''dev-1'', rp_Token := ''t0'', rp_Server := ''gw.example'', rp_Port := 5912\<rparr>"

definition demo_rtty_command :: action_command where
  "demo_rtty_command = MinimalActionCommand ActionRTTY\<lparr>ac_Payload := marshal_obj
     [(''id'', OStr ''dev-1''), (''token'', OStr ''t0''), (''server'', OStr ''gw.example''), (''port'', ONum 5912)]\<rparr>"

lemma demo_session_valid: "RTTYPayload_Validate demo_session = Inr (demo_session\<lparr>rp_Timeout := 60\<rparr>)"
  by code_simp

lemma demo_rtty_payload:
  "rtty_command (ac_Payload demo_rtty_command) = Inr (demo_session\<lparr>rp_Timeout := 60\<rparr>)"
  "json_valid (ac_Payload demo_rtty_command)"
proof -
  have "Unmarshal_RTTYPayload (ac_Payload demo_rtty_command) = Inr demo_session"
    by (simp add: demo_rtty_command_def demo_session_def decode_rtty utf8_valid_ascii in_int64_def)
  with demo_session_valid show "rtty_command (ac_Payload demo_rtty_command) = Inr (demo_session\<lparr>rp_Timeout := 60\<rparr>)"
    by (simp add: rtty_command_def)
  from \<open>Unmarshal_RTTYPayload _ = _\<close> show "json_valid (ac_Payload demo_rtty_command)"
    by (auto simp: Unmarshal_RTTYPayload_def json_valid_def split: option.splits)
qed

lemma demo_rtty_events:
  "rtty_events demo_os demo_rtty (Some live) demo_rtty_command (start ()) =
    [XFindBinary (Inr ''/usr/sbin/rtty''), XKillExisting None,
     XStart ''/usr/sbin/rtty'' (rtty_args (demo_session\<lparr>rp_Timeout := 60\<rparr>) ''cert.pem'' ''key.pem'') None]"
proof -
  have "command_guard ActionRTTY (Some live) demo_rtty_command (start () :: unit exec_world) = None"
    using demo_rtty_payload(2)
    by (auto simp: command_guard_def live_def demo_rtty_command_def MinimalActionCommand_def MinimalTarget_def
        MinimalRPCID_def marshal_obj_def)
  then show ?thesis
    by (simp add: events_def final_def run_guarded rtty_body_def demo_rtty_payload rtty_launch_def demo_rtty_def
        findCertAndKey_def run_simps)
qed

theorem rtty_starts_after_kill_witness:
  "safe_payload (demo_session\<lparr>rp_Timeout := 60\<rparr>) \<and> rtty_events demo_os demo_rtty (Some live) demo_rtty_command (start ()) \<noteq> []"
proof -
  have "XStart ''/usr/sbin/rtty'' (rtty_args (demo_session\<lparr>rp_Timeout := 60\<rparr>) ''cert.pem'' ''key.pem'') None
      \<in> set (rtty_events demo_os demo_rtty (Some live) demo_rtty_command (start ()))" by (simp add: demo_rtty_events)
  from rtty_starts_after_kill [OF this] show ?thesis by (auto simp: demo_rtty_payload)
qed

text \<open>
  An RTTY command is answered with success exactly when a session was started, which happens for a
  payload that is valid only.
\<close>

theorem rtty_success_iff_started:
  "(\<exists>out. rtty_result sys e c msg s = Inr out) \<longleftrightarrow>
     (\<exists>bin args. XStart bin args None \<in> set (rtty_events sys e c msg s)) \<and> (\<exists>cfg. rtty_command (ac_Payload msg) = Inr cfg)"
  using rtty_run [of c msg sys e s] by (auto elim!: session_path.cases)

section \<open>The trace executor\<close>


text \<open>A system on which everything succeeds, and a command for it\<close>

definition demo_trace_os :: "unit trace_system" where
  "demo_trace_os = \<lparr>tr_CreateTemp = (\<lambda>w. (Inr ''/tmp/pcap-1.pcap'', w)), tr_Run = (\<lambda>_ _ _ _ w. ((None, None), w)),
     tr_Open = (\<lambda>_ w. Inr (''pcap'', None)), tr_Post = (\<lambda>_ _ _ _ w. (Inr (200, []), w)), tr_Remove = (\<lambda>_ w. w)\<rparr>"

definition demo_inspector :: "unit network_inspector" where
  "demo_inspector = \<lparr>NetInterfaces = (\<lambda>_. Inr [\<lparr>if_Name = ''eth0'', if_Alias = ''WAN'', if_IsSlave = False\<rparr>,
      \<lparr>if_Name = ''eth1'', if_Alias = ''LAN'', if_IsSlave = False\<rparr>]), InterfaceExists = (\<lambda>n _. n \<in> {''eth0'', ''eth1''})\<rparr>"

definition demo_trace :: "unit trace_executor" where
  "demo_trace = \<lparr>te_system = demo_trace_os, te_uploadTimeout = 30000000000, te_inspector = demo_inspector, te_routeResolver = None\<rparr>"

definition demo_capture :: trace_payload where
  "demo_capture = zero_trace\<lparr>tp_Network := ''up'', tp_Packets := 100, tp_URI := ''https://gw/upload''\<rparr>"

definition demo_trace_command :: action_command where
  "demo_trace_command = demo_command (marshal_obj
     [(''network'', OStr ''up''), (''packets'', ONum 100), (''uri'', OStr ''https://gw/upload'')])"

lemma demo_trace_decodes:
  "Unmarshal_tracePayload (ac_Payload demo_trace_command) = Inr demo_capture"
  "json_valid (ac_Payload demo_trace_command)"
proof -
  have "json_parse (ac_Payload demo_trace_command) = Some (JObj (map json_member
      [(''network'', OStr ''up''), (''packets'', ONum 100), (''uri'', OStr ''https://gw/upload'')]))"
    unfolding demo_trace_command_def demo_command_sels by (rule json_parse_marshal) (auto simp: member_ok_ascii)
  then show "Unmarshal_tracePayload (ac_Payload demo_trace_command) = Inr demo_capture"
    "json_valid (ac_Payload demo_trace_command)"
    by (simp_all add: Unmarshal_tracePayload_def decode_struct_def json_member_def field_for_def trace_fields_def
        put_tracePayload_def set_string_def set_int_def json_int_itoa in_int64_def demo_capture_def zero_trace_def
        utf8_valid_ascii json_valid_def)
qed

lemma demo_trace_request:
  "choose_interface demo_trace demo_capture () = Inr ''eth0''" "check_interface demo_trace ''eth0'' () = None"
  "check_uri ''https://gw/upload'' = None"
  by code_simp+

lemma demo_upload:
  "upload_answer (Inr (200, [])) = None"
  "upload_stream ''/tmp/pcap-1.pcap'' (Inr (''pcap'', None)) = FilePart ''file'' ''pcap-1.pcap'' ''pcap'' None"
  by code_simp+

lemma demo_trace_events:
  "trace_events demo_trace (Some live) demo_trace_command (start ()) =
     (let p = demo_capture\<lparr>tp_Interface := ''eth0''\<rparr>; path = ''/tmp/pcap-1.pcap''
      in [XCreateTemp (Inr path), XCommand 60000000000 ''/usr/bin/tcpdump'' (tcpdump_args p path) None,
          XOpen path (Inr (''pcap'', None)),
          XPost ''https://gw/upload'' (FilePart ''file'' ''pcap-1.pcap'' ''pcap'' None) (Inr (200, [])), XRemove path])"
proof -
  have guard: "command_guard ActionTrace (Some live) demo_trace_command (start () :: unit exec_world) = None"
    using demo_trace_decodes(2)
    by (auto simp: command_guard_def live_def demo_trace_command_def MinimalTarget_def MinimalRPCID_def marshal_obj_def)
  have "trace_request demo_trace (ac_Payload demo_trace_command) () = Inr (demo_capture\<lparr>tp_Interface := ''eth0''\<rparr>)"
    using demo_trace_request
    by (simp add: trace_request_def demo_trace_decodes) (simp add: demo_capture_def zero_trace_def maxDuration_def maxPackets_def)
  with guard demo_trace_request(3) show ?thesis
    by (simp add: events_def final_def run_guarded trace_body_def capture_and_upload_def uploadFile_def run_simps
        capture_failure_def demo_trace_def demo_trace_os_def demo_capture_def zero_trace_def capture_seconds_def Let_def
        check_uri_def demo_upload split: option.splits)
qed


text \<open>
  C29. The capture file does not stay: whatever happens after it was created, removing it is the last
  thing the command does.  No other file is opened, and what is posted is what opening this file gave.
\<close>

theorem capture_file_removed:
  assumes "XCreateTemp (Inr path) \<in> set (trace_events e c msg s)"
  shows "last (trace_events e c msg s) = XRemove path \<and>
    (\<forall>file opened. XOpen file opened \<in> set (trace_events e c msg s) \<longrightarrow> file = path) \<and>
    (\<forall>uri stream r. XPost uri stream r \<in> set (trace_events e c msg s) \<longrightarrow>
       (\<exists>opened. XOpen path opened \<in> set (trace_events e c msg s) \<and> stream = upload_stream path opened))"
  using trace_run [of c msg e s] assms
  by (auto elim!: trace_path.cases)

theorem capture_file_removed_witness:
  "last (trace_events demo_trace (Some live) demo_trace_command (start ())) = XRemove ''/tmp/pcap-1.pcap''"
  using capture_file_removed [of "''/tmp/pcap-1.pcap''" "Some live" demo_trace_command demo_trace "start ()"]
  by (simp add: demo_trace_events Let_def)

text \<open>
  A trace command is answered with success exactly when the capture was uploaded, to an http or
  https address, and the server took it.
\<close>

theorem trace_success_iff_uploaded:
  "(\<exists>out. trace_result e c msg s = Inr out) \<longleftrightarrow>
     (\<exists>uri stream status body u. XPost uri stream (Inr (status, body)) \<in> set (trace_events e c msg s) \<and>
        200 \<le> status \<and> status < 300 \<and> url_Parse uri = Some u \<and> u_Scheme u \<in> {''http'', ''https''})"
  using trace_run [of c msg e s] by (auto simp: safe_request_def upload_answer_None upload_accepted elim!: trace_path.cases)

section \<open>The process runner\<close>

text \<open>
  C30. While no termination has failed, there is at most one session, and none when a new one is
  about to be started, in every interleaving of the executor's calls, the waiting goroutines and the
  operating system, as long as a process number is not given away again before the goroutine of the
  process that had it is through.
\<close>

theorem sessions_never_overlap:
  assumes "runner_reach False r" and "\<not> rn_killFailed r"
  shows "(\<forall>h k. open_session r h \<and> open_session r k \<longrightarrow> h = k) \<and>
    (rn_caller r = Cleared \<longrightarrow> (\<forall>h. \<not> open_session r h))"
proof -
  note inv = runner_invariant [OF assms(1)]
  have tracked: "tracked r h" if "open_session r h" for h
    using runner_invD(8) [OF inv that] assms(2) by simp
  have fits: "caller_fits (rn_caller r) (rn_activeCmd r)" using runner_invD(3) [OF inv] .
  have "h = k" if "open_session r h" "open_session r k" for h k
    using tracked [OF that(1)] tracked [OF that(2)] fits by (cases "rn_caller r") (simp_all add: tracked_def)
  moreover have "\<not> open_session r h" if "rn_caller r = Cleared" for h
    using tracked [of h] fits that by (auto simp: tracked_def)
  ultimately show ?thesis by blast
qed

text \<open>A first session has been started, and is still running.\<close>

definition one_session :: runner where
  "one_session = (start_session 0 100 ((forget_active new_runner)\<lparr>rn_caller := Cleared\<rparr>))\<lparr>rn_caller := Resting\<rparr>"

lemmas run_defs = one_session_def new_runner_def forget_active_def start_session_def advance_def settle_def pid_free_def

lemma one_session_reached: "runner_reach reuse one_session"
proof -
  have "runner_reach reuse ((forget_active new_runner)\<lparr>rn_caller := Cleared\<rparr>)"
    by (rule runner_reach.step [OF initial nothing_to_kill]) (simp_all add: run_defs)
  then have "runner_reach reuse (start_session 0 100 ((forget_active new_runner)\<lparr>rn_caller := Cleared\<rparr>))"
    by (rule runner_reach.step [OF _ start]) (simp_all add: run_defs)
  then show ?thesis
    unfolding one_session_def by (rule runner_reach.step [OF _ start_returns]) (simp add: run_defs)
qed

theorem sessions_never_overlap_witness:
  "{h. open_session one_session h} = {0}"
proof -
  have "open_session one_session 0" "\<not> rn_killFailed one_session"
    by (simp_all add: one_session_def open_session_def run_defs)
  with sessions_never_overlap [OF one_session_reached] show ?thesis by blast
qed

text \<open>
  A termination that fails (it timed out, or the command's context ended) forgets the session: the
  next command finds nothing to terminate and starts a second session while the first one still runs.
\<close>

lemma failed_kill_leaves_session:
  "\<exists>r h k. runner_reach False r \<and> h \<noteq> k \<and> rn_phase r h = Running \<and> rn_phase r k = Running \<and> rn_activeCmd r = Some k"
proof -
  let ?r1 = "(forget_active one_session)\<lparr>rn_caller := Killing 0 False\<rparr>"
  let ?r2 = "?r1\<lparr>rn_caller := Resting, rn_killFailed := True\<rparr>"
  let ?r3 = "(forget_active ?r2)\<lparr>rn_caller := Cleared\<rparr>"
  let ?r4 = "start_session 1 101 ?r3"
  have "runner_reach False ?r1"
    by (rule runner_reach.step [OF one_session_reached terminate]) (simp_all add: run_defs)
  then have "runner_reach False ?r2" by (rule runner_reach.step [OF _ kill_cancelled [where h = 0 and esc = False]]) (simp add: run_defs)
  then have "runner_reach False ?r3" by (rule runner_reach.step [OF _ nothing_to_kill]) (simp_all add: run_defs)
  then have "runner_reach False ?r4" by (rule runner_reach.step [OF _ start]) (simp_all add: run_defs)
  moreover have "rn_phase ?r4 0 = Running" "rn_phase ?r4 1 = Running" "rn_activeCmd ?r4 = Some 1"
    by (simp_all add: run_defs)
  ultimately show ?thesis by (metis zero_neq_one)
qed

text \<open>
  The goroutine recognises its session by the process number alone: when the session before ended
  by itself, and the operating system gave its number to the new one at once, the old goroutine forgets
  the new session, and a further command starts another beside it, with no termination having failed.
\<close>

lemma reused_pid_forgets_session:
  "\<exists>r h k. runner_reach True r \<and> \<not> rn_killFailed r \<and> h \<noteq> k \<and> rn_phase r h = Running \<and> rn_phase r k = Running"
proof -
  let ?r1 = "advance 0 Zombie one_session"
  let ?r2 = "advance 0 Waited ?r1"
  let ?r3 = "advance 0 Signalled ?r2"
  let ?r4 = "(forget_active ?r3)\<lparr>rn_caller := Killing 0 False\<rparr>"
  let ?r5 = "?r4\<lparr>rn_caller := Cleared\<rparr>"
  let ?r6 = "start_session 1 100 ?r5"
  let ?r7 = "?r6\<lparr>rn_caller := Resting\<rparr>"
  let ?r8 = "settle 0 ?r7"
  let ?r9 = "(forget_active ?r8)\<lparr>rn_caller := Cleared\<rparr>"
  let ?r10 = "start_session 2 101 ?r9"
  have "runner_reach True ?r1" by (rule runner_reach.step [OF one_session_reached exits]) (simp add: run_defs)
  then have "runner_reach True ?r2" by (rule runner_reach.step [OF _ waited]) (simp add: run_defs)
  then have "runner_reach True ?r3" by (rule runner_reach.step [OF _ signalled]) (simp add: run_defs)
  then have "runner_reach True ?r4" by (rule runner_reach.step [OF _ terminate]) (simp_all add: run_defs)
  then have "runner_reach True ?r5" by (rule runner_reach.step [OF _ killed [where h = 0 and esc = False]]) (simp_all add: run_defs)
  then have "runner_reach True ?r6" by (rule runner_reach.step [OF _ start]) (simp_all add: run_defs)
  then have "runner_reach True ?r7" by (rule runner_reach.step [OF _ start_returns]) (simp add: run_defs)
  then have "runner_reach True ?r8" by (rule runner_reach.step [OF _ settled]) (simp_all add: run_defs)
  then have "runner_reach True ?r9" by (rule runner_reach.step [OF _ nothing_to_kill]) (simp_all add: run_defs)
  then have "runner_reach True ?r10" by (rule runner_reach.step [OF _ start]) (simp_all add: run_defs)
  moreover have "rn_phase ?r10 1 = Running" "rn_phase ?r10 2 = Running" "\<not> rn_killFailed ?r10"
    by (simp_all add: run_defs)
  ultimately show ?thesis by (metis num.distinct(1) numeral_eq_one_iff)
qed

end
