(* ===== verification/Duration.thy ===== *)
theory Duration
  imports Utf8
begin

text \<open>
  \<^verbatim>\<open>time.ParseDuration\<close> of Go's standard library (Go 1.25.0, the version in go.mod), which the
  configuration is read with: a sign, then one or more numbers with a unit, summed in nanoseconds with
  the overflow checks of the original.  A string that is not a duration is None; what the error says is
  not modelled.  The fraction of a number goes through float64 arithmetic there; \<open>float64\<close> rounds to 53
  bits, ties to even, as that does.  It has no largest exponent and no subnormal numbers: those are met
  only for a fraction of more than 300 digits, whose nanoseconds come out as 0 either way.
\<close>

section \<open>Rounding to float64\<close>

fun bit_len :: "int \<Rightarrow> int" where
  "bit_len n = (if n \<le> 0 then 0 else 1 + bit_len (n div 2))"

declare bit_len.simps [simp del]

text \<open>\<open>a / b\<close> to the nearest integer, ties to even\<close>

definition round_even :: "int \<Rightarrow> int \<Rightarrow> int" where
  "round_even a b =
     (let q = a div b; r = a mod b in if 2 * r < b \<or> 2 * r = b \<and> even q then q else q + 1)"

text \<open>\<open>a / (b * 2 ^ e)\<close> as numerator and denominator\<close>

definition scale_down :: "int \<Rightarrow> int \<Rightarrow> int \<Rightarrow> int \<times> int" where
  "scale_down e a b = (if e \<ge> 0 then (a, b * 2 ^ nat e) else (a * 2 ^ nat (- e), b))"

text \<open>The float64 nearest to \<open>a / b\<close> (both positive), again as numerator and denominator\<close>

definition float64 :: "int \<Rightarrow> int \<Rightarrow> int \<times> int" where
  "float64 a b =
     (let e0 = bit_len a - bit_len b - 53;
          (n0, d0) = scale_down e0 a b;
          e = (if n0 div d0 \<ge> 2 ^ 53 then e0 + 1 else e0);
          (n, d) = scale_down e a b;
          m = round_even n d
      in if e \<ge> 0 then (m * 2 ^ nat e, 1) else (m, 2 ^ nat (- e)))"

text \<open>\<^verbatim>\<open>uint64(float64(f) * (float64(unit) / scale))\<close>, the scale a float64 as well; \<open>f\<close> is positive.\<close>

definition fraction_ns :: "int \<Rightarrow> int \<times> int \<Rightarrow> int \<Rightarrow> int" where
  "fraction_ns f scale unit =
     (let (n1, d1) = float64 f 1;
          (n2, d2) = float64 (unit * snd scale) (fst scale);
          (n, d) = float64 (n1 * n2) (d1 * d2)
      in n div d)"

section \<open>Parsing\<close>

text \<open>The bound \<^verbatim>\<open>1 << 63\<close> of the sums, and the 64 bits they wrap around at\<close>

abbreviation (input) two63 :: int where "two63 \<equiv> 9223372036854775808"

definition uint64 :: "int \<Rightarrow> int" where
  "uint64 x = x mod 18446744073709551616"

definition digit_int :: "char \<Rightarrow> int" where
  "digit_int c = int (byte c) - 48"

text \<open>\<^verbatim>\<open>leadingInt\<close>: None on overflow\<close>

fun leadingInt :: "int \<Rightarrow> string \<Rightarrow> (int \<times> string) option" where
  "leadingInt x [] = Some (x, [])"
| "leadingInt x (c # s) =
     (if \<not> is_digit c then Some (x, c # s)
      else if x > two63 div 10 then None
      else if x * 10 + digit_int c > two63 then None
      else leadingInt (x * 10 + digit_int c) s)"

text \<open>\<^verbatim>\<open>leadingFraction\<close>: the digits that still fit, their scale (a float64), and what is behind all of them\<close>

fun leadingFraction :: "bool \<Rightarrow> int \<Rightarrow> int \<times> int \<Rightarrow> string \<Rightarrow> int \<times> (int \<times> int) \<times> string" where
  "leadingFraction full x scale [] = (x, scale, [])"
| "leadingFraction full x scale (c # s) =
     (if \<not> is_digit c then (x, scale, c # s)
      else if full then leadingFraction True x scale s
      else if x > (two63 - 1) div 10 then leadingFraction True x scale s
      else if x * 10 + digit_int c > two63 then leadingFraction True x scale s
      else leadingFraction False (x * 10 + digit_int c) (float64 (fst scale * 10) (snd scale)) s)"

definition duration_unit :: "string \<Rightarrow> int option" where
  "duration_unit u =
     (if u = ''ns'' then Some 1
      else if u = ''us'' \<or> u = [CHR 0xC2, CHR 0xB5, CHR ''s''] \<or> u = [CHR 0xCE, CHR 0xBC, CHR ''s''] then Some 1000
      else if u = ''ms'' then Some 1000000
      else if u = ''s'' then Some 1000000000
      else if u = ''m'' then Some 60000000000
      else if u = ''h'' then Some 3600000000000 else None)"

definition number_char :: "char \<Rightarrow> bool" where
  "number_char c \<longleftrightarrow> c = CHR ''.'' \<or> is_digit c"

text \<open>The fraction behind a number: its digits and scale, whether there was a digit, and the rest\<close>

definition duration_fraction :: "string \<Rightarrow> int \<times> (int \<times> int) \<times> bool \<times> string" where
  "duration_fraction s =
     (case s of
        c # t \<Rightarrow>
          if c = CHR ''.'' then (case leadingFraction False 0 (1, 1) t of (f, scale, rest) \<Rightarrow>
                                   (f, scale, length rest \<noteq> length t, rest))
          else (0, (1, 1), False, s)
      | [] \<Rightarrow> (0, (1, 1), False, s))"

text \<open>The nanoseconds of a number, its fraction and its unit: None when they do not fit\<close>

definition duration_ns :: "int \<Rightarrow> int \<Rightarrow> int \<times> int \<Rightarrow> int \<Rightarrow> int option" where
  "duration_ns v f scale unit =
     (if v > two63 div unit then None
      else if f > 0 then (let w = uint64 (v * unit + fraction_ns f scale unit) in if w > two63 then None else Some w)
      else Some (v * unit))"

text \<open>One round of the loop: a number with its unit, in nanoseconds, and the rest\<close>

definition duration_term :: "string \<Rightarrow> (int \<times> string) option" where
  "duration_term s =
     (if s = [] \<or> \<not> number_char (hd s) then None
      else (case leadingInt 0 s of
              None \<Rightarrow> None
            | Some (v, s1) \<Rightarrow>
                (case duration_fraction s1 of (f, scale, post, s2) \<Rightarrow>
                   if length s1 = length s \<and> \<not> post then None
                   else (let unit = takeWhile (\<lambda>c. \<not> number_char c) s2;
                             rest = dropWhile (\<lambda>c. \<not> number_char c) s2
                         in if unit = [] then None
                            else (case duration_unit unit of
                                    None \<Rightarrow> None
                                  | Some u \<Rightarrow> map_option (\<lambda>w. (w, rest)) (duration_ns v f scale u))))))"

lemma leadingInt_length: "leadingInt x s = Some (v, s') \<Longrightarrow> length s' \<le> length s"
  by (induction x s rule: leadingInt.induct) (auto split: if_splits)

lemma leadingFraction_length: "leadingFraction full x scale s = (f, scale', s') \<Longrightarrow> length s' \<le> length s"
  by (induction full x scale s rule: leadingFraction.induct) (auto split: if_splits)

lemma duration_fraction_length: "duration_fraction s = (f, scale, post, s') \<Longrightarrow> length s' \<le> length s"
  by (auto simp: duration_fraction_def dest!: leadingFraction_length split: list.splits if_splits prod.splits)

text \<open>Every round takes at least a unit away.\<close>

lemma duration_term_length:
  assumes "duration_term s = Some (w, rest)"
  shows "length rest < length s"
proof -
  from assms obtain v s1 f scale post s2
    where "leadingInt 0 s = Some (v, s1)" "duration_fraction s1 = (f, scale, post, s2)"
      and u: "takeWhile (\<lambda>c. \<not> number_char c) s2 \<noteq> []" and r: "rest = dropWhile (\<lambda>c. \<not> number_char c) s2"
    by (auto simp: duration_term_def Let_def split: if_splits option.splits prod.splits)
  then have "length s2 \<le> length s"
    using leadingInt_length duration_fraction_length by (meson order_trans)
  moreover have "length rest < length s2"
    using u length_append [of "takeWhile (\<lambda>c. \<not> number_char c) s2" rest] unfolding r takeWhile_dropWhile_id
    by (cases "takeWhile (\<lambda>c. \<not> number_char c) s2") simp_all
  ultimately show ?thesis by simp
qed

function duration_terms :: "int \<Rightarrow> string \<Rightarrow> int option" where
  "duration_terms d s =
     (if s = [] then Some d
      else (case duration_term s of
              None \<Rightarrow> None
            | Some (w, rest) \<Rightarrow> if uint64 (d + w) > two63 then None else duration_terms (uint64 (d + w)) rest))"
  by auto
termination
  by (relation "measure (length \<circ> snd)") (auto dest!: duration_term_length)

declare duration_terms.simps [simp del]

definition drop_sign :: "string \<Rightarrow> bool \<times> string" where
  "drop_sign s =
     (case s of
        c # r \<Rightarrow> if c = CHR ''-'' then (True, r) else if c = CHR ''+'' then (False, r) else (False, s)
      | [] \<Rightarrow> (False, s))"

definition ParseDuration :: "string \<Rightarrow> int option" where
  "ParseDuration s =
     (case drop_sign s of (neg, t) \<Rightarrow>
        if t = ''0'' then Some 0
        else if t = [] then None
        else (case duration_terms 0 t of
                None \<Rightarrow> None
              | Some d \<Rightarrow> if neg then Some (- d) else if d > two63 - 1 then None else Some d))"

end
