(* ===== verification/Config.thy ===== *)
theory Config
  imports Duration NetUrl "HOL-Library.Word"
begin

text \<open>
  The agent's configuration (internal/config): its records, the defaults, validation, the conversion
  to the configuration of the bus library, and loading.  Reading a file, the environment and the YAML
  decoder are parameters.  Go's \<^verbatim>\<open>int\<close> fields are only compared with constants and copied, so they are
  \<open>int\<close> here; the fields of 8 and 32 bits are words.
\<close>

section \<open>The configuration (config.go)\<close>

record logging_config =
  lg_Enabled :: bool
  lg_Level :: string
  lg_Format :: string

record configure_config =
  cm_Mode :: string

record debug_config =
  db_LogPayloads :: bool
  db_LogRendered :: bool
  db_LogApplyPlan :: bool

record apply_config =
  al_SaveAfterCommit :: bool

record actions_config =
  ax_Mode :: string
  ax_Enabled :: "string list"

record agent_config =
  ag_Name :: string
  ag_Version :: string
  ag_Target :: string
  ag_StateFile :: string
  ag_Logging :: logging_config
  ag_Configure :: configure_config
  ag_Debug :: debug_config
  ag_Apply :: apply_config
  ag_Actions :: actions_config

record tls_config =
  tls_Enabled :: bool
  tls_InsecureSkipVerify :: bool
  tls_CAFile :: string
  tls_CertFile :: string
  tls_KeyFile :: string
  tls_ServerName :: string

record nats_config =
  nc_Servers :: "string list"
  nc_ClientName :: string
  nc_CredentialsFile :: string
  nc_NKeySeedFile :: string
  nc_UserJWTFile :: string
  nc_Username :: string
  nc_Password :: string
  nc_Token :: string
  nc_ConnectTimeout :: string
  nc_RetryOnFailedConnect :: bool
  nc_MaxReconnects :: int
  nc_ReconnectWait :: string
  nc_ReconnectBufSize :: int
  nc_TLS :: tls_config

record jetstream_config =
  js_Domain :: string
  js_APIPrefix :: string
  js_DefaultTimeout :: string

record subject_config =
  sj_ConfigurePattern :: string
  sj_ActionPattern :: string
  sj_ResultPattern :: string
  sj_StatusPattern :: string
  sj_HealthPattern :: string

record kv_config =
  kv_Bucket :: string
  kv_KeyPattern :: string
  kv_AutoCreateBucket :: bool
  kv_History :: "8 word"
  kv_TTL :: string
  kv_MaxValueSize :: "32 word"
  kv_Storage :: string
  kv_Replicas :: int

record timeout_config =
  tm_PublishTimeout :: string
  tm_SubscribeTimeout :: string
  tm_KVTimeout :: string
  tm_ShutdownTimeout :: string
  tm_HandlerWarnAfter :: string

record retry_config =
  rt_PublishAttempts :: int
  rt_PublishBackoff :: string

record execution_config =
  xc_HandlerMode :: string

record agentcore_config =
  core_NATS :: nats_config
  core_JetStream :: jetstream_config
  core_Subjects :: subject_config
  core_KV :: kv_config
  core_Timeouts :: timeout_config
  core_Retry :: retry_config
  core_Execution :: execution_config

record app_config =
  app_Agent :: agent_config
  app_AgentCore :: agentcore_config

section \<open>Defaults (defaults.go)\<close>

definition default_agent :: agent_config where
  "default_agent =
     \<lparr>ag_Name = ''vyos-nats-agent'', ag_Version = ''0.1.0'', ag_Target = ''vyos'',
      ag_StateFile = ''/tmp/vyos-nats-agent/state.json'',
      ag_Logging = \<lparr>lg_Enabled = True, lg_Level = ''info'', lg_Format = ''text''\<rparr>,
      ag_Configure = \<lparr>cm_Mode = ''placeholder''\<rparr>,
      ag_Debug = \<lparr>db_LogPayloads = False, db_LogRendered = False, db_LogApplyPlan = False\<rparr>,
      ag_Apply = \<lparr>al_SaveAfterCommit = False\<rparr>,
      ag_Actions = \<lparr>ax_Mode = ''placeholder'', ax_Enabled = [''trace'', ''rtty'']\<rparr>\<rparr>"

definition default_nats :: nats_config where
  "default_nats =
     \<lparr>nc_Servers = [''nats://127.0.0.1:4222''], nc_ClientName = ''vyos-nats-agent'', nc_CredentialsFile = [],
      nc_NKeySeedFile = [], nc_UserJWTFile = [], nc_Username = [], nc_Password = [], nc_Token = [],
      nc_ConnectTimeout = ''5s'', nc_RetryOnFailedConnect = False, nc_MaxReconnects = - 1,
      nc_ReconnectWait = ''2s'', nc_ReconnectBufSize = 0,
      nc_TLS = \<lparr>tls_Enabled = False, tls_InsecureSkipVerify = False, tls_CAFile = [], tls_CertFile = [],
                tls_KeyFile = [], tls_ServerName = []\<rparr>\<rparr>"

definition default_agentcore :: agentcore_config where
  "default_agentcore =
     \<lparr>core_NATS = default_nats,
      core_JetStream = \<lparr>js_Domain = [], js_APIPrefix = [], js_DefaultTimeout = ''5s''\<rparr>,
      core_Subjects = \<lparr>sj_ConfigurePattern = ''cmd.configure.%s'', sj_ActionPattern = ''cmd.action.%s.%s'',
                       sj_ResultPattern = ''result.%s'', sj_StatusPattern = ''status.%s'',
                       sj_HealthPattern = ''health.%s''\<rparr>,
      core_KV = \<lparr>kv_Bucket = ''cfg_desired'', kv_KeyPattern = ''desired.%s'', kv_AutoCreateBucket = True,
                 kv_History = 1, kv_TTL = [], kv_MaxValueSize = 0, kv_Storage = ''file'', kv_Replicas = 1\<rparr>,
      core_Timeouts = \<lparr>tm_PublishTimeout = ''5s'', tm_SubscribeTimeout = ''5s'', tm_KVTimeout = ''5s'',
                       tm_ShutdownTimeout = ''10s'', tm_HandlerWarnAfter = ''2s''\<rparr>,
      core_Retry = \<lparr>rt_PublishAttempts = 1, rt_PublishBackoff = ''250ms''\<rparr>,
      core_Execution = \<lparr>xc_HandlerMode = ''sync''\<rparr>\<rparr>"

definition DefaultAppConfig :: app_config where
  "DefaultAppConfig = \<lparr>app_Agent = default_agent, app_AgentCore = default_agentcore\<rparr>"

section \<open>Checks of one field (validate.go)\<close>

text \<open>An error whose text is the name of a field and what is wrong with it\<close>

definition field_error :: "string \<Rightarrow> string \<Rightarrow> go_error" where
  "field_error field text = Errorf [Txt field, Txt text]"

definition validateNoWhitespace :: "string \<Rightarrow> string \<Rightarrow> go_error option" where
  "validateNoWhitespace field v =
     (if has_space v then Some (field_error field '' must not contain whitespace'') else None)"

text \<open>The loop over the format: the number of placeholders, counted up from \<open>n\<close>\<close>

fun scan_placeholders :: "string \<Rightarrow> nat \<Rightarrow> string \<Rightarrow> go_error + nat" where
  "scan_placeholders field n [] = Inr n"
| "scan_placeholders field n (c # s) =
     (if c \<noteq> CHR ''%'' then scan_placeholders field n s
      else (case s of
              [] \<Rightarrow> Inl (field_error field '' contains unsupported format directive %'')
            | d # s' \<Rightarrow>
                if d \<noteq> CHR ''s'' then
                  Inl (field_error field ('' contains unsupported format directive %'' @ utf8_enc (byte d)))
                else scan_placeholders field (Suc n) s'))"

definition validateFormatPlaceholders :: "string \<Rightarrow> string \<Rightarrow> nat \<Rightarrow> go_error option" where
  "validateFormatPlaceholders field v k =
     (case scan_placeholders field 0 v of
        Inl e \<Rightarrow> Some e
      | Inr n \<Rightarrow>
          if n \<noteq> k then
            Some (Errorf [Txt field, Txt '' must contain exactly '', Decimal (int k), Txt '' %s placeholder(s)''])
          else None)"

text \<open>The checks in order: the first error there is\<close>

abbreviation first_error :: "go_error option list \<Rightarrow> go_error option" where
  "first_error es \<equiv> first_some (\<lambda>e. e) es"

definition require :: "bool \<Rightarrow> string \<Rightarrow> go_error option" where
  "require ok text = (if ok then None else Some (ErrorsNew text))"

definition require_field :: "bool \<Rightarrow> string \<Rightarrow> string \<Rightarrow> go_error option" where
  "require_field ok field text = (if ok then None else Some (field_error field text))"

definition validateSubjectPattern :: "string \<Rightarrow> string \<Rightarrow> nat \<Rightarrow> go_error option" where
  "validateSubjectPattern field pattern k =
     first_error
       [require_field (pattern \<noteq> []) field '' is required'',
        require_field (trim_space pattern = pattern) field '' must not contain leading or trailing whitespace'',
        validateNoWhitespace field pattern,
        require_field (\<not> contains_any pattern ''*>'') field '' must not contain wildcard tokens * or >'',
        validateFormatPlaceholders field pattern k]"

definition validateKeyPattern :: "string \<Rightarrow> go_error option" where
  "validateKeyPattern pattern =
     (let field = ''agentcore.kv.key_pattern''
      in first_error
           [require_field (pattern \<noteq> []) field '' is required'',
            require_field (trim_space pattern = pattern) field '' must not contain leading or trailing whitespace'',
            validateNoWhitespace field pattern,
            validateFormatPlaceholders field pattern 1])"

text \<open>The error of \<^verbatim>\<open>time.ParseDuration\<close> quotes its argument; its wording is not read by the code.\<close>

definition invalid_duration :: "string \<Rightarrow> go_error" where
  "invalid_duration s = Errorf [Txt ''time: invalid duration '', Quoted s]"

definition parseDurationField :: "string \<Rightarrow> string \<Rightarrow> bool \<Rightarrow> go_error + int" where
  "parseDurationField field raw optional =
     (let trimmed = trim_space raw
      in if trimmed = [] then (if optional then Inr 0 else Inl (field_error field '' is required''))
         else (case ParseDuration trimmed of
                 None \<Rightarrow> Inl (Errorf [Txt field, Txt '' is not a valid duration: '', Wrapped (invalid_duration trimmed)])
               | Some d \<Rightarrow> if d < 0 then Inl (field_error field '' must not be negative'') else Inr d))"

definition error_of :: "go_error + 'a \<Rightarrow> go_error option" where
  "error_of r = (case r of Inl e \<Rightarrow> Some e | Inr _ \<Rightarrow> None)"

fun check_actions :: "string set \<Rightarrow> string list \<Rightarrow> go_error option" where
  "check_actions seen [] = None"
| "check_actions seen (a # as) =
     (if a \<noteq> ''trace'' \<and> a \<noteq> ''rtty'' then
        Some (Errorf [Txt ''agent.actions.enabled contains unsupported action '', Quoted a])
      else if a \<in> seen then
        Some (Errorf [Txt ''agent.actions.enabled contains duplicate action '', Quoted a])
      else check_actions (insert a seen) as)"

section \<open>Validation\<close>

definition subject_rules :: "subject_config \<Rightarrow> (string \<times> string \<times> nat) list" where
  "subject_rules sj =
     [(''agentcore.subjects.configure_pattern'', sj_ConfigurePattern sj, 1),
      (''agentcore.subjects.action_pattern'', sj_ActionPattern sj, 2),
      (''agentcore.subjects.result_pattern'', sj_ResultPattern sj, 1),
      (''agentcore.subjects.status_pattern'', sj_StatusPattern sj, 1),
      (''agentcore.subjects.health_pattern'', sj_HealthPattern sj, 1)]"

definition required_durations :: "agentcore_config \<Rightarrow> (string \<times> string) list" where
  "required_durations core =
     [(''agentcore.nats.connect_timeout'', nc_ConnectTimeout (core_NATS core)),
      (''agentcore.nats.reconnect_wait'', nc_ReconnectWait (core_NATS core)),
      (''agentcore.jetstream.default_timeout'', js_DefaultTimeout (core_JetStream core)),
      (''agentcore.timeouts.publish_timeout'', tm_PublishTimeout (core_Timeouts core)),
      (''agentcore.timeouts.subscribe_timeout'', tm_SubscribeTimeout (core_Timeouts core)),
      (''agentcore.timeouts.kv_timeout'', tm_KVTimeout (core_Timeouts core)),
      (''agentcore.timeouts.shutdown_timeout'', tm_ShutdownTimeout (core_Timeouts core)),
      (''agentcore.timeouts.handler_warn_after'', tm_HandlerWarnAfter (core_Timeouts core)),
      (''agentcore.retry.publish_backoff'', rt_PublishBackoff (core_Retry core))]"

definition Validate_agent :: "agent_config \<Rightarrow> go_error option" where
  "Validate_agent a =
     first_error
       [require (\<not> blank (ag_Target a)) ''agent.target is required'',
        require (\<not> blank (ag_StateFile a)) ''agent.state_file is required'',
        require (lg_Level (ag_Logging a) \<in> {''debug'', ''info'', ''warn'', ''error''})
          ''agent.logging.level must be one of debug, info, warn, error'',
        require (lg_Format (ag_Logging a) \<in> {''text'', ''json''}) ''agent.logging.format must be one of text, json'',
        require (cm_Mode (ag_Configure a) \<in> {''placeholder'', ''real''})
          ''agent.configure.mode must be one of placeholder, real'',
        require (ax_Mode (ag_Actions a) \<in> {''placeholder'', ''real''})
          ''agent.actions.mode must be one of placeholder, real'',
        check_actions {} (ax_Enabled (ag_Actions a))]"

definition Validate_nats :: "nats_config \<Rightarrow> go_error option" where
  "Validate_nats n =
     first_error
       [require (nc_Servers n \<noteq> []) ''agentcore.nats.servers must not be empty'',
        require (list_ex (\<lambda>s. \<not> blank s) (nc_Servers n))
          ''agentcore.nats.servers must contain at least one non-empty server'',
        require (\<not> nc_MaxReconnects n < - 1) ''agentcore.nats.max_reconnects must be -1 or greater'',
        require (\<not> nc_ReconnectBufSize n < 0) ''agentcore.nats.reconnect_buf_size must not be negative'']"

definition Validate_kv :: "kv_config \<Rightarrow> go_error option" where
  "Validate_kv k =
     first_error
       [require (\<not> blank (kv_Bucket k)) ''agentcore.kv.bucket is required'',
        validateKeyPattern (kv_KeyPattern k),
        require (\<not> (kv_History k < 1 \<or> kv_History k > 64)) ''agentcore.kv.history must be between 1 and 64'',
        require (\<not> kv_MaxValueSize k <s 0) ''agentcore.kv.max_value_size must not be negative'',
        require (kv_Storage k \<in> {''file'', ''memory''}) ''agentcore.kv.storage must be either file or memory'',
        require (\<not> kv_Replicas k < 1) ''agentcore.kv.replicas must be at least 1'']"

text \<open>\<^verbatim>\<open>AppConfig.Validate\<close>: the parts in the order of the method\<close>

definition Validate :: "app_config \<Rightarrow> go_error option" where
  "Validate c =
     (let core = app_AgentCore c
      in first_error
           [Validate_agent (app_Agent c),
            Validate_nats (core_NATS core),
            first_some (\<lambda>(field, pattern, k). validateSubjectPattern field pattern k) (subject_rules (core_Subjects core)),
            Validate_kv (core_KV core),
            require (\<not> rt_PublishAttempts (core_Retry core) < 1) ''agentcore.retry.publish_attempts must be at least 1'',
            require (xc_HandlerMode (core_Execution core) = ''sync'') ''agentcore.execution.handler_mode must be sync'',
            first_some (\<lambda>(field, v). error_of (parseDurationField field v False)) (required_durations core),
            error_of (parseDurationField ''agentcore.kv.ttl'' (kv_TTL (core_KV core)) True)])"

section \<open>The configuration of the bus library (convert.go)\<close>

text \<open>
  \<^verbatim>\<open>agentcore.Config\<close>, with the fields the conversion sets: durations in nanoseconds instead of strings.
  The fields of its JetStream and Retry parts stand beside the others here.
\<close>

record bus_nats =
  bn_Servers :: "string list"
  bn_ClientName :: string
  bn_CredentialsFile :: string
  bn_NKeySeedFile :: string
  bn_UserJWTFile :: string
  bn_Username :: string
  bn_Password :: string
  bn_Token :: string
  bn_ConnectTimeout :: int
  bn_RetryOnFailedConnect :: bool
  bn_MaxReconnects :: int
  bn_ReconnectWait :: int
  bn_ReconnectBufSize :: int
  bn_TLS :: "tls_config option"

record bus_kv =
  bk_Bucket :: string
  bk_KeyPattern :: string
  bk_AutoCreateBucket :: bool
  bk_History :: "8 word"
  bk_TTL :: int
  bk_MaxValueSize :: "32 word"
  bk_Storage :: string
  bk_Replicas :: int

record bus_timeouts =
  bt_PublishTimeout :: int
  bt_SubscribeTimeout :: int
  bt_KVTimeout :: int
  bt_ShutdownTimeout :: int

record bus_config =
  bc_AgentName :: string
  bc_Version :: string
  bc_NATS :: bus_nats
  bc_Domain :: string
  bc_APIPrefix :: string
  bc_DefaultTimeout :: int
  bc_Subjects :: subject_config
  bc_KV :: bus_kv
  bc_Timeouts :: bus_timeouts
  bc_PublishAttempts :: int
  bc_PublishBackoff :: int

text \<open>\<^verbatim>\<open>x, err := ...; if err != nil { return ..., err }\<close>\<close>

definition and_then :: "go_error + 'a \<Rightarrow> ('a \<Rightarrow> go_error + 'b) \<Rightarrow> go_error + 'b" where
  "and_then r f = (case r of Inl e \<Rightarrow> Inl e | Inr x \<Rightarrow> f x)"

definition bus_nats_of :: "nats_config \<Rightarrow> int \<Rightarrow> int \<Rightarrow> bus_nats" where
  "bus_nats_of n connectTimeout reconnectWait =
     \<lparr>bn_Servers = nc_Servers n, bn_ClientName = nc_ClientName n, bn_CredentialsFile = nc_CredentialsFile n,
      bn_NKeySeedFile = nc_NKeySeedFile n, bn_UserJWTFile = nc_UserJWTFile n, bn_Username = nc_Username n,
      bn_Password = nc_Password n, bn_Token = nc_Token n, bn_ConnectTimeout = connectTimeout,
      bn_RetryOnFailedConnect = nc_RetryOnFailedConnect n, bn_MaxReconnects = nc_MaxReconnects n,
      bn_ReconnectWait = reconnectWait, bn_ReconnectBufSize = nc_ReconnectBufSize n, bn_TLS = Some (nc_TLS n)\<rparr>"

definition bus_kv_of :: "kv_config \<Rightarrow> int \<Rightarrow> bus_kv" where
  "bus_kv_of k ttl =
     \<lparr>bk_Bucket = kv_Bucket k, bk_KeyPattern = kv_KeyPattern k, bk_AutoCreateBucket = kv_AutoCreateBucket k,
      bk_History = kv_History k, bk_TTL = ttl, bk_MaxValueSize = kv_MaxValueSize k, bk_Storage = kv_Storage k,
      bk_Replicas = kv_Replicas k\<rparr>"

definition ToAgentCoreConfig :: "app_config \<Rightarrow> go_error + bus_config" where
  "ToAgentCoreConfig c =
     (let core = app_AgentCore c; tm = core_Timeouts core; js = core_JetStream core
      in and_then (parseDurationField ''agentcore.nats.connect_timeout'' (nc_ConnectTimeout (core_NATS core)) False) (\<lambda>connectTimeout.
         and_then (parseDurationField ''agentcore.nats.reconnect_wait'' (nc_ReconnectWait (core_NATS core)) False) (\<lambda>reconnectWait.
         and_then (parseDurationField ''agentcore.jetstream.default_timeout'' (js_DefaultTimeout js) False) (\<lambda>defaultTimeout.
         and_then (parseDurationField ''agentcore.kv.ttl'' (kv_TTL (core_KV core)) True) (\<lambda>kvTTL.
         and_then (parseDurationField ''agentcore.timeouts.publish_timeout'' (tm_PublishTimeout tm) False) (\<lambda>publishTimeout.
         and_then (parseDurationField ''agentcore.timeouts.subscribe_timeout'' (tm_SubscribeTimeout tm) False) (\<lambda>subscribeTimeout.
         and_then (parseDurationField ''agentcore.timeouts.kv_timeout'' (tm_KVTimeout tm) False) (\<lambda>kvTimeout.
         and_then (parseDurationField ''agentcore.timeouts.shutdown_timeout'' (tm_ShutdownTimeout tm) False) (\<lambda>shutdownTimeout.
         and_then (parseDurationField ''agentcore.retry.publish_backoff'' (rt_PublishBackoff (core_Retry core)) False) (\<lambda>publishBackoff.
         Inr \<lparr>bc_AgentName = ag_Name (app_Agent c), bc_Version = ag_Version (app_Agent c),
              bc_NATS = bus_nats_of (core_NATS core) connectTimeout reconnectWait,
              bc_Domain = js_Domain js, bc_APIPrefix = js_APIPrefix js, bc_DefaultTimeout = defaultTimeout,
              bc_Subjects = core_Subjects core, bc_KV = bus_kv_of (core_KV core) kvTTL,
              bc_Timeouts = \<lparr>bt_PublishTimeout = publishTimeout, bt_SubscribeTimeout = subscribeTimeout,
                             bt_KVTimeout = kvTimeout, bt_ShutdownTimeout = shutdownTimeout\<rparr>,
              bc_PublishAttempts = rt_PublishAttempts (core_Retry core), bc_PublishBackoff = publishBackoff\<rparr>))))))))))"

section \<open>Redaction (redact.go)\<close>

definition redactString :: "string \<Rightarrow> string" where
  "redactString v = (if blank v then [] else ''********'')"

text \<open>A server address: its user information is replaced if it parses and has some.\<close>

definition redact_server :: "string \<Rightarrow> string" where
  "redact_server s =
     (case url_Parse s of
        Some u \<Rightarrow>
          (case u_User u of
             Some _ \<Rightarrow> URL_String (u\<lparr>u_User := Some (''redacted'', Some ''redacted'')\<rparr>)
           | None \<Rightarrow> s)
      | None \<Rightarrow> s)"

definition redact_nats :: "nats_config \<Rightarrow> nats_config" where
  "redact_nats n =
     n\<lparr>nc_Username := redactString (nc_Username n), nc_Password := redactString (nc_Password n),
       nc_Token := redactString (nc_Token n), nc_CredentialsFile := redactString (nc_CredentialsFile n),
       nc_NKeySeedFile := redactString (nc_NKeySeedFile n), nc_UserJWTFile := redactString (nc_UserJWTFile n),
       nc_TLS := (nc_TLS n)\<lparr>tls_KeyFile := redactString (tls_KeyFile (nc_TLS n)),
         tls_CertFile := redactString (tls_CertFile (nc_TLS n)), tls_CAFile := redactString (tls_CAFile (nc_TLS n))\<rparr>,
       nc_Servers := map redact_server (nc_Servers n)\<rparr>"

definition Redacted :: "app_config \<Rightarrow> app_config" where
  "Redacted c = c\<lparr>app_AgentCore := (app_AgentCore c)\<lparr>core_NATS := redact_nats (core_NATS (app_AgentCore c))\<rparr>\<rparr>"

text \<open>\<^verbatim>\<open>MarshalRedactedYAML\<close> (print.go), over the YAML encoder\<close>

definition MarshalRedactedYAML :: "(app_config \<Rightarrow> go_error + string) \<Rightarrow> app_config \<Rightarrow> go_error + string" where
  "MarshalRedactedYAML yaml_Marshal c = yaml_Marshal (Redacted c)"

section \<open>Loading (loader.go)\<close>

definition ResolvePath :: "(string \<Rightarrow> string) \<Rightarrow> string \<Rightarrow> string" where
  "ResolvePath getenv flagPath =
     (if flagPath \<noteq> [] then flagPath
      else if getenv ''VYOS_NATS_AGENT_CONFIG'' \<noteq> [] then getenv ''VYOS_NATS_AGENT_CONFIG''
      else ''/etc/vyos-nats-agent/config.yaml'')"

text \<open>
  The machine the loader runs on: the environment, the files, and the strict YAML decoder, which sets
  the fields a document names in the value it is given (Inl: it cannot, or a field is unknown).
\<close>

record loader_env =
  ld_Getenv :: "string \<Rightarrow> string"
  ld_ReadFile :: "string \<Rightarrow> go_error + string"
  ld_Decode :: "string \<Rightarrow> app_config \<Rightarrow> go_error + app_config"

definition Load_config :: "loader_env \<Rightarrow> string \<Rightarrow> go_error + app_config" where
  "Load_config env path =
     (case ld_ReadFile env path of
        Inl e \<Rightarrow> Inl (Errorf [Txt ''read config file '', Quoted path, Txt '': '', Wrapped e])
      | Inr data \<Rightarrow>
          (case ld_Decode env data DefaultAppConfig of
             Inl e \<Rightarrow> Inl (wrap ''unmarshal config yaml: '' e)
           | Inr c \<Rightarrow> (case Validate c of Some e \<Rightarrow> Inl e | None \<Rightarrow> Inr c)))"

definition LoadResolved :: "loader_env \<Rightarrow> string \<Rightarrow> (go_error + app_config) \<times> string" where
  "LoadResolved env flagPath =
     (let path = ResolvePath (ld_Getenv env) flagPath in (Load_config env path, path))"

end
