(* ===== verification/ConfigProps.thy ===== *)
theory ConfigProps
  imports Config
begin

text \<open>
  Facts about the configuration: what the placeholder scan accepts, the bounds of parsed durations,
  validation as one conjunction, and that a validated configuration converts.
\<close>

section \<open>Placeholders\<close>

text \<open>The pattern with the given texts between its placeholders\<close>

fun pattern_of :: "string list \<Rightarrow> string" where
  "pattern_of [] = []"
| "pattern_of [p] = p"
| "pattern_of (p # ps) = p @ ''%s'' @ pattern_of ps"

abbreviation percent :: char where
  "percent \<equiv> CHR ''%''"

definition spells :: "string \<Rightarrow> string list \<Rightarrow> bool" where
  "spells s ps \<longleftrightarrow> ps \<noteq> [] \<and> s = pattern_of ps \<and> (\<forall>p\<in>set ps. percent \<notin> set p)"

lemma pattern_of_Cons: "ps \<noteq> [] \<Longrightarrow> pattern_of (p # ps) = p @ ''%s'' @ pattern_of ps"
  by (cases ps) simp_all

lemma pattern_of_head: "pattern_of ((c # p) # ps) = c # pattern_of (p # ps)"
  by (cases ps) simp_all

lemma scan_text: "percent \<notin> set p \<Longrightarrow> scan_placeholders f n (p @ s) = scan_placeholders f n s"
  by (induction p) auto

lemma scan_spells: "spells s ps \<Longrightarrow> scan_placeholders f n s = Inr (n + length ps - 1)"
proof (induction ps arbitrary: s n)
  case (Cons p ps)
  show ?case
  proof (cases "ps = []")
    case True
    with Cons.prems show ?thesis using scan_text [of p f n "[]"] by (simp add: spells_def)
  next
    case False
    then have "spells (pattern_of ps) ps" and s: "s = p @ ''%s'' @ pattern_of ps" and p: "percent \<notin> set p"
      using Cons.prems by (auto simp: spells_def pattern_of_Cons)
    with Cons.IH [of "pattern_of ps" "Suc n"] False show ?thesis
      unfolding s scan_text [OF p] by (cases ps) simp_all
  qed
qed (simp add: spells_def)

lemma spells_scan: "scan_placeholders f n s = Inr k \<Longrightarrow> \<exists>ps. spells s ps \<and> k + 1 = n + length ps"
proof (induction f n s rule: scan_placeholders.induct)
  case (1 f n)
  then show ?case by (intro exI [of _ "[[]]"]) (simp add: spells_def)
next
  case (2 f n c s)
  show ?case
  proof (cases "c = percent")
    case False
    with 2 obtain ps where ps: "spells s ps" "k + 1 = n + length ps" by auto
    then obtain q qs where "ps = q # qs" by (cases ps) (auto simp: spells_def)
    with ps False show ?thesis
      by (intro exI [of _ "(c # q) # qs"]) (auto simp: spells_def pattern_of_head)
  next
    case True
    with 2 obtain s' where s: "s = CHR ''s'' # s'" "scan_placeholders f (Suc n) s' = Inr k"
      by (auto split: list.splits if_splits)
    with 2 True obtain ps where ps: "spells s' ps" "k + 1 = Suc n + length ps" by auto
    then have "ps \<noteq> []" by (simp add: spells_def)
    with ps s True show ?thesis
      by (intro exI [of _ "[] # ps"]) (auto simp: spells_def pattern_of_Cons)
  qed
qed

lemma validateFormatPlaceholders_iff:
  "validateFormatPlaceholders f v k = None \<longleftrightarrow> (\<exists>ps. spells v ps \<and> length ps = Suc k)"
proof
  assume "validateFormatPlaceholders f v k = None"
  then have "scan_placeholders f 0 v = Inr k"
    by (auto simp: validateFormatPlaceholders_def split: sum.splits if_splits)
  from spells_scan [OF this] show "\<exists>ps. spells v ps \<and> length ps = Suc k" by auto
next
  assume "\<exists>ps. spells v ps \<and> length ps = Suc k"
  then obtain ps where "spells v ps" "length ps = Suc k" by blast
  with scan_spells [of v ps f 0] show "validateFormatPlaceholders f v k = None"
    by (simp add: validateFormatPlaceholders_def)
qed

text \<open>A string without a space rune is trimmed already.\<close>

lemma no_space_trim:
  assumes "\<not> has_space s"
  shows "trim_space s = s"
proof -
  have no: "\<not> prefix p s" "\<not> suffix p s" if "p \<in> set space_runes" for p
    using assms that prefix_imp_sublist [of p s] suffix_imp_sublist [of p s] unfolding has_space_iff by blast+
  have "drop_rune space_runes s = None" "drop_rune (map rev space_runes) (rev s) = None"
    using no by (auto simp: drop_rune_None suffix_to_prefix)
  then show ?thesis
    by (simp add: trim_space_def trim_left_def trim_right_def trim_fuel_idle)
qed

section \<open>Durations\<close>

lemma leadingInt_bound: "leadingInt x s = Some (v, s') \<Longrightarrow> 0 \<le> x \<Longrightarrow> x \<le> two63 \<Longrightarrow> 0 \<le> v \<and> v \<le> two63"
proof (induction x s rule: leadingInt.induct)
  case (2 x c s)
  then show ?case by (auto split: if_splits simp: digit_int_def is_digit_def)
qed simp

lemma duration_ns_bound:
  assumes "duration_ns v f scale u = Some w" and "0 \<le> v" and "0 < u"
  shows "0 \<le> w \<and> w \<le> two63"
proof -
  have "v * u \<le> two63" if "v \<le> two63 div u"
  proof -
    from that assms have "v * u \<le> (two63 div u) * u" by (simp add: mult_right_mono)
    also have "\<dots> \<le> two63" using assms(3) div_mult_mod_eq [of two63 u] pos_mod_sign [of u two63] by linarith
    finally show ?thesis .
  qed
  with assms show ?thesis by (auto simp: duration_ns_def uint64_def Let_def split: if_splits)
qed

lemma duration_unit_pos: "duration_unit u = Some k \<Longrightarrow> 0 < k"
  by (auto simp: duration_unit_def split: if_splits)

lemma duration_terms_bound:
  "duration_terms d s = Some k \<Longrightarrow> 0 \<le> d \<Longrightarrow> d \<le> two63 \<Longrightarrow> 0 \<le> k \<and> k \<le> two63"
proof (induction d s rule: duration_terms.induct)
  case (1 d s)
  show ?case
  proof (cases "s = []")
    case True
    with 1 show ?thesis by (simp add: duration_terms.simps)
  next
    case False
    with 1(2) obtain w rest where t: "duration_term s = Some (w, rest)"
      and k: "\<not> uint64 (d + w) > two63" "duration_terms (uint64 (d + w)) rest = Some k"
      by (subst (asm) duration_terms.simps) (auto split: option.splits if_splits)
    from 1(1) [OF False t refl k(1) k(2)] k(1) show ?thesis by (simp add: uint64_def)
  qed
qed

text \<open>A duration is a signed integer of 64 bits.\<close>

lemma ParseDuration_bound: "ParseDuration s = Some d \<Longrightarrow> - two63 \<le> d \<and> d < two63"
  by (auto simp: ParseDuration_def split: prod.splits if_splits option.splits dest!: duration_terms_bound)

lemma parseDurationField_bound: "parseDurationField f raw opt = Inr d \<Longrightarrow> 0 \<le> d \<and> d < two63"
  by (auto simp: parseDurationField_def Let_def split: if_splits option.splits dest: ParseDuration_bound)

section \<open>Validation\<close>

lemma require_None [simp]: "require ok text = None \<longleftrightarrow> ok"
  by (simp add: require_def)

lemma require_field_None [simp]: "require_field ok field text = None \<longleftrightarrow> ok"
  by (simp add: require_field_def)

lemma validateNoWhitespace_None [simp]: "validateNoWhitespace f v = None \<longleftrightarrow> \<not> has_space v"
  by (simp add: validateNoWhitespace_def)

lemma error_of_None [simp]: "error_of r = None \<longleftrightarrow> (\<exists>x. r = Inr x)"
  by (cases r) (simp_all add: error_of_def)

text \<open>What a subject pattern is: non-empty, without spaces and wildcards, with the given number of placeholders\<close>

lemma validateSubjectPattern_None:
  "validateSubjectPattern f p k = None \<longleftrightarrow>
     p \<noteq> [] \<and> \<not> has_space p \<and> \<not> contains_any p ''*>'' \<and> (\<exists>ps. spells p ps \<and> length ps = Suc k)"
  using no_space_trim [of p]
  by (auto simp: validateSubjectPattern_def first_some_None validateFormatPlaceholders_iff simp del: first_some.simps)

lemma validateKeyPattern_None:
  "validateKeyPattern p = None \<longleftrightarrow> p \<noteq> [] \<and> \<not> has_space p \<and> (\<exists>ps. spells p ps \<and> length ps = 2)"
  using no_space_trim [of p]
  by (auto simp: validateKeyPattern_def first_some_None validateFormatPlaceholders_iff Let_def numeral_2_eq_2
      simp del: first_some.simps)

lemma check_actions_None:
  "check_actions seen as = None \<longleftrightarrow> set as \<subseteq> {''trace'', ''rtty''} \<and> distinct as \<and> set as \<inter> seen = {}"
  by (induction seen as rule: check_actions.induct) auto

text \<open>What validation leaves for the rest of the program to rely on\<close>

lemma Validate_None:
  assumes "Validate c = None"
  shows "Validate_agent (app_Agent c) = None" and "Validate_kv (core_KV (app_AgentCore c)) = None"
    and "\<forall>(f, v)\<in>set (required_durations (app_AgentCore c)). \<exists>d. parseDurationField f v False = Inr d"
    and "\<exists>d. parseDurationField ''agentcore.kv.ttl'' (kv_TTL (core_KV (app_AgentCore c))) True = Inr d"
    and "\<forall>(f, p, k)\<in>set (subject_rules (core_Subjects (app_AgentCore c))). validateSubjectPattern f p k = None"
  using assms by (auto simp: Validate_def Let_def first_some_None simp del: first_some.simps)

lemma Validate_agent_None:
  assumes "Validate_agent a = None"
  shows "\<not> blank (ag_Target a)" and "\<not> blank (ag_StateFile a)"
    and "lg_Level (ag_Logging a) \<in> {''debug'', ''info'', ''warn'', ''error''}"
    and "lg_Format (ag_Logging a) \<in> {''text'', ''json''}"
    and "cm_Mode (ag_Configure a) \<in> {''placeholder'', ''real''}"
    and "ax_Mode (ag_Actions a) \<in> {''placeholder'', ''real''}"
    and "set (ax_Enabled (ag_Actions a)) \<subseteq> {''trace'', ''rtty''}" and "distinct (ax_Enabled (ag_Actions a))"
  using assms by (auto simp: Validate_agent_def first_some_None check_actions_None simp del: first_some.simps)

section \<open>Conversion\<close>

lemma and_then_Inr [simp]: "and_then (Inr x) f = f x"
  by (simp add: and_then_def)

lemma and_then_eq_Inr: "and_then r f = Inr y \<longleftrightarrow> (\<exists>x. r = Inr x \<and> f x = Inr y)"
  by (cases r) (simp_all add: and_then_def)

text \<open>Every duration of the result is the one its field says.\<close>

definition durations_read :: "app_config \<Rightarrow> bus_config \<Rightarrow> bool" where
  "durations_read c b \<longleftrightarrow>
     (let core = app_AgentCore c; reads = (\<lambda>raw d. ParseDuration (trim_space raw) = Some d \<and> 0 \<le> d \<and> d < 2 ^ 63)
      in reads (nc_ConnectTimeout (core_NATS core)) (bn_ConnectTimeout (bc_NATS b)) \<and>
         reads (nc_ReconnectWait (core_NATS core)) (bn_ReconnectWait (bc_NATS b)) \<and>
         reads (js_DefaultTimeout (core_JetStream core)) (bc_DefaultTimeout b) \<and>
         reads (tm_PublishTimeout (core_Timeouts core)) (bt_PublishTimeout (bc_Timeouts b)) \<and>
         reads (tm_SubscribeTimeout (core_Timeouts core)) (bt_SubscribeTimeout (bc_Timeouts b)) \<and>
         reads (tm_KVTimeout (core_Timeouts core)) (bt_KVTimeout (bc_Timeouts b)) \<and>
         reads (tm_ShutdownTimeout (core_Timeouts core)) (bt_ShutdownTimeout (bc_Timeouts b)) \<and>
         reads (rt_PublishBackoff (core_Retry core)) (bc_PublishBackoff b) \<and>
         (if blank (kv_TTL (core_KV core)) then bk_TTL (bc_KV b) = 0 else reads (kv_TTL (core_KV core)) (bk_TTL (bc_KV b))))"

lemma parseDurationField_read:
  "parseDurationField f raw False = Inr d \<Longrightarrow> ParseDuration (trim_space raw) = Some d \<and> 0 \<le> d \<and> d < two63"
  by (auto simp: parseDurationField_def Let_def split: if_splits option.splits dest: ParseDuration_bound)

lemma parseDurationField_optional:
  "parseDurationField f raw True = Inr d \<Longrightarrow>
     if blank raw then d = 0 else ParseDuration (trim_space raw) = Some d \<and> 0 \<le> d \<and> d < two63"
  by (auto simp: parseDurationField_def Let_def split: if_splits option.splits dest: ParseDuration_bound)

lemma ToAgentCoreConfig_reads: "ToAgentCoreConfig c = Inr b \<Longrightarrow> durations_read c b"
  by (auto simp: ToAgentCoreConfig_def Let_def and_then_eq_Inr durations_read_def bus_nats_of_def bus_kv_of_def
      dest!: parseDurationField_read parseDurationField_optional split: if_splits)

lemma ToAgentCoreConfig_total: "Validate c = None \<Longrightarrow> \<exists>b. ToAgentCoreConfig c = Inr b"
  using Validate_None(3,4) [of c] by (auto simp: ToAgentCoreConfig_def Let_def required_durations_def)

section \<open>The defaults\<close>

lemma default_valid: "Validate DefaultAppConfig = None"
  by code_simp

end
