(* ===== verification/AgentWiring.thy ===== *)
theory AgentWiring
  imports ConfigProps VyosAdapters ConfigureService Rtty VyosTrace
begin

text \<open>
  How the agent is put together (internal/agent/agent.go and logging.go): the logger with its level,
  the engines of the configure modes, the executors of the action modes, and \<open>New\<close>.  The client of the
  bus library and the VyOS packages are made by constructors outside the repository, which are
  parameters.  The configure side and the action side each see their own part of the world.
\<close>

section \<open>The logger (logging.go)\<close>

text \<open>The levels of \<^verbatim>\<open>log/slog\<close> are ordered.\<close>

fun severity :: "log_level \<Rightarrow> nat" where
  "severity LevelDebug = 0"
| "severity LevelInfo = 1"
| "severity LevelWarn = 2"
| "severity LevelError = 3"

instantiation log_level :: linorder
begin

definition less_eq_log_level :: "log_level \<Rightarrow> log_level \<Rightarrow> bool" where
  "less_eq_log_level a b \<longleftrightarrow> severity a \<le> severity b"

definition less_log_level :: "log_level \<Rightarrow> log_level \<Rightarrow> bool" where
  "less_log_level a b \<longleftrightarrow> severity a < severity b"

instance
proof
  fix a b :: log_level
  show "a = b" if "a \<le> b" "b \<le> a"
    using that by (cases a; cases b) (simp_all add: less_eq_log_level_def)
qed (auto simp: less_eq_log_level_def less_log_level_def)

end

lemma level_simps [simp]:
  "LevelDebug \<le> l" "LevelInfo \<le> LevelDebug \<longleftrightarrow> False" "LevelWarn \<le> LevelDebug \<longleftrightarrow> False" "LevelError \<le> LevelDebug \<longleftrightarrow> False"
  by (simp_all add: less_eq_log_level_def)

definition log_threshold :: "string \<Rightarrow> log_level option" where
  "log_threshold level =
     (if level = ''debug'' then Some LevelDebug
      else if level = ''info'' then Some LevelInfo
      else if level = ''warn'' then Some LevelWarn
      else if level = ''error'' then Some LevelError else None)"

text \<open>
  \<open>slog_write format\<close> is the handler of \<^verbatim>\<open>log/slog\<close> for a format: it writes one entry.  The logger drops
  what is below its level, and every entry starts with the component.
\<close>

definition NewLogger :: "(string \<Rightarrow> log_entry \<Rightarrow> 'w \<Rightarrow> 'w) \<Rightarrow> logging_config \<Rightarrow> go_error + 'w logger" where
  "NewLogger slog_write cfg =
     (case log_threshold (lg_Level cfg) of
        None \<Rightarrow> Inl (Errorf [Txt ''unsupported logging level '', Quoted (lg_Level cfg)])
      | Some level \<Rightarrow>
          if lg_Format cfg \<notin> {''text'', ''json''} then
            Inl (Errorf [Txt ''unsupported logging format '', Quoted (lg_Format cfg)])
          else Inr (Some (\<lambda>en w.
            if level \<le> le_level en
            then slog_write (lg_Format cfg) (en\<lparr>le_kv := (''component'', LStr ''vyos-nats-agent'') # le_kv en\<rparr>) w
            else w)))"

section \<open>Construction (agent.go)\<close>

text \<open>The constructors the wiring calls, and the parts of the machine the executors work on\<close>

record ('c, 'a) externals =
  x_agentcore_New :: "bus_config \<Rightarrow> go_error + 'c vyos_world configure_client \<times> 'a exec_world action_client"
  x_NewFileStore :: "string \<Rightarrow> 'c vyos_world state_store"
  x_vyosrenderer_New :: "go_error + 'c render_backend"
  x_vyosrenderer_Info :: vyos_info
  x_vyosapply_New :: "bool \<Rightarrow> go_error + 'c apply_backend"
  x_trace_system :: "'a trace_system"
  x_sys_files :: "'a sys_files"
  x_rtty_os :: "'a rtty_os"
  x_rtty_runner :: "'a rtty_runner"
  x_time_Now :: "'c vyos_world clock \<times> 'a exec_world clock"

text \<open>The options: the logger as either side sees it, and the clock\<close>

record ('c, 'a) runtime_options =
  ro_logger :: "'c vyos_world logger \<times> 'a exec_world logger"
  ro_backend_logger :: "'c logger"
  ro_now :: "'c vyos_world clock \<times> 'a exec_world clock"

type_synonym ('c, 'a) agent_option = "('c, 'a) runtime_options \<Rightarrow> go_error + ('c, 'a) runtime_options"

definition WithLogger :: "'c vyos_world logger \<Rightarrow> 'c logger \<Rightarrow> 'a exec_world logger \<Rightarrow> ('c, 'a) agent_option" where
  "WithLogger cl bl al opts = Inr (opts\<lparr>ro_logger := (cl, al), ro_backend_logger := bl\<rparr>)"

definition WithClock :: "('c vyos_world clock \<times> 'a exec_world clock) option \<Rightarrow> ('c, 'a) agent_option" where
  "WithClock now opts =
     (case now of
        None \<Rightarrow> Inl (ErrorsNew ''clock function is nil'')
      | Some n \<Rightarrow> Inr (opts\<lparr>ro_now := n\<rparr>))"

fun run_options :: "('c, 'a) agent_option option list \<Rightarrow> ('c, 'a) runtime_options
    \<Rightarrow> go_error + ('c, 'a) runtime_options" where
  "run_options [] o' = Inr o'"
| "run_options (None # opts) o' = run_options opts o'"
| "run_options (Some f # opts) o' = and_then (f o') (run_options opts)"

definition configureDebugConfig :: "app_config \<Rightarrow> debug_logging" where
  "configureDebugConfig c =
     (if lg_Level (ag_Logging (app_Agent c)) \<noteq> ''debug''
      then \<lparr>LogPayloads = False, LogRendered = False, LogApplyPlan = False\<rparr>
      else \<lparr>LogPayloads = db_LogPayloads (ag_Debug (app_Agent c)),
            LogRendered = db_LogRendered (ag_Debug (app_Agent c)),
            LogApplyPlan = db_LogApplyPlan (ag_Debug (app_Agent c))\<rparr>)"

definition wrap_error :: "string \<Rightarrow> go_error + 'r \<Rightarrow> go_error + 'r" where
  "wrap_error text r = (case r of Inl e \<Rightarrow> Inl (wrap text e) | Inr x \<Rightarrow> Inr x)"

definition newConfigureEngines :: "('c, 'a) externals \<Rightarrow> app_config \<Rightarrow> 'c logger
    \<Rightarrow> go_error + 'c vyos_world renderer \<times> 'c vyos_world apply_engine" where
  "newConfigureEngines x c logger =
     (let debug = configureDebugConfig c; mode = cm_Mode (ag_Configure (app_Agent c))
      in if mode = ''placeholder'' then Inr (Placeholder_Render, Placeholder_Apply)
         else if mode = ''real'' then
           and_then (wrap_error ''create real configure renderer: ''
                       (render_New (x_vyosrenderer_New x)
                          [Some (render_WithLogger logger),
                           Some (render_WithDebugLogging (LogPayloads debug) (LogRendered debug))])) (\<lambda>ra.
           and_then (wrap_error ''create real configure apply engine: ''
                       (apply_New (x_vyosapply_New x) (al_SaveAfterCommit (ag_Apply (app_Agent c)))
                          [Some (apply_WithLogger logger),
                           Some (apply_WithDebugLogging (LogRendered debug) (LogApplyPlan debug))])) (\<lambda>aa.
           Inr (VyosAdapter_Render (x_vyosrenderer_Info x) ra, VyosAdapter_Apply aa)))
         else Inl (ErrorsNew ''agent.configure.mode must be one of placeholder, real''))"

text \<open>The executors of a mode, with the names they are registered under\<close>

definition newExecutors :: "('c, 'a) externals \<Rightarrow> app_config \<Rightarrow> (string \<times> 'a exec_world executor option) list" where
  "newExecutors x c =
     (if ax_Mode (ag_Actions (app_Agent c)) = ''real''
      then [(ActionTrace, Some (VyOSTrace_Execute (NewVyOSTraceExecutor (x_trace_system x) (x_sys_files x)))),
            (ActionRTTY, Some (VyOSRTTY_Execute (x_rtty_os x) (NewVyOSRTTYExecutor (x_rtty_runner x) (Some (x_rtty_runner x)))))]
      else [(ActionTrace, Some PlaceholderTrace_Execute), (ActionRTTY, Some PlaceholderRTTY_Execute)])"

record ('c, 'a) wired =
  wd_appConfig :: app_config
  wd_coreConfig :: bus_config
  wd_configureService :: "'c vyos_world configure_service"
  wd_actionService :: "'a exec_world action_service"

definition agent_New :: "('c, 'a) externals \<Rightarrow> app_config option \<Rightarrow> bus_config
    \<Rightarrow> ('c, 'a) agent_option option list \<Rightarrow> go_error + ('c, 'a) wired" where
  "agent_New x appCfg coreCfg opts =
     (case appCfg of
        None \<Rightarrow> Inl (ErrorsNew ''app config is required'')
      | Some c \<Rightarrow>
          and_then (run_options opts \<lparr>ro_logger = (None, None), ro_backend_logger = None, ro_now = x_time_Now x\<rparr>) (\<lambda>options.
          and_then (wrap_error ''create agentcore client: '' (x_agentcore_New x coreCfg)) (\<lambda>(configureClient, actionClient).
          and_then (newConfigureEngines x c (ro_backend_logger options)) (\<lambda>(rendererEngine, applyEngine).
          and_then (wrap_error ''create configure service: ''
            (NewConfigureService (fst (x_time_Now x))
               \<lparr>dep_Client = Some configureClient, dep_StateStore = Some (x_NewFileStore x (ag_StateFile (app_Agent c))),
                dep_Renderer = Some rendererEngine, dep_ApplyEngine = Some applyEngine,
                dep_Logger = fst (ro_logger options), dep_Debug = configureDebugConfig c,
                dep_Now = Some (fst (ro_now options))\<rparr>)) (\<lambda>configureService.
          and_then (wrap_error ''create action service: ''
            (NewActionService (snd (x_time_Now x))
               \<lparr>ad_Client = Some actionClient, ad_Logger = snd (ro_logger options), ad_Now = Some (snd (ro_now options)),
                ad_Enabled = ax_Enabled (ag_Actions (app_Agent c)), ad_Executors = newExecutors x c\<rparr>)) (\<lambda>actionService.
          Inr \<lparr>wd_appConfig = c, wd_coreConfig = coreCfg, wd_configureService = configureService,
               wd_actionService = actionService\<rparr>))))))"

section \<open>Facts\<close>

definition is_left :: "'e + 'r \<Rightarrow> bool" where
  "is_left r = (case r of Inl _ \<Rightarrow> True | Inr _ \<Rightarrow> False)"

lemma is_left_simps [simp]: "is_left (Inl e)" "\<not> is_left (Inr y)"
  by (simp_all add: is_left_def)

lemma and_then_left [simp]: "is_left (and_then r f) \<longleftrightarrow> is_left r \<or> (\<exists>y. r = Inr y \<and> is_left (f y))"
  by (cases r) (simp_all add: and_then_def)

lemma wrap_error_left [simp]: "is_left (wrap_error text r) \<longleftrightarrow> is_left r"
  by (cases r) (simp_all add: wrap_error_def)

lemma wrap_error_Inr [simp]: "wrap_error text r = Inr y \<longleftrightarrow> r = Inr y" "wrap_error text (Inr y) = Inr y"
  by (cases r) (simp_all add: wrap_error_def)

lemma render_New_left [simp]: "is_left (render_New ctor opts) \<longleftrightarrow> is_left ctor"
  by (cases ctor) (simp_all add: render_New_def render_NewWithBackend_def)

lemma apply_New_left [simp]: "is_left (apply_New ctor save opts) \<longleftrightarrow> is_left (ctor save)"
  by (cases "ctor save") (simp_all add: apply_New_def apply_NewWithBackend_def)

lemma newConfigureEngines_left:
  assumes "cm_Mode (ag_Configure (app_Agent c)) \<in> {''placeholder'', ''real''}"
  shows "is_left (newConfigureEngines x c logger) \<longleftrightarrow>
     cm_Mode (ag_Configure (app_Agent c)) = ''real'' \<and>
       (is_left (x_vyosrenderer_New x) \<or> is_left (x_vyosapply_New x (al_SaveAfterCommit (ag_Apply (app_Agent c)))))"
proof -
  have r: "is_left (x_vyosrenderer_New x) \<or> (\<exists>b. render_New (x_vyosrenderer_New x) opts = Inr b)" for opts
    using render_New_left [of "x_vyosrenderer_New x" opts] by (cases "render_New (x_vyosrenderer_New x) opts") auto
  from assms consider "cm_Mode (ag_Configure (app_Agent c)) = ''placeholder''" | "cm_Mode (ag_Configure (app_Agent c)) = ''real''"
    by blast
  then show ?thesis
  proof cases
    case 2
    show ?thesis
      unfolding newConfigureEngines_def Let_def 2 and_then_left wrap_error_left wrap_error_Inr(1) render_New_left apply_New_left
      using r by simp blast
  qed (simp add: newConfigureEngines_def)
qed

text \<open>The services that construction makes\<close>

lemma trim_action_names [simp]: "trim_space ''trace'' = ''trace''" "trim_space ''rtty'' = ''rtty''"
  by code_simp+

lemma enable_trimmed: "\<forall>a\<in>set as. a \<noteq> [] \<and> trim_space a = a \<Longrightarrow> enable_actions as = set as"
  by (induction as) simp_all

lemma enable_known: "set as \<subseteq> {''trace'', ''rtty''} \<Longrightarrow> enable_actions as = set as"
proof (rule enable_trimmed, rule ballI)
  fix a
  assume "set as \<subseteq> {''trace'', ''rtty''}" and "a \<in> set as"
  then consider "a = ''trace''" | "a = ''rtty''" by blast
  then show "a \<noteq> [] \<and> trim_space a = a" by cases simp_all
qed

lemma newExecutors_service:
  "\<exists>ta ra. keep_executors (newExecutors x c) = Inr [(''trace'', ta), (''rtty'', ra)]"
  by (simp add: newExecutors_def ActionTrace_def ActionRTTY_def)

lemma NewActionService_wired:
  assumes "ad_Client deps = Some client" and "ad_Executors deps = newExecutors x c"
  shows "\<exists>sv. NewActionService now deps = Inr sv \<and> act_enabled sv = enable_actions (ad_Enabled deps) \<and>
    {''trace'', ''rtty''} \<subseteq> dom (act_executors sv)"
  using newExecutors_service [of x c] assms by (auto simp: NewActionService_def)

lemma NewConfigureService_wired:
  assumes "dep_Client deps = Some cl" and "dep_StateStore deps = Some st" and "dep_Renderer deps = Some re"
    and "dep_ApplyEngine deps = Some ap"
  shows "\<exists>sv. NewConfigureService now deps = Inr sv \<and> cs_debug sv = dep_Debug deps \<and> cs_renderer sv = re \<and>
    cs_applyEngine sv = ap"
  using assms by (simp add: NewConfigureService_def)

text \<open>What a validated configuration gives: an agent, unless something outside the repository fails\<close>

inductive wires :: "('c, 'a) externals \<Rightarrow> app_config \<Rightarrow> bus_config \<Rightarrow> ('c, 'a) agent_option option list
    \<Rightarrow> go_error + ('c, 'a) wired \<Rightarrow> bool" for x c core opts where
  bad_option: "is_left (run_options opts \<lparr>ro_logger = (None, None), ro_backend_logger = None, ro_now = x_time_Now x\<rparr>) \<Longrightarrow>
    wires x c core opts (Inl e)"
| no_client: "is_left (x_agentcore_New x core) \<Longrightarrow> wires x c core opts (Inl e)"
| no_engines: "is_left (newConfigureEngines x c l) \<Longrightarrow> wires x c core opts (Inl e)"
| wired: "cs_debug (wd_configureService rt) = configureDebugConfig c \<Longrightarrow>
    newConfigureEngines x c l = Inr (cs_renderer (wd_configureService rt), cs_applyEngine (wd_configureService rt)) \<Longrightarrow>
    act_enabled (wd_actionService rt) = enable_actions (ax_Enabled (ag_Actions (app_Agent c))) \<Longrightarrow>
    {''trace'', ''rtty''} \<subseteq> dom (act_executors (wd_actionService rt)) \<Longrightarrow> wires x c core opts (Inr rt)"

lemma agent_New_wires: "wires x c coreCfg opts (agent_New x (Some c) coreCfg opts)"
proof (cases "run_options opts \<lparr>ro_logger = (None, None), ro_backend_logger = None, ro_now = x_time_Now x\<rparr>")
  case (Inl e)
  then show ?thesis by (auto simp: agent_New_def and_then_def intro: wires.bad_option)
next
  case o: (Inr options)
  show ?thesis
  proof (cases "x_agentcore_New x coreCfg")
    case (Inl e)
    with o show ?thesis by (auto simp: agent_New_def and_then_def wrap_error_def intro: wires.no_client)
  next
    case cl: (Inr clients)
    show ?thesis
    proof (cases "newConfigureEngines x c (ro_backend_logger options)")
      case (Inl e)
      with o cl show ?thesis
        by (auto simp: agent_New_def and_then_def wrap_error_def split: prod.split
            intro!: wires.no_engines [of x c "ro_backend_logger options"])
    next
      case (Inr engines)
      let ?cd = "\<lparr>dep_Client = Some (fst clients), dep_StateStore = Some (x_NewFileStore x (ag_StateFile (app_Agent c))),
        dep_Renderer = Some (fst engines), dep_ApplyEngine = Some (snd engines), dep_Logger = fst (ro_logger options),
        dep_Debug = configureDebugConfig c, dep_Now = Some (fst (ro_now options))\<rparr>"
      let ?ad = "\<lparr>ad_Client = Some (snd clients), ad_Logger = snd (ro_logger options), ad_Now = Some (snd (ro_now options)),
        ad_Enabled = ax_Enabled (ag_Actions (app_Agent c)), ad_Executors = newExecutors x c\<rparr>"
      have "\<exists>sv. NewConfigureService (fst (x_time_Now x)) ?cd = Inr sv \<and> cs_debug sv = dep_Debug ?cd \<and>
          cs_renderer sv = fst engines \<and> cs_applyEngine sv = snd engines"
        by (rule NewConfigureService_wired) simp_all
      then obtain cs where "NewConfigureService (fst (x_time_Now x)) ?cd = Inr cs" "cs_debug cs = configureDebugConfig c"
        "cs_renderer cs = fst engines" "cs_applyEngine cs = snd engines"
        by auto
      note cs = this
      have made: "newConfigureEngines x c (ro_backend_logger options) = Inr (cs_renderer cs, cs_applyEngine cs)"
        by (simp add: Inr cs(3,4))
      have "\<exists>sv. NewActionService (snd (x_time_Now x)) ?ad = Inr sv \<and>
          act_enabled sv = enable_actions (ad_Enabled ?ad) \<and> {''trace'', ''rtty''} \<subseteq> dom (act_executors sv)"
        by (rule NewActionService_wired) simp_all
      then obtain as where "NewActionService (snd (x_time_Now x)) ?ad = Inr as"
        "act_enabled as = enable_actions (ax_Enabled (ag_Actions (app_Agent c)))" "{''trace'', ''rtty''} \<subseteq> dom (act_executors as)"
        by auto
      note as = this
      have "agent_New x (Some c) coreCfg opts = Inr \<lparr>wd_appConfig = c, wd_coreConfig = coreCfg,
          wd_configureService = cs, wd_actionService = as\<rparr>"
        using o cl Inr cs(1) as(1) by (simp add: agent_New_def split_beta)
      moreover have "wires x c coreCfg opts (Inr \<lparr>wd_appConfig = c, wd_coreConfig = coreCfg,
          wd_configureService = cs, wd_actionService = as\<rparr>)"
        using cs(2) made as(2,3) by (intro wires.wired [of _ c x "ro_backend_logger options"]) (simp_all only: wired.simps)
      ultimately show ?thesis
        by (simp only:)
    qed
  qed
qed

section \<open>What the engines log\<close>

text \<open>The log entries a call adds on the engines' side\<close>

definition engine_logs :: "('w vyos_world \<Rightarrow> 'r \<times> 'w vyos_world) \<Rightarrow> 'w vyos_world \<Rightarrow> log_entry list" where
  "engine_logs f w = drop (length (logs w)) (logs (snd (f w)))"

lemma adapter_logs:
  "list_all (vyos_discreet (ra_LogRendered ra) p) (engine_logs (VyosAdapter_Render info ra cx d) w)"
  "list_all (vyos_discreet (aa_LogRendered aa) (aa_LogApplyPlan aa)) (engine_logs (VyosAdapter_Apply aa cx out) w)"
  using render_body_discreet [of ra p info cx d, unfolded state_io_rel_def, THEN spec, of w]
    apply_body_discreet [of aa cx out, unfolded state_io_rel_def, THEN spec, of w]
  by (auto simp: engine_logs_def VyosAdapter_Render_def VyosAdapter_Apply_def logs_grow_def list_all_iff)

lemma placeholder_logs:
  "engine_logs (Placeholder_Render cx d) w = []" "engine_logs (Placeholder_Apply cx out) w = []"
  by (simp_all add: engine_logs_def Placeholder_Render_def Placeholder_Apply_def split: option.split)

lemma New_switches:
  "render_New ctor [Some (render_WithLogger l), Some (render_WithDebugLogging p r)] = Inr ra \<Longrightarrow> ra_LogRendered ra = r"
  "apply_New ctor' save [Some (apply_WithLogger l), Some (apply_WithDebugLogging r q)] = Inr aa \<Longrightarrow>
     aa_LogRendered aa = r \<and> aa_LogApplyPlan aa = q"
  by (auto simp: render_New_def render_NewWithBackend_def render_WithLogger_def render_WithDebugLogging_def
      apply_New_def apply_NewWithBackend_def apply_WithLogger_def apply_WithDebugLogging_def split: sum.splits)

lemma wired_engines_discreet:
  assumes "newConfigureEngines x c l = Inr (re, ap)"
  shows "list_all (vyos_discreet (LogRendered (configureDebugConfig c)) (LogApplyPlan (configureDebugConfig c)))
    (engine_logs (re cx d) w @ engine_logs (ap cx' out) w')"
proof -
  consider "re = Placeholder_Render" "ap = Placeholder_Apply"
    | ra aa where "re = VyosAdapter_Render (x_vyosrenderer_Info x) ra" "ap = VyosAdapter_Apply aa"
        "ra_LogRendered ra = LogRendered (configureDebugConfig c)" "aa_LogRendered aa = LogRendered (configureDebugConfig c)"
        "aa_LogApplyPlan aa = LogApplyPlan (configureDebugConfig c)"
    using assms
    by (auto simp: newConfigureEngines_def Let_def and_then_def wrap_error_def split: if_splits sum.splits dest!: New_switches)
  then show ?thesis
  proof cases
    case 1
    then show ?thesis by (simp add: placeholder_logs)
  next
    case 2
    with adapter_logs(1) [where p = "LogApplyPlan (configureDebugConfig c)" and ra = ra] adapter_logs(2) [of aa]
    show ?thesis by simp
  qed
qed

end
