(* ===== verification/AgentCli.thy ===== *)
theory AgentCli
  imports AgentWiring
begin

text \<open>
  The command line (cmd/vyos-nats-agent/main.go): the flags, loading the configuration, printing and
  checking it, and the run of the agent, with everything that is written and the exit code.  Go's
  \<^verbatim>\<open>flag\<close> package is modelled as far as these flags use it.
\<close>

section \<open>Flags\<close>

record cli_options =
  co_configPath :: string
  co_validateConfig :: bool
  co_printEffectiveConfig :: bool

definition no_options :: cli_options where
  "no_options = \<lparr>co_configPath = [], co_validateConfig = False, co_printEffectiveConfig = False\<rparr>"

text \<open>\<^verbatim>\<open>strconv.ParseBool\<close>\<close>

definition parse_bool :: "string \<Rightarrow> bool option" where
  "parse_bool s =
     (if s \<in> {''1'', ''t'', ''T'', ''TRUE'', ''true'', ''True''} then Some True
      else if s \<in> {''0'', ''f'', ''F'', ''FALSE'', ''false'', ''False''} then Some False else None)"

text \<open>\<open>name=value\<close>: the first equals sign behind the first character of the name\<close>

definition split_flag :: "string \<Rightarrow> string \<times> string option" where
  "split_flag name =
     (case name of
        [] \<Rightarrow> ([], None)
      | c # s \<Rightarrow> (case cut (CHR ''='') s of (a, v) \<Rightarrow> (c # a, v)))"

text \<open>A word that may be a flag: its name with one or two dashes taken off\<close>

definition flag_name :: "string \<Rightarrow> string option" where
  "flag_name s =
     (if length s < 2 \<or> hd s \<noteq> CHR ''-'' then None
      else Some (if s ! 1 = CHR ''-'' then drop 2 s else drop 1 s))"

definition set_switch :: "(bool \<Rightarrow> cli_options \<Rightarrow> cli_options) \<Rightarrow> string \<Rightarrow> string option \<Rightarrow> cli_options
    \<Rightarrow> go_error + cli_options" where
  "set_switch put name v opts =
     (case v of
        None \<Rightarrow> Inr (put True opts)
      | Some t \<Rightarrow>
          (case parse_bool t of
             Some b \<Rightarrow> Inr (put b opts)
           | None \<Rightarrow> Inl (Errorf [Txt ''invalid boolean value '', Quoted t, Txt '' for -'', Txt name, Txt '': parse error''])))"

text \<open>\<^verbatim>\<open>FlagSet.Parse\<close>: the options, and the arguments from the first one that is no flag\<close>

function flag_parse :: "string list \<Rightarrow> cli_options \<Rightarrow> go_error + cli_options \<times> string list" where
  "flag_parse [] opts = Inr (opts, [])"
| "flag_parse (s # args) opts =
     (case flag_name s of
        None \<Rightarrow> Inr (opts, s # args)
      | Some rest \<Rightarrow>
          if s = ''--'' then Inr (opts, args)
          else if rest = [] \<or> hd rest = CHR ''-'' \<or> hd rest = CHR ''='' then Inl (Errorf [Txt ''bad flag syntax: '', Txt s])
          else (case split_flag rest of (name, v) \<Rightarrow>
            if name = ''config'' then
              (case v of
                 Some t \<Rightarrow> flag_parse args (opts\<lparr>co_configPath := t\<rparr>)
               | None \<Rightarrow>
                   (case args of
                      [] \<Rightarrow> Inl (Errorf [Txt ''flag needs an argument: -'', Txt name])
                    | t # args' \<Rightarrow> flag_parse args' (opts\<lparr>co_configPath := t\<rparr>)))
            else if name = ''validate-config'' then
              and_then (set_switch (\<lambda>b opts. opts\<lparr>co_validateConfig := b\<rparr>) name v opts) (flag_parse args)
            else if name = ''print-effective-config'' then
              and_then (set_switch (\<lambda>b opts. opts\<lparr>co_printEffectiveConfig := b\<rparr>) name v opts) (flag_parse args)
            else if name = ''help'' \<or> name = ''h'' then Inl (Sentinel FlagErrHelp)
            else Inl (Errorf [Txt ''flag provided but not defined: -'', Txt name])))"
  by pat_completeness auto
termination
  by (relation "measure (length \<circ> fst)") auto

section \<open>What a run writes\<close>

datatype cli_event =
    Usage
  | Stdout string
  | StdoutLine string
  | Stderr string go_error
  | RunAgent app_config bus_config

text \<open>\<^verbatim>\<open>parseCLIArgs\<close>: the options, or the exit code of a run that is done\<close>

definition join_space :: "string list \<Rightarrow> string" where
  "join_space ws = concat (case ws of [] \<Rightarrow> [] | w # rest \<Rightarrow> w # map (\<lambda>x. CHR '' '' # x) rest)"

definition parseCLIArgs :: "string list \<Rightarrow> cli_event list \<times> (int + cli_options)" where
  "parseCLIArgs args =
     (case flag_parse args no_options of
        Inl e \<Rightarrow>
          if errors_is e FlagErrHelp then ([Usage], Inl 0)
          else ([Stderr ''failed to parse flags: '' e], Inl 2)
      | Inr (opts, rest) \<Rightarrow>
          if rest \<noteq> [] then
            ([Stderr ''failed to parse flags: ''
                (ErrorsNew (''unexpected positional arguments: '' @ join_space rest))], Inl 2)
          else ([], Inr opts))"

definition loadAndConvertConfig :: "loader_env \<Rightarrow> string \<Rightarrow> go_error + app_config \<times> bus_config \<times> string" where
  "loadAndConvertConfig env configPath =
     (case LoadResolved env configPath of
        (Inl e, _) \<Rightarrow> Inl (wrap ''failed to load config: '' e)
      | (Inr c, path) \<Rightarrow>
          (case ToAgentCoreConfig c of
             Inl e \<Rightarrow> Inl (wrap ''failed to convert config to agentcore.Config: '' e)
           | Inr core \<Rightarrow> Inr (c, core, path)))"

definition printEffectiveConfig :: "(app_config \<Rightarrow> go_error + string) \<Rightarrow> app_config
    \<Rightarrow> cli_event list \<times> go_error option" where
  "printEffectiveConfig yaml_Marshal c =
     (case MarshalRedactedYAML yaml_Marshal c of
        Inl e \<Rightarrow> ([], Some e)
      | Inr payload \<Rightarrow> ([Stdout payload], None))"

text \<open>
  The machine the command runs on: where the configuration comes from, the YAML encoder, the
  constructor of the logger (only its error matters here), and a run of the agent: the error of \<^verbatim>\<open>New\<close>,
  or the one of \<^verbatim>\<open>Run\<close>.
\<close>

record cli_env =
  ce_loader :: loader_env
  ce_yaml_Marshal :: "app_config \<Rightarrow> go_error + string"
  ce_agent_New :: "app_config \<Rightarrow> bus_config \<Rightarrow> go_error option"
  ce_agent_Run :: "app_config \<Rightarrow> bus_config \<Rightarrow> go_error option"

text \<open>The last part of \<^verbatim>\<open>runConfigCLI\<close>: the logger, the runtime and its run\<close>

definition start_agent :: "cli_env \<Rightarrow> app_config \<Rightarrow> bus_config \<Rightarrow> cli_event list \<times> int" where
  "start_agent env c core =
     (let lg = ag_Logging (app_Agent c)
      in case (if lg_Enabled lg then error_of (NewLogger (\<lambda>_ _ w. w :: unit) lg) else None) of
           Some e \<Rightarrow> ([Stderr ''failed to configure logger: '' e], 1)
         | None \<Rightarrow>
             (case ce_agent_New env c core of
                Some e \<Rightarrow> ([Stderr ''failed to create runtime: '' e], 1)
              | None \<Rightarrow>
                  (case ce_agent_Run env c core of
                     Some e \<Rightarrow> ([RunAgent c core, Stderr ''runtime error: '' e], 1)
                   | None \<Rightarrow> ([RunAgent c core], 0))))"

definition runConfigCLI :: "cli_env \<Rightarrow> string list \<Rightarrow> cli_event list \<times> int" where
  "runConfigCLI env args =
     (case parseCLIArgs args of
        (out, Inl code) \<Rightarrow> (out, code)
      | (out, Inr opts) \<Rightarrow>
          (case loadAndConvertConfig (ce_loader env) (co_configPath opts) of
             Inl e \<Rightarrow> (out @ [Stderr [] e], 1)
           | Inr (c, core, _) \<Rightarrow>
               (case (if co_printEffectiveConfig opts then printEffectiveConfig (ce_yaml_Marshal env) c else ([], None)) of
                  (shown, Some e) \<Rightarrow> (out @ shown @ [Stderr ''failed to marshal effective config yaml: '' e], 1)
                | (shown, None) \<Rightarrow>
                    if co_validateConfig opts then (out @ shown @ [StdoutLine ''configuration valid''], 0)
                    else (case start_agent env c core of (done', code) \<Rightarrow> (out @ shown @ done', code)))))"

section \<open>Facts\<close>

lemma Load_config_valid: "Load_config env path = Inr c \<Longrightarrow> Validate c = None"
  by (auto simp: Load_config_def split: sum.splits option.splits)

text \<open>A configuration that loads also converts.\<close>

lemma load_then_convert:
  "loadAndConvertConfig env path = Inl e \<Longrightarrow> \<exists>e'. fst (LoadResolved env path) = Inl e' \<and> e = wrap ''failed to load config: '' e'"
  using ToAgentCoreConfig_total
  by (auto simp: loadAndConvertConfig_def LoadResolved_def Let_def split: prod.splits sum.splits dest!: Load_config_valid)
    (metis Inl_Inr_False)

lemma loaded_facts:
  assumes "loadAndConvertConfig env path = Inr (c, core, p)"
  shows "Validate c = None" and "ToAgentCoreConfig c = Inr core" and "p = ResolvePath (ld_Getenv env) path"
  using assms by (auto simp: loadAndConvertConfig_def LoadResolved_def Let_def Load_config_valid split: prod.splits sum.splits)

text \<open>The logger of a validated configuration can be made.\<close>

lemma logger_of_valid:
  assumes "Validate c = None"
  shows "\<exists>l. NewLogger write (ag_Logging (app_Agent c)) = Inr l"
  using Validate_agent_None(3,4) [OF Validate_None(1) [OF assms]]
  by (auto simp: NewLogger_def log_threshold_def)

end
