(* ===== verification/AgentRuntime.thy ===== *)
theory AgentRuntime
  imports Config ConfigureService ActionService
begin

text \<open>
  The runtime of the agent (internal/agent/lifecycle.go, handlers.go and status.go): starting, serving
  and closing, with every call on the bus client as an event.  The runtime's own fields (started,
  closed, the cancelled context) are part of the world; contexts with a timeout, waiting for a context
  and waiting for the background passes are calls on the machine.
\<close>

section \<open>State and collaborators\<close>

record health_snapshot =
  hs_State :: log_value
  hs_ConnectedURL :: log_value
  hs_JetStreamReady :: log_value
  hs_KVReady :: log_value
  hs_RegisteredSubscriptions :: log_value
  hs_ActiveSubscriptions :: log_value
  hs_LastError :: log_value

text \<open>The mutable fields of the runtime, around the world of its collaborators\<close>

record 'w rt_world =
  rt_started :: bool
  rt_closed :: bool
  rt_cancelled :: bool
  rt_env :: 'w

record 'w bus_client =
  bus_RegisterConfigureHandler :: "string \<Rightarrow> 'w \<Rightarrow> go_error option \<times> 'w"
  bus_RegisterActionHandler :: "string \<Rightarrow> string \<Rightarrow> 'w \<Rightarrow> go_error option \<times> 'w"
  bus_Start :: "'w ctx \<Rightarrow> 'w \<Rightarrow> go_error option \<times> 'w"
  bus_PublishStatus :: "'w ctx \<Rightarrow> status_envelope \<Rightarrow> 'w \<Rightarrow> go_error option \<times> 'w"
  bus_Close :: "'w ctx \<Rightarrow> 'w \<Rightarrow> go_error option \<times> 'w"
  bus_Health :: "'w \<Rightarrow> health_snapshot"

text \<open>
  The machine: \<^verbatim>\<open>context.WithTimeout\<close> on the background context, \<^verbatim>\<open><-ctx.Done()\<close>, and the select of \<^verbatim>\<open>Close\<close>
  between the wait group and the context (the error of the context if that came first).
\<close>

record 'w rt_machine =
  rm_WithTimeout :: "int \<Rightarrow> 'w \<Rightarrow> 'w \<Rightarrow> go_error option"
  rm_Await :: "'w ctx \<Rightarrow> 'w \<Rightarrow> 'w"
  rm_WaitGroup :: "'w ctx \<Rightarrow> 'w \<Rightarrow> go_error option \<times> 'w"

record 'w runtime =
  rt_appConfig :: app_config
  rt_coreConfig :: bus_config
  rt_client :: "'w bus_client"
  rt_machine :: "'w rt_machine"
  rt_logger :: "'w logger"
  rt_now :: "'w clock"
  rt_configureService :: "'w configure_service option"
  rt_actionService :: "'w action_service option"

datatype rt_event =
    RegisterConfigure string "go_error option"
  | RegisterAction string string "go_error option"
  | ClientStart "go_error option"
  | Announce status_envelope "go_error option"
  | Reconciled string "go_error option"
  | AwaitShutdown
  | CancelContext
  | WaitBackground "go_error option"
  | ClientClose "go_error option"
  | HandledConfigure configure_notification "go_error option"
  | HandledAction action_command "go_error option"

type_synonym ('w, 'r) rt = "(('w rt_world, rt_event) tw, 'r) state"

abbreviation rt_target :: "'w runtime \<Rightarrow> string" where
  "rt_target r \<equiv> ag_Target (app_Agent (rt_appConfig r))"

text \<open>A call on a collaborator\<close>

definition on_env :: "('w \<Rightarrow> 'r \<times> 'w) \<Rightarrow> 'w rt_world \<Rightarrow> 'r \<times> 'w rt_world" where
  "on_env f w = (case f (rt_env w) of (r, e) \<Rightarrow> (r, w\<lparr>rt_env := e\<rparr>))"

definition rt_call :: "('w \<Rightarrow> 'r \<times> 'w) \<Rightarrow> ('r \<Rightarrow> rt_event) \<Rightarrow> ('w, 'r) rt" where
  "rt_call f ev = call (on_env f) ev"

definition rt_log :: "'w runtime \<Rightarrow> log_level \<Rightarrow> string \<Rightarrow> (string \<times> log_value) list \<Rightarrow> ('w, unit) rt" where
  "rt_log r level msg kv =
     emit_log (map_option (\<lambda>sink en w. w\<lparr>rt_env := sink en (rt_env w)\<rparr>) (rt_logger r)) level msg kv"

definition rt_logInfo :: "'w runtime \<Rightarrow> string \<Rightarrow> (string \<times> log_value) list \<Rightarrow> ('w, unit) rt" where
  "rt_logInfo r msg kv = rt_log r LevelInfo msg kv"

definition rt_logWarn :: "'w runtime \<Rightarrow> string \<Rightarrow> (string \<times> log_value) list \<Rightarrow> ('w, unit) rt" where
  "rt_logWarn r msg kv = rt_log r LevelWarn msg kv"

definition rt_logError :: "'w runtime \<Rightarrow> string \<Rightarrow> (string \<times> log_value) list \<Rightarrow> ('w, unit) rt" where
  "rt_logError r msg kv = rt_log r LevelError msg kv"

definition healthLogFields :: "health_snapshot \<Rightarrow> (string \<times> log_value) list" where
  "healthLogFields h =
     [(''health_state'', hs_State h), (''connected_url'', hs_ConnectedURL h), (''jetstream_ready'', hs_JetStreamReady h),
      (''kv_ready'', hs_KVReady h), (''registered_subscriptions'', hs_RegisteredSubscriptions h),
      (''active_subscriptions'', hs_ActiveSubscriptions h), (''last_error'', hs_LastError h)]"

definition log_health :: "'w runtime \<Rightarrow> string \<Rightarrow> ('w, unit) rt" where
  "log_health r msg = do {
     h \<leftarrow> quiet (\<lambda>w. (bus_Health (rt_client r) (rt_env w), w));
     rt_logInfo r msg (healthLogFields h)
   }"

section \<open>Guards\<close>

definition beginStart :: "('w, go_error option) rt" where
  "beginStart = quiet (\<lambda>w.
     if rt_closed w then (Some (ErrorsNew ''runtime is closed''), w)
     else if rt_started w then (Some (ErrorsNew ''runtime already started''), w)
     else (None, w\<lparr>rt_started := True\<rparr>))"

definition markClosed :: "('w, bool) rt" where
  "markClosed = quiet (\<lambda>w. if rt_closed w then (True, w) else (False, w\<lparr>rt_closed := True\<rparr>))"

section \<open>Handlers (handlers.go)\<close>

fun register_actions :: "'w runtime \<Rightarrow> string list \<Rightarrow> ('w, go_error option) rt" where
  "register_actions r [] = State_Monad.return None"
| "register_actions r (a # as) = do {
     e \<leftarrow> rt_call (bus_RegisterActionHandler (rt_client r) (rt_target r) a) (RegisterAction (rt_target r) a);
     case e of
       Some err \<Rightarrow> State_Monad.return (Some (Errorf [Txt ''register action handler '', Quoted a, Txt '': '', Wrapped err]))
     | None \<Rightarrow> do {
         _ \<leftarrow> rt_logInfo r ''action handler registered'' [(''target'', LStr (rt_target r)), (''action'', LStr a)];
         register_actions r as
       }
   }"

definition registerHandlers :: "'w runtime \<Rightarrow> ('w, go_error option) rt" where
  "registerHandlers r = do {
     e \<leftarrow> rt_call (bus_RegisterConfigureHandler (rt_client r) (rt_target r)) (RegisterConfigure (rt_target r));
     case e of
       Some err \<Rightarrow> State_Monad.return (Some (wrap ''register configure handler: '' err))
     | None \<Rightarrow> do {
         _ \<leftarrow> rt_logInfo r ''configure handler registered'' [(''target'', LStr (rt_target r))];
         register_actions r (ax_Enabled (ag_Actions (app_Agent (rt_appConfig r))))
       }
   }"

text \<open>A run of a service in the world of the collaborators; its own trace starts empty.\<close>

definition run_service :: "(('w, 'e) tw, 'r) state \<Rightarrow> 'w \<Rightarrow> 'r \<times> 'w" where
  "run_service m w =
     (case run_state m \<lparr>world = w, trace = [], logs = []\<rparr> of (r, s) \<Rightarrow> (r, world s))"

definition handleConfigure :: "'w runtime \<Rightarrow> 'w ctx \<Rightarrow> configure_notification \<Rightarrow> ('w, go_error option) rt" where
  "handleConfigure r c msg = do {
     _ \<leftarrow> rt_logInfo r ''configure handler invoked'' (ids msg);
     case rt_configureService r of
       None \<Rightarrow> State_Monad.return (Some (ErrorsNew ''configure service is not initialized''))
     | Some sv \<Rightarrow> rt_call (run_service (Handle sv c msg)) (HandledConfigure msg)
   }"

definition handleAction :: "'w runtime \<Rightarrow> 'w ctx \<Rightarrow> action_command \<Rightarrow> ('w, go_error option) rt" where
  "handleAction r c msg = do {
     _ \<leftarrow> rt_logInfo r ''action handler invoked'' (act_ids msg);
     case rt_actionService r of
       None \<Rightarrow> State_Monad.return (Some (ErrorsNew ''action service is not initialized''))
     | Some sv \<Rightarrow> rt_call (run_service (HandleAction sv c msg)) (HandledAction msg)
   }"

section \<open>The startup status (status.go)\<close>

definition startupCloseTimeout :: int where
  "startupCloseTimeout = 5000000000"

definition defaultShutdownTimeout :: int where
  "defaultShutdownTimeout = 10000000000"

definition rt_withTimeout :: "'w runtime \<Rightarrow> int \<Rightarrow> ('w, 'w ctx) rt" where
  "rt_withTimeout r d = quiet (\<lambda>w. (Some (rm_WithTimeout (rt_machine r) d (rt_env w)), w))"

definition publishStartupStatus :: "'w runtime \<Rightarrow> ('w, go_error option) rt" where
  "publishStartupStatus r = do {
     _ \<leftarrow> rt_logInfo r ''startup status publishing''
            [(''target'', LStr (rt_target r)), (''stage'', LStr ''startup''), (''status'', LStr ''running'')];
     now \<leftarrow> quiet (on_env (rt_now r));
     let m = BuildStatus [] (rt_target r) [] ''running'' ''startup'' ''vyos-nats-agent started'' now;
     publishCtx \<leftarrow> rt_withTimeout r startupCloseTimeout;
     e \<leftarrow> rt_call (bus_PublishStatus (rt_client r) publishCtx m) (Announce m);
     case e of
       Some err \<Rightarrow> State_Monad.return (Some (wrap ''publish startup status: '' err))
     | None \<Rightarrow> do {
         _ \<leftarrow> rt_logInfo r ''startup status published''
                [(''target'', LStr (rt_target r)), (''stage'', LStr ''startup''), (''status'', LStr ''running'')];
         State_Monad.return None
       }
   }"

section \<open>Lifecycle (lifecycle.go)\<close>

definition rt_Close :: "'w runtime \<Rightarrow> 'w ctx \<Rightarrow> ('w, go_error option) rt" where
  "rt_Close r c =
     (case c of
        None \<Rightarrow> State_Monad.return (Some (ErrorsNew ''close context is nil''))
      | Some _ \<Rightarrow> do {
          already \<leftarrow> markClosed;
          if already then State_Monad.return None
          else do {
            _ \<leftarrow> call (\<lambda>w. ((), w\<lparr>rt_cancelled := True\<rparr>)) (\<lambda>_. CancelContext);
            e \<leftarrow> rt_call (rm_WaitGroup (rt_machine r) c) WaitBackground;
            case e of
              Some err \<Rightarrow> do {
                _ \<leftarrow> rt_logWarn r ''close context timed out or was cancelled before background tasks finished''
                       [(''error'', LErr (Some err))];
                State_Monad.return (Some (wrap ''close: '' err))
              }
            | None \<Rightarrow> do {
                _ \<leftarrow> rt_logInfo r ''agentcore client closing'' [(''target'', LStr (rt_target r))];
                e \<leftarrow> rt_call (bus_Close (rt_client r) c) ClientClose;
                case e of
                  Some err \<Rightarrow> State_Monad.return (Some (wrap ''close agentcore client: '' err))
                | None \<Rightarrow> do {
                    _ \<leftarrow> log_health r ''agentcore client closed'';
                    State_Monad.return None
                  }
              }
          }
        })"

text \<open>
  \<^verbatim>\<open>Reconcile\<close> on a nil service would be a nil dereference; \<^verbatim>\<open>New\<close> always sets the service.
\<close>

definition nil_dereference :: go_error where
  "nil_dereference = ErrorsNew ''runtime error: invalid memory address or nil pointer dereference''"

definition startup_reconcile :: "string \<Rightarrow> 'w runtime \<Rightarrow> 'w ctx \<Rightarrow> ('w, unit) rt" where
  "startup_reconcile not_found r c = do {
     _ \<leftarrow> rt_logInfo r ''running startup reconcile'' [(''target'', LStr (rt_target r))];
     e \<leftarrow> rt_call (case rt_configureService r of
                    None \<Rightarrow> (\<lambda>w. (Some nil_dereference, w))
                  | Some sv \<Rightarrow> run_service (Reconcile not_found sv c (rt_target r))) (Reconciled (rt_target r));
     case e of
       Some err \<Rightarrow> rt_logWarn r ''startup reconcile completed with error''
                     [(''target'', LStr (rt_target r)), (''error'', LErr (Some err))]
     | None \<Rightarrow> rt_logInfo r ''startup reconcile completed'' [(''target'', LStr (rt_target r))]
   }"

definition rt_Start :: "string \<Rightarrow> 'w runtime \<Rightarrow> 'w ctx \<Rightarrow> ('w, go_error option) rt" where
  "rt_Start not_found r c =
     (case c of
        None \<Rightarrow> State_Monad.return (Some (ErrorsNew ''start context is nil''))
      | Some _ \<Rightarrow> do {
          e \<leftarrow> beginStart;
          case e of Some err \<Rightarrow> State_Monad.return (Some err) | None \<Rightarrow> do {
          e \<leftarrow> registerHandlers r;
          case e of Some err \<Rightarrow> State_Monad.return (Some err) | None \<Rightarrow> do {
          _ \<leftarrow> rt_logInfo r ''agentcore client starting'' [(''target'', LStr (rt_target r))];
          e \<leftarrow> rt_call (bus_Start (rt_client r) c) ClientStart;
          case e of Some err \<Rightarrow> State_Monad.return (Some (wrap ''start agentcore client: '' err)) | None \<Rightarrow> do {
          _ \<leftarrow> log_health r ''agentcore client started'';
          e \<leftarrow> publishStartupStatus r;
          case e of
            Some err \<Rightarrow> do {
              _ \<leftarrow> rt_logError r ''startup status publish failed'' [(''error'', LErr (Some err))];
              closeCtx \<leftarrow> rt_withTimeout r startupCloseTimeout;
              closeErr \<leftarrow> rt_Close r closeCtx;
              _ \<leftarrow> (if closeErr \<noteq> None
                    then rt_logError r ''close failed during startup failure cleanup'' [(''error'', LErr closeErr)]
                    else State_Monad.return ());
              State_Monad.return (Some err)
            }
          | None \<Rightarrow> do {
              _ \<leftarrow> startup_reconcile not_found r c;
              State_Monad.return None
            }
          }}}
        })"

definition rt_Run :: "string \<Rightarrow> 'w runtime \<Rightarrow> 'w ctx \<Rightarrow> ('w, go_error option) rt" where
  "rt_Run not_found r c =
     (case c of
        None \<Rightarrow> State_Monad.return (Some (ErrorsNew ''run context is nil''))
      | Some cx \<Rightarrow> do {
          e \<leftarrow> rt_Start not_found r c;
          case e of Some err \<Rightarrow> State_Monad.return (Some err) | None \<Rightarrow> do {
          _ \<leftarrow> rt_call (\<lambda>w. ((), rm_Await (rt_machine r) c w)) (\<lambda>_. AwaitShutdown);
          ctxErr \<leftarrow> quiet (\<lambda>w. (cx (rt_env w), w));
          _ \<leftarrow> rt_logInfo r ''shutdown requested'' [(''error'', LErr ctxErr)];
          let configured = bt_ShutdownTimeout (bc_Timeouts (rt_coreConfig r));
          shutdownCtx \<leftarrow> rt_withTimeout r (if configured \<le> 0 then defaultShutdownTimeout else configured);
          e \<leftarrow> rt_Close r shutdownCtx;
          case e of
            Some err \<Rightarrow> do {
              _ \<leftarrow> rt_logError r ''shutdown error'' [(''error'', LErr (Some err))];
              State_Monad.return (Some err)
            }
          | None \<Rightarrow> State_Monad.return None
          }
        })"

section \<open>Reasoning\<close>

text \<open>The runtime's own fields, and what a computation does to them and to the trace\<close>

definition flags :: "'w rt_world \<Rightarrow> bool \<times> bool \<times> bool" where
  "flags w = (rt_started w, rt_closed w, rt_cancelled w)"

lemma flags_eq [simp]: "flags (rt_env_update f w) = flags w"
  by (simp add: flags_def)

definition rt_spec ::
  "('w, 'r) rt \<Rightarrow> (bool \<times> bool \<times> bool \<Rightarrow> rt_event list \<Rightarrow> 'r \<Rightarrow> bool \<times> bool \<times> bool \<Rightarrow> bool) \<Rightarrow> bool" where
  "rt_spec m P \<longleftrightarrow>
     (\<forall>s. wp m (\<lambda>r s'. \<exists>t. trace s' = trace s @ t \<and> P (flags (world s)) t r (flags (world s'))) s)"

lemma wp_rt_spec:
  assumes "rt_spec m P"
    and "\<And>t r w' ls. P (flags (world s)) t r (flags w') \<Longrightarrow> Q r \<lparr>world = w', trace = trace s @ t, logs = ls\<rparr>"
  shows "wp m Q s"
proof -
  have "wp m (\<lambda>r s'. \<exists>t. trace s' = trace s @ t \<and> P (flags (world s)) t r (flags (world s'))) s"
    using assms(1) by (simp add: rt_spec_def)
  then show ?thesis
    by (rule wp_mono) (metis assms(2) old.unit.exhaust tw.surjective)
qed

lemma rt_spec_events:
  "rt_spec m P \<Longrightarrow> P (flags (world s)) (events m s) (outcome m s) (flags (world (final m s)))"
  by (cases "run_state m s") (auto simp: rt_spec_def wp_def events_def outcome_def final_def dest!: spec [of _ s])

lemma wp_rt_call [wp_intro]:
  "(\<And>r e. f (rt_env (world s)) = (r, e) \<Longrightarrow>
      Q r (s\<lparr>world := (world s)\<lparr>rt_env := e\<rparr>, trace := trace s @ [ev r]\<rparr>)) \<Longrightarrow> wp (rt_call f ev) Q s"
  by (simp add: rt_call_def wp_def call_def on_env_def split: prod.splits)

lemma wp_rt_log [wp_intro]:
  assumes "\<And>e ls. Q () (s\<lparr>world := (world s)\<lparr>rt_env := e\<rparr>, logs := ls\<rparr>)"
  shows "wp (rt_logInfo r msg kv) Q s" and "wp (rt_logWarn r msg kv) Q s" and "wp (rt_logError r msg kv) Q s"
proof -
  have "wp (rt_log r level msg kv) Q s" for level
  proof (cases "rt_logger r")
    case None
    with assms [where e = "rt_env (world s)" and ls = "logs s"] show ?thesis
      by (simp add: rt_log_def emit_log_def wp_def)
  next
    case (Some sink)
    with assms show ?thesis by (simp add: rt_log_def emit_log_def wp_def Let_def)
  qed
  then show "wp (rt_logInfo r msg kv) Q s" "wp (rt_logWarn r msg kv) Q s" "wp (rt_logError r msg kv) Q s"
    by (simp_all add: rt_logInfo_def rt_logWarn_def rt_logError_def)
qed

lemma wp_log_health [wp_intro]:
  "(\<And>e ls. Q () (s\<lparr>world := (world s)\<lparr>rt_env := e\<rparr>, logs := ls\<rparr>)) \<Longrightarrow> wp (log_health r msg) Q s"
  unfolding log_health_def
  by (auto simp: wp_simps intro!: wp_quiet wp_rt_log(1))

lemma wp_withTimeout [wp_intro]: "(\<And>cx. Q (Some cx) s) \<Longrightarrow> wp (rt_withTimeout r d) Q s"
  unfolding rt_withTimeout_def by (rule wp_quiet) auto

lemma wp_now [wp_intro]:
  "(\<And>n e. Q n (s\<lparr>world := (world s)\<lparr>rt_env := e\<rparr>\<rparr>)) \<Longrightarrow> wp (quiet (on_env f)) Q s"
  by (rule wp_quiet) (auto simp: on_env_def split: prod.splits)

section \<open>What the parts do\<close>

text \<open>Registering: the configure handler, then the actions in order, up to the first that fails\<close>

inductive registers :: "string \<Rightarrow> string list \<Rightarrow> rt_event list \<Rightarrow> go_error option \<Rightarrow> bool" for target where
  all_registered: "registers target [] [] None"
| action_refused: "registers target (a # as) [RegisterAction target a (Some e)] (Some e')"
| action_registered: "registers target as t r \<Longrightarrow> registers target (a # as) (RegisterAction target a None # t) r"

inductive_simps registers_None: "registers target as t None"

lemma registers_exact: "registers target as t None \<longleftrightarrow> t = map (\<lambda>a. RegisterAction target a None) as"
proof (induction as arbitrary: t)
  case Nil
  then show ?case by (simp add: registers_None [of target "[]"])
next
  case (Cons a as)
  then show ?case by (auto simp: registers_None [of target "a # as"])
qed

lemma register_actions_spec:
  "rt_spec (register_actions r as) (\<lambda>b t e b'. b' = b \<and> registers (rt_target r) as t e)"
proof (induction as)
  case Nil
  then show ?case by (auto simp: rt_spec_def wp_simps intro: registers.intros)
next
  case (Cons a as)
  then show ?case
    by (auto simp: rt_spec_def wp_simps intro!: wp_intro wp_rt_spec [OF Cons.IH] registers.intros split: option.split)
qed

abbreviation enabled_actions :: "'w runtime \<Rightarrow> string list" where
  "enabled_actions r \<equiv> ax_Enabled (ag_Actions (app_Agent (rt_appConfig r)))"

inductive registers_all :: "string \<Rightarrow> string list \<Rightarrow> rt_event list \<Rightarrow> go_error option \<Rightarrow> bool" for target as where
  configure_refused: "registers_all target as [RegisterConfigure target (Some e)] (Some e')"
| configure_registered: "registers target as t r \<Longrightarrow> registers_all target as (RegisterConfigure target None # t) r"

inductive_cases registers_allE: "registers_all target as t r"

lemma registerHandlers_spec:
  "rt_spec (registerHandlers r) (\<lambda>b t e b'. b' = b \<and> registers_all (rt_target r) (enabled_actions r) t e)"
  unfolding registerHandlers_def rt_spec_def
  by (auto simp: wp_simps intro!: wp_intro wp_rt_spec [OF register_actions_spec] registers_all.intros split: option.split)

text \<open>The guards\<close>

lemma beginStart_spec:
  "rt_spec beginStart (\<lambda>b t e b'. t = [] \<and>
     (if fst b \<or> fst (snd b) then (\<exists>err. e = Some err) \<and> b' = b
      else e = None \<and> (\<exists>ca. b = (False, False, ca) \<and> b' = (True, False, ca))))"
  unfolding beginStart_def rt_spec_def by (auto simp: flags_def wp_def quiet_def)

lemma markClosed_spec: "rt_spec markClosed (\<lambda>(st, cl, ca) t x b'. t = [] \<and> x = cl \<and> b' = (st, True, ca))"
  unfolding markClosed_def rt_spec_def by (auto simp: flags_def wp_def quiet_def)

text \<open>Closing\<close>

inductive close_path :: "bool \<times> bool \<times> bool \<Rightarrow> rt_event list \<Rightarrow> go_error option \<Rightarrow> bool \<times> bool \<times> bool \<Rightarrow> bool" where
  nil_context: "close_path b [] (Some e) b"
| already_closed: "close_path (st, True, ca) [] None (st, True, ca)"
| wait_failed: "close_path (st, False, ca) [CancelContext, WaitBackground (Some e)] (Some e') (st, True, True)"
| close_failed: "close_path (st, False, ca) [CancelContext, WaitBackground None, ClientClose (Some e)] (Some e') (st, True, True)"
| close_done: "close_path (st, False, ca) [CancelContext, WaitBackground None, ClientClose None] None (st, True, True)"

inductive_cases close_openE: "close_path (st, False, ca) t e b"

lemma Close_spec: "rt_spec (rt_Close r c) close_path"
  unfolding rt_Close_def rt_spec_def
  by (auto simp: wp_simps flags_def intro!: wp_intro wp_rt_spec [OF markClosed_spec] close_path.intros split: option.split)

text \<open>Starting\<close>

definition handlers :: "'w runtime \<Rightarrow> rt_event list" where
  "handlers r = RegisterConfigure (rt_target r) None # map (\<lambda>a. RegisterAction (rt_target r) a None) (enabled_actions r)"

lemma registers_all_exact: "registers_all (rt_target r) (enabled_actions r) t None \<longleftrightarrow> t = handlers r"
  by (auto simp: handlers_def registers_exact elim!: registers_allE intro: configure_registered)

definition startup_status :: "'w runtime \<Rightarrow> status_envelope \<Rightarrow> bool" where
  "startup_status r m \<longleftrightarrow> (\<exists>now. m = BuildStatus [] (rt_target r) [] ''running'' ''startup'' ''vyos-nats-agent started'' now)"

lemma startup_status_built [simp]:
  "startup_status r (BuildStatus [] (rt_target r) [] ''running'' ''startup'' ''vyos-nats-agent started'' now)"
  by (auto simp: startup_status_def)

lemma publishStartupStatus_spec:
  "rt_spec (publishStartupStatus r) (\<lambda>b t e b'. b' = b \<and> (\<exists>m x. startup_status r m \<and> t = [Announce m x] \<and> (x = None \<longleftrightarrow> e = None)))"
  unfolding publishStartupStatus_def rt_spec_def
  by (auto simp: wp_simps intro!: wp_intro split: option.split)

lemma startup_reconcile_spec:
  "rt_spec (startup_reconcile nf r c) (\<lambda>b t _ b'. b' = b \<and> (\<exists>x. t = [Reconciled (rt_target r) x]))"
  unfolding startup_reconcile_def rt_spec_def
  by (auto simp: wp_simps intro!: wp_intro split: option.split)

inductive start_path :: "'w runtime \<Rightarrow> bool \<times> bool \<times> bool \<Rightarrow> rt_event list \<Rightarrow> go_error option \<Rightarrow> bool \<times> bool \<times> bool \<Rightarrow> bool"
  for r where
  start_refused: "start_path r b [] (Some e) b"
| not_registered: "registers_all (rt_target r) (enabled_actions r) t (Some e) \<Longrightarrow>
    start_path r (False, False, ca) t (Some e) (True, False, ca)"
| client_not_started: "start_path r (False, False, ca) (handlers r @ [ClientStart (Some e)]) (Some e') (True, False, ca)"
| not_announced: "startup_status r m \<Longrightarrow> close_path (True, False, ca) t x b \<Longrightarrow>
    start_path r (False, False, ca) (handlers r @ ClientStart None # Announce m (Some e) # t) (Some e') b"
| start_done: "startup_status r m \<Longrightarrow>
    start_path r (False, False, ca) (handlers r @ [ClientStart None, Announce m None, Reconciled (rt_target r) x]) None
      (True, False, ca)"

lemma Start_spec: "rt_spec (rt_Start nf r c) (start_path r)"
  unfolding rt_Start_def rt_spec_def
  by (auto simp: wp_simps registers_all_exact
      intro!: wp_intro wp_rt_spec [OF beginStart_spec] wp_rt_spec [OF registerHandlers_spec] wp_rt_spec [OF publishStartupStatus_spec]
        wp_rt_spec [OF startup_reconcile_spec] wp_rt_spec [OF Close_spec] start_path.intros split: option.split if_splits)

text \<open>Running: a start, the wait for the shutdown, a close\<close>

inductive run_path :: "'w runtime \<Rightarrow> bool \<times> bool \<times> bool \<Rightarrow> rt_event list \<Rightarrow> go_error option \<Rightarrow> bool \<times> bool \<times> bool \<Rightarrow> bool"
  for r where
  run_refused: "run_path r b [] (Some e) b"
| run_not_started: "start_path r b t (Some e) b' \<Longrightarrow> run_path r b t (Some e) b'"
| run_served: "start_path r b t None b1 \<Longrightarrow> close_path b1 t' e b' \<Longrightarrow> run_path r b (t @ AwaitShutdown # t') e b'"

lemma Run_spec: "rt_spec (rt_Run nf r c) (run_path r)"
  unfolding rt_Run_def rt_spec_def
  by (auto simp: wp_simps intro!: wp_intro wp_rt_spec [OF Start_spec] wp_rt_spec [OF Close_spec] run_refused
      split: option.split) (blast intro: run_path.intros)+

inductive_cases start_okE: "start_path r b t None b'"
inductive_cases run_okE: "run_path r b t None b'"

text \<open>The startup reconcile is the last event of a start and of no other.\<close>

lemma registers_events:
  "registers target as t e \<Longrightarrow> Reconciled u x \<notin> set t \<and> ClientClose y \<notin> set t"
  by (induction rule: registers.induct) auto

lemma close_path_events: "close_path b t e b' \<Longrightarrow> Reconciled u x \<notin> set t"
  by (auto elim!: close_path.cases)

lemma start_path_ok:
  "start_path r b t e b' \<Longrightarrow> e = None \<longleftrightarrow> (\<exists>u x. Reconciled u x \<in> set t)"
  by (auto simp: handlers_def elim!: start_path.cases registers_allE dest: registers_events close_path_events) blast

lemma start_path_None:
  "start_path r b t None b' \<Longrightarrow> \<exists>m x ca. startup_status r m \<and> b = (False, False, ca) \<and> b' = (True, False, ca) \<and>
     t = handlers r @ [ClientStart None, Announce m None, Reconciled (rt_target r) x]"
  by (auto elim!: start_okE)

lemma run_path_None:
  "run_path r b t None b' \<Longrightarrow> \<exists>m x. startup_status r m \<and> b' = (True, True, True) \<and>
     t = handlers r @ [ClientStart None, Announce m None, Reconciled (rt_target r) x, AwaitShutdown, CancelContext,
       WaitBackground None, ClientClose None]"
  by (auto elim!: run_okE close_path.cases dest!: start_path_None)

end
