(* ===== verification/AgentLifecycle.thy ===== *)
theory AgentLifecycle
  imports Prelude
begin

text \<open>
  The runtime under concurrency (internal/agent/agent.go and lifecycle.go): reconnects of the bus, each
  of which may start a reconciliation pass in the background, against one or more calls of Close.  A
  step is one critical section of the runtime's mutex or one action outside it.
\<close>

section \<open>States\<close>

text \<open>A pass: counted in the wait group by the reconnect handler, then running, then done\<close>

datatype pass = Counted | Reconciling | PassDone

text \<open>The call of Close that set the flag: its outcome is the last state.\<close>

datatype close_phase = NotClosing | WaitingForPasses | TimedOut | ClosingClient | ClientClosed bool

record lifecycle =
  lc_closed :: bool
  lc_cancelled :: bool
  lc_wg :: nat
  lc_passes :: "pass list"
  lc_count :: nat
  lc_close :: close_phase
  lc_laterNil :: bool

definition new_lifecycle :: lifecycle where
  "new_lifecycle = \<lparr>lc_closed = False, lc_cancelled = False, lc_wg = 0, lc_passes = [], lc_count = 0,
     lc_close = NotClosing, lc_laterNil = False\<rparr>"

section \<open>Steps\<close>

text \<open>The reconnect handler: nothing once the runtime is closed, otherwise one more pass\<close>

definition on_reconnect :: "lifecycle \<Rightarrow> lifecycle" where
  "on_reconnect l =
     (if lc_closed l then l else l\<lparr>lc_wg := Suc (lc_wg l), lc_passes := lc_passes l @ [Counted]\<rparr>)"

definition begin_pass :: "nat \<Rightarrow> lifecycle \<Rightarrow> lifecycle" where
  "begin_pass i l = l\<lparr>lc_passes := (lc_passes l)[i := Reconciling], lc_count := Suc (lc_count l)\<rparr>"

definition end_pass :: "nat \<Rightarrow> lifecycle \<Rightarrow> lifecycle" where
  "end_pass i l = l\<lparr>lc_passes := (lc_passes l)[i := PassDone], lc_wg := lc_wg l - 1\<rparr>"

text \<open>A call of Close with a context: the first sets the flag and cancels, a later one returns nil.\<close>

definition enter_close :: "lifecycle \<Rightarrow> lifecycle" where
  "enter_close l =
     (if lc_closed l then l\<lparr>lc_laterNil := True\<rparr>
      else l\<lparr>lc_closed := True, lc_cancelled := True, lc_close := WaitingForPasses\<rparr>)"

inductive lc_step :: "lifecycle \<Rightarrow> lifecycle \<Rightarrow> bool" where
  reconnect: "lc_step l (on_reconnect l)"
| pass_begins: "i < length (lc_passes l) \<Longrightarrow> lc_passes l ! i = Counted \<Longrightarrow> lc_step l (begin_pass i l)"
| pass_ends: "i < length (lc_passes l) \<Longrightarrow> lc_passes l ! i = Reconciling \<Longrightarrow> lc_step l (end_pass i l)"
| close_entered: "lc_step l (enter_close l)"
| close_waited: "lc_close l = WaitingForPasses \<Longrightarrow> lc_wg l = 0 \<Longrightarrow> lc_step l (l\<lparr>lc_close := ClosingClient\<rparr>)"
| close_timed_out: "lc_close l = WaitingForPasses \<Longrightarrow> lc_step l (l\<lparr>lc_close := TimedOut\<rparr>)"
| client_closed: "lc_close l = ClosingClient \<Longrightarrow> lc_step l (l\<lparr>lc_close := ClientClosed ok\<rparr>)"

inductive lc_reach :: "lifecycle \<Rightarrow> bool" where
  lc_initial: "lc_reach new_lifecycle"
| lc_more: "lc_reach l \<Longrightarrow> lc_step l l' \<Longrightarrow> lc_reach l'"

inductive_cases lc_stepE: "lc_step l l'"

section \<open>Invariant\<close>

definition unfinished :: "lifecycle \<Rightarrow> nat" where
  "unfinished l = length (filter (\<lambda>p. p \<noteq> PassDone) (lc_passes l))"

definition begun :: "lifecycle \<Rightarrow> nat" where
  "begun l = length (filter (\<lambda>p. p \<noteq> Counted) (lc_passes l))"

text \<open>
  The wait group counts the passes that are not done, and the counter those that began; the runtime is
  closed, and its context cancelled, from the first Close on; the client is touched by that call only
  when no pass is left.
\<close>

definition lc_inv :: "lifecycle \<Rightarrow> bool" where
  "lc_inv l \<longleftrightarrow> lc_wg l = unfinished l \<and> lc_count l = begun l \<and>
     (lc_closed l \<longleftrightarrow> lc_close l \<noteq> NotClosing) \<and> (lc_cancelled l \<longleftrightarrow> lc_closed l) \<and>
     (lc_laterNil l \<longrightarrow> lc_closed l) \<and>
     (\<forall>ok. lc_close l \<in> {ClosingClient, ClientClosed ok} \<longrightarrow> lc_wg l = 0)"

lemma filter_update:
  assumes "i < length xs"
  shows "length (filter P (xs[i := y])) + (if P (xs ! i) then 1 else 0) = length (filter P xs) + (if P y then 1 else 0)"
  using assms
proof (induction xs arbitrary: i)
  case (Cons x xs)
  then show ?case by (cases i) auto
qed simp

lemma unfinished_pos:
  "i < length (lc_passes l) \<Longrightarrow> lc_passes l ! i \<noteq> PassDone \<Longrightarrow> 0 < unfinished l"
  using nth_mem [of i "lc_passes l"] by (auto simp: unfinished_def filter_empty_conv simp del: nth_mem)

lemma counts_begin:
  assumes "i < length (lc_passes l)" and "lc_passes l ! i = Counted"
  shows "unfinished (begin_pass i l) = unfinished l" and "begun (begin_pass i l) = Suc (begun l)"
  using filter_update [OF assms(1), of "\<lambda>p. p \<noteq> PassDone" Reconciling]
    filter_update [OF assms(1), of "\<lambda>p. p \<noteq> Counted" Reconciling] assms(2)
  by (simp_all add: unfinished_def begun_def begin_pass_def)

lemma counts_end:
  assumes "i < length (lc_passes l)" and "lc_passes l ! i = Reconciling"
  shows "Suc (unfinished (end_pass i l)) = unfinished l" and "begun (end_pass i l) = begun l"
  using filter_update [OF assms(1), of "\<lambda>p. p \<noteq> PassDone" PassDone]
    filter_update [OF assms(1), of "\<lambda>p. p \<noteq> Counted" PassDone] assms(2)
  by (simp_all add: unfinished_def begun_def end_pass_def)

lemma lc_inv_step:
  assumes "lc_inv l" and "lc_step l l'"
  shows "lc_inv l'"
  using assms(2)
proof (cases rule: lc_step.cases)
  case reconnect
  with assms(1) show ?thesis by (auto simp: on_reconnect_def lc_inv_def unfinished_def begun_def)
next
  case (pass_begins i)
  with assms(1) counts_begin [OF pass_begins(2,3)] show ?thesis by (auto simp: begin_pass_def lc_inv_def)
next
  case (pass_ends i)
  with assms(1) counts_end [OF pass_ends(2,3)] show ?thesis by (auto simp: end_pass_def lc_inv_def)
qed (use assms(1) in \<open>auto simp: enter_close_def lc_inv_def unfinished_def begun_def\<close>)

theorem lc_invariant: "lc_reach l \<Longrightarrow> lc_inv l"
proof (induction rule: lc_reach.induct)
  case lc_initial
  then show ?case by (simp add: lc_inv_def new_lifecycle_def unfinished_def begun_def)
next
  case (lc_more l l')
  then show ?case by (blast intro: lc_inv_step)
qed

section \<open>Shutdown\<close>

text \<open>How much is left to do once the runtime is closed\<close>

fun pass_work :: "pass \<Rightarrow> nat" where
  "pass_work Counted = 2"
| "pass_work Reconciling = 1"
| "pass_work PassDone = 0"

fun close_work :: "close_phase \<Rightarrow> nat" where
  "close_work WaitingForPasses = 2"
| "close_work ClosingClient = 1"
| "close_work _ = 0"

definition shutdown_work :: "lifecycle \<Rightarrow> nat" where
  "shutdown_work l =
     sum_list (map pass_work (lc_passes l)) + close_work (lc_close l) + (if lc_laterNil l then 0 else 1)"

lemma sum_update:
  "i < length xs \<Longrightarrow> sum_list (map f (xs[i := y])) + f (xs ! i) = sum_list (map f xs) + (f y :: nat)"
proof (induction xs arbitrary: i)
  case (Cons x xs)
  then show ?case by (cases i) (simp_all add: add.assoc add.left_commute)
qed simp

lemma shutdown_work_less:
  assumes "lc_step l l'" and "lc_closed l" and "l' \<noteq> l"
  shows "shutdown_work l' < shutdown_work l"
  using assms(1)
proof (cases rule: lc_step.cases)
  case reconnect
  with assms(2,3) show ?thesis by (simp add: on_reconnect_def)
next
  case (pass_begins i)
  with sum_update [OF pass_begins(2), of pass_work Reconciling] show ?thesis
    by (simp add: begin_pass_def shutdown_work_def)
next
  case (pass_ends i)
  with sum_update [OF pass_ends(2), of pass_work PassDone] show ?thesis
    by (simp add: end_pass_def shutdown_work_def)
next
  case close_entered
  with assms(2,3) show ?thesis by (auto simp: enter_close_def shutdown_work_def)
qed (simp_all add: shutdown_work_def)

text \<open>A closed runtime stays closed, and one whose Close timed out never closes the client.\<close>

lemma closed_step: "lc_step l l' \<Longrightarrow> lc_closed l \<Longrightarrow> lc_closed l'"
  by (auto simp: on_reconnect_def begin_pass_def end_pass_def enter_close_def elim!: lc_stepE)

lemma timed_out_step: "lc_step l l' \<Longrightarrow> lc_closed l \<Longrightarrow> lc_close l = TimedOut \<Longrightarrow> lc_close l' = TimedOut"
  by (auto simp: on_reconnect_def begin_pass_def end_pass_def enter_close_def elim!: lc_stepE)

lemma all_passes_done: "lc_inv l \<Longrightarrow> lc_wg l = 0 \<Longrightarrow> set (lc_passes l) \<subseteq> {PassDone}"
  by (auto simp: lc_inv_def unfinished_def filter_empty_conv)

lemma passes_frozen:
  assumes "lc_step l l'" and "lc_closed l" and "set (lc_passes l) \<subseteq> {PassDone}"
  shows "lc_passes l' = lc_passes l"
proof -
  have "lc_passes l ! i = PassDone" if "i < length (lc_passes l)" for i
    using assms(3) nth_mem [OF that] by blast
  with assms(1,2) show ?thesis
    by (cases rule: lc_step.cases) (auto simp: on_reconnect_def enter_close_def)
qed

text \<open>A run: a reconnect starts a pass, Close waits for it and times out, the pass ends, Close is called again.\<close>

definition timed_out_run :: lifecycle where
  "timed_out_run = enter_close (end_pass 0 ((begin_pass 0 (enter_close (on_reconnect new_lifecycle)))\<lparr>lc_close := TimedOut\<rparr>))"

lemmas lifecycle_defs = new_lifecycle_def on_reconnect_def begin_pass_def end_pass_def enter_close_def

text \<open>The same with a wait that gets through\<close>

definition orderly_run :: lifecycle where
  "orderly_run = (end_pass 0 (begin_pass 0 (enter_close (on_reconnect new_lifecycle))))\<lparr>lc_close := ClosingClient\<rparr>"

lemma pass_while_closing: "lc_reach (begin_pass 0 (enter_close (on_reconnect new_lifecycle)))"
proof -
  have "lc_reach (enter_close (on_reconnect new_lifecycle))"
    by (blast intro: lc_initial lc_more reconnect close_entered)
  then show ?thesis
    by (rule lc_more) (rule pass_begins, simp_all add: lifecycle_defs)
qed

lemma timed_out_run_reached: "lc_reach timed_out_run"
proof -
  let ?l = "(begin_pass 0 (enter_close (on_reconnect new_lifecycle)))\<lparr>lc_close := TimedOut\<rparr>"
  have "lc_reach ?l"
    by (rule lc_more [OF pass_while_closing close_timed_out]) (simp add: lifecycle_defs)
  then have "lc_reach (end_pass 0 ?l)"
    by (rule lc_more) (rule pass_ends, simp_all add: lifecycle_defs)
  then show ?thesis
    unfolding timed_out_run_def by (rule lc_more [OF _ close_entered])
qed

lemma orderly_run_reached: "lc_reach orderly_run"
proof -
  have "lc_reach (end_pass 0 (begin_pass 0 (enter_close (on_reconnect new_lifecycle))))"
    by (rule lc_more [OF pass_while_closing]) (rule pass_ends, simp_all add: lifecycle_defs)
  then show ?thesis
    unfolding orderly_run_def by (rule lc_more) (rule close_waited, simp_all add: lifecycle_defs)
qed

text \<open>
  After a Close that timed out a later call returns nil, although the client was not closed and never
  will be.
\<close>

theorem timed_out_close_forgets_client:
  "lc_reach timed_out_run" "lc_laterNil timed_out_run" "lc_wg timed_out_run = 0"
  "lc_step\<^sup>*\<^sup>* timed_out_run l \<Longrightarrow> lc_close l = TimedOut"
proof -
  show "lc_reach timed_out_run" by (rule timed_out_run_reached)
  show "lc_laterNil timed_out_run" "lc_wg timed_out_run = 0"
    by (simp_all add: timed_out_run_def lifecycle_defs)
  assume "lc_step\<^sup>*\<^sup>* timed_out_run l"
  then have "lc_closed l \<and> lc_close l = TimedOut"
  proof induction
    case base
    then show ?case by (simp add: timed_out_run_def lifecycle_defs)
  next
    case (step y z)
    then show ?case using closed_step timed_out_step by blast
  qed
  then show "lc_close l = TimedOut" ..
qed

end
