(* ===== verification/Spec2Isabelle.thy ===== *)
theory Spec2Isabelle
  imports ConfigureClaims ConfigureModes DoubleReaders FileClaims ActionClaims AgentClaims
begin

text \<open>
  The VyOS NATS agent (Go), modelled and verified.  The agent receives configure notifications and
  action commands from a NATS bus, turns the desired config stored in the bus' key-value store into
  VyOS commands, applies them, remembers what it applied in a checkpoint file, and reports every
  step back as status and result messages.

  \<^bold>\<open>The program and its parts\<close>

  The command line (cmd/vyos-nats-agent) loads the configuration (internal/config), builds the
  logger and the runtime (internal/agent) and runs it until a signal.  The runtime registers three
  handlers with the bus client: configure notifications and reconnects go to the configure service
  (internal/configure), actions to the action service (internal/actions).  The configure service
  uses the bus client, the checkpoint store (internal/state), a renderer and an apply engine; these two are
  placeholders (internal/renderer, internal/apply) or adapters of the VyOS packages
  (internal/renderervyos, internal/applyvyos).  The action service has one executor for each action,
  trace and rtty, again a placeholder or the real one.  internal/wire builds the messages, and
  internal/testutil has the doubles and fixtures of the tests.

  \<^bold>\<open>How the model is built\<close>

  A method of a collaborator is a function of the world it acts on; a Go method that calls
  collaborators is a computation of \<^theory_text>\<open>State_Monad\<close> over a record \<open>tw\<close>: the world, and two ghost
  fields, the trace of the calls made with their outcomes and the log entries written.  Errors are
  values (\<open>go_error\<close>, with the wrapping, joining and sentinels that \<^verbatim>\<open>errors.Is\<close> and \<^verbatim>\<open>errors.As\<close> see), and every early
  return is a branch.  A collaborator may do anything to the world and return anything, so what is
  proved of the trace holds for every environment; promises of collaborators are locales.  Each
  workflow is proved to follow an inductive relation over traces (\<open>follows\<close>), and its properties are
  read off that relation.

  \<^bold>\<open>Theories\<close>

  \<^item> \<open>Prelude\<close>: errors, \<^verbatim>\<open>strings.TrimSpace\<close>, decimal numbers, calls, logging, weakest preconditions
    (\<open>wp_simps\<close>, \<open>wp_intro\<close>) and relations that every step keeps (\<open>io_intro\<close>).
  \<^item> \<open>Wire\<close>: the messages and \<^verbatim>\<open>BuildStatus\<close>, \<^verbatim>\<open>BuildResult\<close> (internal/wire/wire.go).
  \<^item> \<open>FileStore\<close>: the state, the contract \<open>checkpoint_store\<close> of a store, and the JSON file store with
    its atomic save, each system call of which may fail (internal/state).  \<open>Utf8\<close>, \<open>Json\<close>, \<open>Rfc3339\<close>,
    \<open>StateCodec\<close>: the bytes that \<^verbatim>\<open>encoding/json\<close> writes and reads for a state.  \<open>FileClaims\<close> has their
    properties: no torn file, round trips, progress, errors.
  \<^item> \<open>Pipeline\<close>: the interfaces \<^verbatim>\<open>Renderer\<close> and \<^verbatim>\<open>ApplyEngine\<close> as locales, the placeholders.
  \<^item> \<open>ConfigureService\<close>: \<^verbatim>\<open>Handle\<close>, \<^verbatim>\<open>Reconcile\<close> and what they share (internal/configure/service.go).
    \<open>ConfigurePaths\<close> is the relation its runs follow, \<open>ConfigureProps\<close> what every run guarantees,
    \<open>ConfigureWorld\<close> what holds over collaborators that keep their contracts, \<open>ConfigureLogs\<close> what is
    logged, \<open>ConfigureMutex\<close> the interleaving, step by step, of goroutines that call \<^verbatim>\<open>Handle\<close> and
    \<^verbatim>\<open>Reconcile\<close> of one service under its mutex,
    \<open>ConfigureHistory\<close> what holds over a whole sequence of requests.  \<open>ConfigureClaims\<close> has the properties.
  \<^item> \<open>VyosAdapters\<close>: both adapters of real mode with their metadata rules and their log entries;
    \<open>RealMode\<close> the configure service over them: what the apply engine is given is what the renderer
    made of the desired config.  \<open>ConfigureModes\<close> compares the two modes of the agent: a simulation
    between two services that behave alike up to failures of their engines, and the placeholders
    against the adapters over any renderer and apply engine.
  \<^item> \<open>ActionService\<close>: the action workflow (internal/actions/service.go) and the contract
    \<open>action_executor\<close>; \<open>ActionProtocol\<close> its state machine; \<open>Executors\<close> the placeholders and the RTTY
    payload, \<open>Rtty\<close> and \<open>RttyRunner\<close> the RTTY executor and its sessions as a transition system of the
    executor, the waiting goroutines and the operating system (vyos_rtty.go), \<open>NetUrl\<close> and \<open>VyosTrace\<close>
    the packet capture (vyos_trace.go).  \<open>ActionClaims\<close> has the properties.
  \<^item> \<open>Duration\<close>, \<open>Config\<close>, \<open>ConfigProps\<close>: the configuration (internal/config): defaults, validation,
    conversion, redaction, loading, with \<^verbatim>\<open>time.ParseDuration\<close>.
  \<^item> \<open>AgentWiring\<close>: \<^verbatim>\<open>New\<close>, the engines, executors and the logger (agent.go, logging.go);
    \<open>AgentCli\<close>: the command line (main.go); \<open>AgentRuntime\<close>: \<^verbatim>\<open>Start\<close>, \<^verbatim>\<open>Run\<close>, \<^verbatim>\<open>Close\<close> and the handlers
    (lifecycle.go, handlers.go, status.go); \<open>AgentLifecycle\<close>: reconnects and calls of \<^verbatim>\<open>Close\<close> as a
    transition system over the runtime's mutex and its wait group.  \<open>AgentClaims\<close> has the properties
    of all these.
  \<^item> \<open>Doubles\<close>, \<open>BackendDouble\<close>, \<open>Scenario\<close>: the doubles and fixtures of internal/testutil.  The services
    wired to them interpret the contracts, and their runs are the witnesses.  \<open>DoubleReaders\<close>: what the
    tests read off the doubles agrees with the trace and the log of the run.

  \<^bold>\<open>What is shown\<close>

  Safety of the configure workflow: a checkpoint is written only after the desired config of this
  target was loaded, rendered and applied, a success is reported only for a config in force, each
  failure has the code of its cause, redelivery is idempotent, runs serialize, over any history of requests
  successive checkpoints differ, in real mode the engine gets the rendered commands once, and on the
  bus and in the store the two modes differ only where rendering or applying fails.  The file store
  never exposes a torn checkpoint and reads back what it wrote.  An executor runs once and only for a
  command that is enabled; captures are bounded and removed, and what is uploaded is the capture file;
  RTTY sessions do not overlap while terminations succeed and process numbers are not reused early
  (without that they can: \<open>failed_kill_leaves_session\<close>, \<open>reused_pid_forgets_session\<close>).  A configuration that validates converts and wires, what is printed of it
  does not depend on the secrets, the command line's check says yes exactly when it loads and can be
  printed as asked, commands are logged at debug level only, in the service and in the adapters, and the
  runtime closes its client only when every background pass is done, after finitely many steps.

  \<^bold>\<open>Bounds, termination and fuel\<close>

  Loops are structural recursion or have a proved measure (durations, digits, UTF-8 and string literals, years).
  Two functions take fuel: \<open>trim_fuel\<close> gets the length of its string, and each step removes at least
  one byte (\<open>trim_fuel_enough\<close>); the JSON parser gets more than two units for every byte, and with that
  the amount does not matter (\<open>p_fuel\<close>, \<open>json_fuel_is_enough\<close>).  The nesting of JSON is limited to 10000 as in
  encoding/json.  Integers that the code only compares and copies are \<^typ>\<open>int\<close>; where it computes,
  the bounds are proved (durations below \<open>2 ^ 63\<close> nanoseconds, captures at most 300 seconds), and \<^verbatim>\<open>float64\<close> in durations
  rounds to 53 bits.

  \<^bold>\<open>Not modelled\<close>

  \<^item> The bus library olg-nats-agent-core and the packages olg-renderer-vyos: not in the repository;
    their constructors, clients and backends are parameters, their types have the fields the agent uses.
  \<^item> YAML and the wording of errors that come from the operating system or the standard library: the
    decoder and encoder are parameters, the texts are never read by the code.
  \<^item> The reconnect handler's test whether the runtime was assigned already (an unsynchronised read before
    \<^verbatim>\<open>New\<close> returns), the client's error sink, and the counter of reconnects: they have no effect on
    what is modelled.
  \<^item> Memory: data races on fields outside the mutexes, and the copying of slices so that callers cannot
    change them; values in the model are immutable.
  \<^item> Durability: a file system is the map of files that can be seen; \<^verbatim>\<open>Sync\<close>, \<^verbatim>\<open>Chmod\<close> and the opening of
    the directory may fail but change no content, so what survives a loss of power is not stated.
  \<^item> Concurrency inside \<^verbatim>\<open>Run\<close>, \<^verbatim>\<open>Start\<close> and \<^verbatim>\<open>Close\<close> of \<open>AgentRuntime\<close>: each is one sequential run over its
    collaborators; a \<^verbatim>\<open>Close\<close> while \<^verbatim>\<open>Run\<close> waits, and the background passes, are in \<open>AgentLifecycle\<close>.
  \<^item> The pipe between the goroutine that reads the capture file and the request that posts it: opening
    the file and posting its stream are two steps, in this order.
  \<^item> The framing of the multipart form, the text of an error in a log entry (a parameter of
    \<open>LogEntry_String\<close>), and the usage text of the command line.
\<close>

end
